(* ===== verification/Prelude.thy ===== *)
theory Prelude
  imports Main "HOL-Library.Sublist"
begin

text \<open>
  Shared vocabulary of the development: the Go values every component passes around (instants and
  durations, error values, results), the error inspection of the standard library package
  \<^verbatim>\<open>errors\<close>, the few functions of \<^verbatim>\<open>strings\<close> the program calls, and the list lemmas the tables of
  the database rest on.  Nothing here is particular to one component.
\<close>

section \<open>Theorem collections\<close>

named_theorems row_simps \<open>rewrite rules about the rows of a table and the columns the ORM manages\<close>
named_theorems err_simps \<open>how an error value answers errors.Is and a type assertion\<close>

section \<open>Instants and durations\<close>

text \<open>
  An instant is the number of nanoseconds since the Unix epoch, a \<^verbatim>\<open>time.Duration\<close> the number of
  nanoseconds it lasts.  Durations are 64-bit: \<^verbatim>\<open>t.Sub(u)\<close> and \<^verbatim>\<open>time.Since\<close> saturate at the ends of
  the range, and a product of durations wraps around.  Both are written out.
\<close>

type_synonym time = int
type_synonym duration = int

abbreviation max_int64 :: int where "max_int64 \<equiv> 9223372036854775807"
abbreviation min_int64 :: int where "min_int64 \<equiv> - 9223372036854775808"

definition sat64 :: "int \<Rightarrow> int" where
  "sat64 i = (if i > max_int64 then max_int64 else if i < min_int64 then min_int64 else i)"

definition wrap64 :: "int \<Rightarrow> int" where
  "wrap64 i = (i + 9223372036854775808) mod 18446744073709551616 - 9223372036854775808"

definition time_Sub :: "time \<Rightarrow> time \<Rightarrow> duration" where
  "time_Sub t u = sat64 (t - u)"

abbreviation Second :: duration where "Second \<equiv> 1000000000"
abbreviation Minute :: duration where "Minute \<equiv> 60000000000"
abbreviation Hour :: duration where "Hour \<equiv> 3600000000000"

text \<open>The zero \<^verbatim>\<open>time.Time\<close>, the first of January of the year 1.\<close>

definition time_zero :: time where "time_zero = - 62135596800000000000"

lemma wrap64_id: "min_int64 \<le> i \<Longrightarrow> i \<le> max_int64 \<Longrightarrow> wrap64 i = i"
  by (simp add: wrap64_def)

lemma sat64_mono: "i \<le> j \<Longrightarrow> sat64 i \<le> sat64 j"
  by (simp add: sat64_def)

lemma sat64_le_iff: "c < max_int64 \<Longrightarrow> min_int64 \<le> c \<Longrightarrow> sat64 i \<le> c \<longleftrightarrow> i \<le> c"
  by (auto simp: sat64_def)

lemma time_Sub_gt_iff:
  "c < max_int64 \<Longrightarrow> min_int64 \<le> c \<Longrightarrow> time_Sub t u > c \<longleftrightarrow> t - u > c"
  using sat64_le_iff [of c "t - u"] by (auto simp: time_Sub_def)

section \<open>Error values\<close>

text \<open>
  A sentinel is a package-level error variable compared by identity.  Every other error is a
  value: the error types the program declares or inspects, an opaque error known by its text, and
  the two ways of wrapping, \<^verbatim>\<open>fmt.Errorf\<close> with \<^verbatim>\<open>%w\<close> and \<^verbatim>\<open>errors.Join\<close>.
\<close>

datatype sentinel =
    ErrRecordNotFound
  | ErrDuplicatedKey
  | ErrEncryptionNotConfigured
  | ErrNotExist
  | ErrExist

datatype go_error =
    Sentinel sentinel
  | PasswordStrengthError string
  | HttpError int string
  | ValidationErrors "string list"
  | ParseErrors "go_error list"
  | ErrorText string
  | Wrapped string go_error
  | Joined "go_error list"

type_synonym 'a result = "go_error + 'a"

fun errors_is :: "sentinel \<Rightarrow> go_error \<Rightarrow> bool" where
  "errors_is s (Sentinel t) = (t = s)"
| "errors_is s (Wrapped m e) = errors_is s e"
| "errors_is s (Joined es) = list_ex (errors_is s) es"
| "errors_is s _ = False"

declare errors_is.simps [err_simps]

text \<open>
  \<^verbatim>\<open>errors.As\<close> for the validation errors: the first value of that type down the chain.
\<close>

fun as_validation_errors :: "go_error \<Rightarrow> string list option" where
  "as_validation_errors (ValidationErrors es) = Some es"
| "as_validation_errors (Wrapped m e) = as_validation_errors e"
| "as_validation_errors (Joined es) =
     (case filter (\<lambda>v. v \<noteq> None) (map as_validation_errors es) of [] \<Rightarrow> None | v # _ \<Rightarrow> v)"
| "as_validation_errors _ = None"

text \<open>The type assertions \<^verbatim>\<open>err.(T)\<close> look at the value itself and never unwrap it.\<close>

fun assert_http_error :: "go_error \<Rightarrow> (int \<times> string) option" where
  "assert_http_error (HttpError c m) = Some (c, m)"
| "assert_http_error _ = None"

fun assert_password_error :: "go_error \<Rightarrow> string option" where
  "assert_password_error (PasswordStrengthError m) = Some m"
| "assert_password_error _ = None"

section \<open>Byte strings\<close>

text \<open>
  A Go string is a byte string: \<^verbatim>\<open>len\<close> counts bytes, and so does \<^const>\<open>length\<close> here.
\<close>

definition byte :: "char \<Rightarrow> nat" where "byte c = of_char c"

fun split_char :: "char \<Rightarrow> string \<Rightarrow> string list" where
  "split_char c [] = [[]]"
| "split_char c (x # xs) =
     (if x = c then [] # split_char c xs
      else (case split_char c xs of [] \<Rightarrow> [[x]] | p # ps \<Rightarrow> (x # p) # ps))"

lemma split_char_nonempty [simp]: "split_char c s \<noteq> []"
  by (induction s) (auto split: list.splits)

fun strings_Join :: "string list \<Rightarrow> string \<Rightarrow> string" where
  "strings_Join [] sep = ''''"
| "strings_Join [s] sep = s"
| "strings_Join (s # ss) sep = s @ sep @ strings_Join ss sep"

text \<open>\<^verbatim>\<open>'%s'\<close>, a text in single quotes.\<close>

definition quoted :: "string \<Rightarrow> string" where "quoted s = CHR 0x27 # s @ [CHR 0x27]"

definition is_digit :: "char \<Rightarrow> bool" where
  "is_digit c \<longleftrightarrow> 48 \<le> byte c \<and> byte c \<le> 57"

definition digit_val :: "char \<Rightarrow> nat" where "digit_val c = byte c - 48"

fun digits_val :: "nat \<Rightarrow> string \<Rightarrow> nat" where
  "digits_val acc [] = acc"
| "digits_val acc (c # cs) = digits_val (10 * acc + digit_val c) cs"

text \<open>The decimal rendering \<^verbatim>\<open>%d\<close> of a non-negative number.\<close>

fun show_nat :: "nat \<Rightarrow> string" where
  "show_nat n =
     (if n < 10 then [char_of (48 + n)] else show_nat (n div 10) @ [char_of (48 + n mod 10)])"

declare show_nat.simps [simp del]

definition show_int :: "int \<Rightarrow> string" where
  "show_int i = (if i < 0 then ''-'' @ show_nat (nat (- i)) else show_nat (nat i))"

text \<open>
  \<^verbatim>\<open>utf8.RuneCountInString\<close>: the number of code points, every byte that starts no valid encoding
  counting as one.
\<close>

definition in_range :: "nat \<Rightarrow> nat \<Rightarrow> char \<Rightarrow> bool" where
  "in_range lo hi c \<longleftrightarrow> lo \<le> byte c \<and> byte c \<le> hi"

definition continuation :: "nat \<Rightarrow> nat \<Rightarrow> nat \<Rightarrow> string \<Rightarrow> bool" where
  "continuation n lo hi s \<longleftrightarrow>
     n \<le> length s \<and> in_range lo hi (hd s) \<and> list_all (in_range 128 191) (take (n - 1) (tl s))"

definition rune_size :: "string \<Rightarrow> nat" where
  "rune_size s =
     (let b = byte (hd s); r = tl s
      in if b < 194 \<or> b > 244 then 1
         else if b < 224 then (if continuation 1 128 191 r then 2 else 1)
         else if b < 240 then
           (if continuation 2 (if b = 224 then 160 else 128) (if b = 237 then 159 else 191) r
            then 3 else 1)
         else
           (if continuation 3 (if b = 240 then 144 else 128) (if b = 244 then 143 else 191) r
            then 4 else 1))"

lemma rune_size_bounds: "1 \<le> rune_size s" "rune_size s \<le> 4"
  by (simp_all add: rune_size_def Let_def)

function rune_count :: "string \<Rightarrow> nat" where
  "rune_count [] = 0"
| "rune_count (c # s) = Suc (rune_count (drop (rune_size (c # s)) (c # s)))"
  by pat_completeness auto
termination
  by (relation "measure length") (auto simp: rune_size_def Let_def)

lemma rune_count_le: "rune_count s \<le> length s"
proof (induction s rule: rune_count.induct)
  case (2 c s)
  then show ?case using rune_size_bounds(1) [of "c # s"] by (simp del: drop_Cons)
qed simp

lemma rune_count_Nil_iff [simp]: "rune_count s = 0 \<longleftrightarrow> s = []"
  by (cases s) auto

lemma length_le_runes: "length s \<le> 4 * rune_count s"
proof (induction s rule: rune_count.induct)
  case (2 c s)
  then show ?case using rune_size_bounds(2) [of "c # s"] by (simp del: drop_Cons)
qed simp

section \<open>Tables\<close>

text \<open>
  A table is the list of its rows, oldest first.  A write that touches the rows satisfying a
  condition rewrites them in place.
\<close>

definition upd_where :: "('r \<Rightarrow> bool) \<Rightarrow> ('r \<Rightarrow> 'r) \<Rightarrow> 'r list \<Rightarrow> 'r list" where
  "upd_where p f t = map (\<lambda>r. if p r then f r else r) t"

lemma length_upd_where [simp]: "length (upd_where p f t) = length t"
  by (simp add: upd_where_def)

lemma upd_where_Nil [simp]: "upd_where p f [] = []"
  by (simp add: upd_where_def)

lemma upd_where_Cons [simp]:
  "upd_where p f (r # t) = (if p r then f r else r) # upd_where p f t"
  by (simp add: upd_where_def)

lemma set_upd_where: "set (upd_where p f t) = f ` {r \<in> set t. p r} \<union> {r \<in> set t. \<not> p r}"
  by (auto simp: upd_where_def)

lemma upd_where_keeps:
  "r \<in> set t \<Longrightarrow> \<not> p r \<Longrightarrow> r \<in> set (upd_where p f t)"
  by (auto simp: set_upd_where)

lemma upd_where_hit:
  "r \<in> set t \<Longrightarrow> p r \<Longrightarrow> f r \<in> set (upd_where p f t)"
  by (auto simp: set_upd_where)

lemma map_upd_where_same:
  "(\<And>r. r \<in> set t \<Longrightarrow> p r \<Longrightarrow> g (f r) = g r) \<Longrightarrow> map g (upd_where p f t) = map g t"
  by (simp add: upd_where_def)

lemma filter_upd_where_other:
  "(\<And>r. r \<in> set t \<Longrightarrow> p r \<Longrightarrow> \<not> q r \<and> \<not> q (f r)) \<Longrightarrow> filter q (upd_where p f t) = filter q t"
  by (induction t) auto

lemma distinct_key_eq:
  "distinct (map k t) \<Longrightarrow> r \<in> set t \<Longrightarrow> r' \<in> set t \<Longrightarrow> k r = k r' \<Longrightarrow> r = r'"
  by (meson distinct_map inj_onD)

lemma upd_where_idle: "(\<And>r. r \<in> set t \<Longrightarrow> \<not> p r) \<Longrightarrow> upd_where p f t = t"
  by (induction t) auto

lemma upd_where_append [simp]: "upd_where p f (s @ t) = upd_where p f s @ upd_where p f t"
  by (simp add: upd_where_def)

text \<open>Where a key is unique, the row with that key is replaced and every other row stays.\<close>

lemma upd_where_key:
  assumes "distinct (map k t)" "u \<in> set t" "k u = i"
  obtains xs ys where "t = xs @ u # ys" "\<And>x. x \<in> set xs \<union> set ys \<Longrightarrow> k x \<noteq> i"
    "\<And>f. upd_where (\<lambda>y. k y = i) f t = xs @ f u # ys"
proof -
  from \<open>u \<in> set t\<close> obtain xs ys where t: "t = xs @ u # ys" by (meson split_list)
  with assms have other: "\<And>x. x \<in> set xs \<union> set ys \<Longrightarrow> k x \<noteq> i" by (auto simp: image_iff)
  then have "upd_where (\<lambda>y. k y = i) f t = xs @ f u # ys" for f
    using t assms(3) by (simp add: upd_where_idle)
  with t other show thesis by (rule that)
qed

lemma set_upd_key:
  assumes "distinct (map k t)" "u \<in> set t" "k u = i"
  shows "set (upd_where (\<lambda>y. k y = i) f t) = insert (f u) (set t - {u})"
proof -
  from assms obtain xs ys where t: "t = xs @ u # ys"
    and other: "\<And>x. x \<in> set xs \<union> set ys \<Longrightarrow> k x \<noteq> i"
    and upd: "\<And>f. upd_where (\<lambda>y. k y = i) f t = xs @ f u # ys"
    by (rule upd_where_key) blast
  have "u \<notin> set xs \<union> set ys" using other assms(3) by blast
  then show ?thesis unfolding upd unfolding t by auto
qed

lemma distinct_map_upd_key:
  assumes "distinct (map k t)" "distinct (map f t)" "u \<in> set t" "k u = i"
    "\<And>y. y \<in> set t \<Longrightarrow> k y \<noteq> i \<Longrightarrow> f y \<noteq> f (g u)"
  shows "distinct (map f (upd_where (\<lambda>y. k y = i) g t))"
proof -
  from assms(1,3,4) obtain xs ys where t: "t = xs @ u # ys"
    and other: "\<And>x. x \<in> set xs \<union> set ys \<Longrightarrow> k x \<noteq> i"
    and upd: "upd_where (\<lambda>y. k y = i) g t = xs @ g u # ys"
    by (rule upd_where_key) blast
  have "\<And>x. x \<in> set xs \<union> set ys \<Longrightarrow> f x \<noteq> f (g u)" using assms(5) other t by auto
  moreover have "distinct (map f xs @ f u # map f ys)" using assms(2) by (simp add: t)
  ultimately show ?thesis unfolding upd by (fastforce simp: image_iff)
qed

end
