(* ===== verification/GoUrl.thy ===== *)
theory GoUrl
  imports Prelude
begin

text \<open>
  The part of Go's standard library the program reads addresses with: \<^verbatim>\<open>url.Parse\<close>,
  \<^verbatim>\<open>URL.Hostname\<close>, \<^verbatim>\<open>URL.String\<close> and \<^verbatim>\<open>url.Values.Encode\<close> of \<^verbatim>\<open>net/url\<close>, and \<^verbatim>\<open>net.ParseIP\<close>.
  The functions follow the library's own, case by case; error texts are left out.
\<close>

section \<open>Characters\<close>

definition is_lower :: "char \<Rightarrow> bool" where "is_lower c \<longleftrightarrow> 97 \<le> byte c \<and> byte c \<le> 122"
definition is_upper :: "char \<Rightarrow> bool" where "is_upper c \<longleftrightarrow> 65 \<le> byte c \<and> byte c \<le> 90"

definition is_alpha :: "char \<Rightarrow> bool" where "is_alpha c \<longleftrightarrow> is_lower c \<or> is_upper c"
definition is_alnum :: "char \<Rightarrow> bool" where "is_alnum c \<longleftrightarrow> is_alpha c \<or> is_digit c"

definition is_hex :: "char \<Rightarrow> bool" where
  "is_hex c \<longleftrightarrow> is_digit c \<or> (97 \<le> byte c \<and> byte c \<le> 102) \<or> (65 \<le> byte c \<and> byte c \<le> 70)"

definition unhex :: "char \<Rightarrow> nat" where
  "unhex c = (if is_digit c then byte c - 48 else if is_lower c then byte c - 87 else byte c - 55)"

definition hex_digit :: "nat \<Rightarrow> char" where
  "hex_digit n = (if n < 10 then char_of (48 + n) else char_of (55 + n))"

definition to_lower :: "char \<Rightarrow> char" where
  "to_lower c = (if is_upper c then char_of (byte c + 32) else c)"

definition is_ctl :: "char \<Rightarrow> bool" where "is_ctl c \<longleftrightarrow> byte c < 32 \<or> byte c = 127"

section \<open>Cutting strings\<close>

text \<open>\<^verbatim>\<open>strings.Cut\<close> at the first occurrence of a byte, and the split at its last occurrence.\<close>

definition cut :: "char \<Rightarrow> string \<Rightarrow> string \<times> string" where
  "cut c s = (takeWhile (\<lambda>x. x \<noteq> c) s, drop 1 (dropWhile (\<lambda>x. x \<noteq> c) s))"

definition before_last :: "char \<Rightarrow> string \<Rightarrow> string" where
  "before_last c s = rev (drop 1 (dropWhile (\<lambda>x. x \<noteq> c) (rev s)))"

definition after_last :: "char \<Rightarrow> string \<Rightarrow> string" where
  "after_last c s = rev (takeWhile (\<lambda>x. x \<noteq> c) (rev s))"

section \<open>Percent encoding\<close>

datatype encoding =
    EncodePath | EncodeUserPassword | EncodeHost | EncodeZone | EncodeQueryComponent | EncodeFragment

definition host_mode :: "encoding \<Rightarrow> bool" where
  "host_mode m \<longleftrightarrow> m = EncodeHost \<or> m = EncodeZone"

definition should_escape :: "char \<Rightarrow> encoding \<Rightarrow> bool" where
  "should_escape c m =
     (if is_alnum c then False
      else if host_mode m \<and> (c \<in> set ''!$&()*+,;=:[]<>'' \<or> byte c = 34 \<or> byte c = 39) then False
      else if c \<in> set ''-_.~'' then False
      else if c \<in> set ''$&+,/:;=?@'' then
        (case m of
           EncodePath \<Rightarrow> c = CHR ''?''
         | EncodeUserPassword \<Rightarrow> c \<in> set ''@/?:''
         | EncodeFragment \<Rightarrow> False
         | _ \<Rightarrow> True)
      else if m = EncodeFragment \<and> c \<in> set ''!()*'' then False
      else True)"

text \<open>Whether an escape \<^verbatim>\<open>%hl\<close> may stand in a host or in a zone identifier.\<close>

definition bad_host_escape :: "encoding \<Rightarrow> char \<Rightarrow> char \<Rightarrow> bool" where
  "bad_host_escape m h l \<longleftrightarrow>
     \<not> (h = CHR ''2'' \<and> l = CHR ''5'') \<and>
     (m = EncodeHost \<and> unhex h < 8 \<or>
      m = EncodeZone \<and>
        (let v = char_of (16 * unhex h + unhex l) in v \<noteq> CHR '' '' \<and> should_escape v EncodeHost))"

fun unescape :: "encoding \<Rightarrow> string \<Rightarrow> string option" where
  "unescape m [] = Some []"
| "unescape m (c # s) =
     (if c = CHR ''%'' then
        (case s of
           h # l # s' \<Rightarrow>
             if \<not> is_hex h \<or> \<not> is_hex l \<or> bad_host_escape m h l then None
             else map_option ((#) (char_of (16 * unhex h + unhex l))) (unescape m s')
         | _ \<Rightarrow> None)
      else if m = EncodeQueryComponent \<and> c = CHR ''+'' then map_option ((#) CHR '' '') (unescape m s)
      else if host_mode m \<and> byte c < 128 \<and> should_escape c m then None
      else map_option ((#) c) (unescape m s))"

definition escape_char :: "encoding \<Rightarrow> char \<Rightarrow> string" where
  "escape_char m c =
     (if m = EncodeQueryComponent \<and> c = CHR '' '' then ''+''
      else if should_escape c m
      then [CHR ''%'', hex_digit (byte c div 16), hex_digit (byte c mod 16)]
      else [c])"

definition escape :: "encoding \<Rightarrow> string \<Rightarrow> string" where
  "escape m s = concat (map (escape_char m) s)"

section \<open>url.Parse\<close>

record url =
  Scheme :: string
  Opaque :: string
  User :: "(string \<times> string option) option"
  Host :: string
  Path :: string
  RawPath :: string
  OmitHost :: bool
  ForceQuery :: bool
  RawQuery :: string
  Fragment :: string
  RawFragment :: string

definition empty_url :: url where
  "empty_url = \<lparr>Scheme = '''', Opaque = '''', User = None, Host = '''', Path = '''', RawPath = '''',
     OmitHost = False, ForceQuery = False, RawQuery = '''', Fragment = '''', RawFragment = ''''\<rparr>"

fun get_scheme_from :: "string \<Rightarrow> string \<Rightarrow> string \<Rightarrow> (string \<times> string) option" where
  "get_scheme_from raw acc [] = Some ('''', raw)"
| "get_scheme_from raw acc (c # s) =
     (if is_alpha c then get_scheme_from raw (acc @ [c]) s
      else if is_digit c \<or> c \<in> set ''+-.'' then
        (if acc = [] then Some ('''', raw) else get_scheme_from raw (acc @ [c]) s)
      else if c = CHR '':'' then (if acc = [] then None else Some (acc, s))
      else Some ('''', raw))"

definition get_scheme :: "string \<Rightarrow> (string \<times> string) option" where
  "get_scheme raw = get_scheme_from raw [] raw"

definition valid_optional_port :: "string \<Rightarrow> bool" where
  "valid_optional_port p =
     (case p of [] \<Rightarrow> True | c # ds \<Rightarrow> c = CHR '':'' \<and> list_all is_digit ds)"

text \<open>
  A bracketed literal keeps its brackets in the host; a zone identifier starts at its first \<^verbatim>\<open>%25\<close>.
\<close>

fun cut_zone :: "string \<Rightarrow> string \<times> string" where
  "cut_zone [] = ([], [])"
| "cut_zone (c # s) =
     (if prefix ''%25'' (c # s) then ([], c # s) else (c # fst (cut_zone s), snd (cut_zone s)))"

definition parse_host :: "string \<Rightarrow> string option" where
  "parse_host h =
     (if prefix ''['' h then
        (if CHR '']'' \<notin> set h \<or> \<not> valid_optional_port (after_last (CHR '']'') h) then None
         else
           (case (unescape EncodeHost (fst (cut_zone (before_last (CHR '']'') h))),
                  unescape EncodeZone (snd (cut_zone (before_last (CHR '']'') h))),
                  unescape EncodeHost (CHR '']'' # after_last (CHR '']'') h)) of
              (Some a, Some b, Some c) \<Rightarrow> Some (a @ b @ c)
            | _ \<Rightarrow> None))
      else if CHR '':'' \<in> set h \<and> \<not> valid_optional_port (CHR '':'' # after_last (CHR '':'') h)
      then None
      else unescape EncodeHost h)"

definition valid_userinfo :: "string \<Rightarrow> bool" where
  "valid_userinfo s =
     list_all (\<lambda>c. is_alnum c \<or> c \<in> set ''-._:~!$&()*+,;=%@'' \<or> byte c = 39) s"

definition parse_userinfo :: "string \<Rightarrow> (string \<times> string option) option" where
  "parse_userinfo ui =
     (if \<not> valid_userinfo ui then None
      else if CHR '':'' \<in> set ui then
        (case cut (CHR '':'') ui of (u, p) \<Rightarrow>
           (case (unescape EncodeUserPassword u, unescape EncodeUserPassword p) of
              (Some u', Some p') \<Rightarrow> Some (u', Some p')
            | _ \<Rightarrow> None))
      else map_option (\<lambda>u. (u, None)) (unescape EncodeUserPassword ui))"

definition parse_authority ::
  "string \<Rightarrow> ((string \<times> string option) option \<times> string) option" where
  "parse_authority a =
     (if CHR ''@'' \<in> set a then
        (case parse_host (after_last (CHR ''@'') a) of
           None \<Rightarrow> None
         | Some h \<Rightarrow>
             (case parse_userinfo (before_last (CHR ''@'') a) of
                None \<Rightarrow> None
              | Some ui \<Rightarrow> Some (Some ui, h)))
      else map_option (\<lambda>h. (None, h)) (parse_host a))"

definition set_path :: "url \<Rightarrow> string \<Rightarrow> url option" where
  "set_path u p =
     (case unescape EncodePath p of
        None \<Rightarrow> None
      | Some path \<Rightarrow>
          Some (u\<lparr>Path := path, RawPath := (if escape EncodePath path = p then '''' else p)\<rparr>))"

text \<open>What follows the scheme and the query has been cut off: the authority, then the path.\<close>

definition parse_rest :: "url \<Rightarrow> string \<Rightarrow> url option" where
  "parse_rest u rest =
     (if \<not> prefix ''/'' rest \<and> Scheme u \<noteq> '''' then Some (u\<lparr>Opaque := rest\<rparr>)
      else if \<not> prefix ''/'' rest \<and> CHR '':'' \<in> set (fst (cut (CHR ''/'') rest)) then None
      else if (Scheme u \<noteq> '''' \<or> \<not> prefix ''///'' rest) \<and> prefix ''//'' rest then
        (let authority = takeWhile (\<lambda>c. c \<noteq> CHR ''/'') (drop 2 rest);
             rest' = dropWhile (\<lambda>c. c \<noteq> CHR ''/'') (drop 2 rest)
         in case parse_authority authority of
              None \<Rightarrow> None
            | Some (ui, h) \<Rightarrow> set_path (u\<lparr>User := ui, Host := h\<rparr>) rest')
      else set_path (u\<lparr>OmitHost := (Scheme u \<noteq> '''' \<and> prefix ''/'' rest)\<rparr>) rest)"

definition parse_no_frag :: "string \<Rightarrow> url option" where
  "parse_no_frag raw =
     (if list_ex is_ctl raw then None
      else if raw = ''*'' then Some (empty_url\<lparr>Path := ''*''\<rparr>)
      else case get_scheme raw of
             None \<Rightarrow> None
           | Some (sch, rest) \<Rightarrow>
               let u = empty_url\<lparr>Scheme := map to_lower sch\<rparr>
               in if suffix ''?'' rest \<and> count_list rest (CHR ''?'') = 1
                  then parse_rest (u\<lparr>ForceQuery := True\<rparr>) (butlast rest)
                  else parse_rest (u\<lparr>RawQuery := snd (cut (CHR ''?'') rest)\<rparr>)
                         (fst (cut (CHR ''?'') rest)))"

definition url_Parse :: "string \<Rightarrow> url option" where
  "url_Parse raw =
     (case cut (CHR ''#'') raw of (u, frag) \<Rightarrow>
        (case parse_no_frag u of
           None \<Rightarrow> None
         | Some v \<Rightarrow>
             if frag = '''' then Some v
             else map_option
                    (\<lambda>f. v\<lparr>Fragment := f,
                             RawFragment := (if escape EncodeFragment f = frag then '''' else frag)\<rparr>)
                    (unescape EncodeFragment frag)))"

definition url_Hostname :: "url \<Rightarrow> string" where
  "url_Hostname u =
     (let h = Host u;
          h' = (if CHR '':'' \<in> set h \<and> valid_optional_port (CHR '':'' # after_last (CHR '':'') h)
                then before_last (CHR '':'') h else h)
      in if prefix ''['' h' \<and> suffix '']'' h' then drop 1 (butlast h') else h')"

section \<open>URL.String\<close>

definition valid_encoded :: "encoding \<Rightarrow> string \<Rightarrow> bool" where
  "valid_encoded m s =
     list_all (\<lambda>c. c \<in> set ''!$&()*+,;=:@[]%'' \<or> byte c = 39 \<or> \<not> should_escape c m) s"

definition escaped_path :: "url \<Rightarrow> string" where
  "escaped_path u =
     (if RawPath u \<noteq> '''' \<and> valid_encoded EncodePath (RawPath u) \<and>
         unescape EncodePath (RawPath u) = Some (Path u) then RawPath u
      else if Path u = ''*'' then ''*''
      else escape EncodePath (Path u))"

definition escaped_fragment :: "url \<Rightarrow> string" where
  "escaped_fragment u =
     (if RawFragment u \<noteq> '''' \<and> valid_encoded EncodeFragment (RawFragment u) \<and>
         unescape EncodeFragment (RawFragment u) = Some (Fragment u) then RawFragment u
      else escape EncodeFragment (Fragment u))"

definition userinfo_string :: "string \<times> string option \<Rightarrow> string" where
  "userinfo_string ui =
     escape EncodeUserPassword (fst ui) @
     (case snd ui of None \<Rightarrow> '''' | Some p \<Rightarrow> '':'' @ escape EncodeUserPassword p)"

text \<open>Scheme and authority, as far as the path; then the path; then query and fragment.\<close>

definition url_prefix :: "url \<Rightarrow> string" where
  "url_prefix u =
     (if Scheme u \<noteq> '''' then Scheme u @ '':'' else '''') @
     (if Scheme u \<noteq> '''' \<or> Host u \<noteq> '''' \<or> User u \<noteq> None then
        (if OmitHost u \<and> Host u = '''' \<and> User u = None then ''''
         else (if Host u \<noteq> '''' \<or> Path u \<noteq> '''' \<or> User u \<noteq> None then ''//'' else '''') @
              (case User u of None \<Rightarrow> '''' | Some ui \<Rightarrow> userinfo_string ui @ ''@'') @
              (if Host u \<noteq> '''' then escape EncodeHost (Host u) else ''''))
      else '''')"

definition url_tail :: "url \<Rightarrow> string" where
  "url_tail u =
     (if ForceQuery u \<or> RawQuery u \<noteq> '''' then ''?'' @ RawQuery u else '''') @
     (if Fragment u \<noteq> '''' then ''#'' @ escaped_fragment u else '''')"

definition url_String :: "url \<Rightarrow> string" where
  "url_String u =
     (if Opaque u \<noteq> '''' then
        (if Scheme u \<noteq> '''' then Scheme u @ '':'' else '''') @ Opaque u @ url_tail u
      else
        (let path = escaped_path u
         in url_prefix u @
            (if path \<noteq> '''' \<and> \<not> prefix ''/'' path \<and> Host u \<noteq> '''' then ''/'' else '''') @
            (if url_prefix u = '''' \<and> CHR '':'' \<in> set (fst (cut (CHR ''/'') path)) then ''./'' else '''') @
            path @ url_tail u))"

section \<open>net.ParseIP\<close>

definition ipv4_field :: "string \<Rightarrow> bool" where
  "ipv4_field f \<longleftrightarrow>
     f \<noteq> [] \<and> list_all is_digit f \<and> (length f > 1 \<longrightarrow> hd f \<noteq> CHR ''0'') \<and> digits_val 0 f \<le> 255"

definition parse_ipv4 :: "string \<Rightarrow> bool" where
  "parse_ipv4 s =
     (let fs = split_char (CHR ''.'') s in length fs = 4 \<and> list_all ipv4_field fs)"

text \<open>\<open>n\<close> 16-bit groups are still free, \<open>ell\<close> says whether the ellipsis has been read.\<close>

fun ipv6_groups :: "nat \<Rightarrow> bool \<Rightarrow> string \<Rightarrow> bool" where
  "ipv6_groups 0 ell s = False"
| "ipv6_groups (Suc n) ell s =
     (let hs = takeWhile is_hex s; r = dropWhile is_hex s
      in if hs = [] \<or> length hs > 4 then False
         else if prefix ''.'' r then
           (if \<not> ell then Suc n = 2 \<and> parse_ipv4 s else Suc n > 2 \<and> parse_ipv4 s)
         else if r = [] then (if ell then n > 0 else n = 0)
         else if \<not> prefix '':'' r \<or> length r = 1 then False
         else if prefix ''::'' r then
           (if ell then False
            else if length r = 2 then n > 0
            else ipv6_groups n True (drop 2 r))
         else ipv6_groups n ell (drop 1 r))"

definition parse_ipv6 :: "string \<Rightarrow> bool" where
  "parse_ipv6 s =
     (if CHR ''%'' \<in> set s then False
      else if s = ''::'' then True
      else if prefix ''::'' s then ipv6_groups 8 True (drop 2 s)
      else ipv6_groups 8 False s)"

definition ParseIP :: "string \<Rightarrow> bool" where
  "ParseIP s =
     (case dropWhile (\<lambda>c. c \<notin> set ''.:%'') s of
        [] \<Rightarrow> False
      | c # _ \<Rightarrow> if c = CHR ''.'' then parse_ipv4 s else if c = CHR '':'' then parse_ipv6 s else False)"

end
