(* ===== verification/GoPath.thy ===== *)
theory GoPath
  imports Prelude
begin

text \<open>
  \<^verbatim>\<open>path.Clean\<close> and \<^verbatim>\<open>path.Join\<close> of Go's standard library, on slash-separated paths.
\<close>

section \<open>path.Join\<close>

text \<open>
  \<^verbatim>\<open>path.Join\<close> of two elements: the non-empty ones with a slash between, cleaned.  \<^verbatim>\<open>path.Clean\<close> works
  through the elements with a stack.
\<close>

fun clean_elems :: "bool \<Rightarrow> string list \<Rightarrow> string list \<Rightarrow> string list" where
  "clean_elems rooted st [] = st"
| "clean_elems rooted st (e # es) =
     (if e = '''' \<or> e = ''.'' then clean_elems rooted st es
      else if e = ''..'' then
        (if st \<noteq> [] \<and> last st \<noteq> ''..'' then clean_elems rooted (butlast st) es
         else if rooted then clean_elems rooted st es
         else clean_elems rooted (st @ [''..'']) es)
      else clean_elems rooted (st @ [e]) es)"

fun join_slash :: "string list \<Rightarrow> string" where
  "join_slash [] = ''''"
| "join_slash [e] = e"
| "join_slash (e # es) = e @ ''/'' @ join_slash es"

definition path_Clean :: "string \<Rightarrow> string" where
  "path_Clean p =
     (let rooted = prefix ''/'' p;
          out = (if rooted then ''/'' else '''') @
                join_slash (clean_elems rooted [] (split_char (CHR ''/'') p))
      in if out = '''' then ''.'' else out)"

definition path_Join :: "string \<Rightarrow> string \<Rightarrow> string" where
  "path_Join a b =
     (if a = '''' \<and> b = '''' then ''''
      else path_Clean (join_slash (filter (\<lambda>e. e \<noteq> '''') [a, b])))"

lemma split_char_absent: "c \<notin> set s \<Longrightarrow> split_char c s = [s]"
  by (induction s) auto

lemma split_char_append:
  "c \<notin> set s \<Longrightarrow> split_char c (s @ c # t) = s # split_char c t"
  by (induction s) (auto split: list.splits)

text \<open>
  Two plain elements, neither empty nor a dot name, are joined by a slash and nothing else.
\<close>

definition plain_elem :: "string \<Rightarrow> bool" where
  "plain_elem e \<longleftrightarrow> e \<noteq> '''' \<and> e \<noteq> ''.'' \<and> e \<noteq> ''..'' \<and> CHR ''/'' \<notin> set e"

lemma plain_not_rooted: "plain_elem a \<Longrightarrow> \<not> prefix ''/'' (a @ s)"
  by (cases a) (auto simp: plain_elem_def)

lemma path_Join_plain:
  assumes "plain_elem a" "plain_elem b"
  shows "path_Join a b = a @ ''/'' @ b"
  using assms plain_not_rooted [OF assms(1), of "''/'' @ b"]
  by (auto simp: path_Join_def path_Clean_def Let_def plain_elem_def split_char_append
      split_char_absent)

end
