(* ===== verification/Util.thy ===== *)
theory Util
  imports GoUrl GoPath
begin

text \<open>
  The package \<^verbatim>\<open>pkg/util\<close> (\<^verbatim>\<open>url.go\<close>): the check that a feed, image or download address is an
  external web address, and the sanitiser that turns a GUID into a file name.  The lemmas
  characterise the check, show that a sanitised GUID holds only harmless characters and that
  sanitising is idempotent, and that the path the object store builds from sanitised names stays
  below its root.
\<close>

section \<open>ValidateExtURL\<close>

definition ValidateExtURL :: "string \<Rightarrow> go_error option" where
  "ValidateExtURL uStr =
     (case url_Parse uStr of
        None \<Rightarrow> Some (ErrorText ''parse'')
      | Some u \<Rightarrow>
          if Scheme u \<noteq> ''http'' \<and> Scheme u \<noteq> ''https'' then
            Some (ErrorText ''invalid scheme in URL'')
          else if Host u = '''' then Some (ErrorText ''URL host must not be empty'')
          else if url_Hostname u = ''localhost'' then
            Some (ErrorText ''URL host must not be localhost'')
          else if ParseIP (url_Hostname u) then
            Some (ErrorText ''URL host cannot be IP address'')
          else None)"

text \<open>The addresses the check is meant to let through.\<close>

definition external_address :: "url \<Rightarrow> bool" where
  "external_address u \<longleftrightarrow>
     Scheme u \<in> {''http'', ''https''} \<and> Host u \<noteq> '''' \<and> url_Hostname u \<noteq> ''localhost'' \<and>
     \<not> ParseIP (url_Hostname u)"

lemma ValidateExtURL_None_iff:
  "ValidateExtURL s = None \<longleftrightarrow> (\<exists>u. url_Parse s = Some u \<and> external_address u)"
  by (auto simp: ValidateExtURL_def external_address_def split: option.splits if_splits)

lemma ValidateExtURL_not_found:
  "ValidateExtURL s = Some e \<Longrightarrow> \<not> errors_is t e"
  by (auto simp: ValidateExtURL_def split: option.splits if_splits)

section \<open>SanitiseGUID\<close>

text \<open>The characters outside the class the pattern negates.\<close>

definition guid_char :: "char \<Rightarrow> bool" where
  "guid_char c \<longleftrightarrow> is_alnum c \<or> c \<in> set ''=_-''"

text \<open>
  \<^verbatim>\<open>ReplaceAllString\<close> of \<^verbatim>\<open>[^a-zA-Z0-9=_-]+\<close> by a dash: a maximal run of other characters becomes
  one dash.  The flag says whether the previous character was in such a run.
\<close>

fun sanitise_from :: "bool \<Rightarrow> string \<Rightarrow> string" where
  "sanitise_from in_run [] = []"
| "sanitise_from in_run (c # s) =
     (if guid_char c then c # sanitise_from False s
      else if in_run then sanitise_from True s
      else CHR ''-'' # sanitise_from True s)"

definition SanitiseGUID :: "string \<Rightarrow> string" where
  "SanitiseGUID guid = sanitise_from False guid"

lemma guid_char_dash [simp]: "guid_char (CHR ''-'')"
  by (simp add: guid_char_def)

lemma not_guid_char_slash [simp]: "\<not> guid_char (CHR ''/'')"
  by (simp add: guid_char_def is_alnum_def is_alpha_def is_lower_def is_upper_def is_digit_def
      byte_def)

lemma not_guid_char_dot [simp]: "\<not> guid_char (CHR ''.'')"
  by (simp add: guid_char_def is_alnum_def is_alpha_def is_lower_def is_upper_def is_digit_def
      byte_def)

lemma sanitise_from_chars: "list_all guid_char (sanitise_from b s)"
  by (induction b s rule: sanitise_from.induct) auto

lemma sanitise_from_id: "list_all guid_char s \<Longrightarrow> sanitise_from b s = s"
  by (induction s arbitrary: b) auto

lemma length_sanitise_from: "length (sanitise_from b s) \<le> length s"
  by (induction b s rule: sanitise_from.induct) auto

lemma SanitiseGUID_chars: "list_all guid_char (SanitiseGUID s)"
  by (simp add: SanitiseGUID_def sanitise_from_chars)

lemma SanitiseGUID_id: "list_all guid_char s \<Longrightarrow> SanitiseGUID s = s"
  by (simp add: SanitiseGUID_def sanitise_from_id)

lemma SanitiseGUID_idem: "SanitiseGUID (SanitiseGUID s) = SanitiseGUID s"
  by (simp add: SanitiseGUID_id SanitiseGUID_chars)

lemma SanitiseGUID_Nil_iff [simp]: "SanitiseGUID s = [] \<longleftrightarrow> s = []"
  by (cases s) (auto simp: SanitiseGUID_def)

lemma SanitiseGUID_no_slash [simp]:
  "CHR ''/'' \<notin> set (SanitiseGUID s)" "CHR ''.'' \<notin> set (SanitiseGUID s)"
  using SanitiseGUID_chars [of s] not_guid_char_slash not_guid_char_dot
  by (auto simp: list_all_iff simp del: not_guid_char_slash not_guid_char_dot)

section \<open>File names\<close>

lemma SanitiseGUID_not_dots: "SanitiseGUID s \<noteq> ''.''" "SanitiseGUID s \<noteq> ''..''"
  by (metis SanitiseGUID_no_slash(2) list.set_intros(1))+

lemma plain_sanitised: "s \<noteq> '''' \<Longrightarrow> plain_elem (SanitiseGUID s)"
  by (simp add: plain_elem_def SanitiseGUID_not_dots)

lemma plain_file_name:
  "s \<noteq> '''' \<Longrightarrow> ext \<noteq> '''' \<Longrightarrow> CHR ''/'' \<notin> set ext \<Longrightarrow> plain_elem (SanitiseGUID s @ ''.'' @ ext)"
  using SanitiseGUID_no_slash [of s] SanitiseGUID_Nil_iff [of s]
  by (cases "SanitiseGUID s"; cases ext) (auto simp: plain_elem_def)

end
