(* ===== verification/Orm.thy ===== *)
theory Orm
  imports Prelude "HOL-Library.Multiset"
begin

text \<open>
  The object-relational mapper the program keeps its state with (gorm over SQLite).  Its code is
  not part of the repository, so it is a parameter: a record with one function per call the
  program makes, on the rows of one table.  What the program relies on is the locale
  \<open>gorm_table\<close>: it states the documented effect of a call that succeeds and the meaning of the two
  sentinel errors the program inspects, and leaves every call free to fail for any other reason.
  A write that fails leaves no new table behind (gorm runs each write in a transaction).  The
  locale \<open>gorm_available\<close> adds that calls do not fail for undocumented reasons.  A table held in
  memory satisfies both, so the hypotheses can hold; the schemas of the program's tables are
  instances of it in the theories that declare the rows.
\<close>

section \<open>Schemas\<close>

text \<open>
  What gorm reads off a model type: the primary key, the soft-delete column, the columns it fills
  in on \<^verbatim>\<open>Create\<close> and on an update, and when a row violates a unique index because of another.
\<close>

record ('r, 'k) schema =
  sc_pk :: "'r \<Rightarrow> 'k"
  sc_deleted :: "'r \<Rightarrow> bool"
  sc_mark :: "time \<Rightarrow> 'r \<Rightarrow> 'r"
  sc_created :: "'k \<Rightarrow> time \<Rightarrow> 'r \<Rightarrow> 'r"
  sc_updated :: "time \<Rightarrow> 'r \<Rightarrow> 'r"
  sc_conflict :: "'r \<Rightarrow> 'r \<Rightarrow> bool"

definition live_rows :: "('r, 'k) schema \<Rightarrow> ('r \<Rightarrow> bool) \<Rightarrow> 'r list \<Rightarrow> 'r list" where
  "live_rows sc p t = filter (\<lambda>r. \<not> sc_deleted sc r \<and> p r) t"

lemma set_live_rows [simp]:
  "r \<in> set (live_rows sc p t) \<longleftrightarrow> r \<in> set t \<and> \<not> sc_deleted sc r \<and> p r"
  by (auto simp: live_rows_def)

definition total_preorder :: "('r \<Rightarrow> 'r \<Rightarrow> bool) \<Rightarrow> bool" where
  "total_preorder le \<longleftrightarrow>
     (\<forall>a b. le a b \<or> le b a) \<and> (\<forall>a b c. le a b \<longrightarrow> le b c \<longrightarrow> le a c)"

text \<open>The two shapes of an \<^verbatim>\<open>Order(...)\<close> clause: a column ascending or descending.\<close>

definition asc :: "('r \<Rightarrow> 'k::linorder) \<Rightarrow> 'r \<Rightarrow> 'r \<Rightarrow> bool" where
  "asc f a b \<longleftrightarrow> f a \<le> f b"

definition desc :: "('r \<Rightarrow> 'k::linorder) \<Rightarrow> 'r \<Rightarrow> 'r \<Rightarrow> bool" where
  "desc f a b \<longleftrightarrow> f b \<le> f a"

lemma total_preorder_asc [simp]: "total_preorder (asc f)"
  by (auto simp: total_preorder_def asc_def)

lemma total_preorder_desc [simp]: "total_preorder (desc f)"
  by (auto simp: total_preorder_def desc_def)

section \<open>The calls\<close>

text \<open>
  Every call is given the instant it runs at, which is also how a call may fail today and succeed
  tomorrow on the same table.  \<^verbatim>\<open>g_create\<close>, \<^verbatim>\<open>g_save\<close> and \<^verbatim>\<open>g_updates\<close> are given the model's
  \<^verbatim>\<open>BeforeSave\<close> method, which gorm calls before it writes.
  \<^item> \<open>g_first\<close>: \<^verbatim>\<open>db.First(&x, cond)\<close>, and \<open>g_first_order\<close> with an \<^verbatim>\<open>Order\<close> clause;
  \<^item> \<open>g_find\<close>: \<^verbatim>\<open>db.Find(&xs, cond)\<close>, and \<open>g_find_order\<close> with an \<^verbatim>\<open>Order\<close> clause;
  \<^item> \<open>g_assoc\<close>: the query that \<^verbatim>\<open>Preload\<close> runs on the table of an association;
  \<^item> \<open>g_create\<close>: \<^verbatim>\<open>db.Create(&x)\<close>, which also writes the generated columns back into \<^verbatim>\<open>x\<close>;
  \<^item> \<open>g_save\<close>: \<^verbatim>\<open>db.Save(&x)\<close>, every column of the row with the key of \<^verbatim>\<open>x\<close>;
  \<^item> \<open>g_updates\<close>: \<^verbatim>\<open>db.Model(m).Select(cols).Updates(v)\<close>, the function sets those columns;
  \<^item> \<open>g_delete\<close>: \<^verbatim>\<open>db.Where(cond).Delete(&T{})\<close>, with the number of rows affected.
\<close>

record 'r gorm =
  g_first :: "time \<Rightarrow> ('r \<Rightarrow> bool) \<Rightarrow> 'r list \<Rightarrow> 'r result"
  g_first_order :: "time \<Rightarrow> ('r \<Rightarrow> 'r \<Rightarrow> bool) \<Rightarrow> ('r \<Rightarrow> bool) \<Rightarrow> 'r list \<Rightarrow> 'r result"
  g_find :: "time \<Rightarrow> ('r \<Rightarrow> bool) \<Rightarrow> 'r list \<Rightarrow> ('r list) result"
  g_find_order :: "time \<Rightarrow> ('r \<Rightarrow> 'r \<Rightarrow> bool) \<Rightarrow> ('r \<Rightarrow> bool) \<Rightarrow> 'r list \<Rightarrow> ('r list) result"
  g_assoc :: "time \<Rightarrow> ('r \<Rightarrow> bool) \<Rightarrow> 'r list \<Rightarrow> ('r option) result"
  g_create :: "time \<Rightarrow> ('r \<Rightarrow> go_error option) \<Rightarrow> 'r \<Rightarrow> 'r list \<Rightarrow> ('r \<times> 'r list) result"
  g_save :: "time \<Rightarrow> ('r \<Rightarrow> go_error option) \<Rightarrow> 'r \<Rightarrow> 'r list \<Rightarrow> ('r list) result"
  g_updates :: "time \<Rightarrow> ('r \<Rightarrow> go_error option) \<Rightarrow> 'r \<Rightarrow> ('r \<Rightarrow> 'r) \<Rightarrow> 'r list \<Rightarrow> ('r list) result"
  g_delete :: "time \<Rightarrow> ('r \<Rightarrow> bool) \<Rightarrow> 'r list \<Rightarrow> (nat \<times> 'r list) result"

section \<open>What the program relies on\<close>

locale gorm_table =
  fixes sc :: "('r, 'k) schema"
    and g :: "'r gorm"
  assumes first_row:
      "g_first g now p t = Inr r \<Longrightarrow> r \<in> set t \<and> \<not> sc_deleted sc r \<and> p r"
    and first_not_found:
      "g_first g now p t = Inl e \<Longrightarrow> errors_is ErrRecordNotFound e \<Longrightarrow> live_rows sc p t = []"
    and first_order_row:
      "g_first_order g now le p t = Inr r \<Longrightarrow> r \<in> set t \<and> \<not> sc_deleted sc r \<and> p r"
    and first_order_least:
      "g_first_order g now le p t = Inr r \<Longrightarrow> total_preorder le \<Longrightarrow>
       r' \<in> set (live_rows sc p t) \<Longrightarrow> le r r'"
    and first_order_not_found:
      "g_first_order g now le p t = Inl e \<Longrightarrow> errors_is ErrRecordNotFound e \<Longrightarrow>
       live_rows sc p t = []"
    and find_rows:
      "g_find g now p t = Inr rs \<Longrightarrow> mset rs = mset (live_rows sc p t)"
    and find_order_rows:
      "g_find_order g now le p t = Inr rs \<Longrightarrow> mset rs = mset (live_rows sc p t)"
    and find_order_sorted:
      "g_find_order g now le p t = Inr rs \<Longrightarrow> total_preorder le \<Longrightarrow> sorted_wrt le rs"
    and assoc_row:
      "g_assoc g now p t = Inr (Some r) \<Longrightarrow> r \<in> set t \<and> \<not> sc_deleted sc r \<and> p r"
    and assoc_none:
      "g_assoc g now p t = Inr None \<Longrightarrow> live_rows sc p t = []"
    and create_row:
      "g_create g now hook r t = Inr (r', t') \<Longrightarrow>
       hook r = None \<and> t' = t @ [r'] \<and> (\<exists>k. r' = sc_created sc k now r) \<and>
       (\<forall>x \<in> set t. \<not> sc_conflict sc x r')"
    and create_hook:
      "hook r = Some e \<Longrightarrow> g_create g now hook r t = Inl e"
    and create_duplicate:
      "g_create g now hook r t = Inl e \<Longrightarrow> hook r = None \<Longrightarrow> errors_is ErrDuplicatedKey e \<Longrightarrow>
       \<exists>k. k \<notin> sc_pk sc ` set t \<and> (\<exists>x \<in> set t. sc_conflict sc x (sc_created sc k now r))"
    and save_hook:
      "hook r = Some e \<Longrightarrow> g_save g now hook r t = Inl e"
    and save_row:
      "g_save g now hook r t = Inr t' \<Longrightarrow> x \<in> set t \<Longrightarrow> \<not> sc_deleted sc x \<Longrightarrow>
       sc_pk sc x = sc_pk sc r \<Longrightarrow>
       t' = upd_where (\<lambda>y. sc_pk sc y = sc_pk sc r) (\<lambda>_. sc_updated sc now r) t \<and>
       (\<forall>y \<in> set t. sc_pk sc y \<noteq> sc_pk sc r \<longrightarrow> \<not> sc_conflict sc y r)"
    and save_duplicate:
      "g_save g now hook r t = Inl e \<Longrightarrow> hook r = None \<Longrightarrow> errors_is ErrDuplicatedKey e \<Longrightarrow>
       \<exists>y \<in> set t. sc_conflict sc y r \<and> (sc_pk sc y = sc_pk sc r \<longrightarrow> sc_deleted sc y)"
    and updates_hook:
      "hook m = Some e \<Longrightarrow> g_updates g now hook m f t = Inl e"
    and updates_rows:
      "g_updates g now hook m f t = Inr t' \<Longrightarrow>
       t' = upd_where (\<lambda>y. sc_pk sc y = sc_pk sc m \<and> \<not> sc_deleted sc y)
              (\<lambda>y. sc_updated sc now (f y)) t"
    and delete_rows:
      "g_delete g now p t = Inr (n, t') \<Longrightarrow>
       n = length (live_rows sc p t) \<and>
       t' = upd_where (\<lambda>y. \<not> sc_deleted sc y \<and> p y) (sc_mark sc now) t"
begin

lemma create_ok:
  assumes "g_create g now hook r t = Inr (r', t')"
  shows "hook r = None" "t' = t @ [r']" "\<exists>k. r' = sc_created sc k now r"
    "\<And>x. x \<in> set t \<Longrightarrow> \<not> sc_conflict sc x r'"
  using create_row [OF assms] by auto

lemma save_ok_hook: "g_save g now hook r t = Inr t' \<Longrightarrow> hook r = None"
  using save_hook [of hook r _ now t] by (cases "hook r") auto

lemma updates_ok_hook: "g_updates g now hook m f t = Inr t' \<Longrightarrow> hook m = None"
  using updates_hook [of hook m _ now f t] by (cases "hook m") auto

lemma find_set: "g_find g now p t = Inr rs \<Longrightarrow> set rs = set (live_rows sc p t)"
  by (metis find_rows mset_eq_setD)

lemma find_order_set: "g_find_order g now le p t = Inr rs \<Longrightarrow> set rs = set (live_rows sc p t)"
  by (metis find_order_rows mset_eq_setD)

end

locale gorm_available = gorm_table +
  assumes first_total:
      "live_rows sc p t \<noteq> [] \<Longrightarrow> \<exists>r. g_first g now p t = Inr r"
    and first_absent:
      "live_rows sc p t = [] \<Longrightarrow> g_first g now p t = Inl (Sentinel ErrRecordNotFound)"
    and first_order_total:
      "live_rows sc p t \<noteq> [] \<Longrightarrow> \<exists>r. g_first_order g now le p t = Inr r"
    and first_order_absent:
      "live_rows sc p t = [] \<Longrightarrow> g_first_order g now le p t = Inl (Sentinel ErrRecordNotFound)"
    and find_total: "\<exists>rs. g_find g now p t = Inr rs"
    and find_order_total: "\<exists>rs. g_find_order g now le p t = Inr rs"
    and assoc_total: "\<exists>r. g_assoc g now p t = Inr r"
    and create_total:
      "hook r = None \<Longrightarrow>
       (\<And>k x. k \<notin> sc_pk sc ` set t \<Longrightarrow> x \<in> set t \<Longrightarrow> \<not> sc_conflict sc x (sc_created sc k now r)) \<Longrightarrow>
       \<exists>r' t'. g_create g now hook r t = Inr (r', t')"
    and create_refused:
      "hook r = None \<Longrightarrow> x \<in> set t \<Longrightarrow> (\<And>k. sc_conflict sc x (sc_created sc k now r)) \<Longrightarrow>
       g_create g now hook r t = Inl (Sentinel ErrDuplicatedKey)"
    and save_total:
      "hook r = None \<Longrightarrow> x \<in> set t \<Longrightarrow> \<not> sc_deleted sc x \<Longrightarrow> sc_pk sc x = sc_pk sc r \<Longrightarrow>
       (\<And>y. y \<in> set t \<Longrightarrow> sc_pk sc y \<noteq> sc_pk sc r \<Longrightarrow> \<not> sc_conflict sc y r) \<Longrightarrow>
       \<exists>t'. g_save g now hook r t = Inr t'"
    and updates_total:
      "hook m = None \<Longrightarrow> \<exists>t'. g_updates g now hook m f t = Inr t'"
    and delete_total: "\<exists>n t'. g_delete g now p t = Inr (n, t')"

section \<open>Operations on a table\<close>

text \<open>
  The contract every writing operation of the program has: when it returns an error the table is
  the one it started from, and in any case the table's invariant is kept.  Sequences of operations
  keep it too.
\<close>

text \<open>A table changed by operations only.\<close>

definition changed_by ::
  "('d \<Rightarrow> 'a \<Rightarrow> 'r list \<Rightarrow> go_error option \<times> 'r list) \<Rightarrow> 'd \<Rightarrow> 'r list \<Rightarrow> 'r list \<Rightarrow> bool" where
  "changed_by run d t t' \<longleftrightarrow> (\<exists>ops. t' = fold (\<lambda>op t. snd (run d op t)) ops t)"

lemma changed_by_refl [simp]: "changed_by run d t t"
  unfolding changed_by_def by (intro exI [of _ "[]"]) simp

lemma changed_by_op: "changed_by run d t (snd (run d op t))"
  unfolding changed_by_def by (intro exI [of _ "[op]"]) simp

lemma changed_by_trans: "changed_by run d t t1 \<Longrightarrow> changed_by run d t1 t2 \<Longrightarrow> changed_by run d t t2"
  unfolding changed_by_def by (metis fold_append comp_apply)

lemma changed_by_run: "run d op t = (e, t') \<Longrightarrow> changed_by run d t t'"
  using changed_by_op [of run d t op] by simp

locale table_operation =
  fixes ok :: "'d \<Rightarrow> bool"
    and inv :: "'d \<Rightarrow> 'r list \<Rightarrow> bool"
    and run :: "'d \<Rightarrow> 'a \<Rightarrow> 'r list \<Rightarrow> go_error option \<times> 'r list"
  assumes op_atomic: "run d a t = (Some e, t') \<Longrightarrow> t' = t"
    and op_keeps: "ok d \<Longrightarrow> inv d t \<Longrightarrow> run d a t = (None, t') \<Longrightarrow> inv d t'"
begin

lemma op_inv: "ok d \<Longrightarrow> inv d t \<Longrightarrow> inv d (snd (run d a t))"
proof (cases "run d a t")
  case (Pair e t')
  assume "ok d" "inv d t"
  with Pair show ?thesis by (cases e) (auto dest: op_atomic op_keeps)
qed

lemma ops_inv: "ok d \<Longrightarrow> inv d t \<Longrightarrow> inv d (fold (\<lambda>a t. snd (run d a t)) as t)"
  by (induction as arbitrary: t) (auto simp: op_inv)

lemma changed_inv: "ok d \<Longrightarrow> inv d t \<Longrightarrow> changed_by run d t t' \<Longrightarrow> inv d t'"
  by (auto simp: changed_by_def ops_inv)

end

end
