(* ===== verification/OrmMem.thy ===== *)
theory OrmMem
  imports Orm
begin

text \<open>
  A table held in memory: one concrete \<^typ>\<open>'r gorm\<close> for every schema, which satisfies the laws the
  program relies on.  The component theories interpret the locale on it at the program's own
  schemas, and the witnesses of the development run the program on it.
\<close>

fun insert_by :: "('r \<Rightarrow> 'r \<Rightarrow> bool) \<Rightarrow> 'r \<Rightarrow> 'r list \<Rightarrow> 'r list" where
  "insert_by le x [] = [x]"
| "insert_by le x (y # ys) = (if le x y then x # y # ys else y # insert_by le x ys)"

fun sort_by :: "('r \<Rightarrow> 'r \<Rightarrow> bool) \<Rightarrow> 'r list \<Rightarrow> 'r list" where
  "sort_by le [] = []"
| "sort_by le (x # xs) = insert_by le x (sort_by le xs)"

lemma mset_insert_by [simp]: "mset (insert_by le x xs) = add_mset x (mset xs)"
  by (induction xs) auto

lemma mset_sort_by [simp]: "mset (sort_by le xs) = mset xs"
  by (induction xs) auto

lemma set_sort_by [simp]: "set (sort_by le xs) = set xs"
  by (metis mset_sort_by set_mset_mset)

lemma set_insert_by [simp]: "set (insert_by le x xs) = insert x (set xs)"
  by (induction xs) auto

lemma sort_by_Nil_iff [simp]: "sort_by le xs = [] \<longleftrightarrow> xs = []"
  by (metis mset_sort_by mset_zero_iff)

lemma sorted_insert_by:
  assumes "total_preorder le"
  shows "sorted_wrt le xs \<Longrightarrow> sorted_wrt le (insert_by le x xs)"
proof (induction xs)
  case (Cons y ys)
  show ?case
  proof (cases "le x y")
    case True
    with Cons.prems assms show ?thesis by (auto simp: total_preorder_def)
  next
    case False
    with assms have "le y x" by (auto simp: total_preorder_def)
    with False Cons show ?thesis by auto
  qed
qed simp

lemma sorted_sort_by: "total_preorder le \<Longrightarrow> sorted_wrt le (sort_by le xs)"
  by (induction xs) (auto simp: sorted_insert_by)

definition mem_pick :: "'r list \<Rightarrow> 'r result" where
  "mem_pick rs = (case rs of [] \<Rightarrow> Inl (Sentinel ErrRecordNotFound) | r # _ \<Rightarrow> Inr r)"

definition mem_create ::
  "('r, 'k) schema \<Rightarrow> ('r list \<Rightarrow> 'k) \<Rightarrow> time \<Rightarrow> ('r \<Rightarrow> go_error option) \<Rightarrow> 'r \<Rightarrow> 'r list \<Rightarrow>
   ('r \<times> 'r list) result" where
  "mem_create sc fresh now hook r t =
     (case hook r of
        Some e \<Rightarrow> Inl e
      | None \<Rightarrow>
          let r' = sc_created sc (fresh t) now r
          in if list_ex (\<lambda>x. sc_conflict sc x r') t then Inl (Sentinel ErrDuplicatedKey)
             else Inr (r', t @ [r']))"

definition mem_save ::
  "('r, 'k) schema \<Rightarrow> time \<Rightarrow> ('r \<Rightarrow> go_error option) \<Rightarrow> 'r \<Rightarrow> 'r list \<Rightarrow> ('r list) result" where
  "mem_save sc now hook r t =
     (case hook r of
        Some e \<Rightarrow> Inl e
      | None \<Rightarrow>
          if list_ex (\<lambda>y. sc_pk sc y \<noteq> sc_pk sc r \<and> sc_conflict sc y r) t
          then Inl (Sentinel ErrDuplicatedKey)
          else if list_ex (\<lambda>y. sc_pk sc y = sc_pk sc r) t
          then Inr (upd_where (\<lambda>y. sc_pk sc y = sc_pk sc r) (\<lambda>_. sc_updated sc now r) t)
          else Inr (t @ [sc_updated sc now r]))"

definition mem_gorm :: "('r, 'k) schema \<Rightarrow> ('r list \<Rightarrow> 'k) \<Rightarrow> 'r gorm" where
  "mem_gorm sc fresh =
     \<lparr>g_first = (\<lambda>now p t. mem_pick (live_rows sc p t)),
      g_first_order = (\<lambda>now le p t. mem_pick (sort_by le (live_rows sc p t))),
      g_find = (\<lambda>now p t. Inr (live_rows sc p t)),
      g_find_order = (\<lambda>now le p t. Inr (sort_by le (live_rows sc p t))),
      g_assoc = (\<lambda>now p t. Inr (case live_rows sc p t of [] \<Rightarrow> None | r # _ \<Rightarrow> Some r)),
      g_create = mem_create sc fresh,
      g_save = mem_save sc,
      g_updates = (\<lambda>now hook m f t.
        (case hook m of
           Some e \<Rightarrow> Inl e
         | None \<Rightarrow> Inr (upd_where (\<lambda>y. sc_pk sc y = sc_pk sc m \<and> \<not> sc_deleted sc y)
                         (\<lambda>y. sc_updated sc now (f y)) t))),
      g_delete = (\<lambda>now p t.
        Inr (length (live_rows sc p t),
             upd_where (\<lambda>y. \<not> sc_deleted sc y \<and> p y) (sc_mark sc now) t))\<rparr>"

lemma mem_pick_Inr: "mem_pick rs = Inr r \<longleftrightarrow> (\<exists>xs. rs = r # xs)"
  by (cases rs) (auto simp: mem_pick_def)

lemma mem_pick_Inl: "mem_pick rs = Inl e \<longleftrightarrow> rs = [] \<and> e = Sentinel ErrRecordNotFound"
  by (cases rs) (auto simp: mem_pick_def)

definition schema_ok :: "('r, 'k) schema \<Rightarrow> ('r list \<Rightarrow> 'k) \<Rightarrow> bool" where
  "schema_ok sc fresh \<longleftrightarrow>
     (\<forall>t. fresh t \<notin> sc_pk sc ` set t) \<and>
     (\<forall>x y. sc_pk sc x = sc_pk sc y \<longrightarrow> sc_conflict sc x y)"

lemma mem_first_in: "r # xs = live_rows sc p t \<Longrightarrow> r \<in> set t \<and> \<not> sc_deleted sc r \<and> p r"
  by (metis list.set_intros(1) set_live_rows)

lemma mem_sorted_first:
  assumes "sort_by le (live_rows sc p t) = r # xs"
  shows "r \<in> set t \<and> \<not> sc_deleted sc r \<and> p r"
    and "total_preorder le \<Longrightarrow> r' \<in> set (live_rows sc p t) \<Longrightarrow> le r r'"
proof -
  have eq: "set (r # xs) = set (live_rows sc p t)" by (metis assms set_sort_by)
  then show "r \<in> set t \<and> \<not> sc_deleted sc r \<and> p r"
    by (metis list.set_intros(1) set_live_rows)
  assume le: "total_preorder le" and r': "r' \<in> set (live_rows sc p t)"
  have "sorted_wrt le (r # xs)" using le assms sorted_sort_by by metis
  moreover have "r' \<in> set (r # xs)" using r' by (simp only: eq)
  moreover have "le r r" using le by (auto simp: total_preorder_def)
  ultimately show "le r r'" by auto
qed

lemma mem_create_Inr:
  "mem_create sc fresh now hook r t = Inr (r', t') \<longleftrightarrow>
     hook r = None \<and> r' = sc_created sc (fresh t) now r \<and> t' = t @ [r'] \<and>
     (\<forall>x \<in> set t. \<not> sc_conflict sc x r')"
  by (auto simp: mem_create_def Let_def list_ex_iff split: option.splits)

lemma mem_create_Inl:
  "mem_create sc fresh now hook r t = Inl e \<longleftrightarrow>
     hook r = Some e \<or>
     hook r = None \<and> e = Sentinel ErrDuplicatedKey \<and>
     (\<exists>x \<in> set t. sc_conflict sc x (sc_created sc (fresh t) now r))"
  by (auto simp: mem_create_def Let_def list_ex_iff split: option.splits)

lemma mem_save_Inr:
  assumes "x \<in> set t" "sc_pk sc x = sc_pk sc r"
  shows "mem_save sc now hook r t = Inr t' \<longleftrightarrow>
     hook r = None \<and> (\<forall>y \<in> set t. sc_pk sc y \<noteq> sc_pk sc r \<longrightarrow> \<not> sc_conflict sc y r) \<and>
     t' = upd_where (\<lambda>y. sc_pk sc y = sc_pk sc r) (\<lambda>_. sc_updated sc now r) t"
proof -
  have "list_ex (\<lambda>y. sc_pk sc y = sc_pk sc r) t"
    using assms by (auto simp: list_ex_iff)
  moreover have "list_ex (\<lambda>y. sc_pk sc y \<noteq> sc_pk sc r \<and> sc_conflict sc y r) t \<longleftrightarrow>
      \<not> (\<forall>y \<in> set t. sc_pk sc y \<noteq> sc_pk sc r \<longrightarrow> \<not> sc_conflict sc y r)"
    by (auto simp: list_ex_iff)
  ultimately show ?thesis
    by (cases "hook r") (simp_all add: mem_save_def, blast)
qed

lemma mem_save_Inl:
  "mem_save sc now hook r t = Inl e \<longleftrightarrow>
     hook r = Some e \<or>
     hook r = None \<and> e = Sentinel ErrDuplicatedKey \<and>
     (\<exists>y \<in> set t. sc_pk sc y \<noteq> sc_pk sc r \<and> sc_conflict sc y r)"
  by (auto simp: mem_save_def list_ex_iff split: option.splits)

text \<open>The table in memory satisfies every law, at every schema that declares its primary key.\<close>

lemma mem_gorm_table: "schema_ok sc fresh \<Longrightarrow> gorm_table sc (mem_gorm sc fresh)"
proof (rule gorm_table.intro, goal_cases)
  case (1 now p t r)
  then show ?case by (simp add: mem_gorm_def mem_pick_Inr) (metis mem_first_in)
next
  case (2 now p t e)
  then show ?case by (simp add: mem_gorm_def mem_pick_Inl)
next
  case (3 now le p t r)
  then show ?case by (simp add: mem_gorm_def mem_pick_Inr) (metis mem_sorted_first(1))
next
  case (4 now le p t r r')
  then show ?case by (simp add: mem_gorm_def mem_pick_Inr del: set_live_rows) (metis mem_sorted_first(2))
next
  case (5 now le p t e)
  then show ?case by (simp add: mem_gorm_def mem_pick_Inl)
next
  case (6 now p t rs)
  then show ?case by (simp add: mem_gorm_def)
next
  case (7 now le p t rs)
  then show ?case by (auto simp: mem_gorm_def)
next
  case (8 now le p t rs)
  then show ?case by (auto simp: mem_gorm_def sorted_sort_by)
next
  case (9 now p t r)
  then show ?case
    by (cases "live_rows sc p t") (auto simp: mem_gorm_def dest!: mem_first_in [OF sym])
next
  case (10 now p t)
  then show ?case by (cases "live_rows sc p t") (auto simp: mem_gorm_def)
next
  case (11 now hook r t r' t')
  then show ?case by (auto simp: mem_gorm_def mem_create_Inr)
next
  case (12 hook r e now t)
  then show ?case by (simp add: mem_gorm_def mem_create_Inl)
next
  case (13 now hook r t e)
  then show ?case by (auto simp: mem_gorm_def mem_create_Inl schema_ok_def)
next
  case (14 hook r e now t)
  then show ?case by (simp add: mem_gorm_def mem_save_Inl)
next
  case (15 now hook r t t' x)
  then show ?case by (simp add: mem_gorm_def mem_save_Inr)
next
  case (16 now hook r t e)
  then show ?case by (auto simp: mem_gorm_def mem_save_Inl)
next
  case (17 hook m e now f t)
  then show ?case by (simp add: mem_gorm_def)
next
  case (18 now hook m f t t')
  then show ?case by (cases "hook m") (simp_all add: mem_gorm_def)
next
  case (19 now p t n t')
  then show ?case by (simp add: mem_gorm_def)
qed

lemma mem_gorm_available: "schema_ok sc fresh \<Longrightarrow> gorm_available sc (mem_gorm sc fresh)"
proof -
  assume ok: "schema_ok sc fresh"
  have "gorm_available_axioms sc (mem_gorm sc fresh)"
  proof (rule gorm_available_axioms.intro, goal_cases)
    case (1 p t now)
    then show ?case by (auto simp: mem_gorm_def mem_pick_def split: list.splits)
  next
    case (2 p t now)
    then show ?case by (simp add: mem_gorm_def mem_pick_Inl)
  next
    case (3 p t now le)
    then show ?case
      by (cases "sort_by le (live_rows sc p t)") (auto simp: mem_gorm_def mem_pick_def)
  next
    case (4 p t now le)
    then show ?case by (simp add: mem_gorm_def mem_pick_Inl)
  next
    case (5 now p t)
    then show ?case by (simp add: mem_gorm_def)
  next
    case (6 now le p t)
    then show ?case by (simp add: mem_gorm_def)
  next
    case (7 now p t)
    then show ?case by (simp add: mem_gorm_def)
  next
    case (8 hook r t now)
    then show ?case using ok by (auto simp: mem_gorm_def mem_create_Inr schema_ok_def)
  next
    case (9 hook r x t now)
    then show ?case by (auto simp: mem_gorm_def mem_create_Inl)
  next
    case (10 hook r x t now)
    then show ?case by (simp add: mem_gorm_def mem_save_Inr)
  next
    case (11 hook m now f t)
    then show ?case by (simp add: mem_gorm_def)
  next
    case (12 now p t)
    then show ?case by (simp add: mem_gorm_def)
  qed
  with mem_gorm_table [OF ok] show ?thesis by (simp add: gorm_available_def)
qed

text \<open>Fresh keys for the two kinds of primary key: a number above all, a string longer than all.\<close>

definition fresh_id :: "('r \<Rightarrow> nat) \<Rightarrow> 'r list \<Rightarrow> nat" where
  "fresh_id pk t = Suc (foldr max (map pk t) 0)"

definition fresh_str :: "('r \<Rightarrow> string) \<Rightarrow> 'r list \<Rightarrow> string" where
  "fresh_str pk t = replicate (Suc (foldr max (map (length \<circ> pk) t) 0)) (CHR ''k'')"

lemma foldr_max_ge: "(n::nat) \<in> set ns \<Longrightarrow> n \<le> foldr max ns 0"
  by (induction ns) auto

lemma fresh_id_fresh: "fresh_id pk t \<notin> pk ` set t"
proof
  assume "fresh_id pk t \<in> pk ` set t"
  then have "fresh_id pk t \<le> foldr max (map pk t) 0" by (auto intro!: foldr_max_ge)
  then show False by (simp add: fresh_id_def)
qed

lemma fresh_str_fresh: "fresh_str pk t \<notin> pk ` set t"
proof
  assume "fresh_str pk t \<in> pk ` set t"
  then have "length (fresh_str pk t) \<le> foldr max (map (length \<circ> pk) t) 0"
    by (metis (no_types, lifting) foldr_max_ge image_comp image_eqI list.set_map)
  then show False by (simp add: fresh_str_def)
qed

end
