(* ===== verification/GormModel.thy ===== *)
theory GormModel
  imports OrmMem
begin

text \<open>
  What every model with an embedded \<^verbatim>\<open>gorm.Model\<close> has in common: the key, the time stamps and the
  soft-delete column; and \<^verbatim>\<open>db.Transaction\<close>.
\<close>

text \<open>The columns \<^verbatim>\<open>gorm.Model\<close> embeds in a model.\<close>

record gorm_model =
  ID :: nat
  CreatedAt :: time
  UpdatedAt :: time
  DeletedAt :: "time option"

text \<open>The columns \<^verbatim>\<open>Create\<close> fills in when they are zero.\<close>

definition model_created :: "nat \<Rightarrow> time \<Rightarrow> 'a gorm_model_scheme \<Rightarrow> 'a gorm_model_scheme" where
  "model_created k now r =
     r\<lparr>ID := (if ID r = 0 then k else ID r),
       CreatedAt := (if CreatedAt r = time_zero then now else CreatedAt r),
       UpdatedAt := (if UpdatedAt r = time_zero then now else UpdatedAt r)\<rparr>"

section \<open>Transactions\<close>

text \<open>
  \<^verbatim>\<open>db.Transaction\<close>: beginning and committing may fail; an error of the closure or of the commit
  rolls everything back.
\<close>

record transactions =
  tx_begin :: "time \<Rightarrow> go_error option"
  tx_commit :: "time \<Rightarrow> go_error option"

definition Transaction ::
  "transactions \<Rightarrow> (nat \<Rightarrow> time) \<Rightarrow> ('s \<Rightarrow> go_error option \<times> 's) \<Rightarrow> 's \<Rightarrow> go_error option \<times> 's" where
  "Transaction X cl fc s =
     (case tx_begin X (cl 0) of
        Some err \<Rightarrow> (Some err, s)
      | None \<Rightarrow>
          (case fc s of
             (Some err, _) \<Rightarrow> (Some err, s)
           | (None, s') \<Rightarrow>
               (case tx_commit X (cl 0) of
                  Some err \<Rightarrow> (Some err, s)
                | None \<Rightarrow> (None, s'))))"

lemma Transaction_error: "Transaction X cl fc s = (Some e, s') \<Longrightarrow> s' = s"
  by (auto simp: Transaction_def split: option.splits prod.splits)

lemma Transaction_ok: "Transaction X cl fc s = (None, s') \<Longrightarrow> fc s = (None, s')"
  by (auto simp: Transaction_def split: option.splits prod.splits)

definition tx_works :: "transactions \<Rightarrow> bool" where
  "tx_works X \<longleftrightarrow> tx_begin X = (\<lambda>_. None) \<and> tx_commit X = (\<lambda>_. None)"

lemma Transaction_works:
  "tx_works X \<Longrightarrow> Transaction X cl fc s = (case fc s of (Some e, _) \<Rightarrow> (Some e, s) | r \<Rightarrow> r)"
  by (auto simp: Transaction_def tx_works_def split: prod.splits option.splits)

definition plain_tx :: transactions where
  "plain_tx = \<lparr>tx_begin = (\<lambda>_. None), tx_commit = (\<lambda>_. None)\<rparr>"

lemma plain_tx_works [simp]: "tx_works plain_tx"
  by (simp add: tx_works_def plain_tx_def)

end
