(* ===== verification/Validator.thy ===== *)
theory Validator
  imports GoUrl
begin

text \<open>
  The struct validator (go-playground/validator) that every \<^verbatim>\<open>BeforeSave\<close> hook and every form is
  checked with.  Its code is not part of the repository: the meaning of a tag is a parameter, and
  the locale \<open>tag_meaning\<close> states what its documentation says of the tags the program uses.  The
  structs' own tags are translated where the structs are declared.
\<close>

datatype vtag =
    Required
  | Gte int
  | Gt int
  | Lte int
  | Oneof "string list"
  | HttpUrl
  | RequiredIf bool
  | Omitempty "vtag list"

text \<open>
  \<^verbatim>\<open>required_if=F v\<close> is given whether the field F has the value v, and \<^verbatim>\<open>omitempty\<close> the tags after it.
\<close>

text \<open>A field as the validator sees it: a string, a number, a slice known by its length,
  or a struct known by whether it has a field that is not zero.\<close>

datatype field_value = FStr string | FInt int | FLen nat | FStruct bool

type_synonym validator = "vtag \<Rightarrow> field_value \<Rightarrow> bool"
type_synonym field = "string \<times> vtag list \<times> field_value"

definition field_ok :: "validator \<Rightarrow> field \<Rightarrow> bool" where
  "field_ok V f = (case f of (name, tags, v) \<Rightarrow> list_all (\<lambda>t. V t v) tags)"

text \<open>\<^verbatim>\<open>validate.Struct\<close>: one error per field that fails, known by the field's name.\<close>

definition validate_struct :: "validator \<Rightarrow> field list \<Rightarrow> go_error option" where
  "validate_struct V fs =
     (let bad = map fst (filter (\<lambda>f. \<not> field_ok V f) fs)
      in if bad = [] then None else Some (ValidationErrors bad))"

lemma validate_struct_None:
  "validate_struct V fs = None \<longleftrightarrow> (\<forall>f \<in> set fs. field_ok V f)"
  by (auto simp: validate_struct_def Let_def filter_empty_conv)

lemma validate_struct_not_sentinel:
  "validate_struct V fs = Some e \<Longrightarrow> \<not> errors_is s e"
  by (auto simp: validate_struct_def Let_def split: if_splits)

lemma validate_struct_Some_not_sentinel [simp]:
  "validate_struct V fs = Some (Sentinel s) \<longleftrightarrow> False"
  by (auto simp: validate_struct_def Let_def)

locale tag_meaning =
  fixes V :: validator
  assumes required_str: "V Required (FStr s) \<longleftrightarrow> s \<noteq> []"
    and required_int: "V Required (FInt i) \<longleftrightarrow> i \<noteq> 0"
    and gte_str: "V (Gte n) (FStr s) \<longleftrightarrow> n \<le> int (rune_count s)"
    and gte_int: "V (Gte n) (FInt i) \<longleftrightarrow> n \<le> i"
    and gt_int: "V (Gt n) (FInt i) \<longleftrightarrow> n < i"
    and lte_str: "V (Lte n) (FStr s) \<longleftrightarrow> int (rune_count s) \<le> n"
    and lte_int: "V (Lte n) (FInt i) \<longleftrightarrow> i \<le> n"
    and lte_len: "V (Lte n) (FLen k) \<longleftrightarrow> int k \<le> n"
    and oneof_str: "V (Oneof xs) (FStr s) \<longleftrightarrow> s \<in> set xs"
    and required_struct: "V Required (FStruct nonzero) \<longleftrightarrow> nonzero"
    and required_if: "V (RequiredIf holds) v \<longleftrightarrow> (holds \<longrightarrow> V Required v)"
    and omitempty_str: "V (Omitempty ts) (FStr s) \<longleftrightarrow> s = [] \<or> list_all (\<lambda>t. V t (FStr s)) ts"
begin

lemmas tag_simps = required_str required_int gte_str gte_int gt_int lte_str lte_int lte_len oneof_str
  required_struct required_if omitempty_str

lemma short_string_ok:
  "length s \<le> n \<Longrightarrow> V (Lte (int n)) (FStr s)"
  using rune_count_le [of s] by (simp add: lte_str)

end

text \<open>
  A validator that has these meanings, for the witnesses: \<^verbatim>\<open>http_url\<close> is read as "an absolute http or
  https address with a host".
\<close>

fun is_zero :: "field_value \<Rightarrow> bool" where
  "is_zero (FStr s) = (s = [])"
| "is_zero (FInt i) = (i = 0)"
| "is_zero (FLen k) = (k = 0)"
| "is_zero (FStruct nonzero) = (\<not> nonzero)"

fun std_validator :: validator where
  "std_validator Required (FStr s) = (s \<noteq> [])"
| "std_validator Required (FInt i) = (i \<noteq> 0)"
| "std_validator Required (FLen k) = (k \<noteq> 0)"
| "std_validator Required (FStruct nonzero) = nonzero"
| "std_validator (Gte n) (FStr s) = (n \<le> int (rune_count s))"
| "std_validator (Gte n) (FInt i) = (n \<le> i)"
| "std_validator (Gte n) (FLen k) = (n \<le> int k)"
| "std_validator (Gte n) (FStruct nonzero) = False"
| "std_validator (Gt n) (FStr s) = (n < int (rune_count s))"
| "std_validator (Gt n) (FInt i) = (n < i)"
| "std_validator (Gt n) (FLen k) = (n < int k)"
| "std_validator (Gt n) (FStruct nonzero) = False"
| "std_validator (Lte n) (FStr s) = (int (rune_count s) \<le> n)"
| "std_validator (Lte n) (FInt i) = (i \<le> n)"
| "std_validator (Lte n) (FLen k) = (int k \<le> n)"
| "std_validator (Lte n) (FStruct nonzero) = False"
| "std_validator (Oneof xs) (FStr s) = (s \<in> set xs)"
| "std_validator (Oneof xs) _ = False"
| "std_validator HttpUrl (FStr s) =
     (case url_Parse s of
        None \<Rightarrow> False
      | Some u \<Rightarrow> Host u \<noteq> '''' \<and> (Scheme u = ''http'' \<or> Scheme u = ''https''))"
| "std_validator HttpUrl _ = False"
| "std_validator (RequiredIf holds) v = (holds \<longrightarrow> \<not> is_zero v)"
| "std_validator (Omitempty ts) v = (is_zero v \<or> list_all (\<lambda>t. std_validator t v) ts)"

lemma std_required: "std_validator Required v \<longleftrightarrow> \<not> is_zero v"
  by (cases v) auto

interpretation std_tags: tag_meaning std_validator
  by unfold_locales (auto simp: std_required)

end
