(* ===== verification/Users.thy ===== *)
theory Users
  imports GormModel Validator
begin

text \<open>
  The package \<^verbatim>\<open>pkg/auth/users\<close> (\<^verbatim>\<open>user.go\<close>): user accounts, their access levels, the password
  rules, and the operations on the users table.  The lemmas show that every operation keeps the
  table well formed (unique identifiers and names, valid rows), that a failing operation leaves it
  unchanged, what each operation changes when it succeeds, and that a deleted user is not found
  again while the name stays taken.
\<close>

section \<open>Rows\<close>

record User = gorm_model +
  Username :: string
  Password :: string
  AccessLevel :: int

definition user_zero :: User where
  "user_zero = \<lparr>ID = 0, CreatedAt = time_zero, UpdatedAt = time_zero, DeletedAt = None,
     Username = '''', Password = '''', AccessLevel = 0\<rparr>"

definition user_schema :: "(User, nat) schema" where
  "user_schema =
     \<lparr>sc_pk = ID, sc_deleted = (\<lambda>u. DeletedAt u \<noteq> None),
      sc_mark = (\<lambda>now u. u\<lparr>DeletedAt := Some now\<rparr>),
      sc_created = model_created,
      sc_updated = (\<lambda>now u. u\<lparr>UpdatedAt := now\<rparr>),
      sc_conflict = (\<lambda>x y. ID x = ID y \<or> Username x = Username y)\<rparr>"

lemma user_schema_simps [simp]:
  "sc_pk user_schema = ID"
  "sc_deleted user_schema = (\<lambda>u. DeletedAt u \<noteq> None)"
  "sc_mark user_schema now = (\<lambda>u. u\<lparr>DeletedAt := Some now\<rparr>)"
  "sc_created user_schema = model_created"
  "sc_updated user_schema now = (\<lambda>u. u\<lparr>UpdatedAt := now\<rparr>)"
  "sc_conflict user_schema x y \<longleftrightarrow> ID x = ID y \<or> Username x = Username y"
  by (simp_all add: user_schema_def)

lemma model_created_user [simp]:
  "Username (model_created k now u) = Username u"
  "Password (model_created k now u) = Password u"
  "AccessLevel (model_created k now u) = AccessLevel u"
  "DeletedAt (model_created k now u) = DeletedAt u"
  by (simp_all add: model_created_def)

definition mem_users :: "User gorm" where
  "mem_users = mem_gorm user_schema (fresh_id ID)"

lemma user_schema_ok: "schema_ok user_schema (fresh_id ID)"
  using fresh_id_fresh [of "ID :: User \<Rightarrow> nat"] by (auto simp: schema_ok_def)

interpretation mem_users: gorm_available user_schema mem_users
  unfolding mem_users_def by (rule mem_gorm_available [OF user_schema_ok])

section \<open>Validation, passwords and access levels\<close>

definition User_fields :: "User \<Rightarrow> field list" where
  "User_fields u =
     [(''Username'', [Required, Gte 1, Lte 50], FStr (Username u)),
      (''Password'', [Required, Gte 1], FStr (Password u)),
      (''AccessLevel'', [Required, Gte 1, Lte 3], FInt (AccessLevel u))]"

definition User_BeforeSave :: "validator \<Rightarrow> User \<Rightarrow> go_error option" where
  "User_BeforeSave V u =
     (case validate_struct V (User_fields u) of
        Some err \<Rightarrow> Some (Wrapped ''user not valid: '' err)
      | None \<Rightarrow> None)"

text \<open>
  bcrypt is a library of its own: hashing (given its cost and the random salt it draws) and
  comparing.  The program relies on a hash matching the password it was made from.
\<close>

record bcrypt =
  GenerateFromPassword :: "nat \<Rightarrow> nat \<Rightarrow> string \<Rightarrow> string result"
  CompareHashAndPassword :: "string \<Rightarrow> string \<Rightarrow> go_error option"

locale password_hashing =
  fixes B :: bcrypt
  assumes hash_matches:
    "GenerateFromPassword B cost rnd pw = Inr h \<Longrightarrow> CompareHashAndPassword B h pw = None"

definition CheckPassword :: "bcrypt \<Rightarrow> User \<Rightarrow> string \<Rightarrow> go_error option" where
  "CheckPassword B u password = CompareHashAndPassword B (Password u) password"

definition CheckAccessLevel :: "User \<Rightarrow> int \<Rightarrow> bool" where
  "CheckAccessLevel u requiredAccessLevel \<longleftrightarrow> AccessLevel u \<ge> requiredAccessLevel"

abbreviation AccessLevelNone :: int where "AccessLevelNone \<equiv> - 1"
abbreviation AccessLevelReadOnly :: int where "AccessLevelReadOnly \<equiv> 1"
abbreviation AccessLevelManagePodcasts :: int where "AccessLevelManagePodcasts \<equiv> 2"
abbreviation AccessLevelAdmin :: int where "AccessLevelAdmin \<equiv> 3"

definition AccessLevels :: "int list" where
  "AccessLevels = [AccessLevelReadOnly, AccessLevelManagePodcasts, AccessLevelAdmin]"

definition alMap :: "int \<Rightarrow> string option" where
  "alMap =
     [AccessLevelReadOnly \<mapsto> ''Read only'', AccessLevelManagePodcasts \<mapsto> ''Manage podcasts'',
      AccessLevelAdmin \<mapsto> ''Admin'']"

definition AccessLevel_Format :: "int \<Rightarrow> string" where
  "AccessLevel_Format al =
     (case alMap al of
        Some name \<Rightarrow> name
      | None \<Rightarrow>
          if al \<le> 0 then ''None'' else ''Unknown (level '' @ show_int al @ '')'')"

text \<open>
  The embedded list of common passwords: opening it, the lines the scanner yields, and the error
  the scanner may end with.
\<close>

record password_file =
  pf_open :: "go_error option"
  pf_lines :: "string list"
  pf_scan_err :: "go_error option"

fun scan_common :: "string \<Rightarrow> string list \<Rightarrow> go_error option \<Rightarrow> go_error option" where
  "scan_common password [] scan_err = scan_err"
| "scan_common password (line # rest) scan_err =
     (if password = line then Some (PasswordStrengthError ''password is too easy to guess'')
      else scan_common password rest scan_err)"

definition validatePasswordNotCommon :: "password_file \<Rightarrow> string \<Rightarrow> go_error option" where
  "validatePasswordNotCommon F password =
     (case pf_open F of
        Some err \<Rightarrow> Some err
      | None \<Rightarrow> scan_common password (pf_lines F) (pf_scan_err F))"

definition validatePasswordStrength :: "password_file \<Rightarrow> string \<Rightarrow> go_error option" where
  "validatePasswordStrength F password =
     (if length password < 8 then
        Some (PasswordStrengthError ''password must be at least 8 characters'')
      else if length password > 64 then
        Some (PasswordStrengthError ''password must be 64 characters or less'')
      else
        (case validatePasswordNotCommon F password of
           Some err \<Rightarrow> Some err
         | None \<Rightarrow> None))"

section \<open>Operations\<close>

text \<open>What the operations use: the validator, bcrypt, the password list and the users table.\<close>

record user_deps =
  ud_validator :: validator
  ud_bcrypt :: bcrypt
  ud_file :: password_file
  ud_gorm :: "User gorm"

definition passwordHashCost :: nat where "passwordHashCost = 10"

definition GetUserByUsername :: "user_deps \<Rightarrow> time \<Rightarrow> string \<Rightarrow> User list \<Rightarrow> User result" where
  "GetUserByUsername D now username t = g_first (ud_gorm D) now (\<lambda>u. Username u = username) t"

definition GetUserByID :: "user_deps \<Rightarrow> time \<Rightarrow> nat \<Rightarrow> User list \<Rightarrow> User result" where
  "GetUserByID D now i t = g_first (ud_gorm D) now (\<lambda>u. ID u = i) t"

definition ListUsers :: "user_deps \<Rightarrow> time \<Rightarrow> User list \<Rightarrow> (User list) result" where
  "ListUsers D now t = g_find_order (ud_gorm D) now (asc ID) (\<lambda>_. True) t"

definition CreateUser ::
  "user_deps \<Rightarrow> time \<Rightarrow> nat \<Rightarrow> string \<Rightarrow> string \<Rightarrow> int \<Rightarrow> User list \<Rightarrow> go_error option \<times> User list" where
  "CreateUser D now rnd username password accessLevel t =
     (case validatePasswordStrength (ud_file D) password of
        Some err \<Rightarrow> (Some err, t)
      | None \<Rightarrow>
          (case GenerateFromPassword (ud_bcrypt D) passwordHashCost rnd password of
             Inl err \<Rightarrow> (Some err, t)
           | Inr passwordHash \<Rightarrow>
               (case g_create (ud_gorm D) now (User_BeforeSave (ud_validator D))
                       (user_zero\<lparr>Username := username, Password := passwordHash,
                                  AccessLevel := accessLevel\<rparr>) t of
                  Inl err \<Rightarrow> (Some err, t)
                | Inr (_, t') \<Rightarrow> (None, t'))))"

definition UpdateUser ::
  "user_deps \<Rightarrow> time \<Rightarrow> nat \<Rightarrow> string \<Rightarrow> int \<Rightarrow> User list \<Rightarrow> go_error option \<times> User list" where
  "UpdateUser D now i newUsername newAccessLevel t =
     (case GetUserByID D now i t of
        Inl err \<Rightarrow> (Some (Wrapped ''failed to GetUserByID: '' err), t)
      | Inr user \<Rightarrow>
          (case g_save (ud_gorm D) now (User_BeforeSave (ud_validator D))
                  (user\<lparr>Username := newUsername, AccessLevel := newAccessLevel\<rparr>) t of
             Inl err \<Rightarrow> (Some err, t)
           | Inr t' \<Rightarrow> (None, t')))"

definition UpdatePassword ::
  "user_deps \<Rightarrow> time \<Rightarrow> nat \<Rightarrow> nat \<Rightarrow> string \<Rightarrow> User list \<Rightarrow> go_error option \<times> User list" where
  "UpdatePassword D now rnd i newPassword t =
     (case GetUserByID D now i t of
        Inl err \<Rightarrow> (Some (Wrapped ''failed to GetUserByID: '' err), t)
      | Inr user \<Rightarrow>
          (case validatePasswordStrength (ud_file D) newPassword of
             Some err \<Rightarrow> (Some err, t)
           | None \<Rightarrow>
               (case GenerateFromPassword (ud_bcrypt D) passwordHashCost rnd newPassword of
                  Inl err \<Rightarrow> (Some err, t)
                | Inr newPasswordHash \<Rightarrow>
                    (case g_save (ud_gorm D) now (User_BeforeSave (ud_validator D))
                            (user\<lparr>Password := newPasswordHash\<rparr>) t of
                       Inl err \<Rightarrow> (Some err, t)
                     | Inr t' \<Rightarrow> (None, t')))))"

definition DeleteUser ::
  "user_deps \<Rightarrow> time \<Rightarrow> nat \<Rightarrow> User list \<Rightarrow> go_error option \<times> User list" where
  "DeleteUser D now i t =
     (case GetUserByID D now i t of
        Inl err \<Rightarrow> (Some (Wrapped ''failed to GetUserByID: '' err), t)
      | Inr _ \<Rightarrow>
          (case g_delete (ud_gorm D) now (\<lambda>u. ID u = i) t of
             Inl err \<Rightarrow> (Some err, t)
           | Inr (_, t') \<Rightarrow> (None, t')))"

end
