(* ===== verification/UserFacts.thy ===== *)
theory UserFacts
  imports Users
begin

text \<open>
  The users table is kept well formed by every operation, in any order; what each operation
  changes; lookups; the password policy.  The hypotheses of a property are bundled in
  \<open>user_deps_ok\<close>; \<open>demo_deps\<close> is a concrete set of parameters that satisfies them.
\<close>

section \<open>Hypotheses and invariant\<close>

definition user_deps_ok :: "user_deps \<Rightarrow> bool" where
  "user_deps_ok D \<longleftrightarrow>
     gorm_table user_schema (ud_gorm D) \<and> tag_meaning (ud_validator D) \<and>
     password_hashing (ud_bcrypt D)"

definition users_inv :: "user_deps \<Rightarrow> User list \<Rightarrow> bool" where
  "users_inv D t \<longleftrightarrow>
     distinct (map ID t) \<and> distinct (map Username t) \<and>
     (\<forall>u \<in> set t. User_BeforeSave (ud_validator D) u = None)"

definition demo_bcrypt :: bcrypt where
  "demo_bcrypt =
     \<lparr>GenerateFromPassword = (\<lambda>cost rnd pw.
        if length pw > 72 then Inl (ErrorText ''bcrypt: password length exceeds 72 bytes'')
        else Inr (''$2a$'' @ pw)),
      CompareHashAndPassword = (\<lambda>h pw.
        if h = ''$2a$'' @ pw then None else Some (ErrorText ''bcrypt: mismatch''))\<rparr>"

definition demo_deps :: user_deps where
  "demo_deps =
     \<lparr>ud_validator = std_validator, ud_bcrypt = demo_bcrypt,
      ud_file = \<lparr>pf_open = None, pf_lines = [''password'', ''12345678''], pf_scan_err = None\<rparr>,
      ud_gorm = mem_users\<rparr>"

interpretation demo_hashing: password_hashing demo_bcrypt
  by unfold_locales (auto simp: demo_bcrypt_def split: if_splits)

lemma demo_deps_simps [simp]:
  "ud_validator demo_deps = std_validator" "ud_bcrypt demo_deps = demo_bcrypt"
  "ud_gorm demo_deps = mem_users"
  by (simp_all add: demo_deps_def)

lemma demo_deps_ok [simp]: "user_deps_ok demo_deps"
  by (simp add: user_deps_ok_def mem_users.gorm_table_axioms std_tags.tag_meaning_axioms
      demo_hashing.password_hashing_axioms)

lemma user_deps_okD:
  assumes "user_deps_ok D"
  shows "gorm_table user_schema (ud_gorm D)" "tag_meaning (ud_validator D)"
    "password_hashing (ud_bcrypt D)"
  using assms by (simp_all add: user_deps_ok_def)

lemma User_BeforeSave_None_iff:
  assumes "tag_meaning V"
  shows "User_BeforeSave V u = None \<longleftrightarrow>
     Username u \<noteq> '''' \<and> rune_count (Username u) \<le> 50 \<and> Password u \<noteq> '''' \<and>
     1 \<le> AccessLevel u \<and> AccessLevel u \<le> 3"
proof -
  have "User_BeforeSave V u = None \<longleftrightarrow> validate_struct V (User_fields u) = None"
    by (simp add: User_BeforeSave_def split: option.splits)
  then show ?thesis
    by (auto simp: validate_struct_None User_fields_def field_ok_def tag_meaning.tag_simps [OF assms] Suc_le_eq)
qed

lemma User_BeforeSave_not_sentinel:
  "User_BeforeSave V u = Some e \<Longrightarrow> \<not> errors_is s e"
  by (auto simp: User_BeforeSave_def dest: validate_struct_not_sentinel split: option.splits)

lemma User_BeforeSave_columns [simp]:
  "User_BeforeSave V (u\<lparr>UpdatedAt := n\<rparr>) = User_BeforeSave V u"
  "User_BeforeSave V (u\<lparr>DeletedAt := d\<rparr>) = User_BeforeSave V u"
  "User_BeforeSave V (model_created k n u) = User_BeforeSave V u"
  by (simp_all add: User_BeforeSave_def User_fields_def)

section \<open>Lookups\<close>

text \<open>
  The contract of the two lookups, which the authentication code relies on: the row found is live
  and has the key, and "record not found" means there is none.
\<close>

locale row_lookup =
  fixes ok :: "'d \<Rightarrow> bool"
    and find_row :: "'d \<Rightarrow> time \<Rightarrow> 'k \<Rightarrow> 'r list \<Rightarrow> 'r result"
    and key :: "'r \<Rightarrow> 'k"
    and dead :: "'r \<Rightarrow> bool"
  assumes found: "ok d \<Longrightarrow> find_row d now k t = Inr r \<Longrightarrow> r \<in> set t \<and> \<not> dead r \<and> key r = k"
    and missing:
      "ok d \<Longrightarrow> find_row d now k t = Inl e \<Longrightarrow> errors_is ErrRecordNotFound e \<Longrightarrow>
       r \<in> set t \<Longrightarrow> \<not> dead r \<Longrightarrow> key r \<noteq> k"
begin

lemma found_unique:
  assumes "ok d" "distinct (map key t)" "r \<in> set t" "key r = k" "find_row d now k t = Inr r'"
  shows "r' = r"
  using assms found [OF assms(1,5)] by (auto intro: distinct_key_eq)

lemma dead_not_found:
  assumes "ok d" "distinct (map key t)" "r \<in> set t" "key r = k" "dead r"
  shows "\<exists>e. find_row d now k t = Inl e"
proof (cases "find_row d now k t")
  case (Inr r')
  with found_unique [OF assms(1-4) Inr] found [OF assms(1) Inr] assms(5) show ?thesis by simp
qed simp

end

interpretation by_name: row_lookup user_deps_ok GetUserByUsername Username "\<lambda>u. DeletedAt u \<noteq> None"
proof
  fix D now k t r
  assume D: "user_deps_ok D" and r: "GetUserByUsername D now k t = Inr r"
  show "r \<in> set t \<and> \<not> DeletedAt r \<noteq> None \<and> Username r = k"
    using gorm_table.first_row [OF user_deps_okD(1) [OF D] r [unfolded GetUserByUsername_def]]
    by simp
next
  fix D now k t e r
  assume "user_deps_ok D" "GetUserByUsername D now k t = Inl e" "errors_is ErrRecordNotFound e"
    "r \<in> set t" "\<not> DeletedAt r \<noteq> None"
  then show "Username r \<noteq> k"
    using gorm_table.first_not_found [OF user_deps_okD(1), of D now "\<lambda>u. Username u = k" t e]
    by (auto simp: GetUserByUsername_def live_rows_def filter_empty_conv)
qed

interpretation by_id: row_lookup user_deps_ok GetUserByID ID "\<lambda>u. DeletedAt u \<noteq> None"
proof
  fix D now k t r
  assume D: "user_deps_ok D" and r: "GetUserByID D now k t = Inr r"
  show "r \<in> set t \<and> \<not> DeletedAt r \<noteq> None \<and> ID r = k"
    using gorm_table.first_row [OF user_deps_okD(1) [OF D] r [unfolded GetUserByID_def]]
    by simp
next
  fix D now k t e r
  assume "user_deps_ok D" "GetUserByID D now k t = Inl e" "errors_is ErrRecordNotFound e"
    "r \<in> set t" "\<not> DeletedAt r \<noteq> None"
  then show "ID r \<noteq> k"
    using gorm_table.first_not_found [OF user_deps_okD(1), of D now "\<lambda>u. ID u = k" t e]
    by (auto simp: GetUserByID_def live_rows_def filter_empty_conv)
qed

section \<open>What a successful operation did\<close>

lemma CreateUser_ok:
  assumes D: "user_deps_ok D" and run: "CreateUser D now rnd name pw al t = (None, t')"
  obtains h u where
    "validatePasswordStrength (ud_file D) pw = None"
    "GenerateFromPassword (ud_bcrypt D) passwordHashCost rnd pw = Inr h"
    "Username u = name" "Password u = h" "AccessLevel u = al" "DeletedAt u = None"
    "User_BeforeSave (ud_validator D) u = None" "t' = t @ [u]"
    "\<And>x. x \<in> set t \<Longrightarrow> ID x \<noteq> ID u \<and> Username x \<noteq> name"
proof -
  from run obtain h u where pw: "validatePasswordStrength (ud_file D) pw = None"
    and h: "GenerateFromPassword (ud_bcrypt D) passwordHashCost rnd pw = Inr h"
    and c: "g_create (ud_gorm D) now (User_BeforeSave (ud_validator D))
       (user_zero\<lparr>Username := name, Password := h, AccessLevel := al\<rparr>) t = Inr (u, t')"
    by (auto simp: CreateUser_def split: option.splits sum.splits)
  from gorm_table.create_ok [OF user_deps_okD(1) [OF D] c]
  obtain k where "u = model_created k now (user_zero\<lparr>Username := name, Password := h, AccessLevel := al\<rparr>)"
    and "t' = t @ [u]"
    and "User_BeforeSave (ud_validator D) (user_zero\<lparr>Username := name, Password := h, AccessLevel := al\<rparr>) = None"
    and "\<And>x. x \<in> set t \<Longrightarrow> ID x \<noteq> ID u \<and> Username x \<noteq> Username u"
    by auto
  with pw h show thesis by (intro that [of h u]) (auto simp: user_zero_def)
qed

lemma save_user_ok:
  assumes D: "user_deps_ok D" and found: "GetUserByID D now i t = Inr u"
    and save: "g_save (ud_gorm D) now (User_BeforeSave (ud_validator D)) u' t = Inr t'"
    and "ID u' = i"
  shows "u \<in> set t" "DeletedAt u = None" "ID u = i"
    "User_BeforeSave (ud_validator D) u' = None"
    "t' = upd_where (\<lambda>y. ID y = i) (\<lambda>_. u'\<lparr>UpdatedAt := now\<rparr>) t"
    "\<And>y. y \<in> set t \<Longrightarrow> ID y \<noteq> i \<Longrightarrow> Username y \<noteq> Username u'"
proof -
  show u: "u \<in> set t" "DeletedAt u = None" "ID u = i"
    using by_id.found [OF D found] by auto
  show "User_BeforeSave (ud_validator D) u' = None"
    by (rule gorm_table.save_ok_hook [OF user_deps_okD(1) [OF D] save])
  have *: "t' = upd_where (\<lambda>y. ID y = i) (\<lambda>_. u'\<lparr>UpdatedAt := now\<rparr>) t \<and>
      (\<forall>y \<in> set t. ID y \<noteq> i \<longrightarrow> \<not> (ID y = i \<or> Username y = Username u'))"
    using gorm_table.save_row [OF user_deps_okD(1) [OF D] save u(1)] u assms(4) by simp
  then show "t' = upd_where (\<lambda>y. ID y = i) (\<lambda>_. u'\<lparr>UpdatedAt := now\<rparr>) t" by simp
  show "\<And>y. y \<in> set t \<Longrightarrow> ID y \<noteq> i \<Longrightarrow> Username y \<noteq> Username u'" using * by auto
qed

lemma UpdateUser_ok:
  assumes D: "user_deps_ok D" and run: "UpdateUser D now i name al t = (None, t')"
  obtains u where "u \<in> set t" "DeletedAt u = None" "ID u = i"
    "User_BeforeSave (ud_validator D) (u\<lparr>Username := name, AccessLevel := al\<rparr>) = None"
    "t' = upd_where (\<lambda>y. ID y = i)
       (\<lambda>_. u\<lparr>Username := name, AccessLevel := al, UpdatedAt := now\<rparr>) t"
    "\<And>y. y \<in> set t \<Longrightarrow> ID y \<noteq> i \<Longrightarrow> Username y \<noteq> name"
proof -
  from run obtain u where u: "GetUserByID D now i t = Inr u"
    and s: "g_save (ud_gorm D) now (User_BeforeSave (ud_validator D))
       (u\<lparr>Username := name, AccessLevel := al\<rparr>) t = Inr t'"
    by (auto simp: UpdateUser_def split: sum.splits)
  have "ID u = i" using by_id.found [OF D u] by simp
  with save_user_ok [OF D u s] show thesis by (intro that [of u]) auto
qed

lemma UpdatePassword_ok:
  assumes D: "user_deps_ok D" and run: "UpdatePassword D now rnd i pw t = (None, t')"
  obtains u h where "u \<in> set t" "DeletedAt u = None" "ID u = i"
    "validatePasswordStrength (ud_file D) pw = None"
    "GenerateFromPassword (ud_bcrypt D) passwordHashCost rnd pw = Inr h"
    "User_BeforeSave (ud_validator D) (u\<lparr>Password := h\<rparr>) = None"
    "t' = upd_where (\<lambda>y. ID y = i) (\<lambda>_. u\<lparr>Password := h, UpdatedAt := now\<rparr>) t"
    "\<And>y. y \<in> set t \<Longrightarrow> ID y \<noteq> i \<Longrightarrow> Username y \<noteq> Username u"
proof -
  from run obtain u h where u: "GetUserByID D now i t = Inr u"
    and pw: "validatePasswordStrength (ud_file D) pw = None"
    and h: "GenerateFromPassword (ud_bcrypt D) passwordHashCost rnd pw = Inr h"
    and s: "g_save (ud_gorm D) now (User_BeforeSave (ud_validator D)) (u\<lparr>Password := h\<rparr>) t = Inr t'"
    by (auto simp: UpdatePassword_def split: sum.splits option.splits)
  have "ID u = i" using by_id.found [OF D u] by simp
  with save_user_ok [OF D u s] pw h show thesis by (intro that [of u h]) auto
qed

lemma DeleteUser_ok:
  assumes D: "user_deps_ok D" and run: "DeleteUser D now i t = (None, t')"
  obtains u where "u \<in> set t" "DeletedAt u = None" "ID u = i"
    "t' = upd_where (\<lambda>y. DeletedAt y = None \<and> ID y = i) (\<lambda>y. y\<lparr>DeletedAt := Some now\<rparr>) t"
proof -
  from run obtain u n where u: "GetUserByID D now i t = Inr u"
    and d: "g_delete (ud_gorm D) now (\<lambda>u. ID u = i) t = Inr (n, t')"
    by (auto simp: DeleteUser_def split: sum.splits)
  from gorm_table.delete_rows [OF user_deps_okD(1) [OF D] d] by_id.found [OF D u]
  show thesis by (intro that [of u]) auto
qed

section \<open>The invariant\<close>

datatype user_op =
    CreateUserOp time nat string string int
  | UpdateUserOp time nat string int
  | UpdatePasswordOp time nat nat string
  | DeleteUserOp time nat

fun run_user_op :: "user_deps \<Rightarrow> user_op \<Rightarrow> User list \<Rightarrow> go_error option \<times> User list" where
  "run_user_op D (CreateUserOp now rnd name pw al) t = CreateUser D now rnd name pw al t"
| "run_user_op D (UpdateUserOp now i name al) t = UpdateUser D now i name al t"
| "run_user_op D (UpdatePasswordOp now rnd i pw) t = UpdatePassword D now rnd i pw t"
| "run_user_op D (DeleteUserOp now i) t = DeleteUser D now i t"

lemma users_inv_append:
  assumes "users_inv D t" "User_BeforeSave (ud_validator D) u = None"
    "\<And>x. x \<in> set t \<Longrightarrow> ID x \<noteq> ID u \<and> Username x \<noteq> Username u"
  shows "users_inv D (t @ [u])"
  using assms by (fastforce simp: users_inv_def)

lemma users_inv_replace:
  assumes inv: "users_inv D t" and u: "u \<in> set t" "ID u = i" and i: "ID u' = i"
    and v: "User_BeforeSave (ud_validator D) u' = None"
    and fresh: "\<And>y. y \<in> set t \<Longrightarrow> ID y \<noteq> i \<Longrightarrow> Username y \<noteq> Username u'"
  shows "users_inv D (upd_where (\<lambda>y. ID y = i) (\<lambda>_. u') t)"
proof -
  have d: "distinct (map ID t)" "distinct (map Username t)" using inv by (auto simp: users_inv_def)
  have "distinct (map ID (upd_where (\<lambda>y. ID y = i) (\<lambda>_. u') t))"
    using d i by (subst map_upd_where_same) auto
  moreover have "distinct (map Username (upd_where (\<lambda>y. ID y = i) (\<lambda>_. u') t))"
    using distinct_map_upd_key [OF d u] fresh by auto
  ultimately show ?thesis using inv v by (auto simp: users_inv_def set_upd_where)
qed

lemma users_inv_mark:
  "users_inv D t \<Longrightarrow> users_inv D (upd_where p (\<lambda>y. y\<lparr>DeletedAt := d\<rparr>) t)"
  by (auto simp: users_inv_def set_upd_where map_upd_where_same)

lemma user_op_error: "run_user_op D op t = (Some e, t') \<Longrightarrow> t' = t"
  by (cases op) (auto simp: CreateUser_def UpdateUser_def UpdatePassword_def DeleteUser_def
      split: option.splits sum.splits)

lemma user_op_inv:
  assumes D: "user_deps_ok D" and inv: "users_inv D t" and run: "run_user_op D op t = (None, t')"
  shows "users_inv D t'"
proof (cases op)
  case (CreateUserOp now rnd name pw al)
  with run have "CreateUser D now rnd name pw al t = (None, t')" by simp
  then show ?thesis by (rule CreateUser_ok [OF D]) (auto intro: users_inv_append [OF inv])
next
  case (UpdateUserOp now i name al)
  with run have "UpdateUser D now i name al t = (None, t')" by simp
  then show ?thesis by (rule UpdateUser_ok [OF D]) (auto intro!: users_inv_replace [OF inv])
next
  case (UpdatePasswordOp now rnd i pw)
  with run have "UpdatePassword D now rnd i pw t = (None, t')" by simp
  then show ?thesis by (rule UpdatePassword_ok [OF D]) (auto intro!: users_inv_replace [OF inv])
next
  case (DeleteUserOp now i)
  with run have "DeleteUser D now i t = (None, t')" by simp
  then show ?thesis by (rule DeleteUser_ok [OF D]) (simp add: users_inv_mark [OF inv])
qed

interpretation user_ops: table_operation user_deps_ok users_inv run_user_op
  by unfold_locales (auto intro: user_op_error user_op_inv)

end
