(* ===== verification/UserProps.thy ===== *)
theory UserProps
  imports UserFacts
begin

text \<open>
  The properties of the accounts component, each with a witness on \<open>demo_deps\<close> and a small table.
\<close>

definition demo_user :: "nat \<Rightarrow> string \<Rightarrow> int \<Rightarrow> User" where
  "demo_user i name al =
     user_zero\<lparr>ID := i, Username := name, Password := ''$2a$'' @ name, AccessLevel := al\<rparr>"

definition demo_table :: "User list" where
  "demo_table = [demo_user 1 ''alice'' 3, demo_user 2 ''bob'' 1]"

lemma demo_table_inv: "users_inv demo_deps demo_table"
  by (simp add: users_inv_def demo_table_def demo_user_def user_zero_def
      User_BeforeSave_None_iff [OF std_tags.tag_meaning_axioms]) (code_simp)

section \<open>Invariant and atomicity\<close>

text \<open>whatever sequence of create, update, change-password and delete operations runs on a
  users table, succeeding or failing, identifiers and usernames stay unique and every row stays
  valid: a non-empty name of at most 50 characters, a password hash, and an access level from 1 to
  3.\<close>

theorem users_table_stays_valid:
  assumes "user_deps_ok D" "users_inv D t"
  shows "users_inv D (fold (\<lambda>op t. snd (run_user_op D op t)) ops t)"
  using assms by (rule user_ops.ops_inv)

theorem users_table_stays_valid_witness:
  "users_inv demo_deps
     (fold (\<lambda>op t. snd (run_user_op demo_deps op t))
        [CreateUserOp 5 0 ''carol'' ''correct horse'' 2, UpdateUserOp 6 2 ''alice'' 3,
         DeleteUserOp 7 1] demo_table)"
  by (rule users_table_stays_valid [OF demo_deps_ok demo_table_inv])

text \<open>an operation on the users table that reports an error has changed nothing.\<close>

theorem failed_user_operation_changes_nothing:
  assumes "run_user_op D op t = (Some e, t')"
  shows "t' = t"
  using assms by (rule user_ops.op_atomic)

theorem failed_user_operation_changes_nothing_witness:
  "\<exists>e. run_user_op demo_deps (CreateUserOp 5 0 ''carol'' ''short'' 2) demo_table = (Some e, demo_table)"
  using failed_user_operation_changes_nothing
    [of demo_deps "CreateUserOp 5 0 ''carol'' ''short'' 2" demo_table
      "PasswordStrengthError ''password must be at least 8 characters''" demo_table]
  by (simp add: CreateUser_def validatePasswordStrength_def)

section \<open>Passwords\<close>

lemma scan_common_None_iff:
  "scan_common pw ls err = None \<longleftrightarrow> pw \<notin> set ls \<and> err = None"
  by (induction ls) auto

text \<open>the password rule accepts exactly the passwords of 8 to 64 bytes that are no line of the
  embedded list of common passwords (when that list can be read).\<close>

theorem password_policy:
  assumes "pf_open F = None" "pf_scan_err F = None"
  shows "validatePasswordStrength F pw = None \<longleftrightarrow>
     8 \<le> length pw \<and> length pw \<le> 64 \<and> pw \<notin> set (pf_lines F)"
proof -
  have "validatePasswordNotCommon F pw = None \<longleftrightarrow> pw \<notin> set (pf_lines F)"
    using assms by (simp add: validatePasswordNotCommon_def scan_common_None_iff)
  then show ?thesis
    by (cases "validatePasswordNotCommon F pw") (auto simp: validatePasswordStrength_def)
qed

theorem password_policy_witness:
  "validatePasswordStrength (ud_file demo_deps) ''password'' \<noteq> None \<and>
   validatePasswordStrength (ud_file demo_deps) ''correct horse'' = None"
  using password_policy [of "ud_file demo_deps" "''password''"]
    password_policy [of "ud_file demo_deps" "''correct horse''"]
  by (simp add: demo_deps_def)

text \<open>after a successful change of password, the account's new hash matches the new password,
  the new password obeys the password rule, and no other column of the account but the update time
  and no other account changed.\<close>

theorem update_password_effect:
  assumes D: "user_deps_ok D" and inv: "users_inv D t"
    and run: "UpdatePassword D now rnd i pw t = (None, t')"
  shows "\<exists>u u'. u \<in> set t \<and> ID u = i \<and> DeletedAt u = None \<and> u' \<in> set t' \<and>
     CheckPassword (ud_bcrypt D) u' pw = None \<and> validatePasswordStrength (ud_file D) pw = None \<and>
     u' = u\<lparr>Password := Password u', UpdatedAt := now\<rparr> \<and>
     set t' = insert u' (set t - {u}) \<and> length t' = length t"
proof -
  from D run obtain u h where u: "u \<in> set t" "DeletedAt u = None" "ID u = i"
    and pw: "validatePasswordStrength (ud_file D) pw = None"
    and h: "GenerateFromPassword (ud_bcrypt D) passwordHashCost rnd pw = Inr h"
    and t': "t' = upd_where (\<lambda>y. ID y = i) (\<lambda>_. u\<lparr>Password := h, UpdatedAt := now\<rparr>) t"
    by (rule UpdatePassword_ok)
  have set: "set t' = insert (u\<lparr>Password := h, UpdatedAt := now\<rparr>) (set t - {u})"
    unfolding t' using inv u by (subst set_upd_key [of ID t u]) (auto simp: users_inv_def)
  have "CompareHashAndPassword (ud_bcrypt D) h pw = None"
    by (rule password_hashing.hash_matches [OF user_deps_okD(3) [OF D] h])
  moreover have "length t' = length t" by (simp add: t')
  ultimately show ?thesis
    using u pw set
    by - (rule exI [of _ u], rule exI [of _ "u\<lparr>Password := h, UpdatedAt := now\<rparr>"],
        simp add: CheckPassword_def)
qed

theorem update_password_effect_witness:
  "\<exists>u' t'. UpdatePassword demo_deps 9 0 2 ''correct horse'' demo_table = (None, t') \<and>
     u' \<in> set t' \<and> CheckPassword demo_bcrypt u' ''correct horse'' = None"
proof -
  have "fst (UpdatePassword demo_deps 9 0 2 ''correct horse'' demo_table) = None"
    by code_simp
  then obtain t' where t': "UpdatePassword demo_deps 9 0 2 ''correct horse'' demo_table = (None, t')"
    by (metis prod.collapse)
  with update_password_effect [OF demo_deps_ok demo_table_inv t'] t' show ?thesis by auto
qed

section \<open>Creating an account\<close>

definition user_deps_up :: "user_deps \<Rightarrow> bool" where
  "user_deps_up D \<longleftrightarrow> user_deps_ok D \<and> gorm_available user_schema (ud_gorm D)"

lemma demo_deps_up: "user_deps_up demo_deps"
  by (simp add: user_deps_up_def mem_users.gorm_available_axioms)

text \<open>when the database answers, creating an account succeeds exactly when the password obeys the
  rule and can be hashed, the username is non-empty, of at most 50 characters and not the name of any
  row (deleted ones included), and the access level is one of the three; and then it adds one row,
  with that name and level and a hash that matches the password.\<close>

theorem create_user_succeeds_iff:
  assumes "user_deps_up D"
  shows "(\<exists>u. CreateUser D now rnd name pw al t = (None, t @ [u]) \<and> Username u = name \<and>
            AccessLevel u = al \<and> CheckPassword (ud_bcrypt D) u pw = None) \<longleftrightarrow>
     validatePasswordStrength (ud_file D) pw = None \<and>
     (\<exists>h. GenerateFromPassword (ud_bcrypt D) passwordHashCost rnd pw = Inr h \<and> h \<noteq> '''') \<and>
     name \<noteq> '''' \<and> rune_count name \<le> 50 \<and> al \<in> set AccessLevels \<and> name \<notin> Username ` set t"
    (is "?L \<longleftrightarrow> ?R")
proof
  have D: "user_deps_ok D" using assms by (simp add: user_deps_up_def)
  note valid = User_BeforeSave_None_iff [OF user_deps_okD(2) [OF D]]
  assume ?L
  then obtain u where run: "CreateUser D now rnd name pw al t = (None, t @ [u])" by blast
  show ?R
    by (rule CreateUser_ok [OF D run]) (fastforce simp: valid AccessLevels_def)
next
  have D: "user_deps_ok D" and up: "gorm_available user_schema (ud_gorm D)"
    using assms by (simp_all add: user_deps_up_def)
  note valid = User_BeforeSave_None_iff [OF user_deps_okD(2) [OF D]]
  assume R: ?R
  then obtain h where h: "GenerateFromPassword (ud_bcrypt D) passwordHashCost rnd pw = Inr h"
    and "h \<noteq> ''''" by blast
  let ?u = "user_zero\<lparr>Username := name, Password := h, AccessLevel := al\<rparr>"
  have "User_BeforeSave (ud_validator D) ?u = None"
    using R \<open>h \<noteq> ''''\<close> by (auto simp: valid AccessLevels_def)
  then obtain u t' where c: "g_create (ud_gorm D) now (User_BeforeSave (ud_validator D)) ?u t = Inr (u, t')"
    using gorm_available.create_total [OF up, of "User_BeforeSave (ud_validator D)" ?u t now] R
    by (auto simp: model_created_def user_zero_def)
  with R h have run: "CreateUser D now rnd name pw al t = (None, t')"
    by (simp add: CreateUser_def)
  show ?L
  proof (rule CreateUser_ok [OF D run])
    fix h' v
    assume "GenerateFromPassword (ud_bcrypt D) passwordHashCost rnd pw = Inr h'"
      "Username v = name" "Password v = h'" "AccessLevel v = al" "t' = t @ [v]"
    then show ?L using run password_hashing.hash_matches [OF user_deps_okD(3) [OF D] h] h
      by (auto simp: CheckPassword_def)
  qed
qed

theorem create_user_succeeds_iff_witness:
  "\<exists>u. CreateUser demo_deps 5 0 ''carol'' ''correct horse'' 2 demo_table = (None, demo_table @ [u]) \<and>
     CheckPassword demo_bcrypt u ''correct horse'' = None"
proof -
  have "validatePasswordStrength (ud_file demo_deps) ''correct horse'' = None"
    "GenerateFromPassword demo_bcrypt passwordHashCost 0 ''correct horse'' = Inr (''$2a$correct horse'')"
    "rune_count ''carol'' \<le> 50" "2 \<in> set AccessLevels" "''carol'' \<notin> Username ` set demo_table"
    by code_simp+
  then show ?thesis
    using create_user_succeeds_iff [OF demo_deps_up, of 5 0 "''carol''" "''correct horse''" 2 demo_table]
    by auto
qed

section \<open>Deleting an account\<close>

lemma deleted_row:
  assumes D: "user_deps_ok D" and inv: "users_inv D t" and run: "DeleteUser D now i t = (None, t')"
  obtains u where "u \<in> set t" "ID u = i" "u\<lparr>DeletedAt := Some now\<rparr> \<in> set t'" "users_inv D t'"
    "t' = upd_where (\<lambda>y. ID y = i) (\<lambda>y. y\<lparr>DeletedAt := Some now\<rparr>) t"
proof -
  from D run obtain u where u: "u \<in> set t" "DeletedAt u = None" "ID u = i"
    and t': "t' = upd_where (\<lambda>y. DeletedAt y = None \<and> ID y = i) (\<lambda>y. y\<lparr>DeletedAt := Some now\<rparr>) t"
    by (rule DeleteUser_ok)
  have "\<And>y. y \<in> set t \<Longrightarrow> ID y = i \<Longrightarrow> y = u"
    using inv u by (auto simp: users_inv_def intro: distinct_key_eq)
  with u(2) have "t' = upd_where (\<lambda>y. ID y = i) (\<lambda>y. y\<lparr>DeletedAt := Some now\<rparr>) t"
    by (auto simp: t' upd_where_def)
  moreover have "users_inv D t'" unfolding t' by (rule users_inv_mark [OF inv])
  ultimately show thesis using u by (intro that [of u]) (auto simp: set_upd_where)
qed

text \<open>after a successful deletion no lookup, by name or by identifier and at any time, finds the
  account, and every other account is untouched.\<close>

theorem deleted_user_not_found:
  assumes D: "user_deps_ok D" and inv: "users_inv D t" and run: "DeleteUser D now i t = (None, t')"
  shows "\<exists>u. u \<in> set t \<and> ID u = i \<and> set t - {u} \<subseteq> set t' \<and>
     (\<exists>e. GetUserByID D later i t' = Inl e) \<and>
     (\<exists>e. GetUserByUsername D later (Username u) t' = Inl e)"
proof -
  from deleted_row [OF assms] obtain u where u: "u \<in> set t" "ID u = i"
    and d: "u\<lparr>DeletedAt := Some now\<rparr> \<in> set t'" (is "?d \<in> _") and inv': "users_inv D t'"
    and t': "t' = upd_where (\<lambda>y. ID y = i) (\<lambda>y. y\<lparr>DeletedAt := Some now\<rparr>) t" by blast
  have "\<exists>e. GetUserByID D later i t' = Inl e"
    using inv' d u by (intro by_id.dead_not_found [OF D, of _ ?d]) (auto simp: users_inv_def)
  moreover have "\<exists>e. GetUserByUsername D later (Username u) t' = Inl e"
    using inv' d by (intro by_name.dead_not_found [OF D, of _ ?d]) (auto simp: users_inv_def)
  moreover have "set t - {u} \<subseteq> set t'"
    using inv u unfolding t' by (subst set_upd_key [of ID t u]) (auto simp: users_inv_def)
  ultimately show ?thesis using u by blast
qed

theorem deleted_user_not_found_witness:
  "\<exists>t'. DeleteUser demo_deps 9 1 demo_table = (None, t') \<and>
     (\<exists>e. GetUserByID demo_deps 10 1 t' = Inl e)"
proof -
  have "fst (DeleteUser demo_deps 9 1 demo_table) = None" by code_simp
  then obtain t' where t': "DeleteUser demo_deps 9 1 demo_table = (None, t')"
    by (metis prod.collapse)
  with deleted_user_not_found [OF demo_deps_ok demo_table_inv t', of 10] show ?thesis by auto
qed

text \<open>deletion is a soft delete: the row stays, and its username can never be given to a new
  account, although the user manual says that deleting permanently removes a user.\<close>

theorem deleted_username_stays_taken:
  assumes D: "user_deps_ok D" and inv: "users_inv D t" and run: "DeleteUser D now i t = (None, t')"
  shows "\<exists>u. u \<in> set t \<and> ID u = i \<and>
     (\<forall>later rnd pw al. fst (CreateUser D later rnd (Username u) pw al t') \<noteq> None)"
proof -
  from deleted_row [OF assms] obtain u where u: "u \<in> set t" "ID u = i"
    and d: "u\<lparr>DeletedAt := Some now\<rparr> \<in> set t'" by blast
  have "CreateUser D later rnd (Username u) pw al t' \<noteq> (None, t'')" for later rnd pw al t''
  proof
    assume "CreateUser D later rnd (Username u) pw al t' = (None, t'')"
    then show False
    proof (rule CreateUser_ok [OF D])
      fix v :: User
      assume "\<And>x. x \<in> set t' \<Longrightarrow> ID x \<noteq> ID v \<and> Username x \<noteq> Username u"
      from this [OF d] show False by simp
    qed
  qed
  then have "\<And>later rnd pw al. fst (CreateUser D later rnd (Username u) pw al t') \<noteq> None"
    by (metis prod.collapse)
  with u show ?thesis by blast
qed

theorem deleted_username_stays_taken_witness:
  "\<exists>t'. DeleteUser demo_deps 9 1 demo_table = (None, t') \<and>
     fst (CreateUser demo_deps 10 0 ''alice'' ''correct horse'' 1 t') \<noteq> None"
proof -
  have "fst (DeleteUser demo_deps 9 1 demo_table) = None" by code_simp
  then obtain t' where t': "DeleteUser demo_deps 9 1 demo_table = (None, t')"
    by (metis prod.collapse)
  from deleted_username_stays_taken [OF demo_deps_ok demo_table_inv t'] obtain u
    where u: "u \<in> set demo_table" "ID u = 1"
      and "fst (CreateUser demo_deps 10 0 (Username u) ''correct horse'' 1 t') \<noteq> None" by blast
  moreover have "Username u = ''alice''" using u by (auto simp: demo_table_def demo_user_def)
  ultimately show ?thesis using t' by auto
qed

end
