(* ===== verification/GoHttp.thy ===== *)
theory GoHttp
  imports GoUrl GoPath
begin

text \<open>
  The part of \<^verbatim>\<open>net/http\<close> the handlers are written against: a request, already parsed by the
  library's own accessors; a response as the client will see it; cookies; \<^verbatim>\<open>http.Redirect\<close>; and the
  outcome of a handler.
\<close>

section \<open>Requests\<close>

text \<open>
  A request is what the accessors return: \<^verbatim>\<open>r.Header.Get\<close>, \<^verbatim>\<open>r.Cookie\<close>, \<^verbatim>\<open>r.PostFormValue\<close>,
  \<^verbatim>\<open>r.URL.Query().Get\<close>, \<^verbatim>\<open>r.BasicAuth\<close>, \<^verbatim>\<open>r.PathValue\<close>, and \<^verbatim>\<open>r.ParseForm\<close>'s error.
\<close>

record request =
  Method :: string
  URLPath :: string
  HeaderGet :: "string \<Rightarrow> string"
  Cookie :: "string \<Rightarrow> string option"
  PostFormValue :: "string \<Rightarrow> string"
  QueryGet :: "string \<Rightarrow> string"
  BasicAuth :: "(string \<times> string) option"
  PathValue :: "string \<Rightarrow> string"
  ParseFormErr :: "go_error option"

definition plain_request :: "string \<Rightarrow> string \<Rightarrow> request" where
  "plain_request m p =
     \<lparr>Method = m, URLPath = p, HeaderGet = (\<lambda>_. ''''), Cookie = (\<lambda>_. None),
      PostFormValue = (\<lambda>_. ''''), QueryGet = (\<lambda>_. ''''), BasicAuth = None, PathValue = (\<lambda>_. ''''),
      ParseFormErr = None\<rparr>"

section \<open>Responses\<close>

record cookie =
  CookieName :: string
  CookieValue :: string
  CookieExpires :: time
  CookiePath :: string
  CookieDomain :: string
  CookieSecure :: bool
  CookieHttpOnly :: bool

text \<open>What is written to a response body: a page of the user interface, the two error pages, or bytes.\<close>

datatype 'p body = ErrorPage string | NotFoundPage | Page 'p | Bytes string

text \<open>
  \<open>rs_status\<close> is the status line once it has been sent; headers and cookies set after that have no
  effect.  \<open>rs_wrapped\<close> is the status recorded by the logging wrapper, when the response is wrapped
  in it, and \<open>rs_log\<close> the access log.  \<open>rs_broken\<close> says that writing to the client fails.
\<close>

record 'p response =
  rs_status :: "int option"
  rs_headers :: "(string \<times> string) list"
  rs_cookies :: "cookie list"
  rs_body :: "'p body list"
  rs_wrapped :: "int option"
  rs_log :: "(string \<times> string \<times> int) list"
  rs_broken :: bool

definition new_response :: "'p response" where
  "new_response = \<lparr>rs_status = None, rs_headers = [], rs_cookies = [], rs_body = [],
     rs_wrapped = None, rs_log = [], rs_broken = False\<rparr>"

definition header_set :: "string \<Rightarrow> string \<Rightarrow> 'p response \<Rightarrow> 'p response" where
  "header_set k v w =
     (if rs_status w = None
      then w\<lparr>rs_headers := (k, v) # filter (\<lambda>h. fst h \<noteq> k) (rs_headers w)\<rparr> else w)"

definition header_add :: "string \<Rightarrow> string \<Rightarrow> 'p response \<Rightarrow> 'p response" where
  "header_add k v w =
     (if rs_status w = None then w\<lparr>rs_headers := rs_headers w @ [(k, v)]\<rparr> else w)"

definition set_cookie :: "cookie \<Rightarrow> 'p response \<Rightarrow> 'p response" where
  "set_cookie c w = (if rs_status w = None then w\<lparr>rs_cookies := rs_cookies w @ [c]\<rparr> else w)"

text \<open>
  \<^verbatim>\<open>WriteHeader\<close>: only the first call reaches the client; the logging wrapper records every call.
\<close>

definition write_header :: "int \<Rightarrow> 'p response \<Rightarrow> 'p response" where
  "write_header code w =
     w\<lparr>rs_wrapped := map_option (\<lambda>_. code) (rs_wrapped w),
       rs_status := (case rs_status w of None \<Rightarrow> Some code | Some c \<Rightarrow> Some c)\<rparr>"

text \<open>Writing body bytes sends status 200 first when no status has been sent.\<close>

definition write_body :: "'p body \<Rightarrow> 'p response \<Rightarrow> 'p response" where
  "write_body b w =
     w\<lparr>rs_status := (case rs_status w of None \<Rightarrow> Some 200 | Some c \<Rightarrow> Some c),
       rs_body := rs_body w @ [b]\<rparr>"

lemma write_header_status [simp]:
  "rs_status (write_header code w) = Some (case rs_status w of None \<Rightarrow> code | Some c \<Rightarrow> c)"
  by (simp add: write_header_def split: option.splits)

lemma header_set_status [simp]: "rs_status (header_set k v w) = rs_status w"
  by (simp add: header_set_def)

lemma header_add_status [simp]: "rs_status (header_add k v w) = rs_status w"
  by (simp add: header_add_def)

lemma set_cookie_status [simp]: "rs_status (set_cookie c w) = rs_status w"
  by (simp add: set_cookie_def)

section \<open>http.Redirect\<close>

definition hex_escape_non_ascii :: "string \<Rightarrow> string" where
  "hex_escape_non_ascii s =
     concat (map (\<lambda>c. if byte c < 128 then [c]
                      else [CHR ''%'', to_lower (hex_digit (byte c div 16)),
                            to_lower (hex_digit (byte c mod 16))]) s)"

text \<open>The directory part of a path, with its final slash.\<close>

definition path_dir :: "string \<Rightarrow> string" where
  "path_dir p = rev (dropWhile (\<lambda>c. c \<noteq> CHR ''/'') (rev p))"

definition redirect_url :: "request \<Rightarrow> string \<Rightarrow> string" where
  "redirect_url r target =
     (case url_Parse target of
        None \<Rightarrow> target
      | Some u \<Rightarrow>
          if Scheme u \<noteq> '''' \<or> Host u \<noteq> '''' then target
          else
            (let oldpath = (if URLPath r = '''' then ''/'' else URLPath r);
                 abs = (if prefix ''/'' target then target else path_dir oldpath @ target);
                 (p, q) = cut (CHR ''?'') abs;
                 query = (if CHR ''?'' \<in> set abs then ''?'' @ q else '''');
                 p' = path_Clean p;
                 p'' = (if suffix ''/'' p \<and> \<not> suffix ''/'' p' then p' @ ''/'' else p')
             in p'' @ query))"

definition http_Redirect :: "request \<Rightarrow> string \<Rightarrow> int \<Rightarrow> 'p response \<Rightarrow> 'p response" where
  "http_Redirect r target code w =
     (let had_ct = list_ex (\<lambda>h. fst h = ''Content-Type'') (rs_headers w);
          w1 = header_set ''Location'' (hex_escape_non_ascii (redirect_url r target)) w;
          w2 = (if \<not> had_ct \<and> (Method r = ''GET'' \<or> Method r = ''HEAD'')
                then header_set ''Content-Type'' ''text/html; charset=utf-8'' w1 else w1);
          w3 = write_header code w2
      in if \<not> had_ct \<and> Method r = ''GET'' then write_body (Bytes ''redirect'') w3 else w3)"

lemma http_Redirect_status [simp]:
  "rs_status (http_Redirect r target code w) = Some (case rs_status w of None \<Rightarrow> code | Some c \<Rightarrow> c)"
  by (simp add: http_Redirect_def Let_def write_body_def split: option.splits)

section \<open>Handlers\<close>

text \<open>
  A handler returns an error or nil, or panics.  The request context carries the authenticated
  user; the clock and the random source of the request are the functions that give the successive
  readings.
\<close>

datatype outcome = Done | Fail go_error | Panic string

end
