(* ===== verification/Sessions.thy ===== *)
theory Sessions
  imports UserFacts GoHttp Sha256
begin

text \<open>
  The package \<^verbatim>\<open>pkg/auth/sessions\<close> (\<^verbatim>\<open>session.go\<close>): a login session is a row keyed by the hash of
  the token in the client's cookie.  The model has the rows, every operation on the sessions table,
  and the cookie each of them writes.  An operation reads the clock through \<open>cl\<close>, whose values at
  0, 1, ... are its successive readings.
\<close>

section \<open>Rows\<close>

record Session =
  SessionID :: string
  UserID :: nat
  SessionUser :: User
  StartTime :: time
  LastSeenTime :: time
  SessionDeletedAt :: "time option"

definition session_zero :: Session where
  "session_zero = \<lparr>SessionID = '''', UserID = 0, SessionUser = user_zero, StartTime = time_zero,
     LastSeenTime = time_zero, SessionDeletedAt = None\<rparr>"

definition session_schema :: "(Session, string) schema" where
  "session_schema =
     \<lparr>sc_pk = SessionID, sc_deleted = (\<lambda>s. SessionDeletedAt s \<noteq> None),
      sc_mark = (\<lambda>now s. s\<lparr>SessionDeletedAt := Some now\<rparr>),
      sc_created = (\<lambda>k now s. s),
      sc_updated = (\<lambda>now s. s),
      sc_conflict = (\<lambda>x y. SessionID x = SessionID y)\<rparr>"

lemma session_schema_simps [simp]:
  "sc_pk session_schema = SessionID"
  "sc_deleted session_schema = (\<lambda>s. SessionDeletedAt s \<noteq> None)"
  "sc_mark session_schema now = (\<lambda>s. s\<lparr>SessionDeletedAt := Some now\<rparr>)"
  "sc_created session_schema k now s = s"
  "sc_updated session_schema now s = s"
  "sc_conflict session_schema x y \<longleftrightarrow> SessionID x = SessionID y"
  by (simp_all add: session_schema_def)

definition mem_sessions :: "Session gorm" where
  "mem_sessions = mem_gorm session_schema (fresh_str SessionID)"

lemma session_schema_ok: "schema_ok session_schema (fresh_str SessionID)"
  using fresh_str_fresh [of "SessionID :: Session \<Rightarrow> string"] by (auto simp: schema_ok_def)

interpretation mem_sessions: gorm_available session_schema mem_sessions
  unfolding mem_sessions_def by (rule mem_gorm_available [OF session_schema_ok])

definition Session_fields :: "Session \<Rightarrow> field list" where
  "Session_fields s =
     [(''ID'', [Required, Gte 1, Lte 1000], FStr (SessionID s)),
      (''UserID'', [Required, Gte 1], FInt (int (UserID s)))]"

definition Session_BeforeSave :: "validator \<Rightarrow> Session \<Rightarrow> go_error option" where
  "Session_BeforeSave V s =
     (case validate_struct V (Session_fields s) of
        Some err \<Rightarrow> Some (Wrapped ''session not valid: '' err)
      | None \<Rightarrow> None)"

section \<open>Tokens and cookies\<close>

abbreviation sessionIDCookie :: string where "sessionIDCookie \<equiv> ''Session-Id''"
definition sessionExpiry :: duration where "sessionExpiry = 24 * Hour"
definition sessionLastSeenExpiry :: duration where "sessionLastSeenExpiry = Hour"

definition strSHA256 :: "string \<Rightarrow> string" where
  "strSHA256 s = base64_raw (sha256 s)"

lemma length_strSHA256 [simp]: "length (strSHA256 s) = 43"
  by (simp add: strSHA256_def length_base64_raw length_sha256)

text \<open>\<open>None\<close> is the panic on a base URL that does not parse.\<close>

definition cookieDomain :: "string \<Rightarrow> string option" where
  "cookieDomain baseURL = map_option url_Hostname (url_Parse baseURL)"

definition setSessionCookie ::
  "time \<Rightarrow> string \<Rightarrow> string \<Rightarrow> 'p response \<Rightarrow> 'p response option" where
  "setSessionCookie now baseURL sessionID w =
     (case cookieDomain baseURL of
        None \<Rightarrow> None
      | Some domain \<Rightarrow> Some (set_cookie
          \<lparr>CookieName = sessionIDCookie, CookieValue = sessionID,
           CookieExpires = now + sessionExpiry, CookiePath = ''/'', CookieDomain = domain,
           CookieSecure = True, CookieHttpOnly = True\<rparr> w))"

definition deleteSessionCookie :: "string \<Rightarrow> 'p response \<Rightarrow> 'p response option" where
  "deleteSessionCookie baseURL w =
     (case cookieDomain baseURL of
        None \<Rightarrow> None
      | Some domain \<Rightarrow> Some (set_cookie
          \<lparr>CookieName = sessionIDCookie, CookieValue = '''', CookieExpires = 0,
           CookiePath = ''/'', CookieDomain = domain, CookieSecure = True,
           CookieHttpOnly = True\<rparr> w))"

definition getSessionIDFromCookie :: "request \<Rightarrow> string" where
  "getSessionIDFromCookie r = (case Cookie r sessionIDCookie of None \<Rightarrow> '''' | Some v \<Rightarrow> v)"

section \<open>Operations\<close>

text \<open>
  What the authentication code uses: the dependencies of the users package, the sessions table,
  and the generator of random UUIDs (a library of its own), whose text is never empty.
\<close>

record auth_deps =
  ad_users :: user_deps
  ad_sessions :: "Session gorm"
  ad_uuid :: "nat \<Rightarrow> string"

definition GetSessionByID ::
  "auth_deps \<Rightarrow> (nat \<Rightarrow> time) \<Rightarrow> string \<Rightarrow> User list \<Rightarrow> Session list \<Rightarrow> Session result" where
  "GetSessionByID D cl sessionID us t =
     (case g_first (ad_sessions D) (cl 0) (\<lambda>s. SessionID s = strSHA256 sessionID) t of
        Inl err \<Rightarrow> Inl err
      | Inr row \<Rightarrow>
          (case g_assoc (ud_gorm (ad_users D)) (cl 0) (\<lambda>u. ID u = UserID row) us of
             Inl err \<Rightarrow> Inl err
           | Inr u \<Rightarrow>
               (let session = row\<lparr>SessionUser := (case u of None \<Rightarrow> user_zero | Some u' \<Rightarrow> u')\<rparr>
                in if time_Sub (cl 1) (StartTime session) > sessionExpiry \<or>
                      time_Sub (cl 2) (LastSeenTime session) > sessionLastSeenExpiry
                   then Inl (ErrorText ''session expired'')
                   else Inr session)))"

definition GetSession ::
  "auth_deps \<Rightarrow> (nat \<Rightarrow> time) \<Rightarrow> request \<Rightarrow> User list \<Rightarrow> Session list \<Rightarrow> Session result" where
  "GetSession D cl r us t =
     (let sessionID = getSessionIDFromCookie r
      in if sessionID = '''' then Inl (ErrorText ''no session id provided'')
         else GetSessionByID D cl sessionID us t)"

definition CreateSession ::
  "auth_deps \<Rightarrow> (nat \<Rightarrow> time) \<Rightarrow> nat \<Rightarrow> string \<Rightarrow> nat \<Rightarrow> Session list \<times> 'p response \<Rightarrow>
   outcome \<times> (Session list \<times> 'p response)" where
  "CreateSession D cl rnd baseURL userID s =
     (case s of (t, w) \<Rightarrow>
        let sid = ad_uuid D rnd; now = cl 0;
            session = session_zero\<lparr>SessionID := strSHA256 sid, UserID := userID,
                                   StartTime := now, LastSeenTime := now\<rparr>
        in (case g_create (ad_sessions D) (cl 1)
                    (Session_BeforeSave (ud_validator (ad_users D))) session t of
              Inl err \<Rightarrow> (Fail err, (t, w))
            | Inr (_, t') \<Rightarrow>
                (case setSessionCookie (cl 2) baseURL sid w of
                   None \<Rightarrow> (Panic ''invalid baseURL'', (t', w))
                 | Some w' \<Rightarrow> (Done, (t', w')))))"

definition UpdateSessionLastSeen ::
  "auth_deps \<Rightarrow> (nat \<Rightarrow> time) \<Rightarrow> Session \<Rightarrow> Session list \<Rightarrow> go_error option \<times> Session list" where
  "UpdateSessionLastSeen D cl session t =
     (let now = cl 0
      in (case g_updates (ad_sessions D) (cl 1)
                  (Session_BeforeSave (ud_validator (ad_users D))) session
                  (\<lambda>s. s\<lparr>LastSeenTime := now\<rparr>) t of
            Inl err \<Rightarrow> (Some err, t)
          | Inr t' \<Rightarrow> (None, t')))"

definition DeleteSession ::
  "auth_deps \<Rightarrow> (nat \<Rightarrow> time) \<Rightarrow> string \<Rightarrow> request \<Rightarrow> Session list \<times> 'p response \<Rightarrow>
   outcome \<times> (Session list \<times> 'p response)" where
  "DeleteSession D cl baseURL r s =
     (case s of (t, w) \<Rightarrow>
        let sessionID = getSessionIDFromCookie r
        in if sessionID = '''' then (Fail (ErrorText ''no session id provided''), (t, w))
           else
             (case g_delete (ad_sessions D) (cl 0) (\<lambda>x. SessionID x = strSHA256 sessionID) t of
                Inl err \<Rightarrow> (Fail err, (t, w))
              | Inr (_, t') \<Rightarrow>
                  (case deleteSessionCookie baseURL w of
                     None \<Rightarrow> (Panic ''invalid baseURL'', (t', w))
                   | Some w' \<Rightarrow> (Done, (t', w')))))"

definition DeleteExpiredSessions ::
  "auth_deps \<Rightarrow> (nat \<Rightarrow> time) \<Rightarrow> Session list \<Rightarrow> nat result \<times> Session list" where
  "DeleteExpiredSessions D cl t =
     (let timeBuffer = Hour;
          startTimeThreshold = cl 0 - sessionExpiry - timeBuffer;
          lastSeenThreshold = cl 1 - sessionLastSeenExpiry - timeBuffer
      in (case g_delete (ad_sessions D) (cl 2)
                  (\<lambda>s. StartTime s < startTimeThreshold \<or> LastSeenTime s < lastSeenThreshold) t of
            Inl err \<Rightarrow> (Inl err, t)
          | Inr (n, t') \<Rightarrow> (Inr n, t')))"

text \<open>The housekeeping worker, which the scheduler queues a task for every hour.\<close>

abbreviation HouseKeepingQueueName :: string where "HouseKeepingQueueName \<equiv> ''authHouseKeeping''"

definition HouseKeepingQueueWorker ::
  "auth_deps \<Rightarrow> (nat \<Rightarrow> time) \<Rightarrow> Session list \<Rightarrow> go_error option \<times> Session list" where
  "HouseKeepingQueueWorker D cl t =
     (case DeleteExpiredSessions D cl t of
        (Inl err, t') \<Rightarrow> (Some err, t')
      | (Inr sessionsDeleted, t') \<Rightarrow> (None, t'))"

end
