(* ===== verification/SessionFacts.thy ===== *)
theory SessionFacts
  imports Sessions
begin

text \<open>
  Facts about the sessions table: what each operation does to it when it succeeds, that every
  operation keeps it well formed, never changes when a session started, and never revives a
  deleted row; when a request's session is accepted.
\<close>

section \<open>Hypotheses and invariant\<close>

definition auth_deps_ok :: "auth_deps \<Rightarrow> bool" where
  "auth_deps_ok D \<longleftrightarrow>
     user_deps_ok (ad_users D) \<and> gorm_table session_schema (ad_sessions D) \<and>
     (\<forall>rnd. ad_uuid D rnd \<noteq> '''')"

definition auth_deps_up :: "auth_deps \<Rightarrow> bool" where
  "auth_deps_up D \<longleftrightarrow>
     auth_deps_ok D \<and> gorm_available session_schema (ad_sessions D) \<and>
     gorm_available user_schema (ud_gorm (ad_users D))"

definition sessions_inv :: "auth_deps \<Rightarrow> Session list \<Rightarrow> bool" where
  "sessions_inv D t \<longleftrightarrow>
     distinct (map SessionID t) \<and>
     (\<forall>s \<in> set t. Session_BeforeSave (ud_validator (ad_users D)) s = None)"

definition demo_auth :: auth_deps where
  "demo_auth = \<lparr>ad_users = demo_deps, ad_sessions = mem_sessions,
     ad_uuid = (\<lambda>n. ''7d444840-9dc0-11d1-b245-'' @ show_nat n)\<rparr>"

lemma demo_auth_simps [simp]:
  "ad_users demo_auth = demo_deps" "ad_sessions demo_auth = mem_sessions"
  "ad_uuid demo_auth n = ''7d444840-9dc0-11d1-b245-'' @ show_nat n"
  by (simp_all add: demo_auth_def)

lemma demo_auth_ok [simp]: "auth_deps_ok demo_auth"
  by (simp add: auth_deps_ok_def mem_sessions.gorm_table_axioms)

lemma demo_auth_up [simp]: "auth_deps_up demo_auth"
  by (simp add: auth_deps_up_def mem_sessions.gorm_available_axioms
      mem_users.gorm_available_axioms)

lemma auth_deps_okD:
  assumes "auth_deps_ok D"
  shows "user_deps_ok (ad_users D)" "gorm_table session_schema (ad_sessions D)"
    "ad_uuid D rnd \<noteq> ''''" "tag_meaning (ud_validator (ad_users D))"
    "gorm_table user_schema (ud_gorm (ad_users D))"
  using assms by (simp_all add: auth_deps_ok_def user_deps_ok_def)

lemma auth_deps_upD:
  assumes "auth_deps_up D"
  shows "auth_deps_ok D" "gorm_available session_schema (ad_sessions D)"
    "gorm_available user_schema (ud_gorm (ad_users D))"
  using assms by (simp_all add: auth_deps_up_def)

lemma Session_BeforeSave_None_iff:
  assumes "tag_meaning V"
  shows "Session_BeforeSave V s = None \<longleftrightarrow>
     SessionID s \<noteq> '''' \<and> rune_count (SessionID s) \<le> 1000 \<and> 1 \<le> UserID s"
proof -
  have "Session_BeforeSave V s = None \<longleftrightarrow> validate_struct V (Session_fields s) = None"
    by (simp add: Session_BeforeSave_def split: option.splits)
  then show ?thesis
    by (auto simp: validate_struct_None Session_fields_def field_ok_def
        tag_meaning.tag_simps [OF assms] Suc_le_eq)
qed

lemma Session_BeforeSave_columns [simp]:
  "Session_BeforeSave V (s\<lparr>LastSeenTime := n\<rparr>) = Session_BeforeSave V s"
  "Session_BeforeSave V (s\<lparr>SessionDeletedAt := d\<rparr>) = Session_BeforeSave V s"
  "Session_BeforeSave V (s\<lparr>SessionUser := u\<rparr>) = Session_BeforeSave V s"
  by (simp_all add: Session_BeforeSave_def Session_fields_def)

lemma hashed_token_valid:
  assumes "tag_meaning V" "SessionID s = strSHA256 token"
  shows "Session_BeforeSave V s = None \<longleftrightarrow> 1 \<le> UserID s"
proof -
  have "length (SessionID s) = 43" using assms(2) by simp
  then show ?thesis
    using Session_BeforeSave_None_iff [OF assms(1), of s] rune_count_le [of "SessionID s"]
    by auto
qed

section \<open>What a successful operation did\<close>

lemma CreateSession_row:
  assumes D: "auth_deps_ok D"
    and run: "CreateSession D cl rnd baseURL uid (t, w) = (out, (t', w'))"
    and out: "\<And>e. out \<noteq> Fail e"
  obtains s where
    "s = session_zero\<lparr>SessionID := strSHA256 (ad_uuid D rnd), UserID := uid,
       StartTime := cl 0, LastSeenTime := cl 0\<rparr>"
    "t' = t @ [s]" "Session_BeforeSave (ud_validator (ad_users D)) s = None"
    "\<And>x. x \<in> set t \<Longrightarrow> SessionID x \<noteq> SessionID s"
proof -
  let ?s = "session_zero\<lparr>SessionID := strSHA256 (ad_uuid D rnd), UserID := uid,
     StartTime := cl 0, LastSeenTime := cl 0\<rparr>"
  from run out obtain r' where
    c: "g_create (ad_sessions D) (cl 1) (Session_BeforeSave (ud_validator (ad_users D))) ?s t = Inr (r', t')"
    by (auto simp: CreateSession_def Let_def split: sum.splits option.splits)
  from gorm_table.create_ok [OF auth_deps_okD(2) [OF D] c] show thesis
    by (intro that [of ?s]) auto
qed

lemma UpdateSessionLastSeen_ok:
  assumes "auth_deps_ok D" "UpdateSessionLastSeen D cl s t = (None, t')"
  shows "t' = upd_where (\<lambda>y. SessionID y = SessionID s \<and> SessionDeletedAt y = None)
    (\<lambda>y. y\<lparr>LastSeenTime := cl 0\<rparr>) t"
  using assms gorm_table.updates_rows [OF auth_deps_okD(2) [OF assms(1)]]
  by (force simp: UpdateSessionLastSeen_def Let_def split: sum.splits)

lemma DeleteSession_row:
  assumes D: "auth_deps_ok D"
    and run: "DeleteSession D cl baseURL r (t, w) = (out, (t', w'))"
    and out: "\<And>e. out \<noteq> Fail e"
  shows "getSessionIDFromCookie r \<noteq> ''''"
    "t' = upd_where
       (\<lambda>y. SessionDeletedAt y = None \<and> SessionID y = strSHA256 (getSessionIDFromCookie r))
       (\<lambda>y. y\<lparr>SessionDeletedAt := Some (cl 0)\<rparr>) t"
proof -
  let ?p = "\<lambda>x. SessionID x = strSHA256 (getSessionIDFromCookie r)"
  from run out obtain n where "getSessionIDFromCookie r \<noteq> ''''"
    and d: "g_delete (ad_sessions D) (cl 0) ?p t = Inr (n, t')"
    by (auto simp: DeleteSession_def Let_def split: sum.splits option.splits if_splits)
  then show "getSessionIDFromCookie r \<noteq> ''''"
    "t' = upd_where (\<lambda>y. SessionDeletedAt y = None \<and> ?p y)
       (\<lambda>y. y\<lparr>SessionDeletedAt := Some (cl 0)\<rparr>) t"
    using gorm_table.delete_rows [OF auth_deps_okD(2) [OF D] d] by auto
qed

definition stale :: "(nat \<Rightarrow> time) \<Rightarrow> Session \<Rightarrow> bool" where
  "stale cl s \<longleftrightarrow> cl 0 - StartTime s > 25 * Hour \<or> cl 1 - LastSeenTime s > 2 * Hour"

lemma DeleteExpiredSessions_ok:
  assumes D: "auth_deps_ok D" and run: "DeleteExpiredSessions D cl t = (Inr n, t')"
  shows "n = length (filter (\<lambda>s. SessionDeletedAt s = None \<and> stale cl s) t)"
    "t' = upd_where (\<lambda>y. SessionDeletedAt y = None \<and> stale cl y)
       (\<lambda>y. y\<lparr>SessionDeletedAt := Some (cl 2)\<rparr>) t"
proof -
  have p: "(\<lambda>s. StartTime s < cl 0 - sessionExpiry - Hour \<or>
      LastSeenTime s < cl 1 - sessionLastSeenExpiry - Hour) = stale cl"
    by (auto simp: stale_def sessionExpiry_def sessionLastSeenExpiry_def fun_eq_iff)
  from run have d: "g_delete (ad_sessions D) (cl 2) (stale cl) t = Inr (n, t')"
    by (auto simp: DeleteExpiredSessions_def Let_def p simp del: One_nat_def split: sum.splits)
  show "n = length (filter (\<lambda>s. SessionDeletedAt s = None \<and> stale cl s) t)"
    "t' = upd_where (\<lambda>y. SessionDeletedAt y = None \<and> stale cl y)
       (\<lambda>y. y\<lparr>SessionDeletedAt := Some (cl 2)\<rparr>) t"
    using gorm_table.delete_rows [OF auth_deps_okD(2) [OF D] d] by (auto simp: live_rows_def)
qed

section \<open>The operations as a whole\<close>

datatype session_op =
    CreateSessionOp "nat \<Rightarrow> time" nat string nat
  | UpdateLastSeenOp "nat \<Rightarrow> time" Session
  | DeleteSessionOp "nat \<Rightarrow> time" string request
  | HouseKeepingOp "nat \<Rightarrow> time"

definition outcome_error :: "outcome \<Rightarrow> go_error option" where
  "outcome_error out = (case out of Fail e \<Rightarrow> Some e | _ \<Rightarrow> None)"

fun run_session_op ::
  "auth_deps \<Rightarrow> session_op \<Rightarrow> Session list \<Rightarrow> go_error option \<times> Session list" where
  "run_session_op D (CreateSessionOp cl rnd baseURL uid) t =
     (case CreateSession D cl rnd baseURL uid (t, new_response :: unit response) of
        (out, (t', _)) \<Rightarrow> (outcome_error out, t'))"
| "run_session_op D (UpdateLastSeenOp cl s) t = UpdateSessionLastSeen D cl s t"
| "run_session_op D (DeleteSessionOp cl baseURL r) t =
     (case DeleteSession D cl baseURL r (t, new_response :: unit response) of
        (out, (t', _)) \<Rightarrow> (outcome_error out, t'))"
| "run_session_op D (HouseKeepingOp cl) t = HouseKeepingQueueWorker D cl t"

text \<open>
  Every operation that succeeds either appends one valid row with a new key, or rewrites the last
  use of live rows, or marks live rows as deleted.
\<close>

lemma session_op_cases:
  assumes D: "auth_deps_ok D" and run: "run_session_op D op t = (None, t')"
  obtains (append) s where "t' = t @ [s]"
      "Session_BeforeSave (ud_validator (ad_users D)) s = None" "SessionDeletedAt s = None"
      "\<And>x. x \<in> set t \<Longrightarrow> SessionID x \<noteq> SessionID s"
  | (touch) p n where
      "t' = upd_where (\<lambda>y. p y \<and> SessionDeletedAt y = None) (\<lambda>y. y\<lparr>LastSeenTime := n\<rparr>) t"
  | (mark) p n where
      "t' = upd_where (\<lambda>y. SessionDeletedAt y = None \<and> p y) (\<lambda>y. y\<lparr>SessionDeletedAt := Some n\<rparr>) t"
proof (cases op)
  case (CreateSessionOp cl rnd baseURL uid)
  with run obtain out w' where
    "CreateSession D cl rnd baseURL uid (t, new_response :: unit response) = (out, (t', w'))"
    "\<And>e. out \<noteq> Fail e"
    by (auto simp: outcome_error_def split: prod.splits outcome.splits)
  then show thesis
  proof (rule CreateSession_row [OF D])
    fix s :: Session
    assume "s = session_zero\<lparr>SessionID := strSHA256 (ad_uuid D rnd), UserID := uid,
        StartTime := cl 0, LastSeenTime := cl 0\<rparr>"
      and "t' = t @ [s]" "Session_BeforeSave (ud_validator (ad_users D)) s = None"
      and "\<And>x. x \<in> set t \<Longrightarrow> SessionID x \<noteq> SessionID s"
    then show thesis by (intro append [of s]) (auto simp: session_zero_def)
  qed
next
  case (UpdateLastSeenOp cl s)
  with run have "UpdateSessionLastSeen D cl s t = (None, t')" by simp
  from UpdateSessionLastSeen_ok [OF D this] show thesis by (rule touch)
next
  case (DeleteSessionOp cl baseURL r)
  with run obtain out w' where
    "DeleteSession D cl baseURL r (t, new_response :: unit response) = (out, (t', w'))"
    "\<And>e. out \<noteq> Fail e"
    by (auto simp: outcome_error_def split: prod.splits outcome.splits)
  from DeleteSession_row(2) [OF D this] show thesis by (rule mark)
next
  case (HouseKeepingOp cl)
  with run obtain n where "DeleteExpiredSessions D cl t = (Inr n, t')"
    by (auto simp: HouseKeepingQueueWorker_def split: prod.splits sum.splits)
  from DeleteExpiredSessions_ok(2) [OF D this] show thesis by (rule mark)
qed

lemma session_op_error: "run_session_op D op t = (Some e, t') \<Longrightarrow> t' = t"
  by (cases op) (auto simp: CreateSession_def UpdateSessionLastSeen_def DeleteSession_def
      HouseKeepingQueueWorker_def DeleteExpiredSessions_def outcome_error_def Let_def
      split: option.splits sum.splits outcome.splits prod.splits if_splits)

lemma session_op_inv:
  assumes D: "auth_deps_ok D" and inv: "sessions_inv D t"
    and run: "run_session_op D op t = (None, t')"
  shows "sessions_inv D t'"
  using D run
proof (cases rule: session_op_cases)
  case (append s)
  with inv show ?thesis by (fastforce simp: sessions_inv_def)
qed (use inv in \<open>auto simp: sessions_inv_def set_upd_where map_upd_where_same\<close>)

interpretation session_ops: table_operation auth_deps_ok sessions_inv run_session_op
  by unfold_locales (auto intro: session_op_error session_op_inv)

text \<open>
  A property of a row that survives a touch and a deletion holds of the row with that key after
  any sequence of operations; a deleted row stays as it is.
\<close>

definition kept :: "Session \<Rightarrow> Session list \<Rightarrow> bool" where
  "kept s t \<longleftrightarrow> (\<exists>s' \<in> set t. SessionID s' = SessionID s \<and> StartTime s' = StartTime s \<and>
     (SessionDeletedAt s \<noteq> None \<longrightarrow> SessionDeletedAt s' \<noteq> None))"

lemma kept_upd_where:
  assumes "kept s t"
    and "\<And>y. SessionID (f y) = SessionID y \<and> StartTime (f y) = StartTime y"
    and "\<And>y. SessionDeletedAt y \<noteq> None \<Longrightarrow> p y \<Longrightarrow> SessionDeletedAt (f y) \<noteq> None"
  shows "kept s (upd_where p f t)"
proof -
  from assms(1) obtain y where y: "y \<in> set t" "SessionID y = SessionID s"
    "StartTime y = StartTime s" "SessionDeletedAt s \<noteq> None \<longrightarrow> SessionDeletedAt y \<noteq> None"
    by (auto simp: kept_def)
  show ?thesis
  proof (cases "p y")
    case True
    then have "f y \<in> set (upd_where p f t)" using y(1) by (auto simp: set_upd_where)
    moreover have "SessionDeletedAt s \<noteq> None \<Longrightarrow> SessionDeletedAt (f y) \<noteq> None"
      using y(4) assms(3) [OF _ True] by blast
    ultimately show ?thesis using assms(2) [of y] y unfolding kept_def by (metis (no_types))
  next
    case False
    then have "y \<in> set (upd_where p f t)" using y(1) by (auto simp: set_upd_where)
    then show ?thesis using y unfolding kept_def by blast
  qed
qed

lemma kept_step:
  assumes D: "auth_deps_ok D" and k: "kept s t"
  shows "kept s (snd (run_session_op D op t))"
proof (cases "fst (run_session_op D op t)")
  case (Some e)
  then have "snd (run_session_op D op t) = t"
    by (intro session_op_error [of D op t e]) (metis prod.collapse)
  with k show ?thesis by simp
next
  case None
  then have run: "run_session_op D op t = (None, snd (run_session_op D op t))"
    by (metis prod.collapse)
  from D run show ?thesis
  proof (cases rule: session_op_cases)
    case (append x)
    then show ?thesis using k by (auto simp: kept_def)
  next
    case (touch p n)
    show ?thesis unfolding touch by (rule kept_upd_where [OF k]) auto
  next
    case (mark p n)
    show ?thesis unfolding mark by (rule kept_upd_where [OF k]) auto
  qed
qed

lemma kept_ops:
  "auth_deps_ok D \<Longrightarrow> kept s t \<Longrightarrow> kept s (fold (\<lambda>op t. snd (run_session_op D op t)) ops t)"
  by (induction ops arbitrary: t) (auto simp: kept_step)

section \<open>When a session is accepted\<close>

definition fresh_session :: "(nat \<Rightarrow> time) \<Rightarrow> Session \<Rightarrow> bool" where
  "fresh_session cl s \<longleftrightarrow> cl 1 - StartTime s \<le> 24 * Hour \<and> cl 2 - LastSeenTime s \<le> Hour"

lemma fresh_session_user [simp]: "fresh_session cl (s\<lparr>SessionUser := u\<rparr>) = fresh_session cl s"
  by (simp add: fresh_session_def)

lemma expiry_iff:
  "time_Sub (cl 1) (StartTime s) > sessionExpiry \<or>
   time_Sub (cl 2) (LastSeenTime s) > sessionLastSeenExpiry \<longleftrightarrow> \<not> fresh_session cl s"
  by (simp add: sessionExpiry_def sessionLastSeenExpiry_def time_Sub_gt_iff fresh_session_def
      not_le)

lemma GetSession_Inr:
  assumes D: "auth_deps_ok D" and get: "GetSession D cl r us t = Inr s"
  obtains row where "getSessionIDFromCookie r \<noteq> ''''" "row \<in> set t"
    "SessionDeletedAt row = None" "SessionID row = strSHA256 (getSessionIDFromCookie r)"
    "fresh_session cl row" "s = row\<lparr>SessionUser := SessionUser s\<rparr>"
    "(SessionUser s \<in> set us \<and> DeletedAt (SessionUser s) = None \<and> ID (SessionUser s) = UserID row) \<or>
     (SessionUser s = user_zero \<and> (\<forall>u \<in> set us. ID u = UserID row \<longrightarrow> DeletedAt u \<noteq> None))"
proof -
  let ?id = "getSessionIDFromCookie r"
  from get obtain row u where id: "?id \<noteq> ''''"
    and f: "g_first (ad_sessions D) (cl 0) (\<lambda>s. SessionID s = strSHA256 ?id) t = Inr row"
    and a: "g_assoc (ud_gorm (ad_users D)) (cl 0) (\<lambda>u. ID u = UserID row) us = Inr u"
    and fresh: "fresh_session cl row"
    and s: "s = row\<lparr>SessionUser := (case u of None \<Rightarrow> user_zero | Some u' \<Rightarrow> u')\<rparr>"
    by (auto simp: GetSession_def GetSessionByID_def Let_def expiry_iff simp del: One_nat_def
        split: sum.splits if_splits)
  have row: "row \<in> set t \<and> SessionDeletedAt row = None \<and> SessionID row = strSHA256 ?id"
    using gorm_table.first_row [OF auth_deps_okD(2) [OF D] f] by simp
  have "(SessionUser s \<in> set us \<and> DeletedAt (SessionUser s) = None \<and> ID (SessionUser s) = UserID row) \<or>
     (SessionUser s = user_zero \<and> (\<forall>u \<in> set us. ID u = UserID row \<longrightarrow> DeletedAt u \<noteq> None))"
  proof (cases u)
    case None
    then show ?thesis using gorm_table.assoc_none [OF auth_deps_okD(5) [OF D]] a s
      by (auto simp: live_rows_def filter_empty_conv)
  next
    case (Some u')
    then show ?thesis using gorm_table.assoc_row [OF auth_deps_okD(5) [OF D]] a s by fastforce
  qed
  with id row fresh s show thesis by (intro that) auto
qed

lemma GetSession_total:
  assumes D: "auth_deps_up D" and d: "distinct (map SessionID t)"
    and row: "row \<in> set t" "SessionDeletedAt row = None"
      "SessionID row = strSHA256 (getSessionIDFromCookie r)"
    and id: "getSessionIDFromCookie r \<noteq> ''''" and fresh: "fresh_session cl row"
  obtains s where "GetSession D cl r us t = Inr s" "UserID s = UserID row"
proof -
  let ?id = "getSessionIDFromCookie r" and ?p = "\<lambda>s. SessionID s = strSHA256 (getSessionIDFromCookie r)"
  have "live_rows session_schema ?p t \<noteq> []"
    using row by (auto simp: live_rows_def filter_empty_conv)
  then obtain row' where f: "g_first (ad_sessions D) (cl 0) ?p t = Inr row'"
    using gorm_available.first_total [OF auth_deps_upD(2) [OF D]] by blast
  have "row' = row"
    using gorm_table.first_row [OF auth_deps_okD(2) [OF auth_deps_upD(1) [OF D]] f] row d
    by (auto intro: distinct_key_eq)
  moreover obtain u where
    "g_assoc (ud_gorm (ad_users D)) (cl 0) (\<lambda>u. ID u = UserID row) us = Inr u"
    using gorm_available.assoc_total [OF auth_deps_upD(3) [OF D]] by blast
  ultimately show thesis
    using f fresh id expiry_iff [of cl row]
    by (intro that [of "row\<lparr>SessionUser := (case u of None \<Rightarrow> user_zero | Some u' \<Rightarrow> u')\<rparr>"])
      (auto simp: GetSession_def GetSessionByID_def Let_def)
qed

end
