(* ===== verification/SessionProps.thy ===== *)
theory SessionProps
  imports SessionFacts UserProps
begin

text \<open>
  The properties of sessions: when a request's session is accepted, what it carries, how it
  starts, how long it can last, how it ends, and that housekeeping ends none.
\<close>

definition demo_session :: "string \<Rightarrow> nat \<Rightarrow> time \<Rightarrow> Session" where
  "demo_session token uid start = session_zero\<lparr>SessionID := strSHA256 token, UserID := uid,
     StartTime := start, LastSeenTime := start\<rparr>"

definition demo_sessions :: "Session list" where
  "demo_sessions = [demo_session ''tok'' 1 0]"

definition cookie_request :: "string \<Rightarrow> string \<Rightarrow> string \<Rightarrow> request" where
  "cookie_request m p token =
     (plain_request m p)\<lparr>Cookie := (\<lambda>n. if n = sessionIDCookie then Some token else None)\<rparr>"

lemma cookie_request_token [simp]: "getSessionIDFromCookie (cookie_request m p token) = token"
  by (simp add: getSessionIDFromCookie_def cookie_request_def)

lemma demo_session_simps [simp]:
  "SessionID (demo_session token uid start) = strSHA256 token"
  "UserID (demo_session token uid start) = uid"
  "StartTime (demo_session token uid start) = start"
  "LastSeenTime (demo_session token uid start) = start"
  "SessionDeletedAt (demo_session token uid start) = None"
  by (simp_all add: demo_session_def session_zero_def)

lemma demo_sessions_inv [simp]: "sessions_inv demo_auth demo_sessions"
  by (simp add: sessions_inv_def demo_sessions_def hashed_token_valid [OF std_tags.tag_meaning_axioms, of _ "''tok''"])

text \<open>whatever sequence of log-ins, touches, log-outs and housekeeping runs on a well-formed
  sessions table, the table stays well formed: keys are unique and every row is valid.\<close>

theorem sessions_table_stays_valid:
  assumes "auth_deps_ok D" "sessions_inv D t"
  shows "sessions_inv D (fold (\<lambda>op t. snd (run_session_op D op t)) ops t)"
  using assms by (rule session_ops.ops_inv)

theorem sessions_table_stays_valid_witness:
  "sessions_inv demo_auth (fold (\<lambda>op t. snd (run_session_op demo_auth op t))
     [CreateSessionOp (\<lambda>_. 5) 0 ''http://h'' 1, HouseKeepingOp (\<lambda>_. 9)] demo_sessions)"
  by (rule sessions_table_stays_valid) simp_all

text \<open>C16: when the database answers, a request's session is accepted exactly when the request has a
  session cookie, the table has a live row keyed by the hash of its value, the session started at
  most 24 hours ago and was last used at most one hour ago.\<close>

theorem session_accepted_iff:
  assumes D: "auth_deps_up D" and inv: "sessions_inv D t"
  shows "(\<exists>s. GetSession D cl r us t = Inr s) \<longleftrightarrow>
    getSessionIDFromCookie r \<noteq> '''' \<and>
    (\<exists>row. row \<in> set t \<and> SessionDeletedAt row = None \<and>
       SessionID row = strSHA256 (getSessionIDFromCookie r) \<and>
       cl 1 - StartTime row \<le> 24 * Hour \<and> cl 2 - LastSeenTime row \<le> Hour)"
    (is "?l \<longleftrightarrow> ?r")
proof
  assume ?l
  then obtain s where "GetSession D cl r us t = Inr s" by blast
  from GetSession_Inr [OF auth_deps_upD(1) [OF D] this] show ?r
    unfolding fresh_session_def by metis
next
  assume ?r
  then obtain row where "getSessionIDFromCookie r \<noteq> ''''" "row \<in> set t" "SessionDeletedAt row = None"
    "SessionID row = strSHA256 (getSessionIDFromCookie r)" "fresh_session cl row"
    unfolding fresh_session_def by blast
  then show ?l using inv GetSession_total [OF D, of t row r cl us] unfolding sessions_inv_def by metis
qed

theorem session_accepted_iff_witness:
  "\<exists>s. GetSession demo_auth (\<lambda>_. Hour) (cookie_request ''GET'' ''/'' ''tok'') demo_table demo_sessions = Inr s"
  using session_accepted_iff [OF demo_auth_up demo_sessions_inv,
      of "\<lambda>_. Hour" "cookie_request ''GET'' ''/'' ''tok''" demo_table]
  by (simp add: demo_sessions_def)

text \<open>an accepted session carries the live account it was started for, with its current access
  level; once that account has been deleted it carries an account with access level 0.\<close>

theorem session_carries_current_account:
  assumes D: "auth_deps_ok D" and us: "users_inv (ad_users D) us"
    and get: "GetSession D cl r us t = Inr s" and u: "u \<in> set us" "ID u = UserID s"
  shows "SessionUser s = (if DeletedAt u = None then u else user_zero) \<and>
    AccessLevel user_zero = 0"
proof -
  have "distinct (map ID us)" using us by (simp add: users_inv_def)
  with u have uniq: "u' = u" if "u' \<in> set us" "ID u' = UserID s" for u'
    using that by (auto intro: distinct_key_eq)
  from D get show ?thesis
  proof (rule GetSession_Inr)
    fix row
    assume "s = row\<lparr>SessionUser := SessionUser s\<rparr>"
    then have "UserID s = UserID (row\<lparr>SessionUser := SessionUser s\<rparr>)" by (rule arg_cong)
    then have "UserID row = UserID s" by simp
    moreover assume "SessionUser s \<in> set us \<and> DeletedAt (SessionUser s) = None \<and> ID (SessionUser s) = UserID row \<or>
      SessionUser s = user_zero \<and> (\<forall>u\<in>set us. ID u = UserID row \<longrightarrow> DeletedAt u \<noteq> None)"
    ultimately consider "SessionUser s = u" "DeletedAt u = None"
      | "SessionUser s = user_zero" "DeletedAt u \<noteq> None"
      using uniq [of "SessionUser s"] u by metis
    then show ?thesis by cases (auto simp: user_zero_def)
  qed
qed

theorem session_carries_current_account_witness:
  "\<exists>s. GetSession demo_auth (\<lambda>_. Hour) (cookie_request ''GET'' ''/'' ''tok'') demo_table demo_sessions = Inr s \<and>
     Username (SessionUser s) = ''alice''"
proof -
  obtain s where s: "GetSession demo_auth (\<lambda>_. Hour) (cookie_request ''GET'' ''/'' ''tok'') demo_table demo_sessions = Inr s"
    "UserID s = 1"
    by (rule GetSession_total [OF demo_auth_up, of demo_sessions "demo_session ''tok'' 1 0"
          "cookie_request ''GET'' ''/'' ''tok''" "\<lambda>_. Hour" demo_table])
      (simp_all add: demo_sessions_def fresh_session_def)
  have "users_inv (ad_users demo_auth) demo_table" using demo_table_inv by simp
  moreover have "hd demo_table \<in> set demo_table" "ID (hd demo_table) = UserID s"
    "DeletedAt (hd demo_table) = None" "Username (hd demo_table) = ''alice''"
    using s(2) by (simp_all add: demo_table_def demo_user_def user_zero_def)
  ultimately show ?thesis
    using session_carries_current_account [OF demo_auth_ok, of demo_table _ _ demo_sessions s "hd demo_table"] s(1)
    by metis
qed

text \<open>C18: the cookie of a successful log-in is accepted as that user, and stays accepted for an hour
  without any further request; it is sent over secure connections only and hidden from scripts.\<close>

theorem created_session_is_accepted:
  assumes D: "auth_deps_up D" and inv: "sessions_inv D t" and w: "rs_status w = None"
    and run: "CreateSession D cl rnd baseURL uid (t, w) = (Done, (t', w'))"
    and later: "cl' 1 - cl 0 \<le> Hour" "cl' 2 - cl 0 \<le> Hour"
  shows "\<exists>c. rs_cookies w' = rs_cookies w @ [c] \<and> CookieName c = sessionIDCookie \<and>
    CookieSecure c \<and> CookieHttpOnly c \<and>
    (\<exists>s. GetSession D cl' (cookie_request m p (CookieValue c)) us t' = Inr s \<and> UserID s = uid)"
proof -
  let ?tok = "ad_uuid D rnd"
  have ok: "auth_deps_ok D" by (rule auth_deps_upD(1) [OF D])
  from run obtain c where c: "rs_cookies w' = rs_cookies w @ [c]" "CookieName c = sessionIDCookie"
    "CookieSecure c" "CookieHttpOnly c" "CookieValue c = ?tok"
    using w by (auto simp: CreateSession_def Let_def setSessionCookie_def set_cookie_def
        split: sum.splits option.splits)
  from CreateSession_row [OF ok run] obtain row where
    row: "row = session_zero\<lparr>SessionID := strSHA256 ?tok, UserID := uid,
       StartTime := cl 0, LastSeenTime := cl 0\<rparr>"
    and t': "t' = t @ [row]" and "\<And>x. x \<in> set t \<Longrightarrow> SessionID x \<noteq> SessionID row"
    by blast
  then have d: "distinct (map SessionID t')"
    unfolding t' using inv by (fastforce simp: sessions_inv_def simp del: row)
  have "fresh_session cl' row" using later by (simp add: fresh_session_def row)
  then obtain s where "GetSession D cl' (cookie_request m p ?tok) us t' = Inr s" "UserID s = uid"
    using GetSession_total [OF D d, of row "cookie_request m p ?tok" cl' us] auth_deps_okD(3) [OF ok]
    by (auto simp: t' row session_zero_def)
  with c show ?thesis by auto
qed

lemma demo_login:
  obtains t' w' where "CreateSession demo_auth (\<lambda>_. 5) 0 ''https://pods.example.org'' 1
     ([], new_response) = (Done, (t', w' :: unit response))"
proof -
  let ?s = "session_zero\<lparr>SessionID := strSHA256 (ad_uuid demo_auth 0), UserID := 1,
     StartTime := 5, LastSeenTime := 5\<rparr>"
  have "cookieDomain ''https://pods.example.org'' \<noteq> None" by code_simp
  then obtain dom where dom: "cookieDomain ''https://pods.example.org'' = Some dom" by blast
  have hook: "Session_BeforeSave std_validator ?s = None"
    by (subst hashed_token_valid [OF std_tags.tag_meaning_axioms]) auto
  then obtain r' t' where "g_create mem_sessions 5 (Session_BeforeSave std_validator) ?s [] = Inr (r', t')"
    using mem_sessions.create_total [of "Session_BeforeSave std_validator" ?s "[]" 5] by auto
  with dom show thesis
    by (auto simp: CreateSession_def Let_def setSessionCookie_def intro!: that)
qed

theorem created_session_is_accepted_witness:
  "\<exists>c s w' t'. CreateSession demo_auth (\<lambda>_. 5) 0 ''https://pods.example.org'' 1
     ([], new_response) = (Done, (t', w' :: unit response)) \<and> c \<in> set (rs_cookies w') \<and>
     GetSession demo_auth (\<lambda>_. Hour) (cookie_request ''GET'' ''/'' (CookieValue c)) demo_table t' = Inr s \<and>
     UserID s = 1"
proof -
  obtain t' w' where run: "CreateSession demo_auth (\<lambda>_. 5) 0 ''https://pods.example.org'' 1
     ([], new_response) = (Done, (t', w' :: unit response))" by (rule demo_login)
  moreover have "sessions_inv demo_auth []" by (simp add: sessions_inv_def)
  ultimately show ?thesis
    using created_session_is_accepted [OF demo_auth_up _ _ run, of "\<lambda>_. Hour" "''GET''" "''/''" demo_table]
    by (fastforce simp: new_response_def)
qed

text \<open>a session never outlasts 24 hours: whatever touches, log-outs, log-ins and housekeeping
  happen in between, a token whose row started more than 24 hours ago is refused.\<close>

theorem session_lifetime_capped:
  assumes D: "auth_deps_ok D" and inv: "sessions_inv D t"
    and row: "row \<in> set t" "SessionID row = strSHA256 (getSessionIDFromCookie r)"
    and old: "cl 1 - StartTime row > 24 * Hour"
  shows "\<exists>e. GetSession D cl r us (fold (\<lambda>op t. snd (run_session_op D op t)) ops t) = Inl e"
    (is "\<exists>e. GetSession D cl r us ?t = Inl e")
proof (cases "GetSession D cl r us ?t")
  case (Inr s)
  have "kept row t" using row(1) by (auto simp: kept_def)
  then obtain y where y: "y \<in> set ?t" "SessionID y = SessionID row" "StartTime y = StartTime row"
    using kept_ops [OF D, of row t ops] unfolding kept_def by blast
  have d: "distinct (map SessionID ?t)"
    using session_ops.ops_inv [OF D inv] by (simp add: sessions_inv_def)
  from D Inr obtain z where z: "z \<in> set ?t" "SessionID z = strSHA256 (getSessionIDFromCookie r)"
    "fresh_session cl z" by (rule GetSession_Inr)
  then have "z = y" using y row(2) d by (auto intro: distinct_key_eq)
  with z(3) old y(3) show ?thesis by (simp add: fresh_session_def)
qed simp

theorem session_lifetime_capped_witness:
  "\<exists>e. GetSession demo_auth (\<lambda>_. 25 * Hour) (cookie_request ''GET'' ''/'' ''tok'') demo_table
     (fold (\<lambda>op t. snd (run_session_op demo_auth op t))
        [UpdateLastSeenOp (\<lambda>_. 24 * Hour) (demo_session ''tok'' 1 0)] demo_sessions) = Inl e"
  by (rule session_lifetime_capped [where row = "demo_session ''tok'' 1 0"])
    (simp_all add: demo_sessions_def [symmetric], simp add: demo_sessions_def)

text \<open>C17: after a successful log-out the token is refused for ever, whatever happens next, and no
  other session has changed.\<close>

theorem logout_ends_session:
  assumes D: "auth_deps_ok D" and inv: "sessions_inv D t"
    and run: "DeleteSession D cl baseURL r (t, w) = (Done, (t', w'))"
    and row: "row \<in> set t" "SessionID row = strSHA256 (getSessionIDFromCookie r)"
  shows "(\<exists>e. GetSession D cl' r us (fold (\<lambda>op t. snd (run_session_op D op t)) ops t') = Inl e) \<and>
    set t - {row} \<subseteq> set t'"
proof
  let ?t = "fold (\<lambda>op t. snd (run_session_op D op t)) ops t'"
  let ?mark = "\<lambda>y. y\<lparr>SessionDeletedAt := Some (cl 0)\<rparr>"
  have t': "t' = upd_where (\<lambda>y. SessionDeletedAt y = None \<and> SessionID y = SessionID row) ?mark t"
    using DeleteSession_row(2) [OF D run] row(2) by simp
  have d: "distinct (map SessionID t)" using inv by (simp add: sessions_inv_def)
  show "set t - {row} \<subseteq> set t'"
    using d row(1) by (auto simp: t' intro!: upd_where_keeps dest: distinct_key_eq)
  have inv': "sessions_inv D t'"
    using inv by (auto simp: t' sessions_inv_def set_upd_where map_upd_where_same)
  define dead where "dead = (if SessionDeletedAt row = None then ?mark row else row)"
  have "dead \<in> set t'" using row(1) by (auto simp: t' dead_def set_upd_where)
  then have "kept dead t'" by (auto simp: kept_def)
  moreover have "SessionDeletedAt dead \<noteq> None" by (simp add: dead_def)
  ultimately obtain y where y: "y \<in> set ?t" "SessionID y = SessionID dead" "SessionDeletedAt y \<noteq> None"
    using kept_ops [OF D, of dead t' ops] unfolding kept_def by blast
  have dt: "distinct (map SessionID ?t)"
    using session_ops.ops_inv [OF D inv'] by (simp add: sessions_inv_def)
  have yid: "SessionID y = strSHA256 (getSessionIDFromCookie r)"
    using y(2) row(2) by (simp add: dead_def split: if_splits)
  show "\<exists>e. GetSession D cl' r us ?t = Inl e"
  proof (cases "GetSession D cl' r us ?t")
    case (Inr s)
    with D obtain z where z: "z \<in> set ?t" "SessionDeletedAt z = None"
      "SessionID z = strSHA256 (getSessionIDFromCookie r)" by (rule GetSession_Inr)
    then have "z = y" using y(1) yid dt by (auto intro: distinct_key_eq)
    with z(2) y(3) show ?thesis by simp
  qed simp
qed

theorem logout_ends_session_witness:
  "\<exists>t' w'. DeleteSession demo_auth (\<lambda>_. 9) ''https://pods.example.org''
     (cookie_request ''POST'' ''/auth/logout'' ''tok'') (demo_sessions, new_response) =
       (Done, (t', w' :: unit response)) \<and>
     (\<exists>e. GetSession demo_auth (\<lambda>_. 10) (cookie_request ''POST'' ''/auth/logout'' ''tok'') demo_table t' = Inl e)"
proof -
  have "cookieDomain ''https://pods.example.org'' \<noteq> None" by code_simp
  then obtain dom where dom: "cookieDomain ''https://pods.example.org'' = Some dom" by blast
  then obtain t' w' where run: "DeleteSession demo_auth (\<lambda>_. 9) ''https://pods.example.org''
     (cookie_request ''POST'' ''/auth/logout'' ''tok'') (demo_sessions, new_response) =
       (Done, (t', w' :: unit response))"
    by (auto simp: DeleteSession_def Let_def deleteSessionCookie_def mem_sessions_def mem_gorm_def)
  then show ?thesis
    using logout_ends_session [OF demo_auth_ok demo_sessions_inv run, where ops = "[]"
        and row = "demo_session ''tok'' 1 0" and cl' = "\<lambda>_. 10" and us = demo_table]
    by (simp add: demo_sessions_def)
qed

text \<open>C19: housekeeping is invisible: at any later time a request's session is accepted after it
  exactly when it would have been accepted without it, and what it deletes is exactly the live
  sessions over 25 hours old or unused for over two hours.\<close>

theorem housekeeping_ends_no_session:
  assumes D: "auth_deps_up D" and inv: "sessions_inv D t"
    and run: "HouseKeepingQueueWorker D cl t = (None, t')"
    and later: "cl 0 \<le> cl' 1" "cl 1 \<le> cl' 2"
  shows "((\<exists>s. GetSession D cl' r us t' = Inr s) \<longleftrightarrow> (\<exists>s. GetSession D cl' r us t = Inr s)) \<and>
    t' = map (\<lambda>s. if SessionDeletedAt s = None \<and>
        (cl 0 - StartTime s > 25 * Hour \<or> cl 1 - LastSeenTime s > 2 * Hour)
      then s\<lparr>SessionDeletedAt := Some (cl 2)\<rparr> else s) t"
proof
  have ok: "auth_deps_ok D" by (rule auth_deps_upD(1) [OF D])
  from run obtain n where "DeleteExpiredSessions D cl t = (Inr n, t')"
    by (auto simp: HouseKeepingQueueWorker_def split: prod.splits sum.splits)
  note t' = DeleteExpiredSessions_ok(2) [OF ok this]
  show "t' = map (\<lambda>s. if SessionDeletedAt s = None \<and>
        (cl 0 - StartTime s > 25 * Hour \<or> cl 1 - LastSeenTime s > 2 * Hour)
      then s\<lparr>SessionDeletedAt := Some (cl 2)\<rparr> else s) t"
    by (simp add: t' upd_where_def stale_def)
  have d: "distinct (map SessionID t)" "distinct (map SessionID t')"
    using inv by (auto simp: t' sessions_inv_def map_upd_where_same)
  have fresh: "fresh_session cl' s \<Longrightarrow> \<not> stale cl s" for s
    using later by (auto simp: fresh_session_def stale_def)
  have same: "s \<in> set t' \<longleftrightarrow> s \<in> set t" if "SessionDeletedAt s = None" "fresh_session cl' s" for s
    using fresh [OF that(2)] that(1) by (auto simp: t' set_upd_where)
  have "(\<exists>s. GetSession D cl' r us x = Inr s) \<Longrightarrow> (\<exists>s. GetSession D cl' r us y = Inr s)"
    if "{x, y} = {t, t'}" for x y
  proof -
    assume "\<exists>s. GetSession D cl' r us x = Inr s"
    then obtain s where "GetSession D cl' r us x = Inr s" by blast
    with ok obtain row where row: "getSessionIDFromCookie r \<noteq> ''''" "row \<in> set x"
      "SessionDeletedAt row = None" "SessionID row = strSHA256 (getSessionIDFromCookie r)"
      "fresh_session cl' row" by (rule GetSession_Inr)
    then have "row \<in> set y" "distinct (map SessionID y)"
      using same d that by (auto simp: doubleton_eq_iff)
    then show "\<exists>s. GetSession D cl' r us y = Inr s" using GetSession_total [OF D] row by metis
  qed
  from this [of t t'] this [of t' t]
  show "(\<exists>s. GetSession D cl' r us t' = Inr s) \<longleftrightarrow> (\<exists>s. GetSession D cl' r us t = Inr s)"
    by (auto simp: doubleton_eq_iff)
qed

theorem housekeeping_ends_no_session_witness:
  "\<exists>t'. HouseKeepingQueueWorker demo_auth (\<lambda>_. 26 * Hour) demo_sessions = (None, t') \<and>
     SessionDeletedAt (hd t') \<noteq> None"
proof -
  obtain t' where run: "HouseKeepingQueueWorker demo_auth (\<lambda>_. 26 * Hour) demo_sessions = (None, t')"
    by (auto simp: HouseKeepingQueueWorker_def DeleteExpiredSessions_def Let_def mem_sessions_def
        mem_gorm_def)
  from housekeeping_ends_no_session [OF demo_auth_up demo_sessions_inv run, of "\<lambda>_. 27 * Hour"]
  have "t' = [(demo_session ''tok'' 1 0)\<lparr>SessionDeletedAt := Some (26 * Hour)\<rparr>]"
    by (simp add: demo_sessions_def)
  with run show ?thesis by simp
qed

end
