(* ===== verification/Encryption.thy ===== *)
theory Encryption
  imports Prelude
begin

text \<open>
  The values the database holds encrypted (\<^verbatim>\<open>pkg/database/encryption/encrypted_value.go\<close>).  The
  cipher is a library of its own (tink): a record of its two operations, and the locale \<open>aead\<close> for
  what is relied on, that decryption with the same associated data undoes encryption.
\<close>

record tink_aead =
  aead_Encrypt :: "nat \<Rightarrow> string \<Rightarrow> string \<Rightarrow> string result"
  aead_Decrypt :: "string \<Rightarrow> string \<Rightarrow> string result"

locale aead =
  fixes A :: tink_aead
  assumes decrypt_encrypt:
      "aead_Encrypt A rnd plain ad = Inr c \<Longrightarrow> aead_Decrypt A c ad = Inr plain"
    and ciphertext_nonempty: "aead_Encrypt A rnd plain ad = Inr c \<Longrightarrow> c \<noteq> ''''"

record EncryptedValue =
  EncryptedData :: string

text \<open>A service is a pointer: \<open>None\<close> is nil, the service of an installation without encryption.\<close>

type_synonym EncryptedValueService = "tink_aead option"

definition NewEncryptedValueService :: "tink_aead \<Rightarrow> EncryptedValueService" where
  "NewEncryptedValueService dekAEAD = Some dekAEAD"

definition Encrypt ::
  "EncryptedValueService \<Rightarrow> nat \<Rightarrow> string \<Rightarrow> string \<Rightarrow> EncryptedValue result" where
  "Encrypt s rnd plaintext additionalData =
     (case s of
        None \<Rightarrow> Inl (Sentinel ErrEncryptionNotConfigured)
      | Some dekAEAD \<Rightarrow>
          (case aead_Encrypt dekAEAD rnd plaintext additionalData of
             Inl err \<Rightarrow> Inl err
           | Inr ciphertext \<Rightarrow> Inr \<lparr>EncryptedData = ciphertext\<rparr>))"

definition Decrypt ::
  "EncryptedValueService \<Rightarrow> EncryptedValue \<Rightarrow> string \<Rightarrow> string result" where
  "Decrypt s ev additionalData =
     (case s of
        None \<Rightarrow> Inl (ErrorText ''encryption is not configured'')
      | Some dekAEAD \<Rightarrow> aead_Decrypt dekAEAD (EncryptedData ev) additionalData)"

definition service_ok :: "EncryptedValueService \<Rightarrow> bool" where
  "service_ok s \<longleftrightarrow> (case s of None \<Rightarrow> True | Some A \<Rightarrow> aead A)"

lemma Decrypt_Encrypt:
  assumes "service_ok s" "Encrypt s rnd plain ad = Inr ev"
  shows "Decrypt s ev ad = Inr plain" "EncryptedData ev \<noteq> ''''"
  using assms
  by (auto simp: Encrypt_def Decrypt_def service_ok_def split: option.splits sum.splits
      intro: aead.decrypt_encrypt aead.ciphertext_nonempty dest: aead.ciphertext_nonempty)

text \<open>A cipher for the witnesses: it tags the plain text with its associated data.\<close>

definition demo_aead :: tink_aead where
  "demo_aead =
     \<lparr>aead_Encrypt = (\<lambda>rnd p ad. Inr (CHR ''E'' # show_nat (length ad) @ '':'' @ ad @ p)),
      aead_Decrypt = (\<lambda>c ad.
        if prefix (CHR ''E'' # show_nat (length ad) @ '':'' @ ad) c
        then Inr (drop (length (CHR ''E'' # show_nat (length ad) @ '':'' @ ad)) c)
        else Inl (ErrorText ''aead_factory: decryption failed''))\<rparr>"

interpretation demo_aead: aead demo_aead
  by unfold_locales (auto simp: demo_aead_def)

lemma demo_service_ok [simp]: "service_ok (Some demo_aead)" "service_ok None"
  by (simp_all add: service_ok_def demo_aead.aead_axioms)

end
