(* ===== verification/Mime.thy ===== *)
theory Mime
  imports Prelude
begin

text \<open>
  Media types of episodes (\<^verbatim>\<open>pkg/podcasts/mime.go\<close>): the two tables, how the type of an enclosure is
  detected and the file extension of a type.  The two tables are inverse to each other, so a
  detected type always has an extension.
\<close>

definition mimeToExt :: "string \<Rightarrow> string option" where
  "mimeToExt =
     [''audio/mpeg'' \<mapsto> ''mp3'', ''audio/x-m4a'' \<mapsto> ''m4a'', ''video/mp4'' \<mapsto> ''mp4'',
      ''video/quicktime'' \<mapsto> ''mov'']"

definition extToMIME :: "string \<Rightarrow> string option" where
  "extToMIME =
     [''mp3'' \<mapsto> ''audio/mpeg'', ''m4a'' \<mapsto> ''audio/x-m4a'', ''mp4'' \<mapsto> ''video/mp4'',
      ''mov'' \<mapsto> ''video/quicktime'']"

definition DetectMIMEType :: "string \<Rightarrow> string \<Rightarrow> string result" where
  "DetectMIMEType enclosureType enclosureURL =
     (if mimeToExt enclosureType \<noteq> None then Inr enclosureType
      else
        (let strParts = split_char (CHR ''.'') enclosureURL; extension = last strParts
         in (case extToMIME extension of
               Some mimeType \<Rightarrow> Inr mimeType
             | None \<Rightarrow> Inl (ErrorText (''unable to detect MIME type, enclosure type: '' @
                 quoted enclosureType @ '', url: '' @ quoted enclosureURL)))))"

definition MIMETypeExtension :: "string \<Rightarrow> string result" where
  "MIMETypeExtension mimeType =
     (case mimeToExt mimeType of
        None \<Rightarrow> Inl (ErrorText (''unsupported MIME type '' @ quoted mimeType))
      | Some extension \<Rightarrow> Inr extension)"

abbreviation mime_types :: "string list" where
  "mime_types \<equiv> [''audio/mpeg'', ''audio/x-m4a'', ''video/mp4'', ''video/quicktime'']"

lemma mimeToExt_iff: "mimeToExt m = Some e \<longleftrightarrow> extToMIME e = Some m"
  by (auto simp: mimeToExt_def extToMIME_def split: if_splits)

lemma mimeToExt_dom: "mimeToExt m \<noteq> None \<longleftrightarrow> m \<in> set mime_types"
  by (auto simp: mimeToExt_def)

lemma DetectMIMEType_supported:
  "DetectMIMEType t u = Inr m \<Longrightarrow> m \<in> set mime_types"
  unfolding mimeToExt_dom [symmetric]
  by (auto simp: DetectMIMEType_def Let_def mimeToExt_iff [symmetric]
      split: if_splits option.splits)

lemma MIMETypeExtension_Inr:
  "MIMETypeExtension m = Inr e \<longleftrightarrow> mimeToExt m = Some e"
  by (auto simp: MIMETypeExtension_def split: option.splits)

lemma MIMETypeExtension_total: "m \<in> set mime_types \<Longrightarrow> \<exists>e. MIMETypeExtension m = Inr e"
  unfolding mimeToExt_dom [symmetric] by (auto simp: MIMETypeExtension_Inr)

text \<open>An extension is a plain word: it has no slash and is not empty.\<close>

lemma extension_plain: "MIMETypeExtension m = Inr e \<Longrightarrow> CHR ''/'' \<notin> set e \<and> e \<noteq> ''''"
  by (auto simp: MIMETypeExtension_Inr mimeToExt_def split: if_splits)

end
