(* ===== verification/PodcastRows.thy ===== *)
theory PodcastRows
  imports OrmMem Validator Encryption Mime
begin

text \<open>
  The rows of \<^verbatim>\<open>pkg/podcasts/podcast.go\<close>: podcasts, their categories and credentials, episodes, and
  their validation.
\<close>

datatype Category = Category (CategoryName: string) (SubCategory: "Category option")

record PodcastCredentials =
  CredUsername :: string
  CredPassword :: string

record Podcast =
  p_GUID :: string
  p_Title :: string
  p_Author :: string
  p_Description :: string
  p_Language :: string
  p_Link :: string
  p_Categories :: "Category list"
  p_IsExplicit :: bool
  p_ImageURL :: string
  p_FeedURL :: string
  p_LastCheckedAt :: "time option"
  p_LastEpisodeAt :: "time option"
  p_Credentials :: "EncryptedValue option"
  p_CreatedAt :: time
  p_UpdatedAt :: time
  p_DeletedAt :: "time option"

definition podcast_zero :: Podcast where
  "podcast_zero = \<lparr>p_GUID = '''', p_Title = '''', p_Author = '''', p_Description = '''',
     p_Language = '''', p_Link = '''', p_Categories = [], p_IsExplicit = False, p_ImageURL = '''',
     p_FeedURL = '''', p_LastCheckedAt = None, p_LastEpisodeAt = None, p_Credentials = None,
     p_CreatedAt = time_zero, p_UpdatedAt = time_zero, p_DeletedAt = None\<rparr>"

text \<open>The time an episode was published is an instant and the offset of its location.\<close>

record Episode =
  e_GUID :: string
  e_PodcastGUID :: string
  e_Podcast :: Podcast
  e_Title :: string
  e_Description :: string
  e_DownloadURL :: string
  e_Bytes :: int
  e_MimeType :: string
  e_DurationSecs :: int
  e_PublishedAt :: time
  e_PublishedZone :: int
  e_Status :: string
  e_CreatedAt :: time
  e_UpdatedAt :: time
  e_DeletedAt :: "time option"

definition episode_zero :: Episode where
  "episode_zero = \<lparr>e_GUID = '''', e_PodcastGUID = '''', e_Podcast = podcast_zero, e_Title = '''',
     e_Description = '''', e_DownloadURL = '''', e_Bytes = 0, e_MimeType = '''',
     e_DurationSecs = 0, e_PublishedAt = time_zero, e_PublishedZone = 0, e_Status = '''', e_CreatedAt = time_zero,
     e_UpdatedAt = time_zero, e_DeletedAt = None\<rparr>"

abbreviation EpisodeStatusPending :: string where "EpisodeStatusPending \<equiv> ''pending''"
abbreviation EpisodeStatusSuccess :: string where "EpisodeStatusSuccess \<equiv> ''success''"
abbreviation EpisodeStatusFailed :: string where "EpisodeStatusFailed \<equiv> ''failed''"

section \<open>Schemas\<close>

definition podcast_schema :: "(Podcast, string) schema" where
  "podcast_schema =
     \<lparr>sc_pk = p_GUID, sc_deleted = (\<lambda>p. p_DeletedAt p \<noteq> None),
      sc_mark = (\<lambda>now p. p\<lparr>p_DeletedAt := Some now\<rparr>),
      sc_created = (\<lambda>k now p. p
        \<lparr>p_CreatedAt := (if p_CreatedAt p = time_zero then now else p_CreatedAt p),
         p_UpdatedAt := (if p_UpdatedAt p = time_zero then now else p_UpdatedAt p)\<rparr>),
      sc_updated = (\<lambda>now p. p\<lparr>p_UpdatedAt := now\<rparr>),
      sc_conflict = (\<lambda>x y. p_GUID x = p_GUID y)\<rparr>"

definition episode_schema :: "(Episode, string) schema" where
  "episode_schema =
     \<lparr>sc_pk = e_GUID, sc_deleted = (\<lambda>e. e_DeletedAt e \<noteq> None),
      sc_mark = (\<lambda>now e. e\<lparr>e_DeletedAt := Some now\<rparr>),
      sc_created = (\<lambda>k now e. e
        \<lparr>e_CreatedAt := (if e_CreatedAt e = time_zero then now else e_CreatedAt e),
         e_UpdatedAt := (if e_UpdatedAt e = time_zero then now else e_UpdatedAt e)\<rparr>),
      sc_updated = (\<lambda>now e. e\<lparr>e_UpdatedAt := now\<rparr>),
      sc_conflict = (\<lambda>x y. e_GUID x = e_GUID y)\<rparr>"

lemma podcast_schema_simps [simp]:
  "sc_pk podcast_schema = p_GUID"
  "sc_deleted podcast_schema = (\<lambda>p. p_DeletedAt p \<noteq> None)"
  "sc_mark podcast_schema now = (\<lambda>p. p\<lparr>p_DeletedAt := Some now\<rparr>)"
  "sc_updated podcast_schema now = (\<lambda>p. p\<lparr>p_UpdatedAt := now\<rparr>)"
  "sc_conflict podcast_schema x y \<longleftrightarrow> p_GUID x = p_GUID y"
  by (simp_all add: podcast_schema_def)

lemma episode_schema_simps [simp]:
  "sc_pk episode_schema = e_GUID"
  "sc_deleted episode_schema = (\<lambda>e. e_DeletedAt e \<noteq> None)"
  "sc_mark episode_schema now = (\<lambda>e. e\<lparr>e_DeletedAt := Some now\<rparr>)"
  "sc_updated episode_schema now = (\<lambda>e. e\<lparr>e_UpdatedAt := now\<rparr>)"
  "sc_conflict episode_schema x y \<longleftrightarrow> e_GUID x = e_GUID y"
  by (simp_all add: episode_schema_def)

lemma podcast_created [simp]:
  "sc_created podcast_schema k now p = p
     \<lparr>p_CreatedAt := (if p_CreatedAt p = time_zero then now else p_CreatedAt p),
      p_UpdatedAt := (if p_UpdatedAt p = time_zero then now else p_UpdatedAt p)\<rparr>"
  by (simp add: podcast_schema_def)

lemma episode_created [simp]:
  "sc_created episode_schema k now e = e
     \<lparr>e_CreatedAt := (if e_CreatedAt e = time_zero then now else e_CreatedAt e),
      e_UpdatedAt := (if e_UpdatedAt e = time_zero then now else e_UpdatedAt e)\<rparr>"
  by (simp add: episode_schema_def)

definition mem_podcasts :: "Podcast gorm" where
  "mem_podcasts = mem_gorm podcast_schema (fresh_str p_GUID)"

definition mem_episodes :: "Episode gorm" where
  "mem_episodes = mem_gorm episode_schema (fresh_str e_GUID)"

lemma podcast_schema_ok: "schema_ok podcast_schema (fresh_str p_GUID)"
  using fresh_str_fresh [of "p_GUID :: Podcast \<Rightarrow> string"] by (auto simp: schema_ok_def)

lemma episode_schema_ok: "schema_ok episode_schema (fresh_str e_GUID)"
  using fresh_str_fresh [of "e_GUID :: Episode \<Rightarrow> string"] by (auto simp: schema_ok_def)

interpretation mem_podcasts: gorm_available podcast_schema mem_podcasts
  unfolding mem_podcasts_def by (rule mem_gorm_available [OF podcast_schema_ok])

interpretation mem_episodes: gorm_available episode_schema mem_episodes
  unfolding mem_episodes_def by (rule mem_gorm_available [OF episode_schema_ok])

section \<open>Validation\<close>

definition Podcast_fields :: "Podcast \<Rightarrow> field list" where
  "Podcast_fields p =
     [(''GUID'', [Required, Gte 1, Lte 1000], FStr (p_GUID p)),
      (''Title'', [Required, Gte 1, Lte 1000], FStr (p_Title p)),
      (''Author'', [Required, Gte 1, Lte 1000], FStr (p_Author p)),
      (''Description'', [Lte 10000], FStr (p_Description p)),
      (''Language'', [Lte 10], FStr (p_Language p)),
      (''Link'', [Lte 1000], FStr (p_Link p)),
      (''Categories'', [Lte 25], FLen (length (p_Categories p))),
      (''ImageURL'', [Lte 1000], FStr (p_ImageURL p)),
      (''FeedURL'', [Required, HttpUrl, Lte 1000], FStr (p_FeedURL p))]"

definition Podcast_BeforeSave :: "validator \<Rightarrow> Podcast \<Rightarrow> go_error option" where
  "Podcast_BeforeSave V p =
     (case validate_struct V (Podcast_fields p) of
        Some err \<Rightarrow> Some (Wrapped ''podcast not valid: '' err)
      | None \<Rightarrow> None)"

definition Episode_fields :: "Episode \<Rightarrow> field list" where
  "Episode_fields e =
     [(''GUID'', [Required, Gte 1, Lte 1000], FStr (e_GUID e)),
      (''PodcastGUID'', [Required], FStr (e_PodcastGUID e)),
      (''Title'', [Required, Gte 1, Lte 1000], FStr (e_Title e)),
      (''Description'', [Lte 10000], FStr (e_Description e)),
      (''DownloadURL'', [Required, HttpUrl, Lte 1000], FStr (e_DownloadURL e)),
      (''MimeType'', [Required, Oneof mime_types], FStr (e_MimeType e)),
      (''DurationSecs'', [Gte 0], FInt (e_DurationSecs e)),
      (''Status'', [Required,
         Oneof [EpisodeStatusPending, EpisodeStatusFailed, EpisodeStatusSuccess]],
       FStr (e_Status e))]"

definition Episode_BeforeSave :: "validator \<Rightarrow> Episode \<Rightarrow> go_error option" where
  "Episode_BeforeSave V e =
     (case validate_struct V (Episode_fields e) of
        Some err \<Rightarrow> Some (Wrapped ''episode not valid: '' err)
      | None \<Rightarrow> None)"

definition PodcastCredentials_Validate :: "validator \<Rightarrow> PodcastCredentials \<Rightarrow> go_error option" where
  "PodcastCredentials_Validate V pc =
     (case validate_struct V
             [(''Username'', [Lte 256], FStr (CredUsername pc)),
              (''Password'', [Lte 256], FStr (CredPassword pc))] of
        Some err \<Rightarrow> Some (Wrapped ''podcast credentials not valid: '' err)
      | None \<Rightarrow> None)"

lemma Podcast_BeforeSave_columns [simp]:
  "Podcast_BeforeSave V (p\<lparr>p_CreatedAt := a\<rparr>) = Podcast_BeforeSave V p"
  "Podcast_BeforeSave V (p\<lparr>p_UpdatedAt := b\<rparr>) = Podcast_BeforeSave V p"
  "Podcast_BeforeSave V (p\<lparr>p_LastCheckedAt := c\<rparr>) = Podcast_BeforeSave V p"
  "Podcast_BeforeSave V (p\<lparr>p_LastEpisodeAt := d\<rparr>) = Podcast_BeforeSave V p"
  "Podcast_BeforeSave V (p\<lparr>p_Credentials := cr\<rparr>) = Podcast_BeforeSave V p"
  by (simp_all add: Podcast_BeforeSave_def Podcast_fields_def)

lemma Episode_BeforeSave_columns [simp]:
  "Episode_BeforeSave V (e\<lparr>e_CreatedAt := a\<rparr>) = Episode_BeforeSave V e"
  "Episode_BeforeSave V (e\<lparr>e_UpdatedAt := b\<rparr>) = Episode_BeforeSave V e"
  "Episode_BeforeSave V (e\<lparr>e_Bytes := n\<rparr>) = Episode_BeforeSave V e"
  "Episode_BeforeSave V (e\<lparr>e_Podcast := p\<rparr>) = Episode_BeforeSave V e"
  by (simp_all add: Episode_BeforeSave_def Episode_fields_def)

lemma Podcast_BeforeSave_not_sentinel:
  "Podcast_BeforeSave V p = Some e \<Longrightarrow> \<not> errors_is s e"
  by (auto simp: Podcast_BeforeSave_def dest: validate_struct_not_sentinel split: option.splits)

lemma Episode_BeforeSave_not_sentinel:
  "Episode_BeforeSave V ep = Some e \<Longrightarrow> \<not> errors_is s e"
  by (auto simp: Episode_BeforeSave_def dest: validate_struct_not_sentinel split: option.splits)

lemma Podcast_BeforeSave_None_iff:
  "Podcast_BeforeSave V p = None \<longleftrightarrow> (\<forall>f \<in> set (Podcast_fields p). field_ok V f)"
  by (simp add: Podcast_BeforeSave_def validate_struct_None [symmetric] split: option.splits)

lemma Episode_BeforeSave_None_iff:
  "Episode_BeforeSave V e = None \<longleftrightarrow> (\<forall>f \<in> set (Episode_fields e). field_ok V f)"
  by (simp add: Episode_BeforeSave_def validate_struct_None [symmetric] split: option.splits)

text \<open>Changing the status of a valid episode to another status leaves it valid.\<close>

lemma Episode_BeforeSave_status:
  assumes "tag_meaning V" "Episode_BeforeSave V e = None"
    "s \<in> {EpisodeStatusPending, EpisodeStatusFailed, EpisodeStatusSuccess}"
  shows "Episode_BeforeSave V (e\<lparr>e_Status := s\<rparr>) = None"
  using assms
  by (auto simp: Episode_BeforeSave_None_iff Episode_fields_def field_ok_def tag_meaning.tag_simps)

end
