(* ===== verification/GoText.thy ===== *)
theory GoText
  imports Prelude
begin

text \<open>
  Numbers and clock readings as text, from Go's standard library: \<^verbatim>\<open>strconv.Atoi\<close>,
  \<^verbatim>\<open>strconv.ParseUint\<close>, \<^verbatim>\<open>time.Parse\<close> for the two layouts the program uses, and
  \<^verbatim>\<open>Time.Format(time.RFC3339)\<close>.
\<close>

section \<open>strconv\<close>

text \<open>
  \<^verbatim>\<open>Atoi\<close>, whose error the program drops: 0 on a syntax error, the nearest end of the range when
  the number does not fit 64 bits.
\<close>

definition all_digits :: "string \<Rightarrow> bool" where
  "all_digits s \<longleftrightarrow> s \<noteq> [] \<and> list_all is_digit s"

definition Atoi :: "string \<Rightarrow> int" where
  "Atoi s =
     (let neg = prefix ''-'' s; ds = (if prefix ''-'' s \<or> prefix ''+'' s then tl s else s)
      in if \<not> all_digits ds then 0
         else (let n = int (digits_val 0 ds) in sat64 (if neg then - n else n)))"

definition ParseUint64 :: "string \<Rightarrow> nat option" where
  "ParseUint64 s =
     (if all_digits s \<and> digits_val 0 s < 18446744073709551616 then Some (digits_val 0 s) else None)"

section \<open>Clock readings\<close>

text \<open>\<^verbatim>\<open>getnum\<close>: one or two digits, or exactly two.\<close>

definition getnum :: "bool \<Rightarrow> string \<Rightarrow> (nat \<times> string) option" where
  "getnum fixed s =
     (case s of
        a # b # r \<Rightarrow>
          if \<not> is_digit a then None
          else if is_digit b then Some (10 * digit_val a + digit_val b, r)
          else if fixed then None else Some (digit_val a, b # r)
      | [a] \<Rightarrow> if is_digit a \<and> \<not> fixed then Some (digit_val a, []) else None
      | [] \<Rightarrow> None)"

definition skip_colon :: "string \<Rightarrow> string option" where
  "skip_colon s = (if prefix '':'' s then Some (tl s) else None)"

text \<open>The digits after the point, as nanoseconds; digits beyond the ninth are dropped.\<close>

definition fraction_ns :: "string \<Rightarrow> nat" where
  "fraction_ns ds = (let ds' = take 9 ds in digits_val 0 ds' * 10 ^ (9 - length ds'))"

text \<open>
  The seconds and the end of the text: a fraction may follow although the layout has none.  The
  result is in nanoseconds.
\<close>

definition parse_seconds :: "string \<Rightarrow> nat option" where
  "parse_seconds s =
     (case getnum True s of
        None \<Rightarrow> None
      | Some (sec, r) \<Rightarrow>
          if sec \<ge> 60 then None
          else if r = [] then Some (sec * 1000000000)
          else if length r \<ge> 2 \<and> (hd r = CHR ''.'' \<or> hd r = CHR '','') \<and> all_digits (tl r)
          then Some (sec * 1000000000 + fraction_ns (tl r))
          else None)"

definition parse_minutes :: "string \<Rightarrow> nat option" where
  "parse_minutes s =
     (case getnum True s of
        None \<Rightarrow> None
      | Some (m, r) \<Rightarrow>
          if m \<ge> 60 then None
          else Option.bind (skip_colon r) (\<lambda>r'. Option.bind (parse_seconds r')
            (\<lambda>ns. Some (m * 60000000000 + ns))))"

definition parse_hours :: "string \<Rightarrow> nat option" where
  "parse_hours s =
     (case getnum False s of
        None \<Rightarrow> None
      | Some (h, r) \<Rightarrow>
          if h \<ge> 24 then None
          else Option.bind (skip_colon r) (\<lambda>r'. Option.bind (parse_minutes r')
            (\<lambda>ns. Some (h * 3600000000000 + ns))))"

text \<open>\<^verbatim>\<open>math.Round\<close> of a non-negative duration in seconds.\<close>

definition round_seconds :: "nat \<Rightarrow> int" where
  "round_seconds ns = int ((ns + 500000000) div 1000000000)"

section \<open>RFC 3339\<close>

text \<open>The civil date of a day number counted from the first of January 1970.\<close>

definition civil :: "int \<Rightarrow> int \<times> int \<times> int" where
  "civil days =
     (let z = days + 719468;
          era = z div 146097;
          doe = z mod 146097;
          yoe = (doe - doe div 1460 + doe div 36524 - doe div 146096) div 365;
          doy = doe - (365 * yoe + yoe div 4 - yoe div 100);
          mp = (5 * doy + 2) div 153;
          d = doy - (153 * mp + 2) div 5 + 1;
          m = (if mp < 10 then mp + 3 else mp - 9);
          y = yoe + era * 400
      in (if m \<le> 2 then y + 1 else y, m, d))"

definition pad :: "nat \<Rightarrow> int \<Rightarrow> string" where
  "pad width i =
     (let s = show_nat (nat \<bar>i\<bar>)
      in (if i < 0 then ''-'' else '''') @ replicate (width - length s) (CHR ''0'') @ s)"

text \<open>An instant together with the offset of its location, in seconds east of UTC.\<close>

type_synonym zoned = "time \<times> int"

definition Format_RFC3339 :: "zoned \<Rightarrow> string" where
  "Format_RFC3339 z =
     (case z of (t, off) \<Rightarrow>
        let secs = t div 1000000000 + off;
            (y, m, d) = civil (secs div 86400);
            s = secs mod 86400;
            zone = \<bar>off\<bar> div 60
        in pad 4 y @ ''-'' @ pad 2 m @ ''-'' @ pad 2 d @ ''T'' @
           pad 2 (s div 3600) @ '':'' @ pad 2 (s div 60 mod 60) @ '':'' @ pad 2 (s mod 60) @
           (if off = 0 then ''Z''
            else (if off < 0 then ''-'' else ''+'') @ pad 2 (zone div 60) @ '':'' @
                 pad 2 (zone mod 60)))"

section \<open>Ranges\<close>

lemma getnum_bound: "getnum b s = Some (n, r) \<Longrightarrow> n < 100"
  by (auto simp: getnum_def is_digit_def digit_val_def split: list.splits if_splits)

lemma digits_val_bound:
  "list_all is_digit ds \<Longrightarrow> digits_val acc ds < (acc + 1) * 10 ^ length ds"
proof (induction ds arbitrary: acc)
  case (Cons c cs)
  then have "digits_val (10 * acc + digit_val c) cs < (10 * acc + digit_val c + 1) * 10 ^ length cs"
    by simp
  also have "\<dots> \<le> (acc + 1) * 10 * 10 ^ length cs"
    using Cons.prems by (intro mult_right_mono) (auto simp: is_digit_def digit_val_def)
  finally show ?case by (simp add: algebra_simps)
qed simp

lemma fraction_ns_bound:
  assumes "list_all is_digit ds" shows "fraction_ns ds < 1000000000"
proof -
  let ?k = "length (take 9 ds)"
  have "list_all is_digit (take 9 ds)" using assms by (auto simp: list_all_iff dest: in_set_takeD)
  then have "digits_val 0 (take 9 ds) < 10 ^ ?k" using digits_val_bound [of "take 9 ds" 0] by simp
  then have "digits_val 0 (take 9 ds) * 10 ^ (9 - ?k) < 10 ^ ?k * 10 ^ (9 - ?k)"
    by (intro mult_strict_right_mono) auto
  also have "\<dots> = (10::nat) ^ 9" by (simp add: power_add [symmetric])
  finally show ?thesis by (simp add: fraction_ns_def Let_def)
qed

lemma parse_seconds_bound: "parse_seconds s = Some ns \<Longrightarrow> ns < 60000000000"
  using fraction_ns_bound
  by (fastforce simp: parse_seconds_def all_digits_def split: option.splits if_splits)

lemma parse_minutes_bound: "parse_minutes s = Some ns \<Longrightarrow> ns < 3600000000000"
  by (auto simp: parse_minutes_def bind_eq_Some_conv dest!: parse_seconds_bound
      split: option.splits if_splits)

lemma parse_hours_bound: "parse_hours s = Some ns \<Longrightarrow> ns < 86400000000000"
  by (auto simp: parse_hours_def bind_eq_Some_conv dest!: parse_minutes_bound
      split: option.splits if_splits)

lemma round_seconds_mono: "a \<le> b \<Longrightarrow> round_seconds a \<le> round_seconds b"
  by (simp add: round_seconds_def div_le_mono)

lemma Atoi_range: "min_int64 \<le> Atoi s" "Atoi s \<le> max_int64"
  by (auto simp: Atoi_def Let_def sat64_def)

end
