(* ===== verification/Feed.thy ===== *)
theory Feed
  imports PodcastRows GoText Util
begin

text \<open>
  Reading and writing podcast feeds (\<^verbatim>\<open>pkg/podcasts/feed.go\<close>).  The XML parser and the HTTP request
  behind it are a library of its own (gopodcast): a parameter that gives a parsed feed or an error.
  So are the name-based UUIDs.  The sort of \<^verbatim>\<open>slices.SortFunc\<close> is known by its documentation only,
  which leaves the order of equal elements open.  The lemmas describe the episodes read from a
  feed, durations, and the feed the server generates.
\<close>

section \<open>Feeds\<close>

datatype ITunesCategory = ITunesCategory (CategoryText: string) (ITunesSubCategory: "ITunesCategory option")

record feed_item =
  it_GUID :: string
  it_Title :: string
  it_Description :: "string option"
  it_PubDate :: "zoned option"
  it_EnclosureURL :: string
  it_EnclosureType :: string
  it_EnclosureLength :: int
  it_ITunesDuration :: string

record feed =
  fd_PodcastGUID :: string
  fd_AtomLinkHref :: string
  fd_AtomLinkRel :: string
  fd_AtomLinkType :: string
  fd_Title :: string
  fd_Description :: string
  fd_Link :: string
  fd_Language :: string
  fd_ITunesAuthor :: string
  fd_ITunesCategory :: "ITunesCategory list"
  fd_ITunesExplicit :: bool
  fd_ITunesImage :: string
  fd_Items :: "feed_item list"

definition feed_zero :: feed where
  "feed_zero = \<lparr>fd_PodcastGUID = '''', fd_AtomLinkHref = '''', fd_AtomLinkRel = '''',
     fd_AtomLinkType = '''', fd_Title = '''', fd_Description = '''', fd_Link = '''',
     fd_Language = '''', fd_ITunesAuthor = '''', fd_ITunesCategory = [],
     fd_ITunesExplicit = False, fd_ITunesImage = '''', fd_Items = []\<rparr>"

definition item_zero :: feed_item where
  "item_zero = \<lparr>it_GUID = '''', it_Title = '''', it_Description = None, it_PubDate = None,
     it_EnclosureURL = '''', it_EnclosureType = '''', it_EnclosureLength = 0,
     it_ITunesDuration = ''''\<rparr>"

text \<open>\<^verbatim>\<open>errors.Is(err, ParseErrors{})\<close>, through the type's own \<^verbatim>\<open>Is\<close> method.\<close>

fun is_parse_errors :: "go_error \<Rightarrow> bool" where
  "is_parse_errors (ParseErrors es) = True"
| "is_parse_errors (Wrapped m e) = is_parse_errors e"
| "is_parse_errors (Joined es) = list_ex is_parse_errors es"
| "is_parse_errors _ = False"

text \<open>
  The service fetches and parses the feed at an address; the parser knows nothing of this
  package's own error type.
\<close>

record FeedService =
  fs_fetch :: "time \<Rightarrow> PodcastCredentials option \<Rightarrow> string \<Rightarrow> feed result"
  fs_uuid5 :: "string \<Rightarrow> string"
  fs_sort :: "Episode list \<Rightarrow> Episode list"

locale feed_service =
  fixes S :: FeedService
  assumes sort_permutes: "mset (fs_sort S es) = mset es"
    and sort_sorts: "sorted_wrt (asc e_PublishedAt) (fs_sort S es)"
    and uuid5_nonempty: "fs_uuid5 S x \<noteq> ''''"
    and fetch_error: "fs_fetch S now creds url = Inl e \<Longrightarrow> \<not> is_parse_errors e"
begin

lemma set_sort [simp]: "set (fs_sort S es) = set es"
  by (metis mset_eq_setD sort_permutes)

lemma length_sort [simp]: "length (fs_sort S es) = length es"
  by (metis mset_eq_length sort_permutes)

end

section \<open>Reading a feed\<close>

definition truncate_str :: "string \<Rightarrow> nat \<Rightarrow> string" where
  "truncate_str s l = (if length s > l then take l s else s)"

definition parseDuration :: "feed_item \<Rightarrow> int" where
  "parseDuration item =
     (let durStr = it_ITunesDuration item;
          colonCount = length (filter (\<lambda>c. c = CHR '':'') durStr)
      in if durStr = '''' then 0
         else if colonCount = 0 then Atoi durStr
         else if colonCount > 2 then 0
         else (case (if colonCount = 1 then parse_minutes durStr else parse_hours durStr) of
                 None \<Rightarrow> 0
               | Some dur \<Rightarrow> round_seconds dur))"

definition feedGUID :: "FeedService \<Rightarrow> feed \<Rightarrow> string" where
  "feedGUID S f =
     (if fd_PodcastGUID f \<noteq> '''' then fs_uuid5 S (fd_PodcastGUID f)
      else
        (let hashIn = fd_AtomLinkHref f;
             hashIn = (if hashIn = '''' then fd_Link f else hashIn);
             hashIn = (if hashIn = '''' then fd_Title f else hashIn)
         in fs_uuid5 S hashIn))"

definition episodeGUID :: "FeedService \<Rightarrow> feed_item \<Rightarrow> string" where
  "episodeGUID S item =
     (if it_GUID item \<noteq> '''' then fs_uuid5 S (it_GUID item)
      else
        (let guidSuffix = (case it_PubDate item of None \<Rightarrow> '''' | Some d \<Rightarrow> Format_RFC3339 d);
             guidSuffix = (if guidSuffix = '''' then it_EnclosureURL item else guidSuffix)
         in fs_uuid5 S (it_Title item @ guidSuffix)))"

text \<open>One turn of the loop over the items: an episode, or the error the item is skipped with.\<close>

definition episodeFromItem :: "FeedService \<Rightarrow> string \<Rightarrow> feed_item \<Rightarrow> Episode result" where
  "episodeFromItem S podcastGUID item =
     (let desc = (case it_Description item of None \<Rightarrow> '''' | Some d \<Rightarrow> d);
          pub = (case it_PubDate item of None \<Rightarrow> (time_zero, 0) | Some d \<Rightarrow> d)
      in if it_EnclosureURL item = '''' then
           Inl (ErrorText (''could not read download URL, skipping episode '' @ quoted (episodeGUID S item)))
         else
           (case DetectMIMEType (it_EnclosureType item) (it_EnclosureURL item) of
              Inl err \<Rightarrow>
                Inl (Wrapped (''failed to parse episode '' @ quoted (episodeGUID S item) @ '', skipping: '') err)
            | Inr mimeType \<Rightarrow>
                Inr (episode_zero
                  \<lparr>e_GUID := episodeGUID S item,
                   e_PodcastGUID := podcastGUID,
                   e_Title := truncate_str (it_Title item) 500,
                   e_Description := truncate_str desc 10000,
                   e_DownloadURL := it_EnclosureURL item,
                   e_MimeType := mimeType,
                   e_DurationSecs := parseDuration item,
                   e_PublishedAt := fst pub,
                   e_PublishedZone := snd pub\<rparr>)))"

fun episodes_loop :: "FeedService \<Rightarrow> string \<Rightarrow> feed_item list \<Rightarrow> Episode list \<times> go_error list" where
  "episodes_loop S podcastGUID [] = ([], [])"
| "episodes_loop S podcastGUID (item # items) =
     (case episodes_loop S podcastGUID items of (episodes, errs) \<Rightarrow>
        (case episodeFromItem S podcastGUID item of
           Inl err \<Rightarrow> (episodes, err # errs)
         | Inr episode \<Rightarrow> (episode # episodes, errs)))"

definition episodesFromFeed ::
  "FeedService \<Rightarrow> feed \<Rightarrow> string \<Rightarrow> Episode list \<times> go_error option" where
  "episodesFromFeed S f podcastGUID =
     (case episodes_loop S podcastGUID (fd_Items f) of (episodes, errs) \<Rightarrow>
        (fs_sort S episodes, if errs = [] then None else Some (ParseErrors errs)))"

fun feedCategories :: "ITunesCategory list \<Rightarrow> Category list" where
  "feedCategories [] = []"
| "feedCategories (c # cs) =
     (if CategoryText c \<noteq> ''''
      then Category (CategoryText c)
             (case ITunesSubCategory c of
                None \<Rightarrow> None
              | Some sc \<Rightarrow> if CategoryText sc \<noteq> '''' then Some (Category (CategoryText sc) None) else None)
           # feedCategories cs
      else feedCategories cs)"

definition podcastFromFeed ::
  "FeedService \<Rightarrow> string \<Rightarrow> feed \<Rightarrow> Podcast \<times> Episode list \<times> go_error option" where
  "podcastFromFeed S feedURL f =
     (let guid = feedGUID S f
      in (case episodesFromFeed S f guid of (episodes, err) \<Rightarrow>
            (let lastEpisodeAt = (if episodes = [] then None else Some (e_PublishedAt (last episodes)));
                 author = (if fd_ITunesAuthor f \<noteq> '''' then fd_ITunesAuthor f else ''unknown'')
             in (podcast_zero
                   \<lparr>p_GUID := guid,
                    p_Title := truncate_str (fd_Title f) 500,
                    p_Author := author,
                    p_Description := truncate_str (fd_Description f) 10000,
                    p_Language := fd_Language f,
                    p_Link := fd_Link f,
                    p_Categories := feedCategories (fd_ITunesCategory f),
                    p_IsExplicit := fd_ITunesExplicit f,
                    p_ImageURL := fd_ITunesImage f,
                    p_FeedURL := feedURL,
                    p_LastCheckedAt := None,
                    p_LastEpisodeAt := lastEpisodeAt\<rparr>,
                 episodes, err))))"

definition ParseFeed ::
  "FeedService \<Rightarrow> time \<Rightarrow> string \<Rightarrow> PodcastCredentials option \<Rightarrow>
   Podcast \<times> Episode list \<times> go_error option" where
  "ParseFeed S now feedURL creds =
     (case ValidateExtURL feedURL of
        Some err \<Rightarrow> (podcast_zero, [], Some (Wrapped (''invalid feedURL '' @ quoted feedURL @ '': '') err))
      | None \<Rightarrow>
          (case fs_fetch S now creds feedURL of
             Inl err \<Rightarrow> (podcast_zero, [], Some (Wrapped ''failed to parse feed: '' err))
           | Inr f \<Rightarrow> podcastFromFeed S feedURL f))"

lemma podcastFromFeed_fields:
  assumes "podcastFromFeed S feedURL f = (q, es, err)"
  shows "episodesFromFeed S f (feedGUID S f) = (es, err)" "p_GUID q = feedGUID S f"
    "p_FeedURL q = feedURL" "p_Credentials q = None" "p_LastCheckedAt q = None"
    "p_LastEpisodeAt q = (if es = [] then None else Some (e_PublishedAt (last es)))"
proof -
  obtain es' err' where "episodesFromFeed S f (feedGUID S f) = (es', err')" by fastforce
  with assms show "episodesFromFeed S f (feedGUID S f) = (es, err)" "p_GUID q = feedGUID S f"
    "p_FeedURL q = feedURL" "p_Credentials q = None" "p_LastCheckedAt q = None"
    "p_LastEpisodeAt q = (if es = [] then None else Some (e_PublishedAt (last es)))"
    by (auto simp: podcastFromFeed_def Let_def podcast_zero_def)
qed

section \<open>The episodes of a feed\<close>

lemma episodes_loop_eq:
  "episodes_loop S g items =
     (concat (map (\<lambda>i. case episodeFromItem S g i of Inl e \<Rightarrow> [] | Inr ep \<Rightarrow> [ep]) items),
      concat (map (\<lambda>i. case episodeFromItem S g i of Inl e \<Rightarrow> [e] | Inr ep \<Rightarrow> []) items))"
  by (induction items) (auto split: sum.splits prod.splits)

lemma episodesFromFeed_episode:
  assumes S: "feed_service S" and "episodesFromFeed S f g = (es, err)"
  shows "ep \<in> set es \<longleftrightarrow> (\<exists>item \<in> set (fd_Items f). episodeFromItem S g item = Inr ep)"
proof -
  have "es = fs_sort S (concat (map (\<lambda>i. case episodeFromItem S g i of Inl e \<Rightarrow> [] | Inr ep \<Rightarrow> [ep]) (fd_Items f)))"
    using assms(2) by (simp add: episodesFromFeed_def episodes_loop_eq)
  then have "set es = (\<Union>i \<in> set (fd_Items f). set (case episodeFromItem S g i of Inl e \<Rightarrow> [] | Inr ep \<Rightarrow> [ep]))"
    using feed_service.set_sort [OF S] by simp
  then show ?thesis by (auto split: sum.splits) (metis Inl_Inr_False)+
qed

lemma episodeFromItem_Inr:
  assumes "episodeFromItem S g item = Inr ep"
  shows "e_GUID ep = episodeGUID S item" "e_PodcastGUID ep = g" "e_MimeType ep \<in> set mime_types"
    "e_DownloadURL ep = it_EnclosureURL item" "e_DownloadURL ep \<noteq> ''''"
    "e_DurationSecs ep = parseDuration item" "e_Status ep = ''''" "e_DeletedAt ep = None"
    "e_PublishedAt ep = (case it_PubDate item of None \<Rightarrow> time_zero | Some d \<Rightarrow> fst d)"
    "length (e_Title ep) \<le> 500" "length (e_Description ep) \<le> 10000"
proof -
  from assms obtain m where m: "DetectMIMEType (it_EnclosureType item) (it_EnclosureURL item) = Inr m"
    and u: "it_EnclosureURL item \<noteq> ''''"
    by (auto simp: episodeFromItem_def Let_def split: if_splits sum.splits)
  from assms m u show "e_GUID ep = episodeGUID S item" "e_PodcastGUID ep = g"
    "e_DownloadURL ep = it_EnclosureURL item" "e_DownloadURL ep \<noteq> ''''"
    "e_DurationSecs ep = parseDuration item" "e_Status ep = ''''" "e_DeletedAt ep = None"
    "e_PublishedAt ep = (case it_PubDate item of None \<Rightarrow> time_zero | Some d \<Rightarrow> fst d)"
    "length (e_Title ep) \<le> 500" "length (e_Description ep) \<le> 10000"
    by (auto simp: episodeFromItem_def Let_def episode_zero_def truncate_str_def split: option.split)
  from assms m u have "e_MimeType ep = m"
    by (auto simp: episodeFromItem_def Let_def episode_zero_def)
  with DetectMIMEType_supported [OF m] show "e_MimeType ep \<in> set mime_types" by simp
qed

section \<open>Writing a feed\<close>

fun feed_categories_of :: "Category list \<Rightarrow> ITunesCategory list" where
  "feed_categories_of [] = []"
| "feed_categories_of (c # cs) =
     (if CategoryName c = '''' then feed_categories_of cs
      else ITunesCategory (CategoryName c)
             (case SubCategory c of
                None \<Rightarrow> None
              | Some sc \<Rightarrow> if CategoryName sc \<noteq> '''' then Some (ITunesCategory (CategoryName sc) None) else None)
           # feed_categories_of cs)"

definition item_of_episode :: "string \<Rightarrow> Episode \<Rightarrow> feed_item" where
  "item_of_episode baseURL ep = item_zero
     \<lparr>it_Title := e_Title ep,
      it_Description := Some (e_Description ep),
      it_EnclosureLength := e_Bytes ep,
      it_EnclosureType := e_MimeType ep,
      it_EnclosureURL := baseURL @ ''/feeds/episodes/'' @ e_GUID ep @ ''/download'',
      it_GUID := e_GUID ep,
      it_PubDate := Some (e_PublishedAt ep, e_PublishedZone ep)\<rparr>"

fun feed_items_of :: "string \<Rightarrow> Episode list \<Rightarrow> feed_item list" where
  "feed_items_of baseURL [] = []"
| "feed_items_of baseURL (ep # eps) =
     (if e_Status ep \<noteq> EpisodeStatusSuccess then feed_items_of baseURL eps
      else item_of_episode baseURL ep # feed_items_of baseURL eps)"

definition feedFromPodcast :: "string \<Rightarrow> Podcast \<Rightarrow> Episode list \<Rightarrow> feed" where
  "feedFromPodcast baseURL pod eps = feed_zero
     \<lparr>fd_AtomLinkHref := baseURL @ ''/feeds/'' @ p_GUID pod,
      fd_AtomLinkRel := ''self'',
      fd_AtomLinkType := ''application/rss+xml'',
      fd_Title := p_Title pod,
      fd_Description := p_Description pod,
      fd_Link := p_Link pod,
      fd_Language := p_Language pod,
      fd_ITunesCategory := feed_categories_of (p_Categories pod),
      fd_ITunesExplicit := p_IsExplicit pod,
      fd_ITunesImage := baseURL @ ''/feeds/'' @ p_GUID pod @ ''/image'',
      fd_Items := feed_items_of baseURL eps\<rparr>"

end
