(* ===== verification/Podcasts.thy ===== *)
theory Podcasts
  imports Feed
begin

text \<open>
  The operations of \<^verbatim>\<open>pkg/podcasts/podcast.go\<close> and \<^verbatim>\<open>GenerateFeed\<close> of \<^verbatim>\<open>feed.go\<close> on the podcasts
  and episodes tables, what each of them did when it succeeds, and the contracts of the lookups
  that the workers and the web server rely on.
\<close>

section \<open>Dependencies\<close>

text \<open>
  JSON encoding of credentials is known by what it is for: decoding gives back what was encoded,
  provided the strings are valid UTF-8 (an invalid byte is replaced when it is encoded).
\<close>

function valid_utf8 :: "string \<Rightarrow> bool" where
  "valid_utf8 [] = True"
| "valid_utf8 (c # s) =
     ((byte c < 128 \<or> rune_size (c # s) > 1) \<and> valid_utf8 (drop (rune_size (c # s)) (c # s)))"
  by pat_completeness auto
termination
  by (relation "measure length") (auto simp: rune_size_def Let_def)

record pod_deps =
  pd_validator :: validator
  pd_podcasts :: "Podcast gorm"
  pd_episodes :: "Episode gorm"
  pd_service :: FeedService
  pd_enc :: EncryptedValueService
  pd_marshal :: "PodcastCredentials \<Rightarrow> string result"
  pd_unmarshal :: "string \<Rightarrow> PodcastCredentials result"

locale credentials_json =
  fixes marshal :: "PodcastCredentials \<Rightarrow> string result"
    and unmarshal :: "string \<Rightarrow> PodcastCredentials result"
  assumes unmarshal_marshal:
    "valid_utf8 (CredUsername c) \<Longrightarrow> valid_utf8 (CredPassword c) \<Longrightarrow>
     \<exists>data. marshal c = Inr data \<and> unmarshal data = Inr c"

section \<open>Operations\<close>

definition create_podcast ::
  "pod_deps \<Rightarrow> time \<Rightarrow> Podcast \<Rightarrow> Podcast list \<Rightarrow> Podcast result \<times> Podcast list" where
  "create_podcast D now podcast t =
     (case g_create (pd_podcasts D) now (Podcast_BeforeSave (pd_validator D)) podcast t of
        Inl err \<Rightarrow> (Inl err, t)
      | Inr (podcast', t') \<Rightarrow> (Inr podcast', t'))"

definition AddPodcast ::
  "pod_deps \<Rightarrow> (nat \<Rightarrow> time) \<Rightarrow> nat \<Rightarrow> string \<Rightarrow> PodcastCredentials option \<Rightarrow> Podcast list \<Rightarrow>
   Podcast result \<times> Podcast list" where
  "AddPodcast D cl rnd feedURL creds t =
     (case ParseFeed (pd_service D) (cl 0) feedURL creds of (podcast, _, parseErr) \<Rightarrow>
        (case (case parseErr of
                 Some err \<Rightarrow> if is_parse_errors err then None else Some err
               | None \<Rightarrow> None) of
           Some err \<Rightarrow> (Inl err, t)
         | None \<Rightarrow>
             (case creds of
                None \<Rightarrow> create_podcast D (cl 1) podcast t
              | Some c \<Rightarrow>
                  (case PodcastCredentials_Validate (pd_validator D) c of
                     Some err \<Rightarrow> (Inl err, t)
                   | None \<Rightarrow>
                       (case pd_marshal D c of
                          Inl err \<Rightarrow> (Inl err, t)
                        | Inr credsData \<Rightarrow>
                            (case Encrypt (pd_enc D) rnd credsData (p_FeedURL podcast) of
                               Inl err \<Rightarrow> (Inl err, t)
                             | Inr ev \<Rightarrow>
                                 create_podcast D (cl 1) (podcast\<lparr>p_Credentials := Some ev\<rparr>) t))))))"

definition GetCredentials :: "pod_deps \<Rightarrow> Podcast \<Rightarrow> (PodcastCredentials option) result" where
  "GetCredentials D podcast =
     (case p_Credentials podcast of
        None \<Rightarrow> Inr None
      | Some ev \<Rightarrow>
          if EncryptedData ev = '''' then Inr None
          else
            (case Decrypt (pd_enc D) ev (p_FeedURL podcast) of
               Inl err \<Rightarrow> Inl err
             | Inr data \<Rightarrow>
                 (case pd_unmarshal D data of
                    Inl err \<Rightarrow> Inl err
                  | Inr creds \<Rightarrow> Inr (Some creds))))"

definition ListPodcasts :: "pod_deps \<Rightarrow> time \<Rightarrow> Podcast list \<Rightarrow> (Podcast list) result" where
  "ListPodcasts D now t = g_find (pd_podcasts D) now (\<lambda>_. True) t"

definition ListEpisodes :: "pod_deps \<Rightarrow> time \<Rightarrow> string \<Rightarrow> Episode list \<Rightarrow> (Episode list) result" where
  "ListEpisodes D now podcastGUID t =
     g_find_order (pd_episodes D) now (desc e_PublishedAt) (\<lambda>e. e_PodcastGUID e = podcastGUID) t"

definition UpdatePodcastTimes ::
  "pod_deps \<Rightarrow> time \<Rightarrow> Podcast \<Rightarrow> time option \<Rightarrow> time option \<Rightarrow> Podcast list \<Rightarrow>
   go_error option \<times> Podcast list" where
  "UpdatePodcastTimes D now podcast lastCheckedAt lastEpisodeAt t =
     (case g_updates (pd_podcasts D) now (Podcast_BeforeSave (pd_validator D)) podcast
             (\<lambda>p. p\<lparr>p_LastCheckedAt := lastCheckedAt, p_LastEpisodeAt := lastEpisodeAt\<rparr>) t of
        Inl err \<Rightarrow> (Some err, t)
      | Inr t' \<Rightarrow> (None, t'))"

definition GetPodcast :: "pod_deps \<Rightarrow> time \<Rightarrow> string \<Rightarrow> Podcast list \<Rightarrow> Podcast result" where
  "GetPodcast D now guid t = g_first (pd_podcasts D) now (\<lambda>p. p_GUID p = guid) t"

definition GetEpisode ::
  "pod_deps \<Rightarrow> time \<Rightarrow> string \<Rightarrow> Podcast list \<Rightarrow> Episode list \<Rightarrow> Episode result" where
  "GetEpisode D now guid ps t =
     (case g_first (pd_episodes D) now (\<lambda>e. e_GUID e = guid) t of
        Inl err \<Rightarrow> Inl err
      | Inr ep \<Rightarrow>
          (case g_assoc (pd_podcasts D) now (\<lambda>p. p_GUID p = e_PodcastGUID ep) ps of
             Inl err \<Rightarrow> Inl err
           | Inr p \<Rightarrow> Inr (ep\<lparr>e_Podcast := (case p of None \<Rightarrow> podcast_zero | Some p' \<Rightarrow> p')\<rparr>)))"

definition UpdateEpisodeStatus ::
  "pod_deps \<Rightarrow> time \<Rightarrow> Episode \<Rightarrow> string \<Rightarrow> int option \<Rightarrow> Episode list \<Rightarrow>
   go_error option \<times> Episode list" where
  "UpdateEpisodeStatus D now episode status fileBytes t =
     (case g_updates (pd_episodes D) now (Episode_BeforeSave (pd_validator D)) episode
             (\<lambda>e. (case fileBytes of
                     None \<Rightarrow> e\<lparr>e_Status := status\<rparr>
                   | Some n \<Rightarrow> e\<lparr>e_Status := status, e_Bytes := n\<rparr>)) t of
        Inl err \<Rightarrow> (Some err, t)
      | Inr t' \<Rightarrow> (None, t'))"

definition GenerateFeed ::
  "pod_deps \<Rightarrow> (nat \<Rightarrow> time) \<Rightarrow> string \<Rightarrow> string \<Rightarrow> Podcast list \<Rightarrow> Episode list \<Rightarrow> feed result" where
  "GenerateFeed D cl baseURL podcastGuid ps es =
     (case GetPodcast D (cl 0) podcastGuid ps of
        Inl err \<Rightarrow> Inl err
      | Inr pod \<Rightarrow>
          (case ListEpisodes D (cl 1) (p_GUID pod) es of
             Inl err \<Rightarrow> Inl err
           | Inr eps \<Rightarrow> Inr (feedFromPodcast baseURL pod eps)))"

section \<open>Hypotheses and invariants\<close>

definition pod_deps_ok :: "pod_deps \<Rightarrow> bool" where
  "pod_deps_ok D \<longleftrightarrow>
     gorm_table podcast_schema (pd_podcasts D) \<and> gorm_table episode_schema (pd_episodes D) \<and>
     tag_meaning (pd_validator D) \<and> feed_service (pd_service D) \<and> service_ok (pd_enc D) \<and>
     credentials_json (pd_marshal D) (pd_unmarshal D)"

lemma pod_deps_okD:
  assumes "pod_deps_ok D"
  shows "gorm_table podcast_schema (pd_podcasts D)" "gorm_table episode_schema (pd_episodes D)"
    "tag_meaning (pd_validator D)" "feed_service (pd_service D)" "service_ok (pd_enc D)"
    "credentials_json (pd_marshal D) (pd_unmarshal D)"
  using assms by (simp_all add: pod_deps_ok_def)

definition podcasts_inv :: "pod_deps \<Rightarrow> Podcast list \<Rightarrow> bool" where
  "podcasts_inv D t \<longleftrightarrow>
     distinct (map p_GUID t) \<and> (\<forall>p \<in> set t. Podcast_BeforeSave (pd_validator D) p = None)"

definition episodes_inv :: "pod_deps \<Rightarrow> Episode list \<Rightarrow> bool" where
  "episodes_inv D t \<longleftrightarrow>
     distinct (map e_GUID t) \<and> (\<forall>e \<in> set t. Episode_BeforeSave (pd_validator D) e = None)"

section \<open>What a successful call did\<close>

lemma GetPodcast_row:
  assumes "pod_deps_ok D" "GetPodcast D now guid t = Inr p"
  shows "p \<in> set t" "p_DeletedAt p = None" "p_GUID p = guid"
  using gorm_table.first_row [OF pod_deps_okD(1) [OF assms(1)], of now] assms(2)
  by (auto simp: GetPodcast_def)

lemma GetPodcast_missing:
  assumes "pod_deps_ok D" "GetPodcast D now guid t = Inl e" "errors_is ErrRecordNotFound e"
    "p \<in> set t" "p_DeletedAt p = None"
  shows "p_GUID p \<noteq> guid"
  using gorm_table.first_not_found [OF pod_deps_okD(1) [OF assms(1)], of now "\<lambda>p. p_GUID p = guid" t e]
    assms(2-5)
  by (auto simp: GetPodcast_def live_rows_def filter_empty_conv)

lemma GetEpisode_row:
  assumes "pod_deps_ok D" "GetEpisode D now guid ps t = Inr e"
  obtains row where "row \<in> set t" "e_DeletedAt row = None" "e_GUID row = guid"
    "e = row\<lparr>e_Podcast := e_Podcast e\<rparr>"
proof -
  from assms(2) obtain row p where "g_first (pd_episodes D) now (\<lambda>e. e_GUID e = guid) t = Inr row"
    and "e = row\<lparr>e_Podcast := p\<rparr>"
    by (auto simp: GetEpisode_def split: sum.splits)
  with gorm_table.first_row [OF pod_deps_okD(2) [OF assms(1)]] show thesis
    by (fastforce intro: that [of row])
qed

lemma ListEpisodes_rows:
  assumes "pod_deps_ok D" "ListEpisodes D now guid t = Inr es"
  shows "mset es = mset (filter (\<lambda>e. e_DeletedAt e = None \<and> e_PodcastGUID e = guid) t)"
    "sorted_wrt (desc e_PublishedAt) es"
  using gorm_table.find_order_rows [OF pod_deps_okD(2) [OF assms(1)], of now]
    gorm_table.find_order_sorted [OF pod_deps_okD(2) [OF assms(1)], of now] assms(2)
  by (auto simp: ListEpisodes_def live_rows_def)

lemma ListPodcasts_rows:
  assumes "pod_deps_ok D" "ListPodcasts D now t = Inr ps"
  shows "mset ps = mset (filter (\<lambda>p. p_DeletedAt p = None) t)"
  using gorm_table.find_rows [OF pod_deps_okD(1) [OF assms(1)], of now] assms(2)
  by (auto simp: ListPodcasts_def live_rows_def)

lemma UpdatePodcastTimes_ok:
  assumes "pod_deps_ok D" "UpdatePodcastTimes D now p a b t = (None, t')"
  shows "t' = upd_where (\<lambda>y. p_GUID y = p_GUID p \<and> p_DeletedAt y = None)
    (\<lambda>y. y\<lparr>p_LastCheckedAt := a, p_LastEpisodeAt := b, p_UpdatedAt := now\<rparr>) t"
  using assms(2) gorm_table.updates_rows [OF pod_deps_okD(1) [OF assms(1)]]
  by (force simp: UpdatePodcastTimes_def split: sum.splits)

definition set_status :: "time \<Rightarrow> string \<Rightarrow> int option \<Rightarrow> Episode \<Rightarrow> Episode" where
  "set_status now status fileBytes e =
     e\<lparr>e_Status := status, e_Bytes := (case fileBytes of None \<Rightarrow> e_Bytes e | Some n \<Rightarrow> n),
       e_UpdatedAt := now\<rparr>"

lemma set_status_simps [simp]:
  "e_GUID (set_status now st n e) = e_GUID e"
  "e_Status (set_status now st n e) = st"
  "e_PodcastGUID (set_status now st n e) = e_PodcastGUID e"
  "e_DeletedAt (set_status now st n e) = e_DeletedAt e"
  "e_Bytes (set_status now st n e) = (case n of None \<Rightarrow> e_Bytes e | Some n \<Rightarrow> n)"
  "Episode_BeforeSave V (set_status now st n e) = Episode_BeforeSave V (e\<lparr>e_Status := st\<rparr>)"
  by (simp_all add: set_status_def Episode_BeforeSave_def Episode_fields_def)

lemma UpdateEpisodeStatus_ok:
  assumes "pod_deps_ok D" "UpdateEpisodeStatus D now e st n t = (None, t')"
  shows "t' = upd_where (\<lambda>y. e_GUID y = e_GUID e \<and> e_DeletedAt y = None) (set_status now st n) t"
proof -
  have f: "(\<lambda>y. sc_updated episode_schema now (case n of None \<Rightarrow> y\<lparr>e_Status := st\<rparr>
      | Some n \<Rightarrow> y\<lparr>e_Status := st, e_Bytes := n\<rparr>)) = set_status now st n"
    by (auto simp: set_status_def fun_eq_iff split: option.splits)
  from assms(2) have "g_updates (pd_episodes D) now (Episode_BeforeSave (pd_validator D)) e
      (\<lambda>e. case n of None \<Rightarrow> e\<lparr>e_Status := st\<rparr> | Some n \<Rightarrow> e\<lparr>e_Status := st, e_Bytes := n\<rparr>) t = Inr t'"
    by (auto simp: UpdateEpisodeStatus_def split: sum.splits)
  from gorm_table.updates_rows [OF pod_deps_okD(2) [OF assms(1)] this] show ?thesis
    unfolding f by simp
qed

lemma UpdateEpisodeStatus_inv:
  assumes D: "pod_deps_ok D" and inv: "episodes_inv D t"
    and st: "st \<in> {EpisodeStatusPending, EpisodeStatusFailed, EpisodeStatusSuccess}"
    and run: "UpdateEpisodeStatus D now e st n t = (None, t')"
  shows "episodes_inv D t'"
  using inv UpdateEpisodeStatus_ok [OF D run] Episode_BeforeSave_status [OF pod_deps_okD(3) [OF D] _ st]
  by (auto simp: episodes_inv_def set_upd_where map_upd_where_same)

lemma UpdatePodcastTimes_inv:
  assumes D: "pod_deps_ok D" and inv: "podcasts_inv D t"
    and run: "UpdatePodcastTimes D now p a b t = (None, t')"
  shows "podcasts_inv D t'"
  using inv UpdatePodcastTimes_ok [OF D run]
  by (auto simp: podcasts_inv_def set_upd_where map_upd_where_same)

lemma create_podcast_ok:
  assumes D: "pod_deps_ok D" and run: "create_podcast D now p t = (Inr p', t')"
  shows "t' = t @ [p']" "Podcast_BeforeSave (pd_validator D) p' = None"
    "\<exists>a b. p' = p\<lparr>p_CreatedAt := a, p_UpdatedAt := b\<rparr>"
    "\<And>x. x \<in> set t \<Longrightarrow> p_GUID x \<noteq> p_GUID p'"
proof -
  from run have c: "g_create (pd_podcasts D) now (Podcast_BeforeSave (pd_validator D)) p t = Inr (p', t')"
    by (auto simp: create_podcast_def split: sum.splits)
  note ok = gorm_table.create_ok [OF pod_deps_okD(1) [OF D] c]
  show "t' = t @ [p']" "\<And>x. x \<in> set t \<Longrightarrow> p_GUID x \<noteq> p_GUID p'" using ok by auto
  show ex: "\<exists>a b. p' = p\<lparr>p_CreatedAt := a, p_UpdatedAt := b\<rparr>"
    using ok(3) unfolding podcast_created by blast
  show "Podcast_BeforeSave (pd_validator D) p' = None" using ok(1) ex by auto
qed

lemma AddPodcast_cases:
  assumes run: "AddPodcast D cl rnd feedURL creds t = (Inr p, t')"
  obtains q es err where "ParseFeed (pd_service D) (cl 0) feedURL creds = (q, es, err)"
    "\<And>e. err = Some e \<Longrightarrow> is_parse_errors e" "creds = None"
    "create_podcast D (cl 1) q t = (Inr p, t')"
  | q es err c data ev where "ParseFeed (pd_service D) (cl 0) feedURL creds = (q, es, err)"
    "\<And>e. err = Some e \<Longrightarrow> is_parse_errors e" "creds = Some c"
    "PodcastCredentials_Validate (pd_validator D) c = None"
    "pd_marshal D c = Inr data" "Encrypt (pd_enc D) rnd data (p_FeedURL q) = Inr ev"
    "create_podcast D (cl 1) (q\<lparr>p_Credentials := Some ev\<rparr>) t = (Inr p, t')"
  using run unfolding AddPodcast_def
  by (fastforce split: prod.splits option.splits sum.splits if_splits)

lemma AddPodcast_error: "AddPodcast D cl rnd feedURL creds t = (Inl e, t') \<Longrightarrow> t' = t"
  by (auto simp: AddPodcast_def create_podcast_def split: prod.splits option.splits sum.splits if_splits)

lemma ParseFeed_podcast:
  assumes parse: "ParseFeed S now feedURL creds = (q, es, err)"
    and err: "\<And>e. err = Some e \<Longrightarrow> is_parse_errors e" and S: "feed_service S"
  obtains f where "fs_fetch S now creds feedURL = Inr f" "podcastFromFeed S feedURL f = (q, es, err)"
    "ValidateExtURL feedURL = None" "p_GUID q \<noteq> ''''"
proof -
  have no: "\<not> is_parse_errors e" if "ValidateExtURL feedURL = Some e" for e
    using that by (auto simp: ValidateExtURL_def Let_def split: option.splits if_splits)
  with parse err have v: "ValidateExtURL feedURL = None"
    by (cases "ValidateExtURL feedURL") (auto simp: ParseFeed_def)
  with parse err feed_service.fetch_error [OF S, of now creds feedURL]
  obtain f where f: "fs_fetch S now creds feedURL = Inr f" "podcastFromFeed S feedURL f = (q, es, err)"
    by (cases "fs_fetch S now creds feedURL") (auto simp: ParseFeed_def)
  moreover have "p_GUID q \<noteq> ''''"
    using podcastFromFeed_fields(2) [OF f(2)] feed_service.uuid5_nonempty [OF S]
    by (simp add: feedGUID_def Let_def)
  ultimately show thesis using v by (intro that)
qed

end
