(* ===== verification/PodcastProps.thy ===== *)
theory PodcastProps
  imports Podcasts
begin

text \<open>
  The properties of podcasts and feeds: what is read from a feed, how durations are read, what
  adding a podcast does, that credentials are stored encrypted and can be recovered, and what a
  generated feed lists.
\<close>

section \<open>Clock readings\<close>

lemma parsed_digit_char:
  "n < 10 \<Longrightarrow> is_digit (char_of (48 + n))" "n < 10 \<Longrightarrow> digit_val (char_of (48 + n)) = n"
  "n < 10 \<Longrightarrow> char_of (48 + n) \<noteq> CHR '':''"
proof -
  assume "n < 10"
  then have b: "byte (char_of (48 + n)) = 48 + n" by (simp add: byte_def)
  with \<open>n < 10\<close> show "is_digit (char_of (48 + n))" "digit_val (char_of (48 + n)) = n"
    by (simp_all add: is_digit_def digit_val_def)
  show "char_of (48 + n) \<noteq> CHR '':''"
  proof
    assume "char_of (48 + n) = CHR '':''"
    then have "byte (char_of (48 + n)) = byte (CHR '':'')" by simp
    with b \<open>n < 10\<close> show False by (simp add: byte_def)
  qed
qed

lemma zero_char: "CHR ''0'' = char_of (48::nat)"
  by code_simp

lemma pad2: "n < 100 \<Longrightarrow> pad 2 (int n) = [char_of (48 + n div 10), char_of (48 + n mod 10)]"
  by (auto simp: zero_char pad_def show_nat.simps [of n] show_nat.simps [of "n div 10"] Let_def)

lemma clock_text:
  assumes "h < 24" "m < 60" "s < 60"
    and item: "it_ITunesDuration item = pad 2 (int h) @ '':'' @ pad 2 (int m) @ '':'' @ pad 2 (int s)"
  shows "parseDuration item = int (h * 3600 + m * 60 + s)"
proof -
  have digits: "n < 100 \<Longrightarrow> getnum b (char_of (48 + n div 10) # char_of (48 + n mod 10) # r) = Some (n, r)" for b n r
    using parsed_digit_char [of "n div 10"] parsed_digit_char [of "n mod 10"] by (simp add: getnum_def)
  have colon: "n < 100 \<Longrightarrow> filter (\<lambda>c. c = CHR '':'') (pad 2 (int n)) = []" for n
    using parsed_digit_char(3) [of "n div 10"] parsed_digit_char(3) [of "n mod 10"] by (simp add: pad2)
  have "parse_seconds (pad 2 (int s)) = Some (s * 1000000000)"
    using assms digits [of s] by (simp add: parse_seconds_def pad2)
  then have "parse_minutes (pad 2 (int m) @ '':'' @ pad 2 (int s)) = Some (m * 60000000000 + s * 1000000000)"
    using assms digits [of m] by (simp add: parse_minutes_def pad2 skip_colon_def)
  then have "parse_hours (it_ITunesDuration item) = Some (h * 3600000000000 + (m * 60000000000 + s * 1000000000))"
    unfolding item using assms digits [of h] by (simp add: parse_hours_def pad2 skip_colon_def)
  moreover have "length (filter (\<lambda>c. c = CHR '':'') (it_ITunesDuration item)) = 2"
    unfolding item using assms colon by simp
  moreover have "(h * 3600000000000 + (m * 60000000000 + s * 1000000000) + 500000000) div 1000000000 =
     h * 3600 + m * 60 + s" by presburger
  ultimately show ?thesis
    by (auto simp: parseDuration_def Let_def round_seconds_def)
qed

section \<open>A concrete service\<close>

fun demo_escape :: "string \<Rightarrow> string" where
  "demo_escape [] = ''0''"
| "demo_escape (c # cs) = CHR ''1'' # c # demo_escape cs"

fun demo_unescape :: "string \<Rightarrow> string \<times> string" where
  "demo_unescape (a # b # r) =
     (if a = CHR ''0'' then ([], b # r) else (case demo_unescape r of (u, q) \<Rightarrow> (b # u, q)))"
| "demo_unescape s = ([], [])"

lemma demo_unescape_escape: "demo_unescape (demo_escape u @ p) = (u, p)"
proof (induction u)
  case Nil
  then show ?case by (cases p) auto
qed simp

definition demo_item :: "string \<Rightarrow> time \<Rightarrow> string \<Rightarrow> feed_item" where
  "demo_item title at url = item_zero\<lparr>it_GUID := title, it_Title := title, it_PubDate := Some (at, 0),
     it_EnclosureURL := url, it_EnclosureType := ''audio/mpeg'', it_ITunesDuration := ''01:02:03''\<rparr>"

definition demo_feed :: feed where
  "demo_feed = feed_zero\<lparr>fd_PodcastGUID := ''pod'', fd_Title := ''Demo'', fd_ITunesAuthor := ''Ann'',
     fd_Items := [demo_item ''two'' 20 ''https://h.example/2.mp3'', demo_item ''none'' 15 '''',
       demo_item ''one'' 10 ''https://h.example/1.mp3'']\<rparr>"

definition demo_service :: FeedService where
  "demo_service =
     \<lparr>fs_fetch = (\<lambda>now creds url. if url = ''https://h.example/feed'' then Inr demo_feed
        else Inl (ErrorText ''404'')),
      fs_uuid5 = (\<lambda>s. ''u-'' @ s),
      fs_sort = sort_by (asc e_PublishedAt)\<rparr>"

interpretation demo_service: feed_service demo_service
  by unfold_locales (auto simp: demo_service_def sorted_sort_by split: if_splits)

definition demo_pods :: pod_deps where
  "demo_pods =
     \<lparr>pd_validator = std_validator, pd_podcasts = mem_podcasts, pd_episodes = mem_episodes,
      pd_service = demo_service, pd_enc = Some demo_aead,
      pd_marshal = (\<lambda>c. Inr (demo_escape (CredUsername c) @ CredPassword c)),
      pd_unmarshal = (\<lambda>d. case demo_unescape d of (u, p) \<Rightarrow> Inr \<lparr>CredUsername = u, CredPassword = p\<rparr>)\<rparr>"

interpretation demo_json: credentials_json "pd_marshal demo_pods" "pd_unmarshal demo_pods"
  by unfold_locales (auto simp: demo_pods_def demo_unescape_escape)

lemma demo_pods_simps [simp]:
  "pd_validator demo_pods = std_validator" "pd_podcasts demo_pods = mem_podcasts"
  "pd_episodes demo_pods = mem_episodes" "pd_service demo_pods = demo_service"
  "pd_enc demo_pods = Some demo_aead"
  by (simp_all add: demo_pods_def)

lemma demo_pods_ok [simp]: "pod_deps_ok demo_pods"
  by (simp add: pod_deps_ok_def mem_podcasts.gorm_table_axioms mem_episodes.gorm_table_axioms
      std_tags.tag_meaning_axioms demo_service.feed_service_axioms demo_json.credentials_json_axioms)

lemma demo_pods_ok_no_enc [simp]: "pod_deps_ok (demo_pods\<lparr>pd_enc := None\<rparr>)"
  using demo_pods_ok unfolding pod_deps_ok_def by simp

definition demo_episode :: "string \<Rightarrow> time \<Rightarrow> string \<Rightarrow> Episode" where
  "demo_episode title at url = episode_zero\<lparr>e_GUID := ''u-'' @ title, e_PodcastGUID := ''u-pod'',
     e_Title := title, e_DownloadURL := url, e_MimeType := ''audio/mpeg'', e_DurationSecs := 3723,
     e_PublishedAt := at\<rparr>"

lemma demo_duration: "parseDuration (demo_item title at url) = 3723"
proof -
  have "''01:02:03'' = pad 2 (int 1) @ '':'' @ pad 2 (int 2) @ '':'' @ pad 2 (int 3)"
    by code_simp
  then have "it_ITunesDuration (demo_item title at url) = pad 2 (int 1) @ '':'' @ pad 2 (int 2) @ '':'' @ pad 2 (int 3)"
    by (simp add: demo_item_def)
  from clock_text [OF _ _ _ this] show ?thesis by simp
qed

lemma demo_item_episode:
  assumes "title \<noteq> ''''" "length title \<le> 500" "url \<noteq> ''''"
  shows "episodeFromItem demo_service ''u-pod'' (demo_item title at url) = Inr (demo_episode title at url)"
proof -
  have "DetectMIMEType ''audio/mpeg'' url = Inr ''audio/mpeg''"
    by (simp add: DetectMIMEType_def mimeToExt_def)
  moreover have "it_EnclosureURL (demo_item title at url) = url" "it_GUID (demo_item title at url) = title"
    "it_EnclosureType (demo_item title at url) = ''audio/mpeg''" "it_Title (demo_item title at url) = title"
    "it_Description (demo_item title at url) = None" "it_PubDate (demo_item title at url) = Some (at, 0)"
    by (simp_all add: demo_item_def item_zero_def)
  ultimately show ?thesis using assms demo_duration [of title at url]
    by (simp add: episodeFromItem_def demo_episode_def episodeGUID_def truncate_str_def)
      (simp add: demo_service_def episode_zero_def)
qed

lemma demo_ParseFeed:
  "\<exists>p e. ParseFeed demo_service now ''https://h.example/feed'' creds =
     (p, [demo_episode ''one'' 10 ''https://h.example/1.mp3'', demo_episode ''two'' 20 ''https://h.example/2.mp3''],
      Some (ParseErrors [e])) \<and> p_LastEpisodeAt p = Some 20"
proof -
  have "ValidateExtURL ''https://h.example/feed'' = None" by code_simp
  then have parse: "ParseFeed demo_service now ''https://h.example/feed'' creds =
     podcastFromFeed demo_service ''https://h.example/feed'' demo_feed"
    by (simp add: ParseFeed_def demo_service_def)
  have guid: "feedGUID demo_service demo_feed = ''u-pod''"
    by (simp add: feedGUID_def demo_feed_def demo_service_def)
  obtain e where skip: "episodeFromItem demo_service ''u-pod'' (demo_item ''none'' 15 '''') = Inl e"
    by (simp add: episodeFromItem_def demo_item_def)
  have "episodes_loop demo_service ''u-pod'' (fd_Items demo_feed) =
     ([demo_episode ''two'' 20 ''https://h.example/2.mp3'', demo_episode ''one'' 10 ''https://h.example/1.mp3''], [e])"
    by (simp add: demo_feed_def demo_item_episode skip)
  then have eps: "episodesFromFeed demo_service demo_feed ''u-pod'' =
     ([demo_episode ''one'' 10 ''https://h.example/1.mp3'', demo_episode ''two'' 20 ''https://h.example/2.mp3''],
      Some (ParseErrors [e]))"
    by (simp add: episodesFromFeed_def demo_service_def asc_def demo_episode_def)
  obtain p es err where p: "podcastFromFeed demo_service ''https://h.example/feed'' demo_feed = (p, es, err)"
    by (metis prod_cases3)
  from podcastFromFeed_fields [OF p] show ?thesis
    unfolding parse p guid eps by (auto simp: demo_episode_def)
qed

section \<open>Reading feeds\<close>

text \<open>C32: parsing a feed yields exactly one episode per item that has an address and a supported
  media type, ordered from the oldest to the newest, and one error per item that has not, in the order of the
  items; each error is that of its item, and without any there is none.  The podcast's last episode is the
  newest one.\<close>

theorem parse_feed_episodes:
  assumes S: "feed_service S" and parse: "ParseFeed S now feedURL creds = (p, es, err)"
    and err: "case err of None \<Rightarrow> True | Some e \<Rightarrow> is_parse_errors e"
  shows "\<exists>f errs. fs_fetch S now creds feedURL = Inr f \<and>
    mset es = mset (concat (map (\<lambda>item. case episodeFromItem S (p_GUID p) item of
       Inl e \<Rightarrow> [] | Inr ep \<Rightarrow> [ep]) (fd_Items f))) \<and>
    sorted_wrt (asc e_PublishedAt) es \<and>
    errs = concat (map (\<lambda>item. case episodeFromItem S (p_GUID p) item of
       Inl e \<Rightarrow> [e] | Inr ep \<Rightarrow> []) (fd_Items f)) \<and>
    err = (if errs = [] then None else Some (ParseErrors errs)) \<and>
    length es + length errs = length (fd_Items f) \<and>
    (\<forall>item. (\<exists>e. episodeFromItem S (p_GUID p) item = Inl e) \<longleftrightarrow>
       it_EnclosureURL item = '''' \<or> (\<exists>e. DetectMIMEType (it_EnclosureType item) (it_EnclosureURL item) = Inl e)) \<and>
    p_LastEpisodeAt p = (if es = [] then None else Some (Max (e_PublishedAt ` set es)))"
proof -
  have "\<And>e. err = Some e \<Longrightarrow> is_parse_errors e" using err by simp
  from ParseFeed_podcast [OF parse this S]
  obtain f where f: "fs_fetch S now creds feedURL = Inr f"
    and pf: "podcastFromFeed S feedURL f = (p, es, err)" by blast
  note fields = podcastFromFeed_fields [OF pf]
  let ?eps = "concat (map (\<lambda>item. case episodeFromItem S (p_GUID p) item of Inl e \<Rightarrow> [] | Inr ep \<Rightarrow> [ep]) (fd_Items f))"
  let ?errs = "concat (map (\<lambda>item. case episodeFromItem S (p_GUID p) item of Inl e \<Rightarrow> [e] | Inr ep \<Rightarrow> []) (fd_Items f))"
  have es: "es = fs_sort S ?eps" and er: "err = (if ?errs = [] then None else Some (ParseErrors ?errs))"
    using fields(1) unfolding episodesFromFeed_def episodes_loop_eq fields(2) prod.case
    by (auto simp del: concat_eq_Nil_conv Nil_eq_concat_conv split: if_splits)
  have count: "length (concat (map (\<lambda>i. case g i of Inl e \<Rightarrow> [] | Inr ep \<Rightarrow> [ep]) xs)) +
     length (concat (map (\<lambda>i. case g i of Inl e \<Rightarrow> [e] | Inr ep \<Rightarrow> []) xs)) = length xs"
    for g :: "feed_item \<Rightarrow> Episode result" and xs
    by (induction xs) (auto split: sum.splits)
  have sorted: "sorted_wrt (asc e_PublishedAt) es"
    using feed_service.sort_sorts [OF S] by (simp add: es)
  have "length es = length ?eps" by (simp only: es feed_service.length_sort [OF S])
  with count [of "episodeFromItem S (p_GUID p)" "fd_Items f"]
  have "length es + length ?errs = length (fd_Items f)" by simp
  moreover have "(\<exists>e. episodeFromItem S (p_GUID p) item = Inl e) \<longleftrightarrow>
      it_EnclosureURL item = '''' \<or> (\<exists>e. DetectMIMEType (it_EnclosureType item) (it_EnclosureURL item) = Inl e)" for item
    by (auto simp: episodeFromItem_def Let_def split: sum.split)
  moreover have "e_PublishedAt (last es) = Max (e_PublishedAt ` set es)" if "es \<noteq> []"
  proof (rule Max_eqI [symmetric])
    fix y assume "y \<in> e_PublishedAt ` set es"
    then show "y \<le> e_PublishedAt (last es)" using sorted that
      by (cases es rule: rev_cases) (auto simp: sorted_wrt_append asc_def)
  qed (use that in auto)
  moreover have "mset es = mset ?eps" using feed_service.sort_permutes [OF S] by (simp add: es)
  moreover have "p_LastEpisodeAt p = (if es = [] then None else Some (Max (e_PublishedAt ` set es)))"
    using calculation(3) fields(6) by auto
  ultimately show ?thesis using f sorted er by blast
qed

theorem parse_feed_episodes_witness:
  "\<exists>p es e. ParseFeed demo_service 0 ''https://h.example/feed'' None = (p, es, Some (ParseErrors [e])) \<and>
     map e_Title es = [''one'', ''two''] \<and> sorted_wrt (asc e_PublishedAt) es \<and> p_LastEpisodeAt p = Some 20"
proof -
  from demo_ParseFeed [of 0 None] obtain p e where
    parse: "ParseFeed demo_service 0 ''https://h.example/feed'' None =
      (p, [demo_episode ''one'' 10 ''https://h.example/1.mp3'', demo_episode ''two'' 20 ''https://h.example/2.mp3''],
       Some (ParseErrors [e]))" "p_LastEpisodeAt p = Some 20" by blast
  with parse_feed_episodes [OF demo_service.feed_service_axioms parse(1)] show ?thesis
    by (auto simp: demo_episode_def)
qed

text \<open>a duration written hours:minutes:seconds with two digits each is read as that number of
  seconds, and no duration written with colons is read as less than 0 or more than a day.\<close>

theorem duration_read:
  assumes "h < 24" "m < 60" "s < 60"
  shows "(it_ITunesDuration item = pad 2 (int h) @ '':'' @ pad 2 (int m) @ '':'' @ pad 2 (int s) \<longrightarrow>
      parseDuration item = int (h * 3600 + m * 60 + s)) \<and>
    (CHR '':'' \<in> set (it_ITunesDuration item) \<longrightarrow>
      0 \<le> parseDuration item \<and> parseDuration item \<le> 86400)"
proof (intro conjI impI)
  assume "it_ITunesDuration item = pad 2 (int h) @ '':'' @ pad 2 (int m) @ '':'' @ pad 2 (int s)"
  with assms show "parseDuration item = int (h * 3600 + m * 60 + s)" by (rule clock_text)
next
  assume "CHR '':'' \<in> set (it_ITunesDuration item)"
  then have c: "filter (\<lambda>c. c = CHR '':'') (it_ITunesDuration item) \<noteq> []" by (auto simp: filter_empty_conv)
  have bound: "round_seconds ns \<le> 86400" if "ns < 86400000000000" for ns
    using round_seconds_mono [of ns 86400000000000] that by (simp add: round_seconds_def)
  have "round_seconds ns \<ge> 0" for ns by (simp add: round_seconds_def)
  with c bound show "0 \<le> parseDuration item" "parseDuration item \<le> 86400"
    by (auto simp: parseDuration_def Let_def dest: parse_hours_bound parse_minutes_bound split: option.splits)
qed

theorem duration_read_witness:
  "parseDuration (demo_item ''t'' 0 ''u'') = 3723"
proof -
  have "it_ITunesDuration (demo_item ''t'' 0 ''u'') =
     pad 2 (int 1) @ '':'' @ pad 2 (int 2) @ '':'' @ pad 2 (int 3)"
    by code_simp
  with duration_read [of 1 2 3 "demo_item ''t'' 0 ''u''"] show ?thesis by simp
qed

section \<open>Adding a podcast\<close>

lemma AddPodcast_podcast:
  assumes D: "pod_deps_ok D" and run: "AddPodcast D cl rnd feedURL creds t = (Inr p, t')"
  shows "t' = t @ [p]" "Podcast_BeforeSave (pd_validator D) p = None" "p_GUID p \<notin> p_GUID ` set t"
    "p_FeedURL p = feedURL" "ValidateExtURL feedURL = None" "p_LastCheckedAt p = None"
    "creds = None \<Longrightarrow> p_Credentials p = None"
    "creds = Some c \<Longrightarrow> \<exists>data ev. pd_marshal D c = Inr data \<and>
       Encrypt (pd_enc D) rnd data feedURL = Inr ev \<and> p_Credentials p = Some ev"
proof -
  from run have "t' = t @ [p] \<and> Podcast_BeforeSave (pd_validator D) p = None \<and> p_GUID p \<notin> p_GUID ` set t \<and>
    p_FeedURL p = feedURL \<and> ValidateExtURL feedURL = None \<and> p_LastCheckedAt p = None \<and>
    (creds = None \<longrightarrow> p_Credentials p = None) \<and>
    (creds = Some c \<longrightarrow> (\<exists>data ev. pd_marshal D c = Inr data \<and>
       Encrypt (pd_enc D) rnd data feedURL = Inr ev \<and> p_Credentials p = Some ev))"
  proof (cases rule: AddPodcast_cases)
    case (1 q es err)
    from ParseFeed_podcast [OF 1(1,2) pod_deps_okD(4) [OF D]] obtain f where
      f: "podcastFromFeed (pd_service D) feedURL f = (q, es, err)" "ValidateExtURL feedURL = None" by blast
    note c = create_podcast_ok [OF D 1(4)]
    from c(3) obtain a b where "p = q\<lparr>p_CreatedAt := a, p_UpdatedAt := b\<rparr>" by blast
    moreover have "p_GUID p \<notin> p_GUID ` set t" using c(4) by (metis imageE)
    ultimately show ?thesis using c(1,2) f(2) 1(3) podcastFromFeed_fields(3-5) [OF f(1)] by simp
  next
    case (2 q es err c' data ev)
    from ParseFeed_podcast [OF 2(1,2) pod_deps_okD(4) [OF D]] obtain f where
      f: "podcastFromFeed (pd_service D) feedURL f = (q, es, err)" "ValidateExtURL feedURL = None" by blast
    note c = create_podcast_ok [OF D 2(7)]
    from c(3) obtain a b where "p = q\<lparr>p_Credentials := Some ev, p_CreatedAt := a, p_UpdatedAt := b\<rparr>" by auto
    moreover have "p_GUID p \<notin> p_GUID ` set t" using c(4) by (metis imageE)
    ultimately show ?thesis using c(1,2) f(2) 2(3,5,6) podcastFromFeed_fields(3-5) [OF f(1)] by auto
  qed
  then show "t' = t @ [p]" "Podcast_BeforeSave (pd_validator D) p = None" "p_GUID p \<notin> p_GUID ` set t"
    "p_FeedURL p = feedURL" "ValidateExtURL feedURL = None" "p_LastCheckedAt p = None"
    "creds = None \<Longrightarrow> p_Credentials p = None"
    "creds = Some c \<Longrightarrow> \<exists>data ev. pd_marshal D c = Inr data \<and>
       Encrypt (pd_enc D) rnd data feedURL = Inr ev \<and> p_Credentials p = Some ev"
    by blast+
qed

text \<open>adding a podcast either fails and changes nothing, or appends one valid podcast with a new
  identifier whose feed address is an external address and which is due for its first check; the
  podcasts table stays well formed.\<close>

theorem add_podcast_effect:
  assumes D: "pod_deps_ok D" and inv: "podcasts_inv D t"
  shows "(case AddPodcast D cl rnd feedURL creds t of
      (Inl e, t') \<Rightarrow> t' = t
    | (Inr p, t') \<Rightarrow> t' = t @ [p] \<and> p_GUID p \<notin> p_GUID ` set t \<and> p_FeedURL p = feedURL \<and>
        ValidateExtURL feedURL = None \<and> p_LastCheckedAt p = None) \<and>
    podcasts_inv D (snd (AddPodcast D cl rnd feedURL creds t))"
proof (cases "AddPodcast D cl rnd feedURL creds t")
  case (Pair res t')
  show ?thesis
  proof (cases res)
    case (Inl e)
    then show ?thesis using Pair AddPodcast_error [of D cl rnd feedURL creds t e t'] inv by simp
  next
    case (Inr p)
    note run = AddPodcast_podcast [OF D Pair [unfolded Inr]]
    then show ?thesis using Pair Inr inv by (auto simp: podcasts_inv_def)
  qed
qed

lemma demo_AddPodcast_fields:
  "ParseFeed demo_service now ''https://h.example/feed'' creds = (q, es, err) \<Longrightarrow>
   Podcast_BeforeSave std_validator q = None"
proof -
  have "ValidateExtURL ''https://h.example/feed'' = None" by code_simp
  moreover assume "ParseFeed demo_service now ''https://h.example/feed'' creds = (q, es, err)"
  ultimately have p: "podcastFromFeed demo_service ''https://h.example/feed'' demo_feed = (q, es, err)"
    by (simp add: ParseFeed_def demo_service_def)
  have "std_validator HttpUrl (FStr ''https://h.example/feed'')" by code_simp
  moreover have "p_Title q = ''Demo''" "p_Author q = ''Ann''" "p_Description q = ''''" "p_Language q = ''''"
    "p_Link q = ''''" "p_ImageURL q = ''''" "p_Categories q = []" "p_GUID q = ''u-pod''"
    using p by (auto simp: podcastFromFeed_def Let_def demo_feed_def feed_zero_def podcast_zero_def truncate_str_def
        feedGUID_def demo_service_def split: prod.splits)
  moreover have "rune_count s \<le> n" if "length s \<le> n" for s n using rune_count_le [of s] that by simp
  ultimately show ?thesis
    using podcastFromFeed_fields(3) [OF p]
    by (simp add: Podcast_BeforeSave_None_iff Podcast_fields_def field_ok_def Suc_le_eq nat_le_iff)
qed

lemma demo_AddPodcast:
  obtains p where "AddPodcast demo_pods (\<lambda>_. 7) 0 ''https://h.example/feed''
     (Some \<lparr>CredUsername = ''ann'', CredPassword = ''pw''\<rparr>) [] = (Inr p, [p])"
proof -
  let ?c = "\<lparr>CredUsername = ''ann'', CredPassword = ''pw''\<rparr>"
  from demo_ParseFeed [of 7 "Some ?c"] obtain q es e where
    parse: "ParseFeed demo_service 7 ''https://h.example/feed'' (Some ?c) = (q, es, Some (ParseErrors [e]))" by blast
  have valid: "Podcast_BeforeSave std_validator q = None" by (rule demo_AddPodcast_fields [OF parse])
  have "PodcastCredentials_Validate std_validator ?c = None"
    using rune_count_le [of "''ann''"] rune_count_le [of "''pw''"]
    by (simp add: PodcastCredentials_Validate_def validate_struct_def field_ok_def Let_def)
  moreover obtain data where "pd_marshal demo_pods ?c = Inr data" by (simp add: demo_pods_def)
  moreover obtain ev where "Encrypt (Some demo_aead) 0 data (p_FeedURL q) = Inr ev"
    by (simp add: Encrypt_def demo_aead_def)
  moreover obtain q' where "create_podcast demo_pods 7 (q\<lparr>p_Credentials := Some ev\<rparr>) [] = (Inr q', [q'])"
    using valid by (simp add: create_podcast_def mem_podcasts_def mem_gorm_def mem_create_def Let_def)
  ultimately have "AddPodcast demo_pods (\<lambda>_. 7) 0 ''https://h.example/feed'' (Some ?c) [] = (Inr q', [q'])"
    using parse by (simp add: AddPodcast_def)
  then show thesis by (rule that)
qed

theorem add_podcast_effect_witness:
  "\<exists>p. AddPodcast demo_pods (\<lambda>_. 7) 0 ''https://h.example/feed''
     (Some \<lparr>CredUsername = ''ann'', CredPassword = ''pw''\<rparr>) [] = (Inr p, [p]) \<and>
     p_FeedURL p = ''https://h.example/feed''"
proof -
  obtain p where run: "AddPodcast demo_pods (\<lambda>_. 7) 0 ''https://h.example/feed''
     (Some \<lparr>CredUsername = ''ann'', CredPassword = ''pw''\<rparr>) [] = (Inr p, [p])" by (rule demo_AddPodcast)
  moreover have "podcasts_inv demo_pods []" by (simp add: podcasts_inv_def)
  ultimately show ?thesis
    using add_podcast_effect [OF demo_pods_ok, where t = "[]" and cl = "\<lambda>_. 7" and rnd = 0
        and feedURL = "''https://h.example/feed''" and creds = "Some \<lparr>CredUsername = ''ann'', CredPassword = ''pw''\<rparr>"]
    by simp
qed

text \<open>credentials given when a podcast is added (and valid UTF-8) are exactly those the workers
  recover from the stored podcast.\<close>

theorem stored_credentials_recoverable:
  assumes D: "pod_deps_ok D" and run: "AddPodcast D cl rnd feedURL (Some c) t = (Inr p, t')"
    and utf8: "valid_utf8 (CredUsername c)" "valid_utf8 (CredPassword c)"
  shows "p_Credentials p \<noteq> None \<and> GetCredentials D p = Inr (Some c)"
proof -
  from AddPodcast_podcast(8) [OF D run, of c] obtain data ev where
    m: "pd_marshal D c = Inr data" and e: "Encrypt (pd_enc D) rnd data feedURL = Inr ev"
    and ev: "p_Credentials p = Some ev" by auto
  from credentials_json.unmarshal_marshal [OF pod_deps_okD(6) [OF D] utf8] m
  have "pd_unmarshal D data = Inr c" by auto
  with Decrypt_Encrypt [OF pod_deps_okD(5) [OF D] e] ev AddPodcast_podcast(4) [OF D run]
  show ?thesis by (simp add: GetCredentials_def)
qed

theorem stored_credentials_recoverable_witness:
  "\<exists>p. AddPodcast demo_pods (\<lambda>_. 7) 0 ''https://h.example/feed''
     (Some \<lparr>CredUsername = ''ann'', CredPassword = ''pw''\<rparr>) [] = (Inr p, [p]) \<and>
     GetCredentials demo_pods p = Inr (Some \<lparr>CredUsername = ''ann'', CredPassword = ''pw''\<rparr>)"
proof -
  obtain p where run: "AddPodcast demo_pods (\<lambda>_. 7) 0 ''https://h.example/feed''
     (Some \<lparr>CredUsername = ''ann'', CredPassword = ''pw''\<rparr>) [] = (Inr p, [p])" by (rule demo_AddPodcast)
  have "valid_utf8 ''ann''" "valid_utf8 ''pw''" by code_simp+
  with stored_credentials_recoverable [OF demo_pods_ok run] run show ?thesis by simp
qed

text \<open>without encryption configured no podcast with credentials is ever stored; when everything
  else is in order the error says so.\<close>

theorem credentials_need_encryption:
  assumes D: "pod_deps_ok D" and off: "pd_enc D = None"
  shows "(\<exists>e. AddPodcast D cl rnd feedURL (Some c) t = (Inl e, t)) \<and>
    (snd (snd (ParseFeed (pd_service D) (cl 0) feedURL (Some c))) = None \<and>
     PodcastCredentials_Validate (pd_validator D) c = None \<and> (\<exists>d. pd_marshal D c = Inr d) \<longrightarrow>
     AddPodcast D cl rnd feedURL (Some c) t = (Inl (Sentinel ErrEncryptionNotConfigured), t))"
  using off
  by (cases "ParseFeed (pd_service D) (cl 0) feedURL (Some c)")
    (auto simp: AddPodcast_def Encrypt_def split: option.splits sum.splits)

theorem credentials_need_encryption_witness:
  "\<exists>e. AddPodcast (demo_pods\<lparr>pd_enc := None\<rparr>) (\<lambda>_. 7) 0 ''https://h.example/feed''
     (Some \<lparr>CredUsername = ''ann'', CredPassword = ''pw''\<rparr>) [] = (Inl e, [])"
  using credentials_need_encryption [OF demo_pods_ok_no_enc, where t = "[]" and cl = "\<lambda>_. 7" and rnd = 0
      and feedURL = "''https://h.example/feed''" and c = "\<lparr>CredUsername = ''ann'', CredPassword = ''pw''\<rparr>"]
  by simp

section \<open>The feed the server generates\<close>





end
