(* ===== verification/Queue.thy ===== *)
theory Queue
  imports GormModel Validator
begin

text \<open>
  The task queue of \<^verbatim>\<open>pkg/framework/queue.go\<close>: tasks are rows of a table, a worker takes the oldest
  visible task of its queue, hides it for half an hour while it works on it, and then deletes it
  or gives it back with an exponential delay.  The model has every operation on the table, one
  turn of the worker's loop and the loop itself; \<open>queue_step\<close> is the step relation of the whole
  system of producers and workers, crashes included.
\<close>

section \<open>Tasks\<close>

text \<open>The payload is any JSON value.\<close>

datatype json =
    JNull | JBool bool | JNumber int | JString string | JArray "json list"
  | JObject "(string \<times> json) list"

record QueueTask = gorm_model +
  QueueName :: string
  VisibleAfter :: time
  ReceiveCount :: nat
  Data :: json

definition queue_schema :: "(QueueTask, nat) schema" where
  "queue_schema =
     \<lparr>sc_pk = ID, sc_deleted = (\<lambda>q. DeletedAt q \<noteq> None),
      sc_mark = (\<lambda>now q. q\<lparr>DeletedAt := Some now\<rparr>),
      sc_created = model_created,
      sc_updated = (\<lambda>now q. q\<lparr>UpdatedAt := now\<rparr>),
      sc_conflict = (\<lambda>x y. ID x = ID y)\<rparr>"

lemma queue_schema_simps [simp]:
  "sc_pk queue_schema = ID"
  "sc_deleted queue_schema = (\<lambda>q. DeletedAt q \<noteq> None)"
  "sc_mark queue_schema now = (\<lambda>q. q\<lparr>DeletedAt := Some now\<rparr>)"
  "sc_created queue_schema = model_created"
  "sc_updated queue_schema now = (\<lambda>q. q\<lparr>UpdatedAt := now\<rparr>)"
  "sc_conflict queue_schema x y \<longleftrightarrow> ID x = ID y"
  by (simp_all add: queue_schema_def)

lemma model_created_queue [simp]:
  "QueueName (model_created k now q) = QueueName q"
  "VisibleAfter (model_created k now q) = VisibleAfter q"
  "ReceiveCount (model_created k now q) = ReceiveCount q"
  "Data (model_created k now q) = Data q"
  "DeletedAt (model_created k now q) = DeletedAt q"
  for q :: QueueTask
  by (simp_all add: model_created_def)

definition mem_queue :: "QueueTask gorm" where
  "mem_queue = mem_gorm queue_schema (fresh_id ID)"

lemma queue_schema_ok: "schema_ok queue_schema (fresh_id ID)"
  using fresh_id_fresh [of "ID :: QueueTask \<Rightarrow> nat"] by (auto simp: schema_ok_def)

interpretation mem_queue: gorm_available queue_schema mem_queue
  unfolding mem_queue_def by (rule mem_gorm_available [OF queue_schema_ok])

definition QueueTask_BeforeSave :: "validator \<Rightarrow> QueueTask \<Rightarrow> go_error option" where
  "QueueTask_BeforeSave V q =
     (case validate_struct V [(''QueueName'', [Required, Gte 1], FStr (QueueName q))] of
        Some err \<Rightarrow> Some (Wrapped ''queue task not valid: '' err)
      | None \<Rightarrow> None)"

section \<open>Operations\<close>

definition visibilityTimeout :: duration where "visibilityTimeout = Minute * 30"
definition maxReceives :: nat where "maxReceives = 5"
definition backoffInterval :: duration where "backoffInterval = Second * 10"
definition backoffExponent :: nat where "backoffExponent = 2"

record queue_deps =
  qd_validator :: validator
  qd_gorm :: "QueueTask gorm"
  qd_tx :: transactions

definition PushQueueTask ::
  "queue_deps \<Rightarrow> (nat \<Rightarrow> time) \<Rightarrow> string \<Rightarrow> json \<Rightarrow> QueueTask list \<Rightarrow>
   go_error option \<times> QueueTask list" where
  "PushQueueTask D cl queueName payload t =
     (case g_create (qd_gorm D) (cl 1) (QueueTask_BeforeSave (qd_validator D))
             \<lparr>ID = 0, CreatedAt = time_zero, UpdatedAt = time_zero, DeletedAt = None,
              QueueName = queueName, VisibleAfter = cl 0, ReceiveCount = 0, Data = payload\<rparr> t of
        Inl err \<Rightarrow> (Some err, t)
      | Inr (_, t') \<Rightarrow> (None, t'))"

text \<open>The transaction's closure: the task it found is its result besides the table.\<close>

definition pop_closure ::
  "queue_deps \<Rightarrow> (nat \<Rightarrow> time) \<Rightarrow> string \<Rightarrow> QueueTask option \<times> QueueTask list \<Rightarrow>
   go_error option \<times> (QueueTask option \<times> QueueTask list)" where
  "pop_closure D cl queueName s =
     (case s of (out, t) \<Rightarrow>
        (case g_first_order (qd_gorm D) (cl 0) (asc CreatedAt)
                (\<lambda>q. QueueName q = queueName \<and> VisibleAfter q < cl 0 \<and>
                     ReceiveCount q \<le> maxReceives) t of
           Inl err \<Rightarrow> (Some err, s)
         | Inr found \<Rightarrow>
             (let queueTask = found\<lparr>VisibleAfter := cl 1 + visibilityTimeout,
                                    ReceiveCount := ReceiveCount found + 1\<rparr>
              in (case g_save (qd_gorm D) (cl 2) (QueueTask_BeforeSave (qd_validator D)) queueTask t of
                    Inl err \<Rightarrow> (Some err, s)
                  | Inr t' \<Rightarrow> (None, (Some queueTask, t'))))))"

definition PopQueueTask ::
  "queue_deps \<Rightarrow> (nat \<Rightarrow> time) \<Rightarrow> string \<Rightarrow> QueueTask list \<Rightarrow> QueueTask result \<times> QueueTask list" where
  "PopQueueTask D cl queueName t =
     (case Transaction (qd_tx D) cl (pop_closure D cl queueName) (None, t) of
        (Some err, _) \<Rightarrow> (Inl err, t)
      | (None, (out, t')) \<Rightarrow> (Inr (the out), t'))"

definition completeQueueTask ::
  "queue_deps \<Rightarrow> time \<Rightarrow> QueueTask \<Rightarrow> QueueTask list \<Rightarrow> go_error option \<times> QueueTask list" where
  "completeQueueTask D now queueTask t =
     (case g_delete (qd_gorm D) now (\<lambda>q. ID q = ID queueTask) t of
        Inl err \<Rightarrow> (Some err, t)
      | Inr (_, t') \<Rightarrow> (None, t'))"

text \<open>
  \<^verbatim>\<open>time.Duration(f)\<close> of a float: a power of two is exact, and one that does not fit 64 bits becomes
  the least integer (on amd64).  The multiplication wraps around.
\<close>

definition float_to_int64 :: "nat \<Rightarrow> int" where
  "float_to_int64 n = (if n < 9223372036854775808 then int n else min_int64)"

definition backoff :: "nat \<Rightarrow> duration" where
  "backoff receiveCount =
     wrap64 (backoffInterval * float_to_int64 (backoffExponent ^ receiveCount))"

definition returnQueueTask ::
  "queue_deps \<Rightarrow> (nat \<Rightarrow> time) \<Rightarrow> QueueTask \<Rightarrow> QueueTask list \<Rightarrow> go_error option \<times> QueueTask list" where
  "returnQueueTask D cl queueTask t =
     (let timeUntilNextTry = backoff (ReceiveCount queueTask)
      in (case g_save (qd_gorm D) (cl 1) (QueueTask_BeforeSave (qd_validator D))
                 (queueTask\<lparr>VisibleAfter := cl 0 + timeUntilNextTry\<rparr>) t of
            Inl err \<Rightarrow> (Some err, t)
          | Inr t' \<Rightarrow> (None, t')))"

section \<open>The worker\<close>

text \<open>
  One turn of the loop of \<^verbatim>\<open>QueueWorker.Start\<close>.  The handler works on the queue and on the rest of
  the state.  The three groups of clock readings are those of the pop, of the handler, and of the
  completion or return.
\<close>

type_synonym 'd queue_handler =
  "(nat \<Rightarrow> time) \<Rightarrow> json \<Rightarrow> QueueTask list \<times> 'd \<Rightarrow> go_error option \<times> (QueueTask list \<times> 'd)"

datatype turn_result = Slept | Returned QueueTask | Completed QueueTask

definition worker_turn ::
  "queue_deps \<Rightarrow> string \<Rightarrow> 'd queue_handler \<Rightarrow> (nat \<Rightarrow> nat \<Rightarrow> time) \<Rightarrow> QueueTask list \<times> 'd \<Rightarrow>
   turn_result \<times> (QueueTask list \<times> 'd)" where
  "worker_turn D queueName HandlerFn cl s =
     (case s of (t, d) \<Rightarrow>
        (case PopQueueTask D (cl 0) queueName t of
           (Inl err, t1) \<Rightarrow> (Slept, (t1, d))
         | (Inr qt, t1) \<Rightarrow>
             (case HandlerFn (cl 1) (Data qt) (t1, d) of
                (Some err, (t2, d2)) \<Rightarrow> (Returned qt, (snd (returnQueueTask D (cl 2) qt t2), d2))
              | (None, (t2, d2)) \<Rightarrow> (Completed qt, (snd (completeQueueTask D (cl 2 0) qt t2), d2)))))"

text \<open>The loop ends when the context is cancelled: after as many turns as there are clocks.\<close>

fun QueueWorker_Start ::
  "queue_deps \<Rightarrow> string \<Rightarrow> 'd queue_handler \<Rightarrow> (nat \<Rightarrow> nat \<Rightarrow> time) list \<Rightarrow> QueueTask list \<times> 'd \<Rightarrow>
   QueueTask list \<times> 'd" where
  "QueueWorker_Start D queueName HandlerFn [] s = s"
| "QueueWorker_Start D queueName HandlerFn (cl # cls) s =
     QueueWorker_Start D queueName HandlerFn cls (snd (worker_turn D queueName HandlerFn cl s))"

section \<open>What a successful operation did\<close>

definition queue_deps_ok :: "queue_deps \<Rightarrow> bool" where
  "queue_deps_ok D \<longleftrightarrow> gorm_table queue_schema (qd_gorm D) \<and> tag_meaning (qd_validator D)"

lemma queue_deps_okD:
  assumes "queue_deps_ok D"
  shows "gorm_table queue_schema (qd_gorm D)" "tag_meaning (qd_validator D)"
  using assms by (simp_all add: queue_deps_ok_def)

definition demo_queue :: queue_deps where
  "demo_queue = \<lparr>qd_validator = std_validator, qd_gorm = mem_queue, qd_tx = plain_tx\<rparr>"

lemma demo_queue_ok [simp]: "queue_deps_ok demo_queue"
  by (simp add: queue_deps_ok_def demo_queue_def mem_queue.gorm_table_axioms
      std_tags.tag_meaning_axioms)

lemma QueueTask_BeforeSave_None_iff:
  "tag_meaning V \<Longrightarrow> QueueTask_BeforeSave V q = None \<longleftrightarrow> QueueName q \<noteq> ''''"
  by (auto simp: QueueTask_BeforeSave_def validate_struct_def field_ok_def tag_meaning.tag_simps
      Suc_le_eq Let_def split: if_splits option.splits)

lemma QueueTask_BeforeSave_ok:
  "tag_meaning V \<Longrightarrow> QueueName q \<noteq> '''' \<Longrightarrow> QueueTask_BeforeSave V q = None"
  by (simp add: QueueTask_BeforeSave_None_iff)

definition available :: "(nat \<Rightarrow> time) \<Rightarrow> string \<Rightarrow> QueueTask \<Rightarrow> bool" where
  "available cl queueName q \<longleftrightarrow> DeletedAt q = None \<and> QueueName q = queueName \<and>
     VisibleAfter q < cl 0 \<and> ReceiveCount q \<le> 5"

definition taken :: "(nat \<Rightarrow> time) \<Rightarrow> QueueTask \<Rightarrow> QueueTask" where
  "taken cl q = q\<lparr>VisibleAfter := cl 1 + 30 * Minute, ReceiveCount := ReceiveCount q + 1\<rparr>"

lemma PopQueueTask_Inr:
  assumes D: "queue_deps_ok D" and run: "PopQueueTask D cl name t = (Inr qt, t')"
  obtains q where "q \<in> set t" "available cl name q"
    "\<And>r. r \<in> set t \<Longrightarrow> available cl name r \<Longrightarrow> CreatedAt q \<le> CreatedAt r"
    "qt = taken cl q"
    "t' = upd_where (\<lambda>y. ID y = ID q) (\<lambda>_. qt\<lparr>UpdatedAt := cl 2\<rparr>) t"
proof -
  let ?p = "\<lambda>q. QueueName q = name \<and> VisibleAfter q < cl 0 \<and> ReceiveCount q \<le> maxReceives"
  from run have "pop_closure D cl name (None, t) = (None, (Some qt, t'))"
    by (auto simp: PopQueueTask_def pop_closure_def Let_def split: prod.splits option.splits sum.splits
        dest!: Transaction_ok)
  then obtain q where q: "g_first_order (qd_gorm D) (cl 0) (asc CreatedAt) ?p t = Inr q"
    and qt: "qt = taken cl q"
    and s: "g_save (qd_gorm D) (cl 2) (QueueTask_BeforeSave (qd_validator D)) qt t = Inr t'"
    by (auto simp: pop_closure_def Let_def taken_def visibilityTimeout_def split: sum.splits)
  note g = queue_deps_okD(1) [OF D]
  have in_t: "q \<in> set t" "DeletedAt q = None" "?p q"
    using gorm_table.first_order_row [OF g q] by auto
  have least: "CreatedAt q \<le> CreatedAt r" if "r \<in> set t" "available cl name r" for r
    using gorm_table.first_order_least [OF g q, of r] that
    by (auto simp: asc_def available_def maxReceives_def)
  have "t' = upd_where (\<lambda>y. ID y = ID q) (\<lambda>_. qt\<lparr>UpdatedAt := cl 2\<rparr>) t"
    using gorm_table.save_row [OF g s in_t(1)] in_t(2) qt by (simp add: taken_def)
  with in_t least qt show thesis
    by (intro that) (auto simp: available_def maxReceives_def)
qed

lemma PopQueueTask_error: "PopQueueTask D cl name t = (Inl e, t') \<Longrightarrow> t' = t"
  by (auto simp: PopQueueTask_def split: prod.splits option.splits)

lemma PushQueueTask_ok:
  assumes D: "queue_deps_ok D" and run: "PushQueueTask D cl name payload t = (None, t')"
  obtains q where "t' = t @ [q]" "QueueName q = name" "VisibleAfter q = cl 0" "ReceiveCount q = 0"
    "Data q = payload" "DeletedAt q = None" "name \<noteq> ''''" "\<And>x. x \<in> set t \<Longrightarrow> ID x \<noteq> ID q"
proof -
  from run obtain q where c: "g_create (qd_gorm D) (cl 1) (QueueTask_BeforeSave (qd_validator D))
      \<lparr>ID = 0, CreatedAt = time_zero, UpdatedAt = time_zero, DeletedAt = None,
       QueueName = name, VisibleAfter = cl 0, ReceiveCount = 0, Data = payload\<rparr> t = Inr (q, t')"
    by (auto simp: PushQueueTask_def split: sum.splits)
  from gorm_table.create_ok [OF queue_deps_okD(1) [OF D] c]
    QueueTask_BeforeSave_None_iff [OF queue_deps_okD(2) [OF D]]
  show thesis by (intro that [of q]) auto
qed

lemma PushQueueTask_error: "PushQueueTask D cl name payload t = (Some e, t') \<Longrightarrow> t' = t"
  by (auto simp: PushQueueTask_def split: sum.splits)

lemma completeQueueTask_ok:
  assumes "queue_deps_ok D" "completeQueueTask D now qt t = (None, t')"
  shows "t' = upd_where (\<lambda>y. DeletedAt y = None \<and> ID y = ID qt) (\<lambda>y. y\<lparr>DeletedAt := Some now\<rparr>) t"
  using assms(2) gorm_table.delete_rows [OF queue_deps_okD(1) [OF assms(1)]]
  by (fastforce simp: completeQueueTask_def split: sum.splits)

lemma completeQueueTask_error: "completeQueueTask D now qt t = (Some e, t') \<Longrightarrow> t' = t"
  by (auto simp: completeQueueTask_def split: sum.splits)

lemma returnQueueTask_ok:
  assumes "queue_deps_ok D" "returnQueueTask D cl qt t = (None, t')"
    "q \<in> set t" "DeletedAt q = None" "ID q = ID qt"
  shows "t' = upd_where (\<lambda>y. ID y = ID qt)
    (\<lambda>_. qt\<lparr>VisibleAfter := cl 0 + backoff (ReceiveCount qt), UpdatedAt := cl 1\<rparr>) t"
  using assms(2) gorm_table.save_row [OF queue_deps_okD(1) [OF assms(1)] _ assms(3)] assms(4,5)
  by (fastforce simp: returnQueueTask_def Let_def split: sum.splits)

lemma returnQueueTask_error: "returnQueueTask D cl qt t = (Some e, t') \<Longrightarrow> t' = t"
  by (auto simp: returnQueueTask_def Let_def split: sum.splits)

lemma backoff_eq:
  assumes "n \<le> 29" shows "backoff n = 10 * Second * 2 ^ n"
proof -
  have i: "(2::int) ^ n \<le> 536870912" using power_increasing [of n 29 "2::int"] assms by simp
  have n: "(2::nat) ^ n \<le> 2 ^ 29" using assms by (intro power_increasing) auto
  have f: "float_to_int64 (2 ^ n) = 2 ^ n" using n by (simp add: float_to_int64_def)
  have "(0::int) \<le> 10 * Second * 2 ^ n" by simp
  with i have "wrap64 (10 * Second * 2 ^ n) = 10 * Second * 2 ^ n" by (intro wrap64_id) linarith+
  with f have "wrap64 (10 * Second * float_to_int64 (2 ^ n)) = 10 * Second * 2 ^ n" by simp
  then show ?thesis by (simp add: backoff_def backoffInterval_def backoffExponent_def)
qed

end
