(* ===== verification/QueueProps.thy ===== *)
theory QueueProps
  imports Queue
begin

text \<open>
  The properties of the task queue: what taking a task does, that a taken task is hidden from every
  worker for half an hour, the delay before a retry, and, on the step relation of all producers and
  workers, that a task is delivered at most six times and is never lost.
\<close>

definition demo_task :: "nat \<Rightarrow> string \<Rightarrow> time \<Rightarrow> nat \<Rightarrow> QueueTask" where
  "demo_task i name visible n = \<lparr>ID = i, CreatedAt = int i, UpdatedAt = 0, DeletedAt = None,
     QueueName = name, VisibleAfter = visible, ReceiveCount = n, Data = JString ''x''\<rparr>"

lemma demo_task_simps [simp]:
  "ID (demo_task i name v n) = i" "QueueName (demo_task i name v n) = name"
  "VisibleAfter (demo_task i name v n) = v" "ReceiveCount (demo_task i name v n) = n"
  "DeletedAt (demo_task i name v n) = None" "CreatedAt (demo_task i name v n) = int i"
  by (simp_all add: demo_task_def)

definition tasks_inv :: "QueueTask list \<Rightarrow> bool" where
  "tasks_inv t \<longleftrightarrow> distinct (map ID t) \<and> (\<forall>q \<in> set t. QueueName q \<noteq> '''')"

lemma tasks_inv_replace:
  assumes "tasks_inv t" "q \<in> set t" "ID q = i" "ID q' = i" "QueueName q' \<noteq> ''''"
  shows "tasks_inv (upd_where (\<lambda>y. ID y = i) (\<lambda>_. q') t)"
proof -
  have "map ID (upd_where (\<lambda>y. ID y = i) (\<lambda>_. q') t) = map ID t"
    using assms(4) by (intro map_upd_where_same) auto
  with assms show ?thesis by (auto simp: tasks_inv_def set_upd_where)
qed

section \<open>One operation\<close>

text \<open>taking a task from a queue gives the oldest task of that queue that is visible and has been
  taken at most five times before, counts the delivery, and hides that task, and no other, until
  half an hour later.\<close>

theorem pop_takes_oldest_visible:
  assumes D: "queue_deps_ok D" and inv: "tasks_inv t"
    and run: "PopQueueTask D cl name t = (Inr qt, t')"
  shows "\<exists>q. q \<in> set t \<and> available cl name q \<and>
    (\<forall>r. r \<in> set t \<and> available cl name r \<longrightarrow> CreatedAt q \<le> CreatedAt r) \<and>
    ID qt = ID q \<and> Data qt = Data q \<and> ReceiveCount qt = ReceiveCount q + 1 \<and>
    VisibleAfter qt = cl 1 + 30 * Minute \<and>
    set t' = insert (qt\<lparr>UpdatedAt := cl 2\<rparr>) (set t - {q})"
proof -
  from PopQueueTask_Inr [OF D run] obtain q where q: "q \<in> set t" "available cl name q"
    "\<And>r. r \<in> set t \<Longrightarrow> available cl name r \<Longrightarrow> CreatedAt q \<le> CreatedAt r" "qt = taken cl q"
    "t' = upd_where (\<lambda>y. ID y = ID q) (\<lambda>_. qt\<lparr>UpdatedAt := cl 2\<rparr>) t" by blast
  moreover have "set t' = insert (qt\<lparr>UpdatedAt := cl 2\<rparr>) (set t - {q})"
    using inv q(1) unfolding q(5) by (subst set_upd_key [of ID t q]) (auto simp: tasks_inv_def)
  ultimately show ?thesis by (intro exI [of _ q]) (auto simp: taken_def)
qed

lemma demo_pop:
  "PopQueueTask demo_queue (\<lambda>_. 100) ''q'' [demo_task 1 ''q'' 0 0, demo_task 2 ''q'' 0 3] =
     (Inr (taken (\<lambda>_. 100) (demo_task 1 ''q'' 0 0)),
      [(taken (\<lambda>_. 100) (demo_task 1 ''q'' 0 0))\<lparr>UpdatedAt := 100\<rparr>, demo_task 2 ''q'' 0 3])"
  by (simp add: PopQueueTask_def Transaction_works pop_closure_def demo_queue_def mem_queue_def
      mem_gorm_def mem_pick_def live_rows_def asc_def maxReceives_def Let_def mem_save_def
      QueueTask_BeforeSave_ok [OF std_tags.tag_meaning_axioms] taken_def visibilityTimeout_def)

theorem pop_takes_oldest_visible_witness:
  "\<exists>qt t'. PopQueueTask demo_queue (\<lambda>_. 100) ''q'' [demo_task 1 ''q'' 0 0, demo_task 2 ''q'' 0 3] = (Inr qt, t') \<and>
     ID qt = 1 \<and> ReceiveCount qt = 1"
proof -
  have "tasks_inv [demo_task 1 ''q'' 0 0, demo_task 2 ''q'' 0 3]" by (simp add: tasks_inv_def)
  from pop_takes_oldest_visible [OF demo_queue_ok this demo_pop] demo_pop
  show ?thesis by (auto simp: taken_def)
qed

text \<open>while a worker has a task (up to half an hour), no worker is given it again, even after a crash.\<close>

theorem taken_task_is_hidden:
  assumes D: "queue_deps_ok D" and inv: "tasks_inv t"
    and first: "PopQueueTask D cl name t = (Inr qt, t')"
    and second: "PopQueueTask D cl' name' t' = (Inr qt', t'')"
    and soon: "cl' 0 \<le> cl 1 + 30 * Minute"
  shows "ID qt' \<noteq> ID qt"
proof
  assume same: "ID qt' = ID qt"
  from PopQueueTask_Inr [OF D first] obtain q where q: "q \<in> set t" "qt = taken cl q"
    "t' = upd_where (\<lambda>y. ID y = ID q) (\<lambda>_. qt\<lparr>UpdatedAt := cl 2\<rparr>) t" by blast
  from PopQueueTask_Inr [OF D second] obtain r where r: "r \<in> set t'" "available cl' name' r"
    "qt' = taken cl' r" by blast
  have "VisibleAfter r = cl 1 + 30 * Minute"
    using r(1) same q(2) r(3) unfolding q(3) by (auto simp: set_upd_where taken_def)
  with r(2) soon show False by (simp add: available_def)
qed

theorem taken_task_is_hidden_witness:
  "\<exists>qt t'. PopQueueTask demo_queue (\<lambda>_. 100) ''q''
      [(taken (\<lambda>_. 100) (demo_task 1 ''q'' 0 0))\<lparr>UpdatedAt := 100\<rparr>, demo_task 2 ''q'' 0 3] = (Inr qt, t') \<and> ID qt \<noteq> 1"
proof -
  have second: "\<exists>qt t'. PopQueueTask demo_queue (\<lambda>_. 100) ''q''
      [(taken (\<lambda>_. 100) (demo_task 1 ''q'' 0 0))\<lparr>UpdatedAt := 100\<rparr>, demo_task 2 ''q'' 0 3] = (Inr qt, t')"
    by (simp add: PopQueueTask_def Transaction_works pop_closure_def demo_queue_def mem_queue_def
      mem_gorm_def mem_pick_def live_rows_def asc_def maxReceives_def Let_def mem_save_def
      QueueTask_BeforeSave_ok [OF std_tags.tag_meaning_axioms] taken_def visibilityTimeout_def)
  have "tasks_inv [demo_task 1 ''q'' 0 0, demo_task 2 ''q'' 0 3]" by (simp add: tasks_inv_def)
  with second taken_task_is_hidden [OF demo_queue_ok _ demo_pop] show ?thesis
    by (fastforce simp: taken_def)
qed

text \<open>a task given back after its n-th delivery (n at most 6) stays hidden for exactly 10 seconds
  times 2 to the n, from 20 seconds to 640; it can then be taken again when n is at most 5, and
  never again when n is 6.\<close>

theorem retry_delay:
  assumes D: "queue_deps_ok D" and inv: "tasks_inv t"
    and run: "returnQueueTask D cl qt t = (None, t')"
    and row: "q \<in> set t" "ID q = ID qt" "DeletedAt q = None" "DeletedAt qt = None"
    and n: "ReceiveCount qt \<le> 6"
  shows "\<exists>q'. q' \<in> set t' \<and> ID q' = ID qt \<and>
    (available cl' (QueueName qt) q' \<longleftrightarrow>
       cl 0 + 10 * Second * 2 ^ ReceiveCount qt < cl' 0 \<and> ReceiveCount qt < 6)"
proof -
  have t': "t' = upd_where (\<lambda>y. ID y = ID qt)
    (\<lambda>_. qt\<lparr>VisibleAfter := cl 0 + backoff (ReceiveCount qt), UpdatedAt := cl 1\<rparr>) t"
    by (rule returnQueueTask_ok [OF D run row(1,3,2)])
  have "backoff (ReceiveCount qt) = 10 * Second * 2 ^ ReceiveCount qt"
    by (rule backoff_eq) (use n in simp)
  moreover have "qt\<lparr>VisibleAfter := cl 0 + backoff (ReceiveCount qt), UpdatedAt := cl 1\<rparr> \<in> set t'"
    using row(1,2) by (auto simp: t' set_upd_where)
  ultimately show ?thesis using row(4)
    by (intro exI [of _ "qt\<lparr>VisibleAfter := cl 0 + backoff (ReceiveCount qt), UpdatedAt := cl 1\<rparr>"])
      (auto simp: available_def)
qed

theorem retry_delay_witness:
  "\<exists>t'. returnQueueTask demo_queue (\<lambda>_. 0) (demo_task 1 ''q'' 0 2) [demo_task 1 ''q'' 0 2] = (None, t') \<and>
     (\<exists>q'. q' \<in> set t' \<and> available (\<lambda>_. 41 * Second) ''q'' q')"
proof -
  obtain t' where run: "returnQueueTask demo_queue (\<lambda>_. 0) (demo_task 1 ''q'' 0 2) [demo_task 1 ''q'' 0 2] = (None, t')"
    by (simp add: returnQueueTask_def demo_queue_def mem_queue_def mem_gorm_def mem_save_def
        QueueTask_BeforeSave_ok [OF std_tags.tag_meaning_axioms])
  have "tasks_inv [demo_task 1 ''q'' 0 2]" by (simp add: tasks_inv_def)
  from retry_delay [OF demo_queue_ok this run, of "demo_task 1 ''q'' 0 2" "\<lambda>_. 41 * Second"] run
  show ?thesis by auto
qed

section \<open>The whole system\<close>

text \<open>
  The tasks, the task each queue's worker is busy with, and two ghost variables: how often each
  task has been delivered, and which tasks have been completed.  A crash makes every worker forget
  its task.  A failed operation leaves the table as it is, but a worker forgets its task even when
  giving it back or completing it fails.
\<close>

record queue_system =
  qs_tasks :: "QueueTask list"
  qs_busy :: "string \<Rightarrow> QueueTask option"
  qs_delivered :: "nat \<Rightarrow> nat"
  qs_done :: "nat set"

inductive queue_step :: "queue_deps \<Rightarrow> queue_system \<Rightarrow> queue_system \<Rightarrow> bool" for D where
  push: "PushQueueTask D cl name payload (qs_tasks s) = (None, t') \<Longrightarrow>
    queue_step D s (s\<lparr>qs_tasks := t'\<rparr>)"
| take: "qs_busy s name = None \<Longrightarrow> PopQueueTask D cl name (qs_tasks s) = (Inr qt, t') \<Longrightarrow>
    queue_step D s (s\<lparr>qs_tasks := t', qs_busy := (qs_busy s)(name := Some qt),
      qs_delivered := (qs_delivered s)(ID qt := qs_delivered s (ID qt) + 1)\<rparr>)"
| give_back: "qs_busy s name = Some qt \<Longrightarrow> returnQueueTask D cl qt (qs_tasks s) = (err, t') \<Longrightarrow>
    queue_step D s (s\<lparr>qs_tasks := t', qs_busy := (qs_busy s)(name := None)\<rparr>)"
| complete: "qs_busy s name = Some qt \<Longrightarrow> completeQueueTask D now qt (qs_tasks s) = (err, t') \<Longrightarrow>
    queue_step D s (s\<lparr>qs_tasks := t', qs_busy := (qs_busy s)(name := None),
      qs_done := (if err = None then insert (ID qt) (qs_done s) else qs_done s)\<rparr>)"
| crash: "queue_step D s (s\<lparr>qs_busy := (\<lambda>_. None)\<rparr>)"

inductive_cases queue_stepE: "queue_step D s s'"

definition initial_system :: queue_system where
  "initial_system = \<lparr>qs_tasks = [], qs_busy = (\<lambda>_. None), qs_delivered = (\<lambda>_. 0), qs_done = {}\<rparr>"

text \<open>The row a busy worker's task comes from: same key, queue, payload and count, and still live.\<close>

definition held :: "QueueTask \<Rightarrow> string \<Rightarrow> QueueTask \<Rightarrow> bool" where
  "held qt name q \<longleftrightarrow> ID q = ID qt \<and> DeletedAt q = None \<and> DeletedAt qt = None \<and>
     ReceiveCount q = ReceiveCount qt \<and> Data q = Data qt \<and> QueueName q = name \<and> QueueName qt = name"

definition counted :: "queue_system \<Rightarrow> bool" where
  "counted s \<longleftrightarrow>
     (\<forall>q \<in> set (qs_tasks s). qs_delivered s (ID q) = ReceiveCount q \<and> ReceiveCount q \<le> 6) \<and>
     (\<forall>i. i \<notin> ID ` set (qs_tasks s) \<longrightarrow> qs_delivered s i = 0)"

definition system_inv :: "queue_system \<Rightarrow> bool" where
  "system_inv s \<longleftrightarrow> tasks_inv (qs_tasks s) \<and> counted s \<and>
     (\<forall>name qt. qs_busy s name = Some qt \<longrightarrow> (\<exists>q \<in> set (qs_tasks s). held qt name q))"

text \<open>Replacing one row keeps what the other workers hold.\<close>

lemma held_replace:
  assumes inv: "tasks_inv t" and q: "q \<in> set t" "ID q = i" "QueueName q = name"
    and other: "r \<in> set t" "held qr name' r" "name' \<noteq> name"
  shows "r \<in> set (upd_where (\<lambda>y. p y \<and> ID y = i) f t)"
proof (rule upd_where_keeps [OF other(1)])
  have "q = r" if "ID r = i"
    using inv q other(1) that unfolding tasks_inv_def by (metis distinct_key_eq)
  then show "\<not> (p r \<and> ID r = i)" using q(3) other(2,3) by (auto simp: held_def)
qed

lemmas held_replace_row = held_replace [where p = "\<lambda>_. True", simplified]

lemma counted_replace:
  assumes "counted s" "q \<in> set (qs_tasks s)" "ID q = i" "ID q' = i" "ReceiveCount q' \<le> 6"
    "d = (qs_delivered s)(i := ReceiveCount q')" "b = qs_busy s"
  shows "counted (s\<lparr>qs_tasks := upd_where (\<lambda>y. ID y = i) (\<lambda>_. q') (qs_tasks s), qs_delivered := d\<rparr>)"
proof -
  have "ID ` set (upd_where (\<lambda>y. ID y = i) (\<lambda>_. q') (qs_tasks s)) = ID ` set (qs_tasks s)"
    using assms(4) by (metis (mono_tags, lifting) list.set_map map_upd_where_same)
  with assms show ?thesis by (auto simp: counted_def set_upd_where)
qed

lemma system_inv_step:
  assumes D: "queue_deps_ok D" and inv: "system_inv s" and step: "queue_step D s s'"
  shows "system_inv s'"
  using step
proof (cases rule: queue_step.cases)
  case (push cl name payload t')
  from PushQueueTask_ok [OF D push(2)] obtain q where q: "t' = qs_tasks s @ [q]" "name \<noteq> ''''"
    "QueueName q = name" "ReceiveCount q = 0" "\<And>x. x \<in> set (qs_tasks s) \<Longrightarrow> ID x \<noteq> ID q" by metis
  then have "ID q \<notin> ID ` set (qs_tasks s)" by (metis imageE)
  with inv q show ?thesis unfolding push(1) by (auto simp: system_inv_def tasks_inv_def counted_def)
next
  case (take name cl qt t')
  from PopQueueTask_Inr [OF D take(3)] obtain q where q: "q \<in> set (qs_tasks s)" "available cl name q"
    "qt = taken cl q"
    "t' = upd_where (\<lambda>y. ID y = ID q) (\<lambda>_. qt\<lparr>UpdatedAt := cl 2\<rparr>) (qs_tasks s)" by blast
  have t: "tasks_inv (qs_tasks s)" "counted s" using inv by (simp_all add: system_inv_def)
  then have name: "QueueName q \<noteq> ''''" "qs_delivered s (ID q) = ReceiveCount q"
    using q(1) by (auto simp: tasks_inv_def counted_def)
  have "tasks_inv t'" unfolding q(4) using q name by (intro tasks_inv_replace [OF t(1)]) (auto simp: taken_def)
  moreover have "counted s'" using counted_replace [OF t(2) q(1), of "ID q" "qt\<lparr>UpdatedAt := cl 2\<rparr>"] q name
    unfolding take(1) by (auto simp: taken_def available_def counted_def)
  moreover have "\<exists>r \<in> set t'. held x n r" if "((qs_busy s)(name := Some qt)) n = Some x" for n x
  proof (cases "n = name")
    case True
    have "qt\<lparr>UpdatedAt := cl 2\<rparr> \<in> set t'" using q(1) by (auto simp: q(4) set_upd_where)
    moreover have "held x n (qt\<lparr>UpdatedAt := cl 2\<rparr>)"
      using True that q(2,3) by (auto simp: held_def taken_def available_def)
    ultimately show ?thesis by blast
  next
    case False
    with that inv obtain r where "r \<in> set (qs_tasks s)" "held x n r" by (auto simp: system_inv_def)
    then show ?thesis using held_replace_row [OF t(1) q(1) refl _ _ _ False] q(2)
      unfolding q(4) by (auto simp: available_def)
  qed
  ultimately show ?thesis unfolding take(1) by (auto simp: system_inv_def)
next
  case (give_back name qt cl err t')
  from inv give_back(2) obtain q where q: "q \<in> set (qs_tasks s)" "held qt name q" by (auto simp: system_inv_def)
  have t: "tasks_inv (qs_tasks s)" "counted s" using inv by (simp_all add: system_inv_def)
  have same: "system_inv (s\<lparr>qs_busy := (qs_busy s)(name := None)\<rparr>)"
    using inv by (auto simp: system_inv_def counted_def)
  show ?thesis
  proof (cases err)
    case (Some e)
    then have "t' = qs_tasks s" using give_back(3) returnQueueTask_error by blast
    then show ?thesis using same unfolding give_back(1) by simp
  next
    case None
    let ?q = "qt\<lparr>VisibleAfter := cl 0 + backoff (ReceiveCount qt), UpdatedAt := cl 1\<rparr>"
    have t': "t' = upd_where (\<lambda>y. ID y = ID qt) (\<lambda>_. ?q) (qs_tasks s)"
      using returnQueueTask_ok [OF D give_back(3) [unfolded None] q(1)] q(2) by (auto simp: held_def)
    have "tasks_inv t'" unfolding t' using q t(1)
      by (intro tasks_inv_replace [OF t(1) q(1)]) (auto simp: held_def tasks_inv_def)
    moreover have count: "qs_delivered s (ID qt) = ReceiveCount qt" "ReceiveCount qt \<le> 6"
      using q t(2) by (auto simp: held_def counted_def)
    then have "(qs_delivered s)(ID qt := ReceiveCount ?q) = qs_delivered s" by (simp add: fun_upd_idem)
    with counted_replace [OF t(2) q(1), of "ID qt" ?q] q(2) count(2)
    have "counted (s\<lparr>qs_tasks := t', qs_delivered := qs_delivered s\<rparr>)"
      unfolding t' by (simp add: held_def)
    then have "counted s'" unfolding give_back(1) by (simp add: counted_def)
    moreover have "\<exists>r \<in> set t'. held x n r" if "((qs_busy s)(name := None)) n = Some x" for n x
    proof -
      from that have n: "n \<noteq> name" "qs_busy s n = Some x" by (auto split: if_splits)
      with inv obtain r where "r \<in> set (qs_tasks s)" "held x n r" by (auto simp: system_inv_def)
      then show ?thesis using held_replace_row [OF t(1) q(1) _ _ _ _ n(1)] q(2)
        unfolding t' by (auto simp: held_def)
    qed
    ultimately show ?thesis unfolding give_back(1) by (auto simp: system_inv_def)
  qed
next
  case (complete name qt now err t')
  from inv complete(2) obtain q where q: "q \<in> set (qs_tasks s)" "held qt name q" by (auto simp: system_inv_def)
  have t: "tasks_inv (qs_tasks s)" "counted s" using inv by (simp_all add: system_inv_def)
  show ?thesis
  proof (cases err)
    case (Some e)
    then have "t' = qs_tasks s" using complete(3) completeQueueTask_error by blast
    then show ?thesis using inv Some unfolding complete(1) by (auto simp: system_inv_def counted_def)
  next
    case None
    have t': "t' = upd_where (\<lambda>y. DeletedAt y = None \<and> ID y = ID qt) (\<lambda>y. y\<lparr>DeletedAt := Some now\<rparr>) (qs_tasks s)"
      by (rule completeQueueTask_ok [OF D complete(3) [unfolded None]])
    have ids: "map ID t' = map ID (qs_tasks s)" unfolding t' by (rule map_upd_where_same) simp
    have "tasks_inv t'" using t(1) ids unfolding tasks_inv_def t' by (auto simp: set_upd_where)
    moreover have "counted s'" using t(2) arg_cong [OF ids, of set] unfolding counted_def complete(1)
      by (auto simp: t' set_upd_where)
    moreover have "\<exists>r \<in> set t'. held x n r" if "((qs_busy s)(name := None)) n = Some x" for n x
    proof -
      from that have n: "n \<noteq> name" "qs_busy s n = Some x" by (auto split: if_splits)
      with inv obtain r where "r \<in> set (qs_tasks s)" "held x n r" by (auto simp: system_inv_def)
      then show ?thesis using held_replace [OF t(1) q(1) _ _ _ _ n(1)] q(2)
        unfolding t' by (auto simp: held_def)
    qed
    ultimately show ?thesis unfolding complete(1) by (auto simp: system_inv_def)
  qed
next
  case crash
  then show ?thesis using inv by (auto simp: system_inv_def counted_def)
qed

lemma system_inv_initial: "system_inv initial_system"
  by (simp add: system_inv_def initial_system_def tasks_inv_def counted_def)

lemma system_inv_reachable:
  assumes "queue_deps_ok D" "(queue_step D)\<^sup>*\<^sup>* initial_system s"
  shows "system_inv s"
  using assms(2)
proof (induction rule: rtranclp_induct)
  case base
  show ?case by (rule system_inv_initial)
next
  case (step s s')
  then show ?case using system_inv_step [OF assms(1)] by blast
qed

text \<open>C21: however producers, workers and crashes interleave, no task is ever delivered more than six
  times, and the table counts every delivery.\<close>

theorem delivered_at_most_six_times:
  assumes D: "queue_deps_ok D" and reach: "(queue_step D)\<^sup>*\<^sup>* initial_system s"
  shows "qs_delivered s i \<le> 6 \<and>
    (qs_delivered s i = 0 \<or>
     (\<exists>q. q \<in> set (qs_tasks s) \<and> ID q = i \<and> ReceiveCount q = qs_delivered s i))"
proof (cases "i \<in> ID ` set (qs_tasks s)")
  case True
  then obtain q where "q \<in> set (qs_tasks s)" "ID q = i" by blast
  moreover from this system_inv_reachable [OF D reach]
  have "qs_delivered s i = ReceiveCount q" "ReceiveCount q \<le> 6"
    by (auto simp: system_inv_def counted_def)
  ultimately show ?thesis by auto
next
  case False
  with system_inv_reachable [OF D reach] show ?thesis by (simp add: system_inv_def counted_def)
qed

lemma demo_reach:
  obtains s where "(queue_step demo_queue)\<^sup>*\<^sup>* initial_system s" "qs_delivered s 1 = 1" "qs_tasks s \<noteq> []"
proof -
  let ?q = "\<lparr>ID = 1, CreatedAt = 5, UpdatedAt = 5, DeletedAt = None, QueueName = ''q'', VisibleAfter = 5,
     ReceiveCount = 0, Data = JNull\<rparr> :: QueueTask"
  let ?s1 = "initial_system\<lparr>qs_tasks := [?q]\<rparr>"
  have "PushQueueTask demo_queue (\<lambda>_. 5) ''q'' JNull (qs_tasks initial_system) = (None, [?q])"
    by (simp add: PushQueueTask_def demo_queue_def mem_queue_def mem_gorm_def mem_create_def Let_def
        QueueTask_BeforeSave_ok [OF std_tags.tag_meaning_axioms] initial_system_def model_created_def
        time_zero_def fresh_id_def)
  then have one: "queue_step demo_queue initial_system ?s1" by (rule queue_step.push)
  have "PopQueueTask demo_queue (\<lambda>_. 9) ''q'' (qs_tasks ?s1) =
     (Inr (taken (\<lambda>_. 9) ?q), [(taken (\<lambda>_. 9) ?q)\<lparr>UpdatedAt := 9\<rparr>])"
    by (simp add: PopQueueTask_def Transaction_works pop_closure_def demo_queue_def mem_queue_def
      mem_gorm_def mem_pick_def live_rows_def asc_def maxReceives_def Let_def mem_save_def
      QueueTask_BeforeSave_ok [OF std_tags.tag_meaning_axioms] taken_def visibilityTimeout_def)
  from queue_step.take [OF _ this] have "queue_step demo_queue ?s1
     (?s1\<lparr>qs_tasks := [(taken (\<lambda>_. 9) ?q)\<lparr>UpdatedAt := 9\<rparr>],
       qs_busy := (qs_busy ?s1)(''q'' := Some (taken (\<lambda>_. 9) ?q)),
       qs_delivered := (qs_delivered ?s1)(ID (taken (\<lambda>_. 9) ?q) := qs_delivered ?s1 (ID (taken (\<lambda>_. 9) ?q)) + 1)\<rparr>)"
    (is "queue_step _ _ ?s2") by (simp add: initial_system_def)
  with one have "(queue_step demo_queue)\<^sup>*\<^sup>* initial_system ?s2"
    by (meson converse_rtranclp_into_rtranclp r_into_rtranclp)
  then show thesis by (rule that) (simp_all add: taken_def initial_system_def)
qed

theorem delivered_at_most_six_times_witness:
  "\<exists>s. (queue_step demo_queue)\<^sup>*\<^sup>* initial_system s \<and> qs_delivered s 1 = 1 \<and>
     (\<exists>q. q \<in> set (qs_tasks s) \<and> ReceiveCount q = 1)"
proof -
  obtain s where s: "(queue_step demo_queue)\<^sup>*\<^sup>* initial_system s" "qs_delivered s 1 = 1" by (rule demo_reach)
  with delivered_at_most_six_times [OF demo_queue_ok s(1), of 1] show ?thesis by auto
qed

text \<open>What one step does to a task: it stays, with its queue and payload, and is deleted only by completion.\<close>

definition followed :: "queue_system \<Rightarrow> queue_system \<Rightarrow> QueueTask \<Rightarrow> bool" where
  "followed s s' q \<longleftrightarrow> (\<exists>q' \<in> set (qs_tasks s'). ID q' = ID q \<and> QueueName q' = QueueName q \<and>
     Data q' = Data q \<and> (DeletedAt q' = None \<or> DeletedAt q \<noteq> None \<or> ID q \<in> qs_done s'))"

lemma followed_replace:
  assumes "tasks_inv (qs_tasks s)" "x \<in> set (qs_tasks s)" "q \<in> set (qs_tasks s)" "ID x = i"
    "ID x' = i" "QueueName x' = QueueName x" "Data x' = Data x" "DeletedAt x' = None"
    "qs_tasks s' = upd_where (\<lambda>y. ID y = i) (\<lambda>_. x') (qs_tasks s)" "qs_done s' = qs_done s"
  shows "followed s s' q \<and> qs_done s \<subseteq> qs_done s'"
proof (cases "ID q = i")
  case True
  with assms(1-4) have "q = x" unfolding tasks_inv_def by (metis distinct_key_eq)
  moreover have "x' \<in> set (qs_tasks s')"
    unfolding assms(9) using upd_where_hit [OF assms(2), of "\<lambda>y. ID y = i" "\<lambda>_. x'"] assms(4) by simp
  ultimately show ?thesis using assms(4-8,10) unfolding followed_def by auto
next
  case False
  then have "q \<in> set (qs_tasks s')" unfolding assms(9) by (rule upd_where_keeps [OF assms(3)])
  then show ?thesis using assms(10) unfolding followed_def by auto
qed

lemma followed_step:
  assumes D: "queue_deps_ok D" and inv: "system_inv s" and step: "queue_step D s s'"
    and q: "q \<in> set (qs_tasks s)"
  shows "followed s s' q \<and> qs_done s \<subseteq> qs_done s'"
  using step
proof (cases rule: queue_step.cases)
  case (push cl name payload t')
  from PushQueueTask_ok [OF D push(2)] obtain x where "t' = qs_tasks s @ [x]" by metis
  with q show ?thesis unfolding push(1) by (auto simp: followed_def)
next
  case (take name cl qt t')
  from PopQueueTask_Inr [OF D take(3)] obtain x where x: "x \<in> set (qs_tasks s)" "available cl name x"
    "qt = taken cl x"
    "t' = upd_where (\<lambda>y. ID y = ID x) (\<lambda>_. qt\<lparr>UpdatedAt := cl 2\<rparr>) (qs_tasks s)" by blast
  with q inv show ?thesis unfolding take(1)
    by (intro followed_replace [where x = x and x' = "qt\<lparr>UpdatedAt := cl 2\<rparr>" and i = "ID x"])
      (auto simp: system_inv_def taken_def available_def)
next
  case (give_back name qt cl err t')
  from inv give_back(2) obtain x where x: "x \<in> set (qs_tasks s)" "held qt name x" by (auto simp: system_inv_def)
  show ?thesis
  proof (cases err)
    case (Some e)
    then have "t' = qs_tasks s" using give_back(3) returnQueueTask_error by blast
    then show ?thesis using q unfolding give_back(1) by (auto simp: followed_def)
  next
    case None
    have t': "t' = upd_where (\<lambda>y. ID y = ID qt)
       (\<lambda>_. qt\<lparr>VisibleAfter := cl 0 + backoff (ReceiveCount qt), UpdatedAt := cl 1\<rparr>) (qs_tasks s)"
      using returnQueueTask_ok [OF D give_back(3) [unfolded None] x(1)] x(2) by (auto simp: held_def)
    show ?thesis using q inv x unfolding give_back(1) t'
      by (intro followed_replace [where x = x and i = "ID qt"
            and x' = "qt\<lparr>VisibleAfter := cl 0 + backoff (ReceiveCount qt), UpdatedAt := cl 1\<rparr>"])
        (auto simp: system_inv_def held_def)
  qed
next
  case (complete name qt now err t')
  show ?thesis
  proof (cases err)
    case (Some e)
    then have "t' = qs_tasks s" using complete(3) completeQueueTask_error by blast
    then show ?thesis using q Some unfolding complete(1) by (auto simp: followed_def)
  next
    case None
    have t': "t' = upd_where (\<lambda>y. DeletedAt y = None \<and> ID y = ID qt) (\<lambda>y. y\<lparr>DeletedAt := Some now\<rparr>) (qs_tasks s)"
      by (rule completeQueueTask_ok [OF D complete(3) [unfolded None]])
    show ?thesis
    proof (cases "DeletedAt q = None \<and> ID q = ID qt")
      case True
      then have "q\<lparr>DeletedAt := Some now\<rparr> \<in> set t'" unfolding t' by (intro upd_where_hit q)
      with True None show ?thesis unfolding complete(1)
        by (auto simp: followed_def intro!: bexI [of _ "q\<lparr>DeletedAt := Some now\<rparr>"])
    next
      case False
      then have "q \<in> set t'" unfolding t' by (intro upd_where_keeps [OF q]) auto
      then show ?thesis unfolding complete(1) by (auto simp: followed_def)
    qed
  qed
next
  case crash
  then show ?thesis using q by (auto simp: followed_def)
qed

text \<open>C22: no task is lost: however producers, workers and crashes interleave, a live task is still in
  the table later, with its queue and its payload, and still live unless a worker has completed it.\<close>

theorem no_task_is_lost:
  assumes D: "queue_deps_ok D" and reach: "(queue_step D)\<^sup>*\<^sup>* initial_system s"
    and later: "(queue_step D)\<^sup>*\<^sup>* s s'" and q: "q \<in> set (qs_tasks s)" "DeletedAt q = None"
  shows "\<exists>q'. q' \<in> set (qs_tasks s') \<and> ID q' = ID q \<and> QueueName q' = QueueName q \<and>
    Data q' = Data q \<and> (DeletedAt q' = None \<or> ID q \<in> qs_done s')"
  using later
proof (induction rule: rtranclp_induct)
  case base
  with q show ?case by blast
next
  case (step y z)
  then obtain q' where q': "q' \<in> set (qs_tasks y)" "ID q' = ID q" "QueueName q' = QueueName q"
    "Data q' = Data q" "DeletedAt q' = None \<or> ID q \<in> qs_done y" by blast
  have "(queue_step D)\<^sup>*\<^sup>* initial_system y" using reach step(1) by simp
  from followed_step [OF D system_inv_reachable [OF D this] step(2) q'(1)] q' show ?case
    unfolding followed_def by fastforce
qed

theorem no_task_is_lost_witness:
  "\<exists>s s' q q'. (queue_step demo_queue)\<^sup>*\<^sup>* s s' \<and> q \<in> set (qs_tasks s) \<and> q' \<in> set (qs_tasks s') \<and> ID q' = ID q"
proof -
  obtain s where s: "(queue_step demo_queue)\<^sup>*\<^sup>* initial_system s" "qs_delivered s 1 = 1" "qs_tasks s \<noteq> []"
    by (rule demo_reach)
  let ?s = "s\<lparr>qs_busy := (\<lambda>_. None)\<rparr>"
  have step: "(queue_step demo_queue)\<^sup>*\<^sup>* s ?s" by (intro r_into_rtranclp queue_step.crash)
  let ?i = "initial_system" and ?q = "\<lparr>ID = 1, CreatedAt = 5, UpdatedAt = 5, DeletedAt = None,
     QueueName = ''q'', VisibleAfter = 5, ReceiveCount = 0, Data = JNull\<rparr> :: QueueTask"
  have "PushQueueTask demo_queue (\<lambda>_. 5) ''q'' JNull (qs_tasks ?i) = (None, [?q])"
    by (simp add: PushQueueTask_def demo_queue_def mem_queue_def mem_gorm_def mem_create_def Let_def
        QueueTask_BeforeSave_ok [OF std_tags.tag_meaning_axioms] initial_system_def model_created_def
        time_zero_def fresh_id_def)
  then have "(queue_step demo_queue)\<^sup>*\<^sup>* ?i (?i\<lparr>qs_tasks := [?q]\<rparr>)"
    by (intro r_into_rtranclp queue_step.push)
  from no_task_is_lost [OF demo_queue_ok this rtranclp.rtrancl_refl, of ?q] show ?thesis by fastforce
qed

end
