(* ===== verification/Scheduler.thy ===== *)
theory Scheduler
  imports Queue
begin

text \<open>
  The scheduler of \<^verbatim>\<open>pkg/framework/scheduler.go\<close>: one row per task says when the task was last
  queued; once a minute every task whose interval has passed is queued, in one transaction with the
  update of its row.
\<close>

section \<open>State\<close>

record ScheduledTaskState =
  TaskName :: string
  LastRunTime :: time

record ScheduledTaskDefinition =
  td_TaskName :: string
  td_Interval :: duration

definition sched_schema :: "(ScheduledTaskState, string) schema" where
  "sched_schema =
     \<lparr>sc_pk = TaskName, sc_deleted = (\<lambda>_. False), sc_mark = (\<lambda>now s. s),
      sc_created = (\<lambda>k now s. s), sc_updated = (\<lambda>now s. s),
      sc_conflict = (\<lambda>x y. TaskName x = TaskName y)\<rparr>"

lemma sched_schema_simps [simp]:
  "sc_pk sched_schema = TaskName"
  "sc_deleted sched_schema s = False"
  "sc_created sched_schema k now s = s"
  "sc_updated sched_schema now s = s"
  "sc_conflict sched_schema x y \<longleftrightarrow> TaskName x = TaskName y"
  by (simp_all add: sched_schema_def)

definition mem_sched :: "ScheduledTaskState gorm" where
  "mem_sched = mem_gorm sched_schema (fresh_str TaskName)"

lemma sched_schema_ok: "schema_ok sched_schema (fresh_str TaskName)"
  using fresh_str_fresh [of "TaskName :: ScheduledTaskState \<Rightarrow> string"] by (auto simp: schema_ok_def)

interpretation mem_sched: gorm_available sched_schema mem_sched
  unfolding mem_sched_def by (rule mem_gorm_available [OF sched_schema_ok])

definition ScheduledTaskState_BeforeSave :: "validator \<Rightarrow> ScheduledTaskState \<Rightarrow> go_error option" where
  "ScheduledTaskState_BeforeSave V s =
     (case validate_struct V [(''TaskName'', [Required, Gte 1, Lte 100], FStr (TaskName s))] of
        Some err \<Rightarrow> Some (Wrapped ''scheduled task not valid: '' err)
      | None \<Rightarrow> None)"

section \<open>Operations\<close>

abbreviation pollFrequency :: duration where "pollFrequency \<equiv> Minute"

record sched_deps =
  sd_validator :: validator
  sd_gorm :: "ScheduledTaskState gorm"
  sd_tx :: transactions
  sd_queue :: queue_deps

definition getScheduledTask ::
  "sched_deps \<Rightarrow> time \<Rightarrow> string \<Rightarrow> ScheduledTaskState list \<Rightarrow> ScheduledTaskState result" where
  "getScheduledTask D now taskName t = g_first (sd_gorm D) now (\<lambda>s. TaskName s = taskName) t"

definition setup_closure ::
  "sched_deps \<Rightarrow> time \<Rightarrow> ScheduledTaskDefinition \<Rightarrow> ScheduledTaskState list \<Rightarrow>
   go_error option \<times> ScheduledTaskState list" where
  "setup_closure D now td t =
     (case g_first (sd_gorm D) now (\<lambda>s. TaskName s = td_TaskName td) t of
        Inr _ \<Rightarrow> (None, t)
      | Inl err \<Rightarrow>
          if \<not> errors_is ErrRecordNotFound err then (Some err, t)
          else
            (case g_create (sd_gorm D) now (ScheduledTaskState_BeforeSave (sd_validator D))
                    \<lparr>TaskName = td_TaskName td, LastRunTime = time_zero\<rparr> t of
               Inl err \<Rightarrow> (Some err, t)
             | Inr (_, t') \<Rightarrow> (None, t')))"

fun setupState ::
  "sched_deps \<Rightarrow> (nat \<Rightarrow> time) \<Rightarrow> ScheduledTaskDefinition list \<Rightarrow> ScheduledTaskState list \<Rightarrow>
   go_error option \<times> ScheduledTaskState list" where
  "setupState D cl [] t = (None, t)"
| "setupState D cl (td # tds) t =
     (case Transaction (sd_tx D) cl (setup_closure D (cl 0) td) t of
        (Some err, t') \<Rightarrow> (Some err, t')
      | (None, t') \<Rightarrow> setupState D (\<lambda>i. cl (Suc i)) tds t')"

definition process_closure ::
  "sched_deps \<Rightarrow> (nat \<Rightarrow> time) \<Rightarrow> ScheduledTaskDefinition \<Rightarrow>
   ScheduledTaskState list \<times> QueueTask list \<Rightarrow>
   go_error option \<times> (ScheduledTaskState list \<times> QueueTask list)" where
  "process_closure D cl taskDef s =
     (case s of (t, q) \<Rightarrow>
        (case getScheduledTask D (cl 0) (td_TaskName taskDef) t of
           Inl err \<Rightarrow> (Some err, s)
         | Inr task \<Rightarrow>
             if time_Sub (cl 1) (LastRunTime task) < td_Interval taskDef then (None, s)
             else
               (case PushQueueTask (sd_queue D) (\<lambda>i. cl (2 + i)) (td_TaskName taskDef) (JString '''') q of
                  (Some err, _) \<Rightarrow> (Some err, s)
                | (None, q') \<Rightarrow>
                    (case g_save (sd_gorm D) (cl 5) (ScheduledTaskState_BeforeSave (sd_validator D))
                            (task\<lparr>LastRunTime := cl 4\<rparr>) t of
                       Inl err \<Rightarrow> (Some err, s)
                     | Inr t' \<Rightarrow> (None, (t', q'))))))"

definition processTask ::
  "sched_deps \<Rightarrow> (nat \<Rightarrow> time) \<Rightarrow> ScheduledTaskDefinition \<Rightarrow>
   ScheduledTaskState list \<times> QueueTask list \<Rightarrow> ScheduledTaskState list \<times> QueueTask list" where
  "processTask D cl taskDef s = snd (Transaction (sd_tx D) cl (process_closure D cl taskDef) s)"

text \<open>
  \<^verbatim>\<open>TaskScheduler.Start\<close>: the state is set up, then one round per tick of the clock until the
  context is cancelled; the readings of a round are given for each task.
\<close>

definition scheduler_round ::
  "sched_deps \<Rightarrow> (string \<Rightarrow> nat \<Rightarrow> time) \<Rightarrow> ScheduledTaskDefinition list \<Rightarrow>
   ScheduledTaskState list \<times> QueueTask list \<Rightarrow> ScheduledTaskState list \<times> QueueTask list" where
  "scheduler_round D cl tasks s = fold (\<lambda>td. processTask D (cl (td_TaskName td)) td) tasks s"

definition TaskScheduler_Start ::
  "sched_deps \<Rightarrow> (nat \<Rightarrow> time) \<Rightarrow> (string \<Rightarrow> nat \<Rightarrow> time) list \<Rightarrow> ScheduledTaskDefinition list \<Rightarrow>
   ScheduledTaskState list \<times> QueueTask list \<Rightarrow>
   go_error option \<times> (ScheduledTaskState list \<times> QueueTask list)" where
  "TaskScheduler_Start D cl0 cls tasks s =
     (case s of (t, q) \<Rightarrow>
        (case setupState D cl0 tasks t of
           (Some err, t') \<Rightarrow> (Some err, (t', q))
         | (None, t') \<Rightarrow> (None, fold (\<lambda>cl. scheduler_round D cl tasks) cls (t', q))))"

section \<open>What an operation did\<close>

definition sched_deps_ok :: "sched_deps \<Rightarrow> bool" where
  "sched_deps_ok D \<longleftrightarrow> gorm_table sched_schema (sd_gorm D) \<and> tag_meaning (sd_validator D) \<and>
     queue_deps_ok (sd_queue D)"

lemma sched_deps_okD:
  assumes "sched_deps_ok D"
  shows "gorm_table sched_schema (sd_gorm D)" "tag_meaning (sd_validator D)"
    "queue_deps_ok (sd_queue D)"
  using assms by (simp_all add: sched_deps_ok_def)

text \<open>The database answers, and transactions begin and commit.\<close>

definition sched_deps_up :: "sched_deps \<Rightarrow> bool" where
  "sched_deps_up D \<longleftrightarrow> sched_deps_ok D \<and> gorm_available sched_schema (sd_gorm D) \<and>
     gorm_available queue_schema (qd_gorm (sd_queue D)) \<and> tx_works (sd_tx D)"

definition demo_sched :: sched_deps where
  "demo_sched = \<lparr>sd_validator = std_validator, sd_gorm = mem_sched, sd_tx = plain_tx,
     sd_queue = demo_queue\<rparr>"

lemma demo_sched_up [simp]: "sched_deps_up demo_sched" "sched_deps_ok demo_sched"
  using mem_queue.gorm_available_axioms
  by (simp_all add: sched_deps_up_def sched_deps_ok_def demo_sched_def mem_sched.gorm_table_axioms
      mem_sched.gorm_available_axioms std_tags.tag_meaning_axioms)
    (simp add: demo_queue_def)

text \<open>A task is queued when its row is there and its interval has passed since the row's time.\<close>

definition ran :: "(nat \<Rightarrow> time) \<Rightarrow> ScheduledTaskDefinition \<Rightarrow> ScheduledTaskState list \<times> QueueTask list \<Rightarrow>
   ScheduledTaskState list \<times> QueueTask list \<Rightarrow> bool" where
  "ran cl td s s' \<longleftrightarrow>
     (\<exists>row x. row \<in> set (fst s) \<and> TaskName row = td_TaskName td \<and>
        td_Interval td \<le> time_Sub (cl 1) (LastRunTime row) \<and>
        fst s' = upd_where (\<lambda>y. TaskName y = td_TaskName td) (\<lambda>_. row\<lparr>LastRunTime := cl 4\<rparr>) (fst s) \<and>
        snd s' = snd s @ [x] \<and> QueueName x = td_TaskName td \<and> ReceiveCount x = 0 \<and>
        VisibleAfter x = cl 2 \<and> DeletedAt x = None)"

lemma process_closure_ok:
  assumes D: "sched_deps_ok D" and run: "process_closure D cl td (t, q) = (None, s')"
  shows "s' = (t, q) \<or> ran cl td (t, q) s'"
proof -
  note g = sched_deps_okD(1) [OF D]
  from run obtain task where task: "getScheduledTask D (cl 0) (td_TaskName td) t = Inr task"
    by (auto simp: process_closure_def split: sum.splits)
  have row: "task \<in> set t" "TaskName task = td_TaskName td"
    using gorm_table.first_row [OF g task [unfolded getScheduledTask_def]] by auto
  show ?thesis
  proof (cases "time_Sub (cl 1) (LastRunTime task) < td_Interval td")
    case True
    with run task show ?thesis by (simp add: process_closure_def)
  next
    case False
    with run task obtain q' t' where
      push: "PushQueueTask (sd_queue D) (\<lambda>i. cl (2 + i)) (td_TaskName td) (JString '''') q = (None, q')"
      and save: "g_save (sd_gorm D) (cl 5) (ScheduledTaskState_BeforeSave (sd_validator D))
        (task\<lparr>LastRunTime := cl 4\<rparr>) t = Inr t'" and s': "s' = (t', q')"
      by (auto simp: process_closure_def split: sum.splits prod.splits option.splits)
    from PushQueueTask_ok [OF sched_deps_okD(3) [OF D] push] obtain x where
      x: "q' = q @ [x]" "QueueName x = td_TaskName td" "VisibleAfter x = cl 2" "ReceiveCount x = 0"
        "DeletedAt x = None" by auto
    have "t' = upd_where (\<lambda>y. TaskName y = td_TaskName td) (\<lambda>_. task\<lparr>LastRunTime := cl 4\<rparr>) t"
      using gorm_table.save_row [OF g save row(1)] row(2) by simp
    with row x False s' show ?thesis unfolding ran_def by (auto simp: not_less)
  qed
qed

lemma processTask_effect:
  assumes D: "sched_deps_ok D"
  shows "processTask D cl td s = s \<or> ran cl td s (processTask D cl td s)"
proof -
  obtain e s' where Pair: "Transaction (sd_tx D) cl (process_closure D cl td) s = (e, s')"
    by (metis surj_pair)
  show ?thesis
  proof (cases e)
    case (Some err)
    with Pair Transaction_error show ?thesis by (fastforce simp: processTask_def)
  next
    case None
    with Pair have "process_closure D cl td (fst s, snd s) = (None, s')" using Transaction_ok by fastforce
    with process_closure_ok [OF D this] Pair show ?thesis by (simp add: processTask_def)
  qed
qed

lemma setup_closure_ok:
  assumes D: "sched_deps_ok D" and run: "setup_closure D now td t = (None, t')"
  shows "(t' = t \<and> td_TaskName td \<in> TaskName ` set t) \<or>
    (t' = t @ [\<lparr>TaskName = td_TaskName td, LastRunTime = time_zero\<rparr>] \<and>
     td_TaskName td \<notin> TaskName ` set t)"
proof (cases "g_first (sd_gorm D) now (\<lambda>s. TaskName s = td_TaskName td) t")
  case (Inr r)
  with gorm_table.first_row [OF sched_deps_okD(1) [OF D] Inr] run show ?thesis
    by (auto simp: setup_closure_def intro: rev_image_eqI)
next
  case (Inl e)
  with run obtain r where "g_create (sd_gorm D) now (ScheduledTaskState_BeforeSave (sd_validator D))
      \<lparr>TaskName = td_TaskName td, LastRunTime = time_zero\<rparr> t = Inr (r, t')"
    by (auto simp: setup_closure_def split: if_splits sum.splits)
  from gorm_table.create_ok [OF sched_deps_okD(1) [OF D] this] show ?thesis by force
qed

end
