(* ===== verification/SchedulerProps.thy ===== *)
theory SchedulerProps
  imports Scheduler
begin

text \<open>
  The properties of the scheduler: when a task is queued, how far apart two queued runs of a task
  are, and what setting up the state does.
\<close>

text \<open>C37: processing a scheduled task queues exactly one task and records the time, in one step, when
  its interval has passed since the recorded time, and changes nothing when it has not.\<close>

theorem scheduled_when_due:
  assumes D: "sched_deps_up D" and rows: "distinct (map TaskName t)" "row \<in> set t"
    "TaskName row = td_TaskName td" "td_TaskName td \<noteq> ''''" "length (td_TaskName td) \<le> 100"
  shows "if td_Interval td \<le> time_Sub (cl 1) (LastRunTime row)
    then ran cl td (t, q) (processTask D cl td (t, q))
    else processTask D cl td (t, q) = (t, q)"
proof -
  have ok: "sched_deps_ok D" and s: "gorm_available sched_schema (sd_gorm D)"
    and qa: "gorm_available queue_schema (qd_gorm (sd_queue D))" and tx: "tx_works (sd_tx D)"
    using D by (simp_all add: sched_deps_up_def)
  have V: "tag_meaning (sd_validator D)" "tag_meaning (qd_validator (sd_queue D))"
    using sched_deps_okD [OF ok] queue_deps_okD by auto
  have "live_rows sched_schema (\<lambda>s. TaskName s = td_TaskName td) t \<noteq> []"
    using rows by (auto simp: live_rows_def filter_empty_conv)
  then obtain row' where row': "getScheduledTask D (cl 0) (td_TaskName td) t = Inr row'"
    using gorm_available.first_total [OF s] unfolding getScheduledTask_def by blast
  have "row' = row"
    using gorm_table.first_row [OF sched_deps_okD(1) [OF ok] row' [unfolded getScheduledTask_def]] rows
    by (auto intro: distinct_key_eq)
  note found = row' [unfolded this]
  show ?thesis
  proof (cases "td_Interval td \<le> time_Sub (cl 1) (LastRunTime row)")
    case False
    with found tx show ?thesis by (simp add: processTask_def Transaction_works process_closure_def)
  next
    case True
    let ?new = "\<lparr>ID = 0, CreatedAt = time_zero, UpdatedAt = time_zero, DeletedAt = None,
       QueueName = td_TaskName td, VisibleAfter = cl 2, ReceiveCount = 0, Data = JString ''''\<rparr>"
    have "k \<noteq> ID x" if "k \<notin> ID ` set q" "x \<in> set q" for k and x :: QueueTask using that by auto
    then have "\<exists>r q'. g_create (qd_gorm (sd_queue D)) (cl 3) (QueueTask_BeforeSave (qd_validator (sd_queue D))) ?new q = Inr (r, q')"
      using rows(4) QueueTask_BeforeSave_ok [OF V(2), of ?new]
      by (intro gorm_available.create_total [OF qa]) (auto simp: model_created_def)
    then obtain q' where push: "PushQueueTask (sd_queue D) (\<lambda>i. cl (2 + i)) (td_TaskName td) (JString '''') q = (None, q')"
      by (auto simp: PushQueueTask_def numeral_2_eq_2 numeral_3_eq_3)
    have "ScheduledTaskState_BeforeSave (sd_validator D) (row\<lparr>LastRunTime := cl 4\<rparr>) = None"
      using rows(3-5) rune_count_le [of "td_TaskName td"]
      by (simp add: ScheduledTaskState_BeforeSave_def validate_struct_def field_ok_def
          tag_meaning.tag_simps [OF V(1)] Suc_le_eq)
    moreover have "TaskName y \<noteq> TaskName (row\<lparr>LastRunTime := cl 4\<rparr>) \<Longrightarrow> \<not> sc_conflict sched_schema y (row\<lparr>LastRunTime := cl 4\<rparr>)" for y
      by simp
    ultimately obtain t' where save: "g_save (sd_gorm D) (cl 5) (ScheduledTaskState_BeforeSave (sd_validator D))
        (row\<lparr>LastRunTime := cl 4\<rparr>) t = Inr t'"
      using gorm_available.save_total [OF s, of _ "row\<lparr>LastRunTime := cl 4\<rparr>" row t] rows(2) by fastforce
    have run: "process_closure D cl td (t, q) = (None, (t', q'))"
      using found push save True by (simp add: process_closure_def)
    moreover have "(t', q') \<noteq> (t, q)"
      using PushQueueTask_ok [OF sched_deps_okD(3) [OF ok] push] by (metis append_self_conv list.discI prod.inject)
    ultimately show ?thesis
      using process_closure_ok [OF ok run] tx True by (auto simp: processTask_def Transaction_works)
  qed
qed

theorem scheduled_when_due_witness:
  "ran (\<lambda>_. 2 * Hour) \<lparr>td_TaskName = ''feedWorker'', td_Interval = Hour\<rparr>
     ([\<lparr>TaskName = ''feedWorker'', LastRunTime = 0\<rparr>], [])
     (processTask demo_sched (\<lambda>_. 2 * Hour) \<lparr>td_TaskName = ''feedWorker'', td_Interval = Hour\<rparr>
        ([\<lparr>TaskName = ''feedWorker'', LastRunTime = 0\<rparr>], []))"
  using scheduled_when_due [OF demo_sched_up(1), of "[\<lparr>TaskName = ''feedWorker'', LastRunTime = 0\<rparr>]"
      "\<lparr>TaskName = ''feedWorker'', LastRunTime = 0\<rparr>" "\<lparr>td_TaskName = ''feedWorker'', td_Interval = Hour\<rparr>"
      "\<lambda>_. 2 * Hour" "[]"]
  by (simp add: time_Sub_def sat64_def)

text \<open>The recorded time of a task, and how often it has been queued.\<close>

definition recorded :: "string \<Rightarrow> time \<Rightarrow> ScheduledTaskState list \<Rightarrow> bool" where
  "recorded name at t \<longleftrightarrow> (\<forall>row \<in> set t. TaskName row = name \<longrightarrow> LastRunTime row = at)"

definition queued :: "string \<Rightarrow> QueueTask list \<Rightarrow> nat" where
  "queued name q = length (filter (\<lambda>x. QueueName x = name) q)"

lemma processTask_not_due:
  assumes D: "sched_deps_ok D" and rec: "recorded name at (fst s)"
    and early: "td_TaskName td = name \<Longrightarrow> time_Sub (cl 1) at < td_Interval td"
  shows "recorded name at (fst (processTask D cl td s)) \<and>
    queued name (snd (processTask D cl td s)) = queued name (snd s)"
  using processTask_effect [OF D, of cl td s]
proof
  assume "processTask D cl td s = s"
  with rec show ?thesis by simp
next
  assume r: "ran cl td s (processTask D cl td s)"
  have "td_TaskName td \<noteq> name"
  proof
    assume n: "td_TaskName td = name"
    with r rec have "td_Interval td \<le> time_Sub (cl 1) at" by (auto simp: ran_def recorded_def)
    with early [OF n] show False by simp
  qed
  with r rec show ?thesis by (auto simp: ran_def recorded_def queued_def set_upd_where)
qed

text \<open>C38: once a task has been queued, nothing the scheduler does queues it again before its interval
  has passed since the recorded time: however often and in whatever order tasks are processed.\<close>

theorem runs_at_least_an_interval_apart:
  assumes D: "sched_deps_ok D" and first: "ran cl td s s'"
    and early: "list_all (\<lambda>(cl', td'). td_TaskName td' = td_TaskName td \<longrightarrow>
      time_Sub (cl' 1) (cl 4) < td_Interval td') later"
  shows "queued (td_TaskName td) (snd (fold (\<lambda>(cl', td') s. processTask D cl' td' s) later s')) =
    queued (td_TaskName td) (snd s')"
proof -
  have "recorded (td_TaskName td) (cl 4) (fst s')"
    using first by (auto simp: ran_def recorded_def set_upd_where)
  then show ?thesis using early
  proof (induction later arbitrary: s')
    case (Cons x later)
    obtain cl' td' where x: "x = (cl', td')" by fastforce
    from Cons.prems have "recorded (td_TaskName td) (cl 4) (fst (processTask D cl' td' s'))"
      "queued (td_TaskName td) (snd (processTask D cl' td' s')) = queued (td_TaskName td) (snd s')"
      using processTask_not_due [OF D, of "td_TaskName td" "cl 4" s' td' cl'] by (auto simp: x)
    with Cons.IH [of "processTask D cl' td' s'"] Cons.prems(2) show ?case by (simp add: x)
  qed simp
qed

theorem runs_at_least_an_interval_apart_witness:
  "\<exists>s'. queued ''feedWorker'' (snd (fold (\<lambda>(cl', td') s. processTask demo_sched cl' td' s)
     [(\<lambda>_. 2 * Hour + Minute, \<lparr>td_TaskName = ''feedWorker'', td_Interval = Hour\<rparr>)] s')) = 1"
proof -
  let ?row = "\<lparr>TaskName = ''feedWorker'', LastRunTime = 0\<rparr>"
  let ?td = "\<lparr>td_TaskName = ''feedWorker'', td_Interval = Hour\<rparr>"
  let ?x = "\<lparr>ID = 1, CreatedAt = 0, UpdatedAt = 0, DeletedAt = None, QueueName = ''feedWorker'',
     VisibleAfter = 2 * Hour, ReceiveCount = 0, Data = JString ''''\<rparr> :: QueueTask"
  let ?s = "([?row], []) :: ScheduledTaskState list \<times> QueueTask list"
  let ?s' = "([\<lparr>TaskName = ''feedWorker'', LastRunTime = 2 * Hour\<rparr>], [?x])"
  have "ran (\<lambda>_. 2 * Hour) ?td ?s ?s'" by (auto simp: ran_def time_Sub_def sat64_def)
  from runs_at_least_an_interval_apart [OF demo_sched_up(2) this,
      of "[(\<lambda>_. 2 * Hour + Minute, ?td)]"]
  show ?thesis by (intro exI [of _ ?s']) (simp add: time_Sub_def sat64_def queued_def)
qed

lemma setupState_ok:
  assumes D: "sched_deps_ok D"
  shows "setupState D cl tds t = (None, t') \<Longrightarrow>
    (\<exists>new. t' = t @ new \<and> list_all (\<lambda>row. LastRunTime row = time_zero) new \<and>
      distinct (map TaskName new) \<and> (TaskName ` set new) \<inter> (TaskName ` set t) = {} \<and>
      td_TaskName ` set tds \<subseteq> TaskName ` set t')"
proof (induction tds arbitrary: t cl)
  case (Cons td tds)
  from Cons.prems obtain t1 where c: "setup_closure D (cl 0) td t = (None, t1)"
    and rest: "setupState D (\<lambda>i. cl (Suc i)) tds t1 = (None, t')"
    by (auto split: prod.splits option.splits dest: Transaction_ok)
  from Cons.IH [OF rest] obtain new where new: "t' = t1 @ new"
    "list_all (\<lambda>row. LastRunTime row = time_zero) new" "distinct (map TaskName new)"
    "(TaskName ` set new) \<inter> (TaskName ` set t1) = {}" "td_TaskName ` set tds \<subseteq> TaskName ` set t'" by blast
  let ?row = "\<lparr>TaskName = td_TaskName td, LastRunTime = time_zero\<rparr>"
  from setup_closure_ok [OF D c] show ?case
  proof (elim disjE conjE)
    assume "t1 = t" "td_TaskName td \<in> TaskName ` set t"
    with new show ?thesis by auto
  next
    assume "t1 = t @ [?row]" "td_TaskName td \<notin> TaskName ` set t"
    with new show ?thesis by (intro exI [of _ "?row # new"]) auto
  qed
qed simp

text \<open>setting up the scheduler's state keeps every row there is, so that a restart queues nothing
  early, adds a row for every task that has none, and a task added this way is due at once.\<close>

theorem setup_keeps_times:
  assumes D: "sched_deps_ok D" and run: "setupState D cl tds t = (None, t')"
    and now: "now \<ge> 0" and interval: "interval \<le> max_int64"
  shows "(\<exists>new. t' = t @ new \<and>
      list_all (\<lambda>row. interval \<le> time_Sub now (LastRunTime row)) new) \<and>
    td_TaskName ` set tds \<subseteq> TaskName ` set t' \<and>
    (distinct (map TaskName t) \<longrightarrow> distinct (map TaskName t'))"
proof -
  from setupState_ok [OF D run] obtain new where new: "t' = t @ new"
    "list_all (\<lambda>row. LastRunTime row = time_zero) new" "distinct (map TaskName new)"
    "(TaskName ` set new) \<inter> (TaskName ` set t) = {}" "td_TaskName ` set tds \<subseteq> TaskName ` set t'" by blast
  have "interval \<le> time_Sub now time_zero" using now interval by (simp add: time_Sub_def sat64_def time_zero_def)
  with new show ?thesis by (auto simp: list_all_iff)
qed

theorem setup_keeps_times_witness:
  "\<exists>t'. setupState demo_sched (\<lambda>_. 5) [\<lparr>td_TaskName = ''feedWorker'', td_Interval = Hour\<rparr>] [] = (None, t') \<and>
     ''feedWorker'' \<in> TaskName ` set t'"
proof -
  have "length ''feedWorker'' \<le> 100" by simp
  then have "rune_count ''feedWorker'' \<le> 100" using rune_count_le order_trans by blast
  then obtain t' where run: "setupState demo_sched (\<lambda>_. 5) [\<lparr>td_TaskName = ''feedWorker'', td_Interval = Hour\<rparr>] [] = (None, t')"
    by (auto simp: demo_sched_def Transaction_works setup_closure_def mem_sched_def mem_gorm_def mem_pick_def
        live_rows_def mem_create_def Let_def ScheduledTaskState_BeforeSave_def validate_struct_def field_ok_def Suc_le_eq)
  with setup_keeps_times [OF demo_sched_up(2) run, of 0 Hour] show ?thesis by auto
qed

end
