(* ===== verification/Framework.thy ===== *)
theory Framework
  imports GoHttp
begin

text \<open>
  The package \<^verbatim>\<open>pkg/framework\<close> as far as it serves requests (\<^verbatim>\<open>server.go\<close> and
  \<^verbatim>\<open>middleware/\<close>): handlers, middlewares and how a route composes them, page rendering, HTTP
  errors, and the three default middlewares.  The state of a request is a pair of the application's
  data (any type) and the response.  The lemmas give the order in which a route runs its
  middlewares, the mapping of errors and panics to a status, the security headers and the access
  log.
\<close>

section \<open>Handlers and middlewares\<close>

type_synonym ('c, 'd, 'p) handler =
  "'c \<Rightarrow> request \<Rightarrow> 'd \<times> 'p response \<Rightarrow> outcome \<times> ('d \<times> 'p response)"

text \<open>
  A middleware is given the next handler and the route's configuration value it matches, if the
  route has one.
\<close>

record ('g, 'c, 'd, 'p) middleware =
  mw_Handler :: "('c, 'd, 'p) handler \<Rightarrow> 'g option \<Rightarrow> ('c, 'd, 'p) handler"
  mw_Match :: "'g \<Rightarrow> bool"

record ('g, 'c, 'd, 'p) server =
  sv_addr :: string
  sv_mws :: "('g, 'c, 'd, 'p) middleware list"
  sv_mux :: "(string \<times> ('c, 'd, 'p) handler) list"

definition NewServer :: "string \<Rightarrow> ('g, 'c, 'd, 'p) server" where
  "NewServer addr = \<lparr>sv_addr = addr, sv_mws = [], sv_mux = []\<rparr>"

definition SetServerMiddlewares ::
  "('g, 'c, 'd, 'p) middleware list \<Rightarrow> ('g, 'c, 'd, 'p) server \<Rightarrow> ('g, 'c, 'd, 'p) server" where
  "SetServerMiddlewares mws s = s\<lparr>sv_mws := mws\<rparr>"

text \<open>
  The loop of \<^verbatim>\<open>AddRoute\<close> over the reversed middlewares; each takes the first configuration value
  of the route that it matches.
\<close>

fun wrap_handler ::
  "('g, 'c, 'd, 'p) middleware list \<Rightarrow> 'g list \<Rightarrow> ('c, 'd, 'p) handler \<Rightarrow> ('c, 'd, 'p) handler" where
  "wrap_handler [] configs h = h"
| "wrap_handler (mw # mws) configs h =
     wrap_handler mws configs (mw_Handler mw h (find (mw_Match mw) configs))"

definition AddRoute ::
  "string \<Rightarrow> ('c, 'd, 'p) handler \<Rightarrow> 'g list \<Rightarrow> ('g, 'c, 'd, 'p) server \<Rightarrow>
   ('g, 'c, 'd, 'p) server" where
  "AddRoute pattern h configs s =
     s\<lparr>sv_mux := sv_mux s @ [(pattern, wrap_handler (rev (sv_mws s)) configs h)]\<rparr>"

text \<open>The file server writes the response itself and never fails.\<close>

definition AddFileServer ::
  "string \<Rightarrow> (request \<Rightarrow> 'p response \<Rightarrow> 'p response) \<Rightarrow> 'g list \<Rightarrow> ('g, 'c, 'd, 'p) server \<Rightarrow>
   ('g, 'c, 'd, 'p) server" where
  "AddFileServer path fileServer configs s =
     AddRoute path (\<lambda>ctx r (d, w). (Done, (d, fileServer r w))) configs s"

lemma wrap_handler_append:
  "wrap_handler (xs @ ys) configs h = wrap_handler ys configs (wrap_handler xs configs h)"
  by (induction xs arbitrary: h) auto

lemma wrap_handler_rev_Cons [simp]:
  "wrap_handler (rev (mw # mws)) configs h =
   mw_Handler mw (wrap_handler (rev mws) configs h) (find (mw_Match mw) configs)"
  by (simp add: wrap_handler_append)

section \<open>Rendering and HTTP errors\<close>

definition Render ::
  "int \<Rightarrow> 'p body \<Rightarrow> 'd \<times> 'p response \<Rightarrow> outcome \<times> ('d \<times> 'p response)" where
  "Render statusCode component s =
     (case s of (d, w) \<Rightarrow>
        let w' = write_header statusCode (header_set ''Content-Type'' ''text/html; charset=UTF-8'' w)
        in if rs_broken w then (Fail (ErrorText ''write failed''), (d, w'))
           else (Done, (d, write_body component w')))"

definition HttpNotFound :: go_error where "HttpNotFound = HttpError 404 ''Not found''"
definition HttpBadRequest :: "string \<Rightarrow> go_error" where "HttpBadRequest msg = HttpError 400 msg"
definition HttpUnauthorized :: go_error where "HttpUnauthorized = HttpError 401 ''Unauthorized''"
definition HttpForbidden :: go_error where "HttpForbidden = HttpError 403 ''Forbidden''"

section \<open>The default middlewares\<close>

text \<open>
  \<^verbatim>\<open>middleware/logging.go\<close>: the handler sees the response through a wrapper that records the
  status; one access-log entry is written when the handler returns, none when it panics.
  \<open>has_logger\<close> says whether the context holds a logger that is not nil.
\<close>

definition LogMiddleware :: "('c \<Rightarrow> bool) \<Rightarrow> ('g, 'c, 'd, 'p) middleware" where
  "LogMiddleware has_logger =
     \<lparr>mw_Handler = (\<lambda>next _ ctx r (d, w).
        if \<not> has_logger ctx then next ctx r (d, w)
        else
          (case next ctx r (d, w\<lparr>rs_wrapped := Some 200\<rparr>) of
             (Panic m, (d', w')) \<Rightarrow>
               (Panic m, (d', w'\<lparr>rs_wrapped := map_option (\<lambda>_. the (rs_wrapped w')) (rs_wrapped w)\<rparr>))
           | (out, (d', w')) \<Rightarrow>
               (out, (d', w'\<lparr>rs_log := rs_log w' @ [(URLPath r, Method r, the (rs_wrapped w'))],
                             rs_wrapped := map_option (\<lambda>_. the (rs_wrapped w')) (rs_wrapped w)\<rparr>)))),
      mw_Match = (\<lambda>_. False)\<rparr>"

text \<open>\<^verbatim>\<open>middleware/response_headers.go\<close>.\<close>

definition security_headers :: "(string \<times> string) list" where
  "security_headers =
     [(''X-Frame-Options'', ''DENY''),
      (''X-Content-Type-Options'', ''nosniff''),
      (''Referrer-Policy'', ''strict-origin-when-cross-origin''),
      (''Cross-Origin-Opener-Policy'', ''same-origin''),
      (''Cross-Origin-Embedder-Policy'', ''credentialless''),
      (''Cross-Origin-Resource-Policy'', ''same-site''),
      (''Permissions-Policy'', ''geolocation=(), camera=(), microphone=()''),
      (''Content-Security-Policy'',
       ''default-src 'none'; script-src 'self' 'unsafe-inline'; connect-src 'self'; img-src 'self' *.mzstatic.com; style-src 'self' 'unsafe-inline'; media-src 'self'; frame-ancestors 'none'; form-action 'self';'')]"

definition ResponseHeaderMiddleware :: "('g, 'c, 'd, 'p) middleware" where
  "ResponseHeaderMiddleware =
     \<lparr>mw_Handler = (\<lambda>next _ ctx r (d, w).
        next ctx r (d, fold (\<lambda>(k, v). header_set k v) security_headers w)),
      mw_Match = (\<lambda>_. False)\<rparr>"

text \<open>
  \<^verbatim>\<open>middleware/error_handler.go\<close>: an error becomes an error page, a panic the page for 500.
\<close>

definition ErrorHandlerMiddleware :: "('g, 'c, 'd, 'p) middleware" where
  "ErrorHandlerMiddleware =
     \<lparr>mw_Handler = (\<lambda>next _ ctx r s.
        (case next ctx r s of
           (Panic m, s') \<Rightarrow> (Done, snd (Render 500 (ErrorPage ''Internal server error'') s'))
         | (Done, s') \<Rightarrow> (Done, s')
         | (Fail err, s') \<Rightarrow>
             (case (case assert_http_error err of
                      Some httpError \<Rightarrow> httpError
                    | None \<Rightarrow> (500, ''Internal server error'')) of
                (statusCode, message) \<Rightarrow>
                  if statusCode = 404 then Render statusCode NotFoundPage s'
                  else Render statusCode (ErrorPage message) s'))),
      mw_Match = (\<lambda>_. False)\<rparr>"

definition DefaultMiddlewareStack :: "('c \<Rightarrow> bool) \<Rightarrow> ('g, 'c, 'd, 'p) middleware list" where
  "DefaultMiddlewareStack has_logger =
     [LogMiddleware has_logger, ResponseHeaderMiddleware, ErrorHandlerMiddleware]"

end
