(* ===== verification/FrameworkProps.thy ===== *)
theory FrameworkProps
  imports Framework
begin

text \<open>
  The property of the default middlewares: what they make of the outcome of any handler.
\<close>

text \<open>The status an outcome is turned into, when the handler has not sent one itself.\<close>

definition error_status :: "outcome \<Rightarrow> int option" where
  "error_status out =
     (case out of
        Done \<Rightarrow> None
      | Panic _ \<Rightarrow> Some 500
      | Fail e \<Rightarrow> (case assert_http_error e of Some (c, _) \<Rightarrow> Some c | None \<Rightarrow> Some 500))"

definition with_headers :: "'p response \<Rightarrow> 'p response" where
  "with_headers w = fold (\<lambda>(k, v). header_set k v) security_headers (w\<lparr>rs_wrapped := Some 200\<rparr>)"

lemma header_set_log [simp]:
  "rs_log (header_set k v w) = rs_log w" "rs_wrapped (header_set k v w) = rs_wrapped w"
  "rs_broken (header_set k v w) = rs_broken w" "rs_body (header_set k v w) = rs_body w"
  "rs_cookies (header_set k v w) = rs_cookies w"
  by (simp_all add: header_set_def)

lemma fold_header_set:
  "rs_status (fold (\<lambda>(k, v). header_set k v) hs w) = rs_status w"
  "rs_wrapped (fold (\<lambda>(k, v). header_set k v) hs w) = rs_wrapped w"
  "rs_log (fold (\<lambda>(k, v). header_set k v) hs w) = rs_log w"
  "rs_broken (fold (\<lambda>(k, v). header_set k v) hs w) = rs_broken w"
  by (induction hs arbitrary: w) auto

lemma with_headers_simps [simp]:
  "rs_status (with_headers w) = rs_status w" "rs_wrapped (with_headers w) = Some 200"
  "rs_log (with_headers w) = rs_log w" "rs_broken (with_headers w) = rs_broken w"
  by (simp_all add: with_headers_def fold_header_set)

lemma write_body_simps [simp]:
  "rs_log (write_body b w) = rs_log w" "rs_wrapped (write_body b w) = rs_wrapped w"
  "rs_status (write_body b w) = Some (case rs_status w of None \<Rightarrow> 200 | Some c \<Rightarrow> c)"
  by (simp_all add: write_body_def split: option.splits)

lemma write_header_simps [simp]:
  "rs_log (write_header c w) = rs_log w"
  "rs_wrapped (write_header c w) = map_option (\<lambda>_. c) (rs_wrapped w)"
  by (simp_all add: write_header_def)

lemma Render_effect:
  assumes "Render c b (d, w) = (out, (d', w'))"
  shows "d' = d" "rs_log w' = rs_log w" "rs_wrapped w' = map_option (\<lambda>_. c) (rs_wrapped w)"
    "rs_status w' = Some (case rs_status w of None \<Rightarrow> c | Some c' \<Rightarrow> c')" "\<And>m. out \<noteq> Panic m"
  using assms by (auto simp: Render_def Let_def split: if_splits option.splits)

lemma ErrorHandler_effect:
  assumes h: "h ctx r s = (hout, (dh, wh))"
    and run: "mw_Handler ErrorHandlerMiddleware h cfg ctx r s = (out, (d', w'))"
  shows "d' = dh" "rs_log w' = rs_log wh" "\<And>m. out \<noteq> Panic m"
    "rs_status w' = (case error_status hout of None \<Rightarrow> rs_status wh
       | Some c \<Rightarrow> Some (case rs_status wh of None \<Rightarrow> c | Some c' \<Rightarrow> c'))"
    "rs_wrapped w' = (case error_status hout of None \<Rightarrow> rs_wrapped wh
       | Some c \<Rightarrow> map_option (\<lambda>_. c) (rs_wrapped wh))"
proof -
  have "d' = dh \<and> rs_log w' = rs_log wh \<and> (\<forall>m. out \<noteq> Panic m) \<and>
    rs_status w' = (case error_status hout of None \<Rightarrow> rs_status wh
       | Some c \<Rightarrow> Some (case rs_status wh of None \<Rightarrow> c | Some c' \<Rightarrow> c')) \<and>
    rs_wrapped w' = (case error_status hout of None \<Rightarrow> rs_wrapped wh
       | Some c \<Rightarrow> map_option (\<lambda>_. c) (rs_wrapped wh))"
  proof (cases hout)
    case Done
    with h run show ?thesis by (auto simp: ErrorHandlerMiddleware_def error_status_def)
  next
    case (Panic m)
    obtain o2 d2 w2 where "Render 500 (ErrorPage ''Internal server error'') (dh, wh) = (o2, (d2, w2))"
      by (metis surj_pair)
    with Panic h run Render_effect [OF this] show ?thesis
      by (auto simp: ErrorHandlerMiddleware_def error_status_def)
  next
    case (Fail e)
    obtain c m where cm: "(case assert_http_error e of Some httpError \<Rightarrow> httpError
       | None \<Rightarrow> (500, ''Internal server error'')) = (c, m)" by fastforce
    then have st: "error_status hout = Some c"
      by (auto simp: Fail error_status_def split: option.splits)
    from h run Fail cm obtain b where "Render c b (dh, wh) = (out, (d', w'))"
      by (cases "c = 404") (auto simp: ErrorHandlerMiddleware_def)
    from Render_effect [OF this] show ?thesis by (simp add: st)
  qed
  then show "d' = dh" "rs_log w' = rs_log wh" "\<And>m. out \<noteq> Panic m"
    "rs_status w' = (case error_status hout of None \<Rightarrow> rs_status wh
       | Some c \<Rightarrow> Some (case rs_status wh of None \<Rightarrow> c | Some c' \<Rightarrow> c'))"
    "rs_wrapped w' = (case error_status hout of None \<Rightarrow> rs_wrapped wh
       | Some c \<Rightarrow> map_option (\<lambda>_. c) (rs_wrapped wh))"
    by blast+
qed

lemma default_stack_eq:
  fixes configs :: "'g list" and h :: "('c, 'd, 'p) handler"
  shows "wrap_handler (rev (DefaultMiddlewareStack lg)) configs h =
     mw_Handler (LogMiddleware lg :: ('g, 'c, 'd, 'p) middleware)
       (mw_Handler (ResponseHeaderMiddleware :: ('g, 'c, 'd, 'p) middleware)
         (mw_Handler (ErrorHandlerMiddleware :: ('g, 'c, 'd, 'p) middleware) h None) None) None"
proof -
  have none: "find (mw_Match (LogMiddleware lg :: ('g, 'c, 'd, 'p) middleware)) configs = None"
    "find (mw_Match (ResponseHeaderMiddleware :: ('g, 'c, 'd, 'p) middleware)) configs = None"
    "find (mw_Match (ErrorHandlerMiddleware :: ('g, 'c, 'd, 'p) middleware)) configs = None"
    by (auto simp: find_None_iff LogMiddleware_def ResponseHeaderMiddleware_def ErrorHandlerMiddleware_def)
  show ?thesis by (simp add: DefaultMiddlewareStack_def none)
qed

text \<open>The default middlewares see of a handler only what it does with this request.\<close>

lemma default_stack_cong:
  fixes configs :: "'g list" and h h' :: "('c, 'd, 'p) handler"
  assumes "h ctx r (d, with_headers w) = h' ctx r (d, with_headers w)"
    and "h ctx r (d, fold (\<lambda>(k, v). header_set k v) security_headers w) =
      h' ctx r (d, fold (\<lambda>(k, v). header_set k v) security_headers w)"
  shows "wrap_handler (rev (DefaultMiddlewareStack lg)) configs h ctx r (d, w) =
    wrap_handler (rev (DefaultMiddlewareStack lg)) configs h' ctx r (d, w)"
  using assms unfolding default_stack_eq
  by (simp add: LogMiddleware_def ResponseHeaderMiddleware_def ErrorHandlerMiddleware_def with_headers_def)

lemma default_stack_effect:
  fixes configs :: "'g list" and h :: "('c, 'd, 'p) handler"
  assumes lg: "lg ctx" and w: "rs_status w = None" "rs_wrapped w = None"
    and h: "h ctx r (d, with_headers w) = (hout, (dh, wh))" and wrapped: "rs_wrapped wh = Some k"
    and run: "wrap_handler (rev (DefaultMiddlewareStack lg)) configs h ctx r (d, w) = (out, (d', w'))"
  shows "(\<forall>m. out \<noteq> Panic m) \<and> d' = dh \<and>
    (\<forall>name v. (name, v) \<in> set security_headers \<longrightarrow> (name, v) \<in> set (rs_headers (with_headers w))) \<and>
    (\<forall>c. error_status hout = Some c \<and> rs_status wh = None \<longrightarrow> rs_status w' = Some c) \<and>
    (error_status hout = None \<longrightarrow> rs_status w' = rs_status wh) \<and>
    rs_log w' = rs_log wh @ [(URLPath r, Method r,
      case error_status hout of None \<Rightarrow> k | Some c \<Rightarrow> c)]"
proof -
  let ?error_handler = "ErrorHandlerMiddleware :: ('g, 'c, 'd, 'p) middleware"
  obtain o1 d1 w1 where e: "mw_Handler ?error_handler h None ctx r (d, with_headers w) = (o1, (d1, w1))"
    by (metis surj_pair)
  note eff = ErrorHandler_effect [OF h e]
  have inner: "mw_Handler (ResponseHeaderMiddleware :: ('g, 'c, 'd, 'p) middleware) (mw_Handler ?error_handler h None) None ctx r
      (d, w\<lparr>rs_wrapped := Some 200\<rparr>) = (o1, (d1, w1))"
    using e by (simp add: ResponseHeaderMiddleware_def with_headers_def)
  from eff(5) wrapped obtain st where st: "rs_wrapped w1 = Some st"
    "st = (case error_status hout of None \<Rightarrow> k | Some c \<Rightarrow> c)" by (auto split: option.splits)
  from run [unfolded default_stack_eq] inner lg eff(3) have out: "out = o1 \<and> d' = d1 \<and>
      w' = w1\<lparr>rs_log := rs_log w1 @ [(URLPath r, Method r, the (rs_wrapped w1))], rs_wrapped := None\<rparr>"
    by (cases o1) (auto simp: LogMiddleware_def w)
  have headers: "(name, v) \<in> set (rs_headers (with_headers w))" if "(name, v) \<in> set security_headers" for name v
    using that w by (auto simp: with_headers_def security_headers_def header_set_def)
  show ?thesis using out eff(1-4) st headers by auto
qed

text \<open>C39: whatever a handler does, behind the default middlewares the request ends without a panic, the
  handler has seen the security headers set, an error or a panic it ended with decides the status
  (the code of an HTTP error, 500 for anything else) unless it had sent one, and exactly one
  access-log line is written, with that code or, without an error, the status the handler had recorded.\<close>

theorem default_middlewares_effect:
  fixes configs :: "'g list" and h :: "('c, 'd, 'p) handler"
  assumes lg: "lg ctx" and w: "rs_status w = None" "rs_wrapped w = None"
    and h: "h ctx r (d, with_headers w) = (hout, (dh, wh))" and wrapped: "rs_wrapped wh = Some k"
    and run: "wrap_handler (rev (DefaultMiddlewareStack lg)) configs h ctx r (d, w) = (out, (d', w'))"
  shows "(\<forall>m. out \<noteq> Panic m) \<and> d' = dh \<and>
    (\<forall>name v. (name, v) \<in> set security_headers \<longrightarrow> (name, v) \<in> set (rs_headers (with_headers w))) \<and>
    (\<forall>c. error_status hout = Some c \<and> rs_status wh = None \<longrightarrow> rs_status w' = Some c) \<and>
    (error_status hout = None \<longrightarrow> rs_status w' = rs_status wh) \<and>
    rs_log w' = rs_log wh @ [(URLPath r, Method r,
      case error_status hout of None \<Rightarrow> k | Some c \<Rightarrow> c)]"
  by (rule default_stack_effect [OF assms])

theorem default_middlewares_effect_witness:
  "\<exists>out d' w'. wrap_handler (rev (DefaultMiddlewareStack (\<lambda>_. True))) ([] :: unit list)
      (\<lambda>ctx r (d, w). (Panic ''boom'', (d, w))) () (plain_request ''GET'' ''/x'') ((), new_response) =
        (out, (d', w' :: unit response)) \<and>
     rs_status w' = Some 500 \<and> rs_log w' = [(''/x'', ''GET'', 500)]"
proof -
  let ?h = "(\<lambda>ctx r (d, w). (Panic ''boom'', (d, w))) :: (unit, unit, unit) handler"
  obtain out d' w' where run: "wrap_handler (rev (DefaultMiddlewareStack (\<lambda>_. True))) ([] :: unit list) ?h ()
      (plain_request ''GET'' ''/x'') ((), new_response) = (out, (d', w'))" by (metis surj_pair)
  have "?h () (plain_request ''GET'' ''/x'') ((), with_headers new_response) =
      (Panic ''boom'', ((), with_headers new_response))" by simp
  from default_middlewares_effect [OF _ _ _ this _ run, of 200] run
  show ?thesis by (simp add: new_response_def plain_request_def error_status_def)
qed

end
