(* ===== verification/Itunes.thy ===== *)
theory Itunes
  imports GoUrl
begin

text \<open>
  The search of the iTunes catalogue (\<^verbatim>\<open>pkg/itunes/itunes.go\<close>).  The HTTP exchange is a parameter:
  for a URL, an error or a status with the decoded body.
\<close>

record SearchResult =
  CollectionName :: string
  FeedURL :: string
  ArtistName :: string
  TrackCount :: int
  ArtworkURL60 :: string
  ArtworkURL100 :: string
  ArtworkURL600 :: string

definition ArtworkURL :: "SearchResult \<Rightarrow> string" where
  "ArtworkURL r =
     (if ArtworkURL600 r \<noteq> '''' then ArtworkURL600 r
      else if ArtworkURL100 r \<noteq> '''' then ArtworkURL100 r
      else if ArtworkURL60 r \<noteq> '''' then ArtworkURL60 r
      else '''')"

type_synonym itunes_http = "string \<Rightarrow> (int \<times> (SearchResult list) result) result"

text \<open>\<^verbatim>\<open>url.Values.Encode\<close> sorts by key.\<close>

definition search_url :: "string \<Rightarrow> string" where
  "search_url query =
     ''https://itunes.apple.com/search?entity=podcast&media=podcast&term='' @
     escape EncodeQueryComponent query"

definition Search :: "itunes_http \<Rightarrow> string \<Rightarrow> (SearchResult list) result" where
  "Search http query =
     (if query = '''' \<or> length query > 250 then
        Inl (ErrorText (''expected query to be between 1 and 250 chars, got '' @
          show_nat (length query)))
      else if url_Parse (search_url query) = None then Inl (ErrorText ''invalid URL'')
      else
        (case http (search_url query) of
           Inl err \<Rightarrow> Inl err
         | Inr (status, body) \<Rightarrow>
             if status \<noteq> 200 then Inl (ErrorText (''itunes returned status '' @ quoted (show_int status)))
             else (case body of Inl err \<Rightarrow> Inl err | Inr results \<Rightarrow> Inr results)))"

end
