(* ===== verification/Pages.thy ===== *)
theory Pages
  imports Framework Sessions Podcasts Itunes Queue
begin

text \<open>
  What the handlers share: the pages they render, with the values each page is given (the markup
  itself is left out), the state of the application, and the context of a request.
\<close>

section \<open>Pages\<close>

record ProfileUpdatePasswordFormData =
  pf_CurrentPassword :: string
  pf_Password :: string
  pf_RepeatPassword :: string

record CreateUserFormData =
  cf_Username :: string
  cf_Password :: string
  cf_RepeatPassword :: string
  cf_AccessLevel :: int

record UpdateUserFormData =
  uf_Username :: string
  uf_AccessLevel :: int

record UpdatePasswordFormData =
  wf_Password :: string
  wf_RepeatPassword :: string

record AddPodcastFormData =
  af_FeedURL :: string
  af_FeedUsername :: string
  af_FeedPassword :: string

datatype page =
    LoginPage (LoginRedirect: string) (LoginError: string) (LoginIsLogout: bool)
  | HomePage "Podcast list"
  | SearchPodcastsPage
  | SearchResultsPartial "SearchResult list" string
  | AddPodcastPartial string
  | ViewPodcastPage string Podcast "Episode list"
  | ViewEpisodePage Episode
  | EpisodeListItemPartial Episode
  | ProfileUpdatePasswordPage string bool
  | ManageUsersPage "User list" bool
  | CreateUserPage string CreateUserFormData
  | EditUserPage nat UpdateUserFormData
  | UpdateUserFormPartial string bool nat UpdateUserFormData
  | UpdatePasswordFormPartial string bool nat

section \<open>State and context\<close>

text \<open>
  The tables the authentication code uses, and the whole state: the other tables and the objects
  that have been stored, which a storage driver reads and writes.
\<close>

record auth_db =
  users_t :: "User list"
  sessions_t :: "Session list"

record 'o store = auth_db +
  podcasts_t :: "Podcast list"
  episodes_t :: "Episode list"
  queue_t :: "QueueTask list"
  objects_t :: 'o

text \<open>
  The context of a request: the user that has been authenticated, if any, whether it has a logger,
  the readings of the clock and the random values drawn.  Successive calls of one request see
  later readings: the n-th call is given the readings from \<open>100 * n\<close> on.
\<close>

record req_context =
  cx_user :: "User option"
  cx_logger :: bool
  cx_clock :: "nat \<Rightarrow> time"
  cx_random :: "nat \<Rightarrow> nat"

definition call_clock :: "req_context \<Rightarrow> nat \<Rightarrow> nat \<Rightarrow> time" where
  "call_clock ctx n = (\<lambda>i. cx_clock ctx (100 * n + i))"

definition GetUserFromCtx :: "req_context \<Rightarrow> User option" where
  "GetUserFromCtx ctx = cx_user ctx"

definition CtxWithUser :: "req_context \<Rightarrow> User \<Rightarrow> req_context" where
  "CtxWithUser ctx u = ctx\<lparr>cx_user := Some u\<rparr>"

lemma CtxWithUser_simps [simp]:
  "GetUserFromCtx (CtxWithUser ctx u) = Some u"
  "call_clock (CtxWithUser ctx u) = call_clock ctx"
  "cx_logger (CtxWithUser ctx u) = cx_logger ctx"
  by (simp_all add: GetUserFromCtx_def CtxWithUser_def call_clock_def fun_eq_iff)

end
