(* ===== verification/Auth.thy ===== *)
theory Auth
  imports Pages SessionFacts
begin

text \<open>
  The package \<^verbatim>\<open>pkg/auth\<close> (\<^verbatim>\<open>auth.go\<close>, \<^verbatim>\<open>access_control.go\<close>): the authentication middleware, by
  session cookie or by HTTP basic auth, the log-in and log-out handlers, the check of the address a
  log-in redirects to, and the access control middleware.  The handlers run on any state that has
  the tables of \<^typ>\<open>auth_db\<close>.
\<close>

section \<open>Route configuration\<close>

datatype mw_config =
    AuthenticationMiddlewareConfig (Skip: bool) (UseHTTPBasicAuth: bool)
  | AccessControlMiddlewareConfig (RequiredAccessLevel: int)

definition AuthenticationMiddleware_Match :: "mw_config \<Rightarrow> bool" where
  "AuthenticationMiddleware_Match config =
     (case config of AuthenticationMiddlewareConfig _ _ \<Rightarrow> True | _ \<Rightarrow> False)"

definition AccessControlMiddleware_Match :: "mw_config \<Rightarrow> bool" where
  "AccessControlMiddleware_Match config =
     (case config of AccessControlMiddlewareConfig _ \<Rightarrow> True | _ \<Rightarrow> False)"

section \<open>Where a log-in redirects to\<close>

definition sanitiseRedirectPath :: "string \<Rightarrow> string" where
  "sanitiseRedirectPath redirectPath =
     (if length redirectPath > 500 then ''/''
      else if \<not> prefix ''/'' redirectPath then ''/''
      else if prefix ''//'' redirectPath then ''/''
      else if prefix ''/auth'' redirectPath then ''/''
      else redirectPath)"

definition redirectPathFromReq :: "request \<Rightarrow> string" where
  "redirectPathFromReq r =
     (let redirect = PostFormValue r ''redirect'';
          redirect = (if redirect = '''' then QueryGet r ''redirect'' else redirect)
      in if redirect = '''' then ''/''
         else
           (case url_Parse redirect of
              None \<Rightarrow> ''/''
            | Some u \<Rightarrow> if Path u = '''' then ''/'' else sanitiseRedirectPath (Path u)))"

text \<open>\<open>None\<close> is the panic on a base URL that does not parse.\<close>

definition urlWithPath :: "string \<Rightarrow> string \<Rightarrow> string option" where
  "urlWithPath baseURL path =
     (case url_Parse baseURL of
        None \<Rightarrow> None
      | Some u \<Rightarrow> Some (url_String (u\<lparr>Path := path\<rparr>)))"

section \<open>Authentication\<close>

type_synonym ('a, 'p) auth_handler = "(req_context, 'a auth_db_scheme, 'p) handler"

definition redirectToLogin :: "request \<Rightarrow> 'p response \<Rightarrow> 'p response" where
  "redirectToLogin r w =
     (let queryString = ''redirect='' @ escape EncodeQueryComponent (URLPath r)
      in http_Redirect r (''/auth/login?'' @ queryString) 302 w)"

definition unauthResponse ::
  "request \<Rightarrow> 'd \<times> 'p response \<Rightarrow> outcome \<times> ('d \<times> 'p response)" where
  "unauthResponse r s =
     (case s of (d, w) \<Rightarrow>
        if HeaderGet r ''HX-Request'' = ''true''
        then (Fail HttpUnauthorized, (d, header_add ''HX-Refresh'' ''true'' w))
        else (Done, (d, redirectToLogin r w)))"

definition checkUsernameAndPassword ::
  "auth_deps \<Rightarrow> time \<Rightarrow> string \<Rightarrow> string \<Rightarrow> User list \<Rightarrow> User result" where
  "checkUsernameAndPassword D now username password us =
     (case GetUserByUsername (ad_users D) now username us of
        Inl err \<Rightarrow> Inl err
      | Inr user \<Rightarrow>
          (case CheckPassword (ud_bcrypt (ad_users D)) user password of
             Some err \<Rightarrow> Inl err
           | None \<Rightarrow> Inr user))"

definition handleHTTPBasicAuth ::
  "auth_deps \<Rightarrow> ('a, 'p) auth_handler \<Rightarrow> ('a, 'p) auth_handler" where
  "handleHTTPBasicAuth D next = (\<lambda>ctx r s.
     (case BasicAuth r of
        None \<Rightarrow> (Fail HttpUnauthorized, s)
      | Some (username, password) \<Rightarrow>
          (case checkUsernameAndPassword D (call_clock ctx 0 0) username password (users_t (fst s)) of
             Inl err \<Rightarrow> (Fail HttpUnauthorized, s)
           | Inr user \<Rightarrow> next (CtxWithUser ctx user) r s)))"

definition AuthenticationMiddleware_Handler ::
  "auth_deps \<Rightarrow> ('a, 'p) auth_handler \<Rightarrow> mw_config option \<Rightarrow> ('a, 'p) auth_handler" where
  "AuthenticationMiddleware_Handler D next config = (\<lambda>ctx r s.
     (let (skip, basic) = (case config of
            Some (AuthenticationMiddlewareConfig skip basic) \<Rightarrow> (skip, basic)
          | _ \<Rightarrow> (False, False))
      in if skip then next ctx r s
         else if basic then handleHTTPBasicAuth D next ctx r s
         else
           (case s of (d, w) \<Rightarrow>
              (case GetSession D (call_clock ctx 0) r (users_t d) (sessions_t d) of
                 Inl err \<Rightarrow> unauthResponse r (d, w)
               | Inr session \<Rightarrow>
                   (let d' = d\<lparr>sessions_t :=
                          snd (UpdateSessionLastSeen D (call_clock ctx 1) session (sessions_t d))\<rparr>
                    in next (CtxWithUser ctx (SessionUser session)) r (d', w))))))"

definition AuthenticationMiddleware ::
  "auth_deps \<Rightarrow> (mw_config, req_context, 'a auth_db_scheme, 'p) middleware" where
  "AuthenticationMiddleware D =
     \<lparr>mw_Handler = AuthenticationMiddleware_Handler D, mw_Match = AuthenticationMiddleware_Match\<rparr>"

section \<open>Log-in and log-out\<close>

definition renderLoginPage :: "bool \<Rightarrow> ('a, page) auth_handler" where
  "renderLoginPage authErr = (\<lambda>ctx r s.
     (let errText = (if authErr then ''Unknown username or password'' else '''');
          isLogout = (QueryGet r ''logout'' = ''true'')
      in Render 200 (Page (LoginPage (redirectPathFromReq r) errText isLogout)) s))"

definition GetLoginHandler :: "('a, page) auth_handler" where
  "GetLoginHandler = (\<lambda>ctx r s. renderLoginPage False ctx r s)"

definition PostLoginHandler :: "auth_deps \<Rightarrow> string \<Rightarrow> ('a, page) auth_handler" where
  "PostLoginHandler D baseURL = (\<lambda>ctx r s.
     (let username = PostFormValue r ''username''; password = PostFormValue r ''password''
      in (case checkUsernameAndPassword D (call_clock ctx 10 0) username password (users_t (fst s)) of
            Inl err \<Rightarrow> renderLoginPage True ctx r s
          | Inr user \<Rightarrow>
              (case s of (d, w) \<Rightarrow>
                 (case CreateSession D (call_clock ctx 11) (cx_random ctx 0) baseURL (ID user)
                         (sessions_t d, w) of
                    (Fail err, (t', w')) \<Rightarrow> (Fail err, (d\<lparr>sessions_t := t'\<rparr>, w'))
                  | (Panic m, (t', w')) \<Rightarrow> (Panic m, (d\<lparr>sessions_t := t'\<rparr>, w'))
                  | (Done, (t', w')) \<Rightarrow>
                      (case urlWithPath baseURL (redirectPathFromReq r) of
                         None \<Rightarrow> (Panic ''invalid baseURL'', (d\<lparr>sessions_t := t'\<rparr>, w'))
                       | Some redirectURL \<Rightarrow>
                           (Done, (d\<lparr>sessions_t := t'\<rparr>, http_Redirect r redirectURL 302 w'))))))))"

definition LogoutHandler :: "auth_deps \<Rightarrow> string \<Rightarrow> ('a, 'p) auth_handler" where
  "LogoutHandler D baseURL = (\<lambda>ctx r s.
     (case s of (d, w) \<Rightarrow>
        (case DeleteSession D (call_clock ctx 10) baseURL r (sessions_t d, w) of
           (Done, (t', w')) \<Rightarrow>
             (Done, (d\<lparr>sessions_t := t'\<rparr>, http_Redirect r ''/auth/login?logout=true'' 302 w'))
         | (out, (t', w')) \<Rightarrow> (out, (d\<lparr>sessions_t := t'\<rparr>, w')))))"

section \<open>Access control\<close>

definition AccessControlMiddleware_Handler ::
  "(req_context, 'd, 'p) handler \<Rightarrow> mw_config option \<Rightarrow> (req_context, 'd, 'p) handler" where
  "AccessControlMiddleware_Handler next config = (\<lambda>ctx r s.
     (case config of
        Some (AccessControlMiddlewareConfig required) \<Rightarrow>
          if required = 0 then (Fail HttpForbidden, s)
          else if required = - 1 then next ctx r s
          else
            (case GetUserFromCtx ctx of
               None \<Rightarrow> (Fail HttpForbidden, s)
             | Some user \<Rightarrow>
                 if \<not> CheckAccessLevel user required then (Fail HttpForbidden, s)
                 else next ctx r s)
      | _ \<Rightarrow> (Fail HttpForbidden, s)))"

definition AccessControlMiddleware :: "(mw_config, req_context, 'd, 'p) middleware" where
  "AccessControlMiddleware =
     \<lparr>mw_Handler = AccessControlMiddleware_Handler, mw_Match = AccessControlMiddleware_Match\<rparr>"

section \<open>The middlewares of the server\<close>

text \<open>The order \<^verbatim>\<open>NewWebserver\<close> gives them.\<close>

definition server_middlewares ::
  "auth_deps \<Rightarrow> (mw_config, req_context, 'a auth_db_scheme, 'p) middleware list" where
  "server_middlewares D =
     DefaultMiddlewareStack cx_logger @ [AuthenticationMiddleware D, AccessControlMiddleware]"

definition route_handler ::
  "auth_deps \<Rightarrow> mw_config list \<Rightarrow> ('a, 'p) auth_handler \<Rightarrow> ('a, 'p) auth_handler" where
  "route_handler D configs h = wrap_handler (rev (server_middlewares D)) configs h"

lemma route_handler_eq:
  "route_handler D configs h =
     wrap_handler (rev (DefaultMiddlewareStack cx_logger)) configs
       (AuthenticationMiddleware_Handler D
          (AccessControlMiddleware_Handler h (find AccessControlMiddleware_Match configs))
          (find AuthenticationMiddleware_Match configs))"
  by (simp add: route_handler_def server_middlewares_def wrap_handler_append AuthenticationMiddleware_def
      AccessControlMiddleware_def)

end
