(* ===== verification/AuthProps.thy ===== *)
theory AuthProps
  imports Auth FrameworkProps SessionProps
begin

text \<open>
  The properties of authentication and access control: a handler whose route requires an access
  level has no influence on a request that is not entitled to it, an entitled request reaches it
  with the user's account, and the address a log-in redirects to stays on the server.
\<close>

section \<open>Who a request is from\<close>

text \<open>
  The specification: the account that the cookie's session or the basic-auth credentials prove,
  according to the route's configuration; \<open>None\<close> when they prove none.
\<close>

definition authenticated ::
  "auth_deps \<Rightarrow> mw_config option \<Rightarrow> req_context \<Rightarrow> request \<Rightarrow> 'a auth_db_scheme \<Rightarrow> User option" where
  "authenticated D config ctx r d =
     (case config of
        Some (AuthenticationMiddlewareConfig True basic) \<Rightarrow> GetUserFromCtx ctx
      | Some (AuthenticationMiddlewareConfig False True) \<Rightarrow>
          (case BasicAuth r of
             None \<Rightarrow> None
           | Some (username, password) \<Rightarrow>
               (case checkUsernameAndPassword D (call_clock ctx 0 0) username password (users_t d) of
                  Inl err \<Rightarrow> None | Inr user \<Rightarrow> Some user))
      | _ \<Rightarrow>
          (case GetSession D (call_clock ctx 0) r (users_t d) (sessions_t d) of
             Inl err \<Rightarrow> None | Inr session \<Rightarrow> Some (SessionUser session)))"

text \<open>The level a route requires: 0 when it declares none.\<close>

definition required_level :: "mw_config list \<Rightarrow> int" where
  "required_level configs =
     (case find AccessControlMiddleware_Match configs of
        Some (AccessControlMiddlewareConfig l) \<Rightarrow> l | _ \<Rightarrow> 0)"

definition entitled ::
  "auth_deps \<Rightarrow> mw_config list \<Rightarrow> req_context \<Rightarrow> request \<Rightarrow> 'a auth_db_scheme \<Rightarrow> bool" where
  "entitled D configs ctx r d \<longleftrightarrow>
     required_level configs \<noteq> 0 \<and>
     (required_level configs = - 1 \<or>
      (case authenticated D (find AuthenticationMiddleware_Match configs) ctx r d of
         None \<Rightarrow> False | Some u \<Rightarrow> AccessLevel u \<ge> required_level configs))"

lemma AccessControl_refused:
  assumes "find AccessControlMiddleware_Match configs = cfg" "required_level configs = l"
    "l = 0 \<or> (l \<noteq> - 1 \<and> (case GetUserFromCtx ctx of None \<Rightarrow> True | Some u \<Rightarrow> AccessLevel u < l))"
  shows "AccessControlMiddleware_Handler h cfg ctx r s = (Fail HttpForbidden, s)"
  using assms
  by (auto simp: AccessControlMiddleware_Handler_def required_level_def CheckAccessLevel_def
      split: option.splits mw_config.splits)

lemma AccessControl_passed:
  assumes "find AccessControlMiddleware_Match configs = cfg" "required_level configs = l"
    "l \<noteq> 0" "l = - 1 \<or> (\<exists>u. GetUserFromCtx ctx = Some u \<and> AccessLevel u \<ge> l)"
  shows "AccessControlMiddleware_Handler h cfg ctx r s = h ctx r s"
  using assms
  by (auto simp: AccessControlMiddleware_Handler_def required_level_def CheckAccessLevel_def
      split: option.splits mw_config.splits)

text \<open>The two inner middlewares on a request that is not entitled.\<close>

definition auth_stack ::
  "auth_deps \<Rightarrow> mw_config list \<Rightarrow> ('a, 'p) auth_handler \<Rightarrow> ('a, 'p) auth_handler" where
  "auth_stack D configs h =
     AuthenticationMiddleware_Handler D
       (AccessControlMiddleware_Handler h (find AccessControlMiddleware_Match configs))
       (find AuthenticationMiddleware_Match configs)"

definition touched ::
  "auth_deps \<Rightarrow> req_context \<Rightarrow> request \<Rightarrow> 'a auth_db_scheme \<Rightarrow> 'a auth_db_scheme" where
  "touched D ctx r d =
     (case GetSession D (call_clock ctx 0) r (users_t d) (sessions_t d) of
        Inl err \<Rightarrow> d
      | Inr session \<Rightarrow> d\<lparr>sessions_t :=
          snd (UpdateSessionLastSeen D (call_clock ctx 1) session (sessions_t d))\<rparr>)"

lemma header_add_simps [simp]:
  "rs_log (header_add k v w) = rs_log w" "rs_wrapped (header_add k v w) = rs_wrapped w"
  "rs_broken (header_add k v w) = rs_broken w"
  by (simp_all add: header_add_def)

lemma http_Redirect_simps [simp]:
  "rs_wrapped (http_Redirect r target code w) = map_option (\<lambda>_. code) (rs_wrapped w)"
  by (simp add: http_Redirect_def Let_def)

lemma auth_stack_refused:
  assumes no: "\<not> entitled D configs ctx r d" and l: "required_level configs \<noteq> - 1"
  shows "\<exists>out w' d'. (\<forall>h :: ('a, 'p) auth_handler. auth_stack D configs h ctx r (d, w) = (out, (d', w'))) \<and>
    (d' = d \<or> d' = touched D ctx r d) \<and> (rs_wrapped w \<noteq> None \<longrightarrow> rs_wrapped w' \<noteq> None) \<and>
    (out = Done \<and> rs_status w' = Some (case rs_status w of None \<Rightarrow> 302 | Some c \<Rightarrow> c) \<or>
     (out = Fail HttpUnauthorized \<or> out = Fail HttpForbidden) \<and> rs_status w' = rs_status w)"
proof -
  let ?acf = "find AuthenticationMiddleware_Match configs"
  let ?ac = "\<lambda>h :: ('a, 'p) auth_handler. AccessControlMiddleware_Handler h (find AccessControlMiddleware_Match configs)"
  have refused: "?ac h ctx' r s = (Fail HttpForbidden, s)"
    if "case GetUserFromCtx ctx' of None \<Rightarrow> True | Some u \<Rightarrow> AccessLevel u < required_level configs \<or> required_level configs = 0"
    for h ctx' s
    by (rule AccessControl_refused [OF refl refl]) (use that l in \<open>auto split: option.splits\<close>)
  have low: "AccessLevel u < required_level configs \<or> required_level configs = 0"
    if "authenticated D ?acf ctx r d = Some u" for u
    using no l that by (auto simp: entitled_def)
  consider (skip) basic where "?acf = Some (AuthenticationMiddlewareConfig True basic)"
    | (basic) "?acf = Some (AuthenticationMiddlewareConfig False True)"
    | (session) "(case ?acf of Some (AuthenticationMiddlewareConfig s b) \<Rightarrow> (s, b) | _ \<Rightarrow> (False, False)) = (False, False)"
      "authenticated D ?acf ctx r d = (case GetSession D (call_clock ctx 0) r (users_t d) (sessions_t d) of
             Inl err \<Rightarrow> None | Inr session \<Rightarrow> Some (SessionUser session))"
  proof (cases ?acf)
    case (Some c)
    then show thesis
    proof (cases c)
      case (AuthenticationMiddlewareConfig s b)
      with Some skip basic session show thesis by (cases s; cases b) (auto simp: authenticated_def)
    qed (use Some session in \<open>auto simp: authenticated_def\<close>)
  qed (use session in \<open>auto simp: authenticated_def\<close>)
  then show ?thesis
  proof cases
    case skip
    then have "case GetUserFromCtx ctx of None \<Rightarrow> True | Some u \<Rightarrow> AccessLevel u < required_level configs \<or> required_level configs = 0"
      using low by (auto simp: authenticated_def split: option.splits)
    from refused [OF this] skip show ?thesis
      by (auto simp: auth_stack_def AuthenticationMiddleware_Handler_def)
  next
    case basic
    show ?thesis
    proof (cases "authenticated D ?acf ctx r d")
      case None
      with basic have "auth_stack D configs h ctx r (d, w) = (Fail HttpUnauthorized, (d, w))"
        for h :: "('a, 'p) auth_handler"
        by (cases "BasicAuth r") (auto simp: auth_stack_def AuthenticationMiddleware_Handler_def
            handleHTTPBasicAuth_def authenticated_def split: sum.splits)
      then show ?thesis by auto
    next
      case (Some u)
      have "?ac h (CtxWithUser ctx u) r s = (Fail HttpForbidden, s)" for h s
        by (rule refused) (use low [OF Some] in simp)
      with Some basic have "auth_stack D configs h ctx r (d, w) = (Fail HttpForbidden, (d, w))"
        for h :: "('a, 'p) auth_handler"
        by (cases "BasicAuth r") (auto simp: auth_stack_def AuthenticationMiddleware_Handler_def
            handleHTTPBasicAuth_def authenticated_def split: sum.splits)
      then show ?thesis by auto
    qed
  next
    case session
    show ?thesis
    proof (cases "GetSession D (call_clock ctx 0) r (users_t d) (sessions_t d)")
      case (Inl e)
      with session(1) show ?thesis
        by (auto simp: auth_stack_def AuthenticationMiddleware_Handler_def unauthResponse_def Let_def
            redirectToLogin_def)
    next
      case (Inr s)
      have "?ac h (CtxWithUser ctx (SessionUser s)) r s' = (Fail HttpForbidden, s')" for h s'
        by (rule refused) (use low [of "SessionUser s"] session(2) Inr in simp)
      with Inr session(1) show ?thesis
        by (auto simp: auth_stack_def AuthenticationMiddleware_Handler_def touched_def Let_def)
    qed
  qed
qed

section \<open>Access control\<close>

text \<open>C11: a request that is not entitled to a route is not influenced by the route's handler at all: it
  ends in a redirect to the log-in page, 401 or 403, and nothing has changed but, at most, the last
  use of the request's own session.  A route that declares no level is closed to everyone.\<close>

theorem unentitled_request_refused:
  fixes h :: "('a, 'p) auth_handler"
  assumes no: "\<not> entitled D configs ctx r d" and lg: "cx_logger ctx"
    and w: "rs_status w = None" "rs_wrapped w = None"
    and run: "route_handler D configs h ctx r (d, w) = (out, (d', w'))"
  shows "(\<forall>h'. route_handler D configs h' ctx r (d, w) = (out, (d', w'))) \<and>
    (d' = d \<or> d' = touched D ctx r d) \<and>
    rs_status w' \<in> {Some 302, Some 401, Some 403}"
proof -
  have l: "required_level configs \<noteq> - 1" using no by (auto simp: entitled_def)
  from auth_stack_refused [OF no l, where w = "with_headers w" and 'p = 'p] obtain o1 w1 d1 where
    same: "\<And>h :: ('a, 'p) auth_handler. auth_stack D configs h ctx r (d, with_headers w) = (o1, (d1, w1))"
    and d1: "d1 = d \<or> d1 = touched D ctx r d" and wr: "rs_wrapped w1 \<noteq> None"
    and st: "o1 = Done \<and> rs_status w1 = Some 302 \<or>
      (o1 = Fail HttpUnauthorized \<or> o1 = Fail HttpForbidden) \<and> rs_status w1 = None"
    using w by (metis (no_types, lifting) option.distinct(1) option.simps(4) with_headers_simps(1,2))
  from auth_stack_refused [OF no l, where 'p = 'p] have same2:
    "\<And>h h' :: ('a, 'p) auth_handler. \<And>w. auth_stack D configs h ctx r (d, w) = auth_stack D configs h' ctx r (d, w)"
    by metis
  have eq: "route_handler D configs h' ctx r (d, w) = route_handler D configs h ctx r (d, w)" for h' :: "('a, 'p) auth_handler"
    unfolding route_handler_eq auth_stack_def [symmetric] by (intro default_stack_cong same2)
  from wr obtain k where k: "rs_wrapped w1 = Some k" by blast
  from run have run': "wrap_handler (rev (DefaultMiddlewareStack cx_logger)) configs (auth_stack D configs h) ctx r (d, w) = (out, (d', w'))"
    by (simp add: route_handler_eq auth_stack_def)
  from default_stack_effect [OF lg w same k run'] st
  have "d' = d1 \<and> rs_status w' \<in> {Some 302, Some 401, Some 403}"
    by (auto simp: error_status_def HttpUnauthorized_def HttpForbidden_def)
  with d1 eq run show ?thesis by metis
qed

theorem unentitled_request_refused_witness:
  "\<exists>out d' w'. route_handler demo_auth [AccessControlMiddlewareConfig 3]
      (\<lambda>ctx r (d, w). (Done, (d\<lparr>users_t := []\<rparr>, w))) \<lparr>cx_user = None, cx_logger = True, cx_clock = (\<lambda>_. 0), cx_random = id\<rparr>
      (plain_request ''GET'' ''/users'') (\<lparr>users_t = demo_table, sessions_t = []\<rparr>, new_response) =
        (out, (d', w' :: unit response)) \<and> users_t d' = demo_table \<and>
     rs_status w' \<in> {Some 302, Some 401, Some 403}"
proof -
  let ?ctx = "\<lparr>cx_user = None, cx_logger = True, cx_clock = (\<lambda>_. 0), cx_random = id\<rparr>"
  let ?r = "plain_request ''GET'' ''/users''" and ?d = "\<lparr>users_t = demo_table, sessions_t = []\<rparr>"
  let ?h = "(\<lambda>ctx r (d, w). (Done, (d\<lparr>users_t := []\<rparr>, w))) :: (unit, unit) auth_handler"
  let ?c = "[AccessControlMiddlewareConfig 3]"
  obtain out d' w' where run: "route_handler demo_auth ?c ?h ?ctx ?r (?d, new_response) = (out, (d', w'))"
    by (metis surj_pair)
  have none: "GetSession demo_auth (call_clock ?ctx 0) ?r demo_table [] = Inl (ErrorText ''no session id provided'')"
    by (simp add: GetSession_def getSessionIDFromCookie_def plain_request_def)
  have "\<not> entitled demo_auth ?c ?ctx ?r ?d"
    using none by (simp add: entitled_def required_level_def AccessControlMiddleware_Match_def authenticated_def
        AuthenticationMiddleware_Match_def)
  from unentitled_request_refused [OF this _ _ _ run] run none show ?thesis
    by (auto simp: new_response_def touched_def)
qed

text \<open>C12: to be entitled to a route that requires a level of at least 1, a request must prove to be from
  a live account of that level: by the account's name and password where the route uses basic auth,
  and otherwise by the token of a live session of that account that is at most 24 hours old and was
  used within the last hour.\<close>

theorem entitlement_needs_live_account:
  assumes D: "auth_deps_ok D" and ok: "entitled D configs ctx r d" and l: "required_level configs \<ge> 1"
    and cfg: "find AuthenticationMiddleware_Match configs = cfg"
      "case cfg of Some (AuthenticationMiddlewareConfig s b) \<Rightarrow> \<not> s | _ \<Rightarrow> True"
  shows "\<exists>u. u \<in> set (users_t d) \<and> DeletedAt u = None \<and> AccessLevel u \<ge> required_level configs \<and>
    (if cfg = Some (AuthenticationMiddlewareConfig False True)
     then \<exists>pw. BasicAuth r = Some (Username u, pw) \<and> CheckPassword (ud_bcrypt (ad_users D)) u pw = None
     else \<exists>row. row \<in> set (sessions_t d) \<and> SessionDeletedAt row = None \<and> UserID row = ID u \<and>
       SessionID row = strSHA256 (getSessionIDFromCookie r) \<and> fresh_session (call_clock ctx 0) row)"
proof -
  from ok l cfg(1) obtain u where u: "authenticated D cfg ctx r d = Some u" "AccessLevel u \<ge> required_level configs"
    by (auto simp: entitled_def split: option.splits)
  show ?thesis
  proof (cases "cfg = Some (AuthenticationMiddlewareConfig False True)")
    case True
    with u(1) obtain name pw where b: "BasicAuth r = Some (name, pw)"
      and g: "GetUserByUsername (ad_users D) (call_clock ctx 0 0) name (users_t d) = Inr u"
      and p: "CheckPassword (ud_bcrypt (ad_users D)) u pw = None"
      by (auto simp: authenticated_def checkUsernameAndPassword_def split: option.splits sum.splits)
    from by_name.found [OF auth_deps_okD(1) [OF D] g] b p u(2) True show ?thesis by auto
  next
    case False
    with u(1) cfg(2) obtain s where s: "GetSession D (call_clock ctx 0) r (users_t d) (sessions_t d) = Inr s"
      "u = SessionUser s"
      by (auto simp: authenticated_def split: option.splits sum.splits mw_config.splits bool.splits)
    have "u \<noteq> user_zero" using u(2) l by (auto simp: user_zero_def)
    with GetSession_Inr [OF D s(1)] s(2) obtain row where "row \<in> set (sessions_t d)" "SessionDeletedAt row = None"
      "SessionID row = strSHA256 (getSessionIDFromCookie r)" "fresh_session (call_clock ctx 0) row"
      "u \<in> set (users_t d)" "DeletedAt u = None" "ID u = UserID row" by metis
    with False u(2) show ?thesis by (auto intro!: exI [of _ u])
  qed
qed

definition demo_ctx :: req_context where
  "demo_ctx = \<lparr>cx_user = None, cx_logger = True, cx_clock = (\<lambda>_. 0), cx_random = id\<rparr>"

definition basic_request :: request where
  "basic_request = (plain_request ''GET'' ''/users'')\<lparr>BasicAuth := Some (''alice'', ''alice'')\<rparr>"

definition basic_route :: "mw_config list" where
  "basic_route = [AuthenticationMiddlewareConfig False True, AccessControlMiddlewareConfig 3]"

definition basic_db :: auth_db where
  "basic_db = \<lparr>users_t = [demo_user 1 ''alice'' 3], sessions_t = []\<rparr>"

lemma demo_basic_auth: "authenticated demo_auth (find AuthenticationMiddleware_Match basic_route) demo_ctx basic_request basic_db =
    Some (demo_user 1 ''alice'' 3)"
  by code_simp

lemma demo_entitled: "entitled demo_auth basic_route demo_ctx basic_request basic_db"
  unfolding entitled_def demo_basic_auth
  by (simp add: basic_route_def required_level_def AccessControlMiddleware_Match_def demo_user_def)

theorem entitlement_needs_live_account_witness:
  "\<exists>u pw. u \<in> set (users_t basic_db) \<and> BasicAuth basic_request = Some (Username u, pw) \<and>
     CheckPassword demo_bcrypt u pw = None"
  using entitlement_needs_live_account [OF _ demo_entitled, of "Some (AuthenticationMiddlewareConfig False True)"]
  by (auto simp: required_level_def basic_route_def AccessControlMiddleware_Match_def
      AuthenticationMiddleware_Match_def)

text \<open>The database a handler starts on.\<close>

definition before_handler ::
  "auth_deps \<Rightarrow> mw_config option \<Rightarrow> req_context \<Rightarrow> request \<Rightarrow> 'a auth_db_scheme \<Rightarrow> 'a auth_db_scheme" where
  "before_handler D config ctx r d =
     (case config of
        Some (AuthenticationMiddlewareConfig False True) \<Rightarrow> d
      | _ \<Rightarrow> touched D ctx r d)"

lemma entitled_request_handled:
  fixes h :: "('a, 'p) auth_handler"
  assumes ok: "entitled D configs ctx r d" and l: "required_level configs \<noteq> - 1"
    and cfg: "find AuthenticationMiddleware_Match configs = cfg"
      "case cfg of Some (AuthenticationMiddlewareConfig s b) \<Rightarrow> \<not> s | _ \<Rightarrow> True"
  shows "\<exists>u. authenticated D cfg ctx r d = Some u \<and> AccessLevel u \<ge> required_level configs \<and>
    route_handler D configs h ctx r (d, w) =
      wrap_handler (rev (DefaultMiddlewareStack cx_logger)) configs
        (\<lambda>_ r (_, w). h (CtxWithUser ctx u) r (before_handler D cfg ctx r d, w)) ctx r (d, w)"
proof -
  from ok l cfg(1) obtain u where u: "authenticated D cfg ctx r d = Some u"
    "AccessLevel u \<ge> required_level configs" and l0: "required_level configs \<noteq> 0"
    by (auto simp: entitled_def split: option.splits)
  have pass: "AccessControlMiddleware_Handler h (find AccessControlMiddleware_Match configs) (CtxWithUser ctx u) r s =
      h (CtxWithUser ctx u) r s" for s :: "'a auth_db_scheme \<times> 'p response"
    by (rule AccessControl_passed [OF refl refl l0]) (use u(2) in simp)
  have "auth_stack D configs h ctx r (d, w) = h (CtxWithUser ctx u) r (before_handler D cfg ctx r d, w)" for w
    using u(1) cfg(2) pass unfolding auth_stack_def cfg(1)
    by (auto simp: authenticated_def AuthenticationMiddleware_Handler_def handleHTTPBasicAuth_def before_handler_def
        touched_def Let_def split: option.splits mw_config.splits bool.splits sum.splits)
  then have "route_handler D configs h ctx r (d, w) =
      wrap_handler (rev (DefaultMiddlewareStack cx_logger)) configs
        (\<lambda>_ r (_, w). h (CtxWithUser ctx u) r (before_handler D cfg ctx r d, w)) ctx r (d, w)"
    unfolding route_handler_eq auth_stack_def [symmetric] by (intro default_stack_cong) auto
  with u show ?thesis by blast
qed

text \<open>C13: a request that is entitled to a route that uses cookies or basic auth reaches the route's
  handler, with the account that was proved in its context and the handler's outcome
  turned into the response by the default middlewares; nothing but the last use of the session has
  changed before.\<close>

theorem entitled_request_reaches_handler:
  fixes h :: "('a, 'p) auth_handler"
  assumes ok: "entitled D configs ctx r d" and l: "required_level configs \<noteq> - 1"
    and cfg: "find AuthenticationMiddleware_Match configs = cfg"
      "case cfg of Some (AuthenticationMiddlewareConfig s b) \<Rightarrow> \<not> s | _ \<Rightarrow> True"
  shows "\<exists>u. authenticated D cfg ctx r d = Some u \<and> AccessLevel u \<ge> required_level configs \<and>
    route_handler D configs h ctx r (d, w) =
      wrap_handler (rev (DefaultMiddlewareStack cx_logger)) configs
        (\<lambda>_ r (_, w). h (CtxWithUser ctx u) r (before_handler D cfg ctx r d, w)) ctx r (d, w)"
  by (rule entitled_request_handled [OF assms])

theorem entitled_request_reaches_handler_witness:
  "\<exists>out d' w'. route_handler demo_auth basic_route
      (\<lambda>ctx r (d, w). (Done, (d\<lparr>users_t := [the (GetUserFromCtx ctx)]\<rparr>, w))) demo_ctx basic_request
      (basic_db, new_response) = (out, (d', w' :: unit response)) \<and> users_t d' = [demo_user 1 ''alice'' 3]"
proof -
  let ?h = "(\<lambda>ctx r (d, w). (Done, (d\<lparr>users_t := [the (GetUserFromCtx ctx)]\<rparr>, w))) :: (unit, unit) auth_handler"
  from entitled_request_reaches_handler [OF demo_entitled, of "Some (AuthenticationMiddlewareConfig False True)" ?h new_response]
  have "route_handler demo_auth basic_route ?h demo_ctx basic_request (basic_db, new_response) =
      wrap_handler (rev (DefaultMiddlewareStack cx_logger)) basic_route
        (\<lambda>_ r (_, w). ?h (CtxWithUser demo_ctx (demo_user 1 ''alice'' 3)) r (basic_db, w)) demo_ctx basic_request (basic_db, new_response)"
    using demo_basic_auth
    by (simp add: required_level_def basic_route_def AccessControlMiddleware_Match_def
        AuthenticationMiddleware_Match_def before_handler_def)
  then show ?thesis
    by (simp add: default_stack_eq LogMiddleware_def ResponseHeaderMiddleware_def ErrorHandlerMiddleware_def demo_ctx_def)
qed

section \<open>Log-in\<close>

lemma sanitised_path:
  "prefix ''/'' (sanitiseRedirectPath p)" "\<not> prefix ''//'' (sanitiseRedirectPath p)"
  "\<not> prefix ''/auth'' (sanitiseRedirectPath p)" "length (sanitiseRedirectPath p) \<le> 500"
  by (auto simp: sanitiseRedirectPath_def)

lemma redirect_path_sane:
  "prefix ''/'' (redirectPathFromReq r)" "\<not> prefix ''//'' (redirectPathFromReq r)"
  "\<not> prefix ''/auth'' (redirectPathFromReq r)" "length (redirectPathFromReq r) \<le> 500"
  by (auto simp: redirectPathFromReq_def Let_def sanitised_path split: option.splits)

lemma escape_char_slash: "escape_char EncodePath (CHR ''/'') = ''/''"
  by code_simp

lemma escape_path_slash: "prefix ''/'' p \<Longrightarrow> prefix ''/'' (escape EncodePath p)"
  by (auto simp: prefix_def escape_def escape_char_slash)

lemma parse_rest_opaque:
  "parse_rest v rest = Some u \<Longrightarrow> Host v = '''' \<Longrightarrow> Opaque v = '''' \<Longrightarrow> Opaque u \<noteq> '''' \<Longrightarrow> Host u = ''''"
  unfolding parse_rest_def set_path_def Let_def
  by (simp split: if_splits option.splits prod.splits) auto

lemma parse_no_frag_opaque: "parse_no_frag s = Some u \<Longrightarrow> Opaque u \<noteq> '''' \<Longrightarrow> Host u = ''''"
  unfolding parse_no_frag_def Let_def
  by (simp split: if_splits option.splits prod.splits)
    (auto simp: empty_url_def elim: parse_rest_opaque)

lemma parsed_opaque: "url_Parse s = Some u \<Longrightarrow> Opaque u \<noteq> '''' \<Longrightarrow> Host u = ''''"
  unfolding url_Parse_def
  by (simp split: if_splits option.splits prod.splits) (auto dest: parse_no_frag_opaque)

text \<open>C20: wherever the redirect parameter of a log-in points, the address computed for the browser is
  the scheme and authority of the configured base URL followed by a slash, and the path asked for is
  at most 500 bytes, absolute, and leads neither to another host nor back to the log-in pages.\<close>

theorem login_redirect_stays_on_server:
  assumes "url_Parse baseURL = Some u" "Host u \<noteq> ''''"
  shows "(\<exists>rest. urlWithPath baseURL (redirectPathFromReq r) = Some (url_prefix u @ ''/'' @ rest)) \<and>
    prefix ''/'' (redirectPathFromReq r) \<and> \<not> prefix ''//'' (redirectPathFromReq r) \<and>
    \<not> prefix ''/auth'' (redirectPathFromReq r) \<and> length (redirectPathFromReq r) \<le> 500"
proof -
  let ?p = "redirectPathFromReq r"
  let ?v = "u\<lparr>Path := ?p\<rparr>"
  have op: "Opaque u = ''''" using parsed_opaque assms by blast
  have pre: "url_prefix ?v = url_prefix u" using assms(2) by (simp add: url_prefix_def)
  have "\<exists>rest. (if escaped_path ?v \<noteq> '''' \<and> \<not> prefix ''/'' (escaped_path ?v) then ''/'' else '''') @
      escaped_path ?v = CHR ''/'' # rest"
  proof (cases "escaped_path ?v = ''''")
    case True
    from escape_path_slash [OF redirect_path_sane(1), of r] redirect_path_sane(1) [of r] True show ?thesis
      by (auto simp: escaped_path_def split: if_splits)
  next
    case False
    then show ?thesis by (cases "escaped_path ?v") auto
  qed
  moreover have "url_prefix u \<noteq> ''''" using assms(2) by (auto simp: url_prefix_def)
  ultimately have "\<exists>rest. url_String ?v = url_prefix u @ ''/'' @ rest"
    using assms(2) op pre by (auto simp: url_String_def Let_def)
  then show ?thesis using assms(1) redirect_path_sane by (auto simp: urlWithPath_def)
qed

theorem login_redirect_stays_on_server_witness:
  "\<exists>rest. urlWithPath ''http://h'' (redirectPathFromReq
     ((plain_request ''POST'' ''/auth/login'')\<lparr>PostFormValue := (\<lambda>_. ''//evil.com/x'')\<rparr>)) =
     Some (''http://h/'' @ rest)"
proof -
  obtain u where u: "url_Parse ''http://h'' = Some u" "Host u = ''h''" "url_prefix u = ''http://h''"
    by (rule that [of "empty_url\<lparr>Scheme := ''http'', Host := ''h''\<rparr>"]) code_simp+
  with login_redirect_stays_on_server [OF u(1)] show ?thesis by auto
qed

text \<open>a log-in with an account's name and password starts a session for that account, hands out
  its cookie and redirects; any other log-in changes nothing and shows the form again with an error.\<close>

theorem login_starts_session:
  fixes d :: "'a auth_db_scheme" and w :: "page response"
  assumes run: "PostLoginHandler D baseURL ctx r (d, w) = (out, (d', w'))" and base: "url_Parse baseURL \<noteq> None"
    and fresh: "rs_status w = None" "\<not> rs_broken w"
  shows "(case checkUsernameAndPassword D (call_clock ctx 10 0) (PostFormValue r ''username'')
                (PostFormValue r ''password'') (users_t d) of
            Inl err \<Rightarrow> out = Done \<and> d' = d \<and> rs_cookies w' = rs_cookies w \<and> rs_status w' = Some 200 \<and>
              rs_body w' = rs_body w @ [Page (LoginPage (redirectPathFromReq r)
                ''Unknown username or password'' (QueryGet r ''logout'' = ''true''))]
          | Inr user \<Rightarrow> \<exists>cout t' w1.
              CreateSession D (call_clock ctx 11) (cx_random ctx 0) baseURL (ID user) (sessions_t d, w) =
                (cout, (t', w1)) \<and> out = cout \<and> d' = d\<lparr>sessions_t := t'\<rparr> \<and> rs_cookies w' = rs_cookies w1 \<and>
              (cout = Done \<longrightarrow> rs_status w' = Some (case rs_status w1 of None \<Rightarrow> 302 | Some c \<Rightarrow> c)))"
proof (cases "checkUsernameAndPassword D (call_clock ctx 10 0) (PostFormValue r ''username'')
                (PostFormValue r ''password'') (users_t d)")
  case (Inl e)
  with run fresh show ?thesis
    by (auto simp: PostLoginHandler_def renderLoginPage_def Render_def Let_def write_header_def write_body_def header_set_def)
next
  case (Inr user)
  obtain cout t' w1 where c: "CreateSession D (call_clock ctx 11) (cx_random ctx 0) baseURL (ID user) (sessions_t d, w) =
      (cout, (t', w1))" by (metis surj_pair)
  have cookies: "rs_cookies (http_Redirect r x k v) = rs_cookies v" for x k and v :: "page response"
    by (simp add: http_Redirect_def Let_def write_body_def write_header_def)
  from run Inr c base show ?thesis
    by (cases cout) (auto simp: PostLoginHandler_def urlWithPath_def cookies)
qed

theorem login_starts_session_witness:
  "\<exists>out d' w'. PostLoginHandler demo_auth ''http://h'' demo_ctx
       ((plain_request ''POST'' ''/auth/login'')\<lparr>PostFormValue := (\<lambda>_. ''alice'')\<rparr>) (basic_db, new_response) =
       (out, (d', w')) \<and> users_t d' = users_t basic_db \<and> checkUsernameAndPassword demo_auth (call_clock demo_ctx 10 0)
         ''alice'' ''alice'' (users_t basic_db) = Inr (demo_user 1 ''alice'' 3)"
proof -
  let ?r = "(plain_request ''POST'' ''/auth/login'')\<lparr>PostFormValue := (\<lambda>_. ''alice'')\<rparr>"
  obtain out d' w' where run: "PostLoginHandler demo_auth ''http://h'' demo_ctx ?r (basic_db, new_response) = (out, (d', w'))"
    by (metis surj_pair)
  have ok: "checkUsernameAndPassword demo_auth (call_clock demo_ctx 10 0) ''alice'' ''alice'' (users_t basic_db) =
      Inr (demo_user 1 ''alice'' 3)" by code_simp
  have base: "url_Parse ''http://h'' \<noteq> None" by code_simp
  show ?thesis
    using login_starts_session [OF run base] run ok by (auto simp: new_response_def)
qed

end
