(* ===== verification/HttpClient.thy ===== *)
theory HttpClient
  imports PodcastRows GoHttp
begin

text \<open>
  Logging and outgoing HTTP (\<^verbatim>\<open>pkg/framework/logging.go\<close>): loggers, the logger a context carries, and
  the transport that logs every request the program sends.  The network, the file \<^verbatim>\<open>/etc/machine-id\<close>
  and the error of closing a body are parameters.
\<close>

section \<open>Loggers\<close>

text \<open>The levels of \<^verbatim>\<open>log/slog\<close>.  A line is dropped when its level is below that of the logger.\<close>

abbreviation (input) LevelDebug :: int where "LevelDebug \<equiv> - 4"
abbreviation (input) LevelInfo :: int where "LevelInfo \<equiv> 0"
abbreviation (input) LevelWarn :: int where "LevelWarn \<equiv> 4"
abbreviation (input) LevelError :: int where "LevelError \<equiv> 8"

record logger =
  lg_level :: int
  lg_attrs :: "(string \<times> string) list"

type_synonym log_line = "int \<times> string \<times> (string \<times> string) list"

definition log_to :: "logger \<Rightarrow> int \<Rightarrow> string \<Rightarrow> (string \<times> string) list \<Rightarrow> log_line list \<Rightarrow> log_line list" where
  "log_to lg level msg attrs out =
     (if level \<ge> lg_level lg then out @ [(level, msg, lg_attrs lg @ attrs)] else out)"

definition GetHostID :: "string result \<Rightarrow> string" where
  "GetHostID machine_id = (case machine_id of Inl _ \<Rightarrow> ''unknown'' | Inr content \<Rightarrow> content)"

definition NewLogger :: "string result \<Rightarrow> string \<Rightarrow> string \<Rightarrow> string \<Rightarrow> int \<Rightarrow> logger" where
  "NewLogger machine_id appName envName version logLevel =
     \<lparr>lg_level = logLevel,
      lg_attrs = [(''app'', appName), (''env'', envName), (''version'', version),
                  (''host'', GetHostID machine_id)]\<rparr>"

text \<open>A context: nil, or one with or without a logger.\<close>

type_synonym log_context = "logger option option"

definition GetLogger :: "string result \<Rightarrow> log_context \<Rightarrow> logger" where
  "GetLogger machine_id ctx =
     (case ctx of
        None \<Rightarrow> NewLogger machine_id ''unknown'' ''unknown'' ''unknown'' LevelInfo
      | Some None \<Rightarrow> NewLogger machine_id ''unknown'' ''unknown'' ''unknown'' LevelInfo
      | Some (Some lg) \<Rightarrow> lg)"

definition ContextWithLogger :: "log_context \<Rightarrow> logger \<Rightarrow> log_context" where
  "ContextWithLogger ctx lg = Some (Some lg)"

lemma GetLogger_ContextWithLogger [simp]: "GetLogger m (ContextWithLogger ctx lg) = lg"
  by (simp add: GetLogger_def ContextWithLogger_def)

section \<open>Outgoing requests\<close>

text \<open>
  A GET over HTTP: an error, or a response with its status, its \<^verbatim>\<open>ContentLength\<close>, the bytes that can
  be read from its body and the error reading ends with, if it does not end at the end.
\<close>

record http_response =
  StatusCode :: int
  ContentLength :: int
  BodyData :: string
  BodyErr :: "go_error option"

type_synonym http_client = "time \<Rightarrow> PodcastCredentials option \<Rightarrow> string \<Rightarrow> http_response result"

text \<open>
  \<^verbatim>\<open>copyResBody\<close>: the text of the body, and the response with what can still be read from it.  When
  reading fails half way, what was read is gone; when closing fails, everything is.
\<close>

definition copyResBody :: "(http_response \<Rightarrow> go_error option) \<Rightarrow> http_response \<Rightarrow> string \<times> http_response" where
  "copyResBody close res =
     (case BodyErr res of
        Some err \<Rightarrow> (''unknown'', res\<lparr>BodyData := ''''\<rparr>)
      | None \<Rightarrow>
          (case close res of
             Some err \<Rightarrow> (''unknown'', res\<lparr>BodyData := '''',
               BodyErr := Some (ErrorText ''http: read on closed response body'')\<rparr>)
           | None \<Rightarrow> (let bodyContent = BodyData res in (bodyContent, res\<lparr>BodyData := bodyContent\<rparr>))))"

text \<open>
  What a \<^verbatim>\<open>RoundTrip\<close> takes from its surroundings: the error of closing a body, the machine's id, and
  the text of an error.
\<close>

record http_env =
  he_close :: "http_response \<Rightarrow> go_error option"
  he_machine_id :: "string result"
  he_error_text :: "go_error \<Rightarrow> string"

text \<open>\<^verbatim>\<open>Duration.Milliseconds\<close>, which rounds towards zero.\<close>

definition Milliseconds :: "duration \<Rightarrow> int" where
  "Milliseconds d = sgn d * (\<bar>d\<bar> div 1000000)"

record meteredTransport =
  transport :: http_client

text \<open>Requests are GET requests; the request's URL is shown as it was given.\<close>

definition RoundTrip ::
  "http_env \<Rightarrow> meteredTransport \<Rightarrow> log_context \<Rightarrow> (nat \<Rightarrow> time) \<Rightarrow> PodcastCredentials option \<Rightarrow> string \<Rightarrow>
   log_line list \<Rightarrow> http_response result \<times> log_line list" where
  "RoundTrip E t ctx cl creds url out =
     (let startTime = cl 0;
          answer = transport t (cl 1) creds url;
          timeTaken = time_Sub (cl 2) startTime;
          (errorContent, answer') =
            (case answer of
               Inl err \<Rightarrow> (he_error_text E err, answer)
             | Inr res \<Rightarrow>
                 if StatusCode res \<ge> 400 then
                   (let (resBody, res') = copyResBody (he_close E) res
                    in ((if length resBody \<le> 100 then resBody else take 100 resBody), Inr res'))
                 else ('''', answer));
          statusCode = (case answer' of Inl _ \<Rightarrow> 0 | Inr res \<Rightarrow> StatusCode res)
      in (answer',
          log_to (GetLogger (he_machine_id E) ctx) LevelInfo ''outbound HTTP request''
            [(''method'', ''GET''), (''url'', url), (''status'', show_int statusCode),
             (''timeTaken'', show_int (Milliseconds timeTaken)),
             (''errorContent'', errorContent)] out))"

definition NewHTTPTransport :: "http_client \<Rightarrow> meteredTransport" where
  "NewHTTPTransport t = \<lparr>transport = t\<rparr>"

text \<open>The client of a package: the transport and the time a request may take.\<close>

definition NewHTTPClient :: "http_client \<Rightarrow> duration \<Rightarrow> meteredTransport \<times> duration" where
  "NewHTTPClient DefaultTransport timeout = (NewHTTPTransport DefaultTransport, timeout)"

section \<open>What a caller sees\<close>

text \<open>The client the packages get: the answers of the logging transport.\<close>

definition metered :: "http_env \<Rightarrow> log_context \<Rightarrow> meteredTransport \<Rightarrow> (time \<Rightarrow> nat \<Rightarrow> time) \<Rightarrow> http_client" where
  "metered E ctx t cls = (\<lambda>now creds url. fst (RoundTrip E t ctx (cls now) creds url []))"

lemma copyResBody_status: "copyResBody close res = (b, res') \<Longrightarrow> StatusCode res' = StatusCode res"
  by (auto simp: copyResBody_def Let_def split: option.splits)

lemma copyResBody_complete:
  "BodyErr res = None \<Longrightarrow> close res = None \<Longrightarrow> copyResBody close res = (BodyData res, res)"
  by (simp add: copyResBody_def)

lemma RoundTrip_answer:
  "fst (RoundTrip E t ctx cl creds url out) =
     (case transport t (cl 1) creds url of
        Inl err \<Rightarrow> Inl err
      | Inr res \<Rightarrow>
          Inr (if StatusCode res \<ge> 400 then snd (copyResBody (he_close E) res) else res))"
  by (simp add: RoundTrip_def Let_def split: sum.splits prod.splits)

end
