(* ===== verification/GoRoot.thy ===== *)
theory GoRoot
  imports GoPath
begin

text \<open>
  A directory of the file system as the program sees it through \<^verbatim>\<open>os.Root\<close> (Go's standard library):
  the operations \<^verbatim>\<open>Mkdir\<close>, \<^verbatim>\<open>Create\<close>, \<^verbatim>\<open>Open\<close>, \<^verbatim>\<open>Stat\<close> and the writing of a file.  The object storage
  and the encryption key live in such directories.
\<close>

section \<open>A directory\<close>

text \<open>
  What \<^verbatim>\<open>os.Root\<close> gives access to: a tree of directories and files below the root, without symbolic
  links; the root itself has the empty path.  A name that leads out of the root is refused.  The
  faults of the disk are a parameter (opening a directory, which no name the program builds refers to,
  is counted as an error): per call an error, and for a write the number of bytes that
  were written before it.
\<close>

datatype node = Directory | File string

type_synonym fs = "string list \<Rightarrow> node option"

record disk =
  dk_mkdir :: "time \<Rightarrow> go_error option"
  dk_create :: "time \<Rightarrow> go_error option"
  dk_open :: "time \<Rightarrow> go_error option"
  dk_write :: "time \<Rightarrow> (nat \<times> go_error) option"
  dk_stat :: "time \<Rightarrow> go_error option"
  dk_sync :: "time \<Rightarrow> go_error option"
  dk_cwd :: "string list"

definition healthy_disk :: disk where
  "healthy_disk = \<lparr>dk_mkdir = (\<lambda>_. None), dk_create = (\<lambda>_. None), dk_open = (\<lambda>_. None),
     dk_write = (\<lambda>_. None), dk_stat = (\<lambda>_. None), dk_sync = (\<lambda>_. None), dk_cwd = []\<rparr>"

lemma healthy_disk_simps [simp]:
  "dk_mkdir healthy_disk now = None" "dk_create healthy_disk now = None" "dk_open healthy_disk now = None"
  "dk_write healthy_disk now = None" "dk_stat healthy_disk now = None" "dk_sync healthy_disk now = None"
  "dk_cwd healthy_disk = []"
  by (simp_all add: healthy_disk_def)

definition node_at :: "fs \<Rightarrow> string list \<Rightarrow> node option" where
  "node_at d p = (if p = [] then Some Directory else d p)"

definition root_path :: "string \<Rightarrow> string list option" where
  "root_path name =
     (if name = '''' \<or> prefix ''/'' name then None
      else
        (let p = clean_elems False [] (split_char (CHR ''/'') name)
         in if p \<noteq> [] \<and> hd p = ''..'' then None else Some p))"

definition Root_Mkdir :: "disk \<Rightarrow> time \<Rightarrow> string \<Rightarrow> fs \<Rightarrow> go_error option \<times> fs" where
  "Root_Mkdir K now name d =
     (case root_path name of
        None \<Rightarrow> (Some (ErrorText ''path escapes from parent''), d)
      | Some p \<Rightarrow>
          (case dk_mkdir K now of
             Some err \<Rightarrow> (Some err, d)
           | None \<Rightarrow>
               if node_at d p \<noteq> None then (Some (Wrapped ''mkdir: '' (Sentinel ErrExist)), d)
               else if node_at d (butlast p) \<noteq> Some Directory
               then (Some (ErrorText ''no such file or directory''), d)
               else (None, d(p \<mapsto> Directory))))"

definition Root_Create :: "disk \<Rightarrow> time \<Rightarrow> string \<Rightarrow> fs \<Rightarrow> (string list) result \<times> fs" where
  "Root_Create K now name d =
     (case root_path name of
        None \<Rightarrow> (Inl (ErrorText ''path escapes from parent''), d)
      | Some p \<Rightarrow>
          (case dk_create K now of
             Some err \<Rightarrow> (Inl err, d)
           | None \<Rightarrow>
               if node_at d p = Some Directory then (Inl (ErrorText ''is a directory''), d)
               else if node_at d (butlast p) \<noteq> Some Directory
               then (Inl (ErrorText ''no such file or directory''), d)
               else (Inr p, d(p \<mapsto> File ''''))))"

definition Root_Open :: "disk \<Rightarrow> time \<Rightarrow> string \<Rightarrow> fs \<Rightarrow> string result" where
  "Root_Open K now name d =
     (case root_path name of
        None \<Rightarrow> Inl (ErrorText ''path escapes from parent'')
      | Some p \<Rightarrow>
          (case dk_open K now of
             Some err \<Rightarrow> Inl err
           | None \<Rightarrow>
               (case node_at d p of
                  None \<Rightarrow> Inl (Wrapped ''open: '' (Sentinel ErrNotExist))
                | Some Directory \<Rightarrow> Inl (ErrorText ''is a directory'')
                | Some (File data) \<Rightarrow> Inr data)))"

definition Root_Stat :: "disk \<Rightarrow> time \<Rightarrow> string \<Rightarrow> fs \<Rightarrow> unit result" where
  "Root_Stat K now name d =
     (case root_path name of
        None \<Rightarrow> Inl (ErrorText ''path escapes from parent'')
      | Some p \<Rightarrow>
          (case dk_stat K now of
             Some err \<Rightarrow> Inl err
           | None \<Rightarrow>
               if node_at d p = None then Inl (Wrapped ''statat: '' (Sentinel ErrNotExist)) else Inr ()))"

text \<open>Writing all of a newly created file with one call; a fault leaves a part of it behind.\<close>

definition File_Write :: "disk \<Rightarrow> time \<Rightarrow> string list \<Rightarrow> string \<Rightarrow> fs \<Rightarrow> go_error option \<times> fs" where
  "File_Write K now p data d =
     (case dk_write K now of
        Some (k, err) \<Rightarrow> (Some err, d(p \<mapsto> File (take k data)))
      | None \<Rightarrow> (None, d(p \<mapsto> File data)))"

section \<open>The file system of the machine\<close>

text \<open>
  The whole tree of the machine has the same type; a relative path starts at the working directory.
  A root is the path of its directory, and what is done through it happens in the subtree.
\<close>

definition abs_path :: "disk \<Rightarrow> string \<Rightarrow> string list" where
  "abs_path K path =
     (let es = split_char (CHR ''/'') path
      in clean_elems True [] (if prefix ''/'' path then es else dk_cwd K @ es))"

definition subtree :: "string list \<Rightarrow> fs \<Rightarrow> fs" where
  "subtree base d = (\<lambda>q. d (base @ q))"

definition graft :: "string list \<Rightarrow> fs \<Rightarrow> fs \<Rightarrow> fs" where
  "graft base e d = (\<lambda>p. if prefix base p then e (drop (length base) p) else d p)"

definition in_root :: "string list \<Rightarrow> (fs \<Rightarrow> 'a \<times> fs) \<Rightarrow> fs \<Rightarrow> 'a \<times> fs" where
  "in_root base op d = (case op (subtree base d) of (r, e) \<Rightarrow> (r, graft base e d))"

lemma subtree_graft [simp]: "subtree base (graft base e d) = e"
  by (simp add: subtree_def graft_def)

lemma graft_subtree [simp]: "graft base (subtree base d) d = d"
  by (auto simp: subtree_def graft_def fun_eq_iff prefix_def)

text \<open>\<^verbatim>\<open>os.MkdirAll\<close>: every directory on the way, the outermost first.\<close>

fun mkdir_all :: "disk \<Rightarrow> time \<Rightarrow> string list \<Rightarrow> string list \<Rightarrow> fs \<Rightarrow> go_error option \<times> fs" where
  "mkdir_all K now done [] d = (None, d)"
| "mkdir_all K now done (e # es) d =
     (let p = done @ [e]
      in (case d p of
            Some Directory \<Rightarrow> mkdir_all K now p es d
          | Some (File _) \<Rightarrow> (Some (ErrorText ''mkdir: not a directory''), d)
          | None \<Rightarrow>
              (case dk_mkdir K now of
                 Some err \<Rightarrow> (Some err, d)
               | None \<Rightarrow> mkdir_all K now p es (d(p \<mapsto> Directory)))))"

definition os_MkdirAll :: "disk \<Rightarrow> time \<Rightarrow> string \<Rightarrow> fs \<Rightarrow> go_error option \<times> fs" where
  "os_MkdirAll K now path d =
     (if path = '''' then (Some (ErrorText ''mkdir: no such file or directory''), d)
      else mkdir_all K now [] (abs_path K path) d)"

definition os_OpenRoot :: "disk \<Rightarrow> time \<Rightarrow> string \<Rightarrow> fs \<Rightarrow> (string list) result" where
  "os_OpenRoot K now path d =
     (case dk_open K now of
        Some err \<Rightarrow> Inl err
      | None \<Rightarrow>
          if node_at d (abs_path K path) = Some Directory then Inr (abs_path K path)
          else Inl (ErrorText ''open: not a directory''))"

text \<open>\<^verbatim>\<open>mkdir_all\<close> leaves files alone, and does nothing when the directory is there.\<close>

lemma mkdir_all_keeps: "d q = Some n \<Longrightarrow> snd (mkdir_all K now dn es d) q = Some n"
proof (induction K now dn es d rule: mkdir_all.induct)
  case (2 K now dn e es d)
  show ?case
  proof (cases "d (dn @ [e])")
    case None
    with 2 have "q \<noteq> dn @ [e]" by auto
    with 2 None show ?thesis
      by (simp add: Let_def fun_upd_other del: fun_upd_apply split: option.split)
  next
    case (Some n')
    with 2 show ?thesis by (cases n') (auto simp: Let_def)
  qed
qed simp

lemma mkdir_all_done:
  "fst (mkdir_all K now dn es d) = None \<Longrightarrow> node_at d dn = Some Directory \<Longrightarrow>
   node_at (snd (mkdir_all K now dn es d)) (dn @ es) = Some Directory"
proof (induction K now dn es d rule: mkdir_all.induct)
  case (2 K now dn e es d)
  then show ?case
    by (cases "d (dn @ [e])"; cases "dk_mkdir K now")
       (simp_all add: Let_def node_at_def fun_upd_same del: fun_upd_apply split: node.splits)
qed (simp add: node_at_def)

lemma mkdir_all_again:
  assumes "fst (mkdir_all K now dn es d) = None"
    and "\<And>p. (snd (mkdir_all K now dn es d)) p = Some Directory \<Longrightarrow> d' p = Some Directory"
  shows "mkdir_all K' now' dn es d' = (None, d')"
  using assms
proof (induction K now dn es d rule: mkdir_all.induct)
  case (2 K now dn e es d)
  consider (new) "d (dn @ [e]) = None" "dk_mkdir K now = None" | (old) "d (dn @ [e]) = Some Directory"
    using 2(3) by (auto simp: Let_def split: option.splits node.splits)
  then show ?case
  proof cases
    case new
    have "snd (mkdir_all K now (dn @ [e]) es (d(dn @ [e] \<mapsto> Directory))) (dn @ [e]) = Some Directory"
      by (rule mkdir_all_keeps) simp
    with 2(4) new have "d' (dn @ [e]) = Some Directory" by (simp add: Let_def)
    moreover have "mkdir_all K' now' (dn @ [e]) es d' = (None, d')"
      using 2(1) [OF refl new(1) new(2)] 2(3,4) new by (simp add: Let_def del: fun_upd_apply)
    ultimately show ?thesis by (simp add: Let_def)
  next
    case old
    have "snd (mkdir_all K now (dn @ [e]) es d) (dn @ [e]) = Some Directory"
      by (rule mkdir_all_keeps) (rule old)
    with 2(4) old have "d' (dn @ [e]) = Some Directory" by (simp add: Let_def)
    moreover have "mkdir_all K' now' (dn @ [e]) es d' = (None, d')"
      using 2(2) [OF refl old refl] 2(3,4) old by (simp add: Let_def)
    ultimately show ?thesis by (simp add: Let_def)
  qed
qed simp

end
