(* ===== verification/GoServe.thy ===== *)
theory GoServe
  imports GoHttp GoText
begin

text \<open>
  \<^verbatim>\<open>http.ServeContent\<close> of Go's standard library as the program calls it: without a name and with the zero
  modification time, so that the conditions on dates (\<^verbatim>\<open>If-Modified-Since\<close>, \<^verbatim>\<open>If-Unmodified-Since\<close>) do
  not apply.  The conditions on entity tags, the ranges of bytes and the response with several of them
  follow the library's own functions.  The sniffing of the content type and the random boundary are
  arguments.
\<close>

section \<open>Headers\<close>

definition header_get :: "string \<Rightarrow> 'p response \<Rightarrow> string" where
  "header_get k w = (case find (\<lambda>h. fst h = k) (rs_headers w) of None \<Rightarrow> '''' | Some h \<Rightarrow> snd h)"

definition header_del :: "string \<Rightarrow> 'p response \<Rightarrow> 'p response" where
  "header_del k w =
     (if rs_status w = None then w\<lparr>rs_headers := filter (\<lambda>h. fst h \<noteq> k) (rs_headers w)\<rparr> else w)"

lemma header_del_simps [simp]:
  "rs_status (header_del k w) = rs_status w" "rs_body (header_del k w) = rs_body w"
  by (simp_all add: header_del_def)

lemma header_set_body [simp]: "rs_body (header_set k v w) = rs_body w"
  by (simp add: header_set_def)

lemma write_header_body [simp]: "rs_body (write_header code w) = rs_body w"
  by (simp add: write_header_def)

text \<open>\<^verbatim>\<open>textproto.TrimString\<close>.\<close>

definition is_space :: "char \<Rightarrow> bool" where
  "is_space c \<longleftrightarrow> byte c = 32 \<or> byte c = 9 \<or> byte c = 10 \<or> byte c = 13"

definition TrimString :: "string \<Rightarrow> string" where
  "TrimString s = rev (dropWhile is_space (rev (dropWhile is_space s)))"

lemma TrimString_length: "length (TrimString s) \<le> length s"
  unfolding TrimString_def using length_dropWhile_le [of is_space "rev (dropWhile is_space s)"]
    length_dropWhile_le [of is_space s] by simp

section \<open>Entity tags\<close>

text \<open>The text of a tag up to its closing quote, and what follows.\<close>

fun scan_quoted :: "string \<Rightarrow> (string \<times> string) option" where
  "scan_quoted [] = None"
| "scan_quoted (c # s) =
     (if byte c = 34 then Some ([c], s)
      else if byte c = 33 \<or> (35 \<le> byte c \<and> byte c \<le> 126) \<or> 128 \<le> byte c
      then map_option (\<lambda>(t, r). (c # t, r)) (scan_quoted s)
      else None)"

definition scanETag :: "string \<Rightarrow> (string \<times> string) option" where
  "scanETag s =
     (let s = TrimString s;
          weak = (if prefix ''W/'' s then ''W/'' else '''');
          body = drop (length weak) s
      in if length body < 2 \<or> byte (hd body) \<noteq> 34 then None
         else map_option (\<lambda>(t, r). (weak @ hd body # t, r)) (scan_quoted (tl body)))"

lemma scan_quoted_length: "scan_quoted s = Some (t, r) \<Longrightarrow> length r < length s"
  by (induction s arbitrary: t) (auto split: if_splits)

lemma scanETag_length: "scanETag s = Some (t, r) \<Longrightarrow> length r < length s"
  using TrimString_length [of s]
  by (auto simp: scanETag_def Let_def split: if_splits dest!: scan_quoted_length)

definition etagStrongMatch :: "string \<Rightarrow> string \<Rightarrow> bool" where
  "etagStrongMatch a b \<longleftrightarrow> a = b \<and> a \<noteq> '''' \<and> byte (hd a) = 34"

definition trim_weak :: "string \<Rightarrow> string" where
  "trim_weak s = (if prefix ''W/'' s then drop 2 s else s)"

definition etagWeakMatch :: "string \<Rightarrow> string \<Rightarrow> bool" where
  "etagWeakMatch a b \<longleftrightarrow> trim_weak a = trim_weak b"

text \<open>
  The loop of \<^verbatim>\<open>checkIfMatch\<close> and \<^verbatim>\<open>checkIfNoneMatch\<close> over a list of tags: whether one is a star or
  matches.
\<close>

function etag_listed :: "(string \<Rightarrow> bool) \<Rightarrow> string \<Rightarrow> bool" where
  "etag_listed matches buf =
     (case TrimString buf of
        [] \<Rightarrow> False
      | c # rest \<Rightarrow>
          if c = CHR '','' then etag_listed matches rest
          else if c = CHR ''*'' then True
          else (case scanETag (c # rest) of
                  None \<Rightarrow> False
                | Some (etag, remain) \<Rightarrow> if matches etag then True else etag_listed matches remain))"
  by pat_completeness auto
termination
proof (relation "measure (length \<circ> snd)", goal_cases)
  case (2 matches buf c rest)
  then show ?case using TrimString_length [of buf] by simp
next
  case (3 matches buf c rest p etag remain)
  then show ?case using TrimString_length [of buf] scanETag_length [of "c # rest" etag remain] by simp
qed simp

declare etag_listed.simps [simp del]

datatype condResult = condNone | condTrue | condFalse

definition checkIfMatch :: "request \<Rightarrow> 'p response \<Rightarrow> condResult" where
  "checkIfMatch r w =
     (let im = HeaderGet r ''If-Match''
      in if im = '''' then condNone
         else if etag_listed (\<lambda>etag. etagStrongMatch etag (header_get ''Etag'' w)) im then condTrue
         else condFalse)"

definition checkIfNoneMatch :: "request \<Rightarrow> 'p response \<Rightarrow> condResult" where
  "checkIfNoneMatch r w =
     (let inm = HeaderGet r ''If-None-Match''
      in if inm = '''' then condNone
         else if etag_listed (\<lambda>etag. etagWeakMatch etag (header_get ''Etag'' w)) inm then condFalse
         else condTrue)"

definition checkIfRange :: "request \<Rightarrow> 'p response \<Rightarrow> condResult" where
  "checkIfRange r w =
     (let ir = HeaderGet r ''If-Range''
      in if (Method r \<noteq> ''GET'' \<and> Method r \<noteq> ''HEAD'') \<or> ir = '''' then condNone
         else (case scanETag ir of
                 Some (etag, _) \<Rightarrow>
                   if etagStrongMatch etag (header_get ''Etag'' w) then condTrue else condFalse
               | None \<Rightarrow> condFalse))"

definition writeNotModified :: "'p response \<Rightarrow> 'p response" where
  "writeNotModified w =
     (let w1 = header_del ''Content-Encoding'' (header_del ''Content-Length'' (header_del ''Content-Type'' w));
          w2 = (if header_get ''Etag'' w1 \<noteq> '''' then header_del ''Last-Modified'' w1 else w1)
      in write_header 304 w2)"

text \<open>\<^verbatim>\<open>checkPreconditions\<close>: the response when it is done, or else the range to serve.\<close>

definition checkPreconditions :: "request \<Rightarrow> 'p response \<Rightarrow> 'p response + string" where
  "checkPreconditions r w =
     (if checkIfMatch r w = condFalse then Inl (write_header 412 w)
      else if checkIfNoneMatch r w = condFalse then
        Inl (if Method r = ''GET'' \<or> Method r = ''HEAD'' then writeNotModified w else write_header 412 w)
      else
        (let rangeHeader = HeaderGet r ''Range''
         in Inr (if rangeHeader \<noteq> '''' \<and> checkIfRange r w = condFalse then '''' else rangeHeader)))"

section \<open>Ranges\<close>

definition ParseInt64 :: "string \<Rightarrow> int option" where
  "ParseInt64 s =
     (let neg = prefix ''-'' s; ds = (if prefix ''-'' s \<or> prefix ''+'' s then tl s else s)
      in if \<not> all_digits ds then None
         else (let n = int (digits_val 0 ds); i = (if neg then - n else n)
               in if sat64 i = i then Some i else None))"

record httpRange =
  rg_start :: nat
  rg_length :: nat

datatype range_error = InvalidRange | NoOverlap

text \<open>One element of the list: a range, or \<open>None\<close> when it begins after the end of the content.\<close>

definition parse_one_range :: "nat \<Rightarrow> string \<Rightarrow> range_error + httpRange option" where
  "parse_one_range sz ra =
     (if CHR ''-'' \<notin> set ra then Inl InvalidRange
      else (case cut (CHR ''-'') ra of (start0, end0) \<Rightarrow>
        (let start = TrimString start0; end1 = TrimString end0
         in if start = '''' then
              (if end1 = '''' \<or> prefix ''-'' end1 then Inl InvalidRange
               else (case ParseInt64 end1 of
                       None \<Rightarrow> Inl InvalidRange
                     | Some i \<Rightarrow>
                         if i < 0 then Inl InvalidRange
                         else (let i = min (nat i) sz
                               in Inr (Some \<lparr>rg_start = sz - i, rg_length = i\<rparr>))))
            else (case ParseInt64 start of
                    None \<Rightarrow> Inl InvalidRange
                  | Some i \<Rightarrow>
                      if i < 0 then Inl InvalidRange
                      else if nat i \<ge> sz then Inr None
                      else if end1 = '''' then Inr (Some \<lparr>rg_start = nat i, rg_length = sz - nat i\<rparr>)
                      else (case ParseInt64 end1 of
                              None \<Rightarrow> Inl InvalidRange
                            | Some j \<Rightarrow>
                                if i > j then Inl InvalidRange
                                else (let j = min (nat j) (sz - 1)
                                      in Inr (Some \<lparr>rg_start = nat i, rg_length = j - nat i + 1\<rparr>)))))))"

text \<open>The loop of \<^verbatim>\<open>parseRange\<close>: the ranges, and whether one of them began after the end.\<close>

fun parse_ranges :: "nat \<Rightarrow> string list \<Rightarrow> range_error + (bool \<times> httpRange list)" where
  "parse_ranges sz [] = Inr (False, [])"
| "parse_ranges sz (ra # ras) =
     (if TrimString ra = '''' then parse_ranges sz ras
      else (case parse_one_range sz (TrimString ra) of
              Inl err \<Rightarrow> Inl err
            | Inr res \<Rightarrow>
                (case parse_ranges sz ras of
                   Inl err \<Rightarrow> Inl err
                 | Inr (noOverlap, ranges) \<Rightarrow>
                     (case res of
                        None \<Rightarrow> Inr (True, ranges)
                      | Some rg \<Rightarrow> Inr (noOverlap, rg # ranges)))))"

definition parseRange :: "string \<Rightarrow> nat \<Rightarrow> range_error + httpRange list" where
  "parseRange s sz =
     (if s = '''' then Inr []
      else if \<not> prefix ''bytes='' s then Inl InvalidRange
      else (case parse_ranges sz (split_char (CHR '','') (drop 6 s)) of
              Inl err \<Rightarrow> Inl err
            | Inr (noOverlap, ranges) \<Rightarrow>
                if noOverlap \<and> ranges = [] then Inl NoOverlap else Inr ranges))"

definition contentRange :: "httpRange \<Rightarrow> nat \<Rightarrow> string" where
  "contentRange r sz =
     ''bytes '' @ show_nat (rg_start r) @ ''-'' @ show_int (int (rg_start r + rg_length r) - 1) @ ''/'' @ show_nat sz"

definition range_of :: "string \<Rightarrow> httpRange \<Rightarrow> string" where
  "range_of data r = take (rg_length r) (drop (rg_start r) data)"

text \<open>Several ranges: the parts as \<^verbatim>\<open>multipart.Writer\<close> writes them.\<close>

definition CRLF :: string where "CRLF = [CHR 0x0D, CHR 0x0A]"

definition multipart_part :: "string \<Rightarrow> string \<Rightarrow> string \<Rightarrow> httpRange \<Rightarrow> string" where
  "multipart_part boundary ctype data r =
     ''--'' @ boundary @ CRLF @ ''Content-Range: '' @ contentRange r (length data) @ CRLF @
     ''Content-Type: '' @ ctype @ CRLF @ CRLF @ range_of data r"

definition multipart_body :: "string \<Rightarrow> string \<Rightarrow> string \<Rightarrow> httpRange list \<Rightarrow> string" where
  "multipart_body boundary ctype data ranges =
     strings_Join (map (multipart_part boundary ctype data) ranges) CRLF @ CRLF @ ''--'' @ boundary @ ''--'' @ CRLF"

section \<open>Serving\<close>

definition serveError :: "string \<Rightarrow> int \<Rightarrow> 'p response \<Rightarrow> 'p response" where
  "serveError err code w =
     (let w1 = fold header_del [''Cache-Control'', ''Content-Encoding'', ''Etag'', ''Last-Modified'', ''Content-Length''] w;
          w2 = header_set ''X-Content-Type-Options'' ''nosniff''
                 (header_set ''Content-Type'' ''text/plain; charset=utf-8'' w1)
      in write_body (Bytes (err @ [CHR 0x0A])) (write_header code w2))"

text \<open>What is sent: the status, the headers set for it and the bytes.\<close>

definition send_content ::
  "request \<Rightarrow> string \<Rightarrow> string \<Rightarrow> string \<Rightarrow> httpRange list \<Rightarrow> 'p response \<Rightarrow> 'p response" where
  "send_content r boundary ctype data ranges w =
     (case (case ranges of
              [] \<Rightarrow> (200, data, w)
            | [ra] \<Rightarrow> (206, range_of data ra, header_set ''Content-Range'' (contentRange ra (length data)) w)
            | _ \<Rightarrow> (206, multipart_body boundary ctype data ranges,
                     header_set ''Content-Type'' (''multipart/byteranges; boundary='' @ boundary) w)) of
        (code, sent, w1) \<Rightarrow>
          (let w2 = header_set ''Accept-Ranges'' ''bytes'' w1;
               w3 = (if ranges \<noteq> [] \<or> header_get ''Content-Encoding'' w2 = ''''
                     then header_set ''Content-Length'' (show_nat (length sent)) w2 else w2);
               w4 = write_header code w3
           in if Method r = ''HEAD'' then w4 else write_body (Bytes sent) w4))"

definition http_ServeContent ::
  "(string \<Rightarrow> string) \<Rightarrow> string \<Rightarrow> request \<Rightarrow> string \<Rightarrow> 'p response \<Rightarrow> 'p response" where
  "http_ServeContent sniff boundary r data w =
     (case checkPreconditions r w of
        Inl w' \<Rightarrow> w'
      | Inr rangeReq \<Rightarrow>
          (let haveType = list_ex (\<lambda>h. fst h = ''Content-Type'') (rs_headers w);
               ctype = (if haveType then header_get ''Content-Type'' w else sniff data);
               w1 = (if haveType then w else header_set ''Content-Type'' ctype w);
               sz = length data;
               send = (\<lambda>ranges. send_content r boundary ctype data
                 (if sum_list (map rg_length ranges) > sz then [] else ranges) w1)
           in (case parseRange rangeReq sz of
                 Inr ranges \<Rightarrow> send ranges
               | Inl InvalidRange \<Rightarrow> serveError ''invalid range'' 416 w1
               | Inl NoOverlap \<Rightarrow>
                   if sz = 0 then send []
                   else serveError ''invalid range: failed to overlap'' 416
                          (header_set ''Content-Range'' (''bytes */'' @ show_nat sz) w1))))"

section \<open>What is served\<close>

text \<open>A request without conditions and without a range.\<close>

definition unconditional :: "request \<Rightarrow> bool" where
  "unconditional r \<longleftrightarrow> HeaderGet r ''If-Match'' = '''' \<and> HeaderGet r ''If-None-Match'' = ''''"

lemma checkPreconditions_unconditional:
  "unconditional r \<Longrightarrow> HeaderGet r ''If-Range'' = '''' \<or> HeaderGet r ''Range'' = '''' \<Longrightarrow>
   checkPreconditions r w = Inr (HeaderGet r ''Range'')"
  by (auto simp: unconditional_def checkPreconditions_def checkIfMatch_def checkIfNoneMatch_def checkIfRange_def)

lemma send_content_simps [simp]:
  "Method r \<noteq> ''HEAD'' \<Longrightarrow> rs_body (send_content r b ct data [] w) = rs_body w @ [Bytes data]"
  "Method r \<noteq> ''HEAD'' \<Longrightarrow> rs_body (send_content r b ct data [ra] w) = rs_body w @ [Bytes (range_of data ra)]"
  "rs_status (send_content r b ct data [] w) = Some (case rs_status w of None \<Rightarrow> 200 | Some c \<Rightarrow> c)"
  "rs_status (send_content r b ct data [ra] w) = Some (case rs_status w of None \<Rightarrow> 206 | Some c \<Rightarrow> c)"
  by (simp_all add: send_content_def Let_def write_body_def split: option.split)

lemma ServeContent_whole:
  assumes "unconditional r" "HeaderGet r ''Range'' = ''''"
  shows "Method r \<noteq> ''HEAD'' \<Longrightarrow> rs_body (http_ServeContent sniff b r data w) = rs_body w @ [Bytes data]"
    "rs_status w = None \<Longrightarrow> rs_status (http_ServeContent sniff b r data w) = Some 200"
  using assms by (simp_all add: http_ServeContent_def checkPreconditions_unconditional parseRange_def Let_def)

lemma etag_listed_star: "etag_listed f ''*''"
  by (subst etag_listed.simps) (simp add: TrimString_def is_space_def byte_def)

lemma ServeContent_not_modified:
  assumes "HeaderGet r ''If-Match'' = ''''" "HeaderGet r ''If-None-Match'' = ''*''" "Method r = ''GET''"
  shows "rs_body (http_ServeContent sniff b r data w) = rs_body w"
    "rs_status w = None \<Longrightarrow> rs_status (http_ServeContent sniff b r data w) = Some 304"
  using assms by (simp_all add: http_ServeContent_def checkPreconditions_def checkIfMatch_def checkIfNoneMatch_def
      etag_listed_star writeNotModified_def Let_def)

subsection \<open>A range of bytes\<close>

lemma digit_char: "n < 10 \<Longrightarrow> is_digit (char_of (48 + n))" "n < 10 \<Longrightarrow> digit_val (char_of (48 + n)) = n"
  by (simp_all add: is_digit_def digit_val_def byte_def)

lemma digits_val_append: "digits_val acc (xs @ [c]) = 10 * digits_val acc xs + digit_val c"
  by (induction xs arbitrary: acc) simp_all

lemma show_nat_digits: "show_nat n \<noteq> [] \<and> list_all is_digit (show_nat n) \<and> digits_val 0 (show_nat n) = n"
proof (induction n rule: show_nat.induct)
  case (1 n)
  show ?case
  proof (cases "n < 10")
    case True
    then show ?thesis using digit_char [of n] by (simp add: show_nat.simps [of n])
  next
    case False
    with 1 digit_char [of "n mod 10"] show ?thesis
      by (simp add: show_nat.simps [of n] digits_val_append)
  qed
qed

lemma digit_plain: "is_digit c \<Longrightarrow> c \<noteq> CHR ''-'' \<and> c \<noteq> CHR ''+'' \<and> c \<noteq> CHR '','' \<and> \<not> is_space c"
  by (auto simp: is_digit_def byte_def is_space_def)

lemma show_nat_chars: "c \<in> set (show_nat n) \<Longrightarrow> c \<noteq> CHR ''-'' \<and> c \<noteq> CHR ''+'' \<and> c \<noteq> CHR '','' \<and> \<not> is_space c"
  using show_nat_digits [of n] digit_plain by (auto simp: list_all_iff)

lemma TrimString_id: "\<forall>c \<in> set s. \<not> is_space c \<Longrightarrow> TrimString s = s"
  by (simp add: TrimString_def dropWhile_eq_self_iff hd_in_set flip: dropWhile_eq_self_iff)
    (metis dropWhile_eq_self_iff hd_in_set rev_rev_ident set_rev)

lemma ParseInt64_show: "int n \<le> max_int64 \<Longrightarrow> ParseInt64 (show_nat n) = Some (int n)"
proof -
  assume n: "int n \<le> max_int64"
  have "\<not> prefix ''-'' (show_nat n)" "\<not> prefix ''+'' (show_nat n)"
    using show_nat_chars [of "CHR ''-''" n] show_nat_chars [of "CHR ''+''" n] by (auto simp: prefix_def)
  with show_nat_digits [of n] n show ?thesis by (simp add: ParseInt64_def all_digits_def Let_def sat64_def)
qed

lemma parseRange_single:
  assumes "a \<le> b" "b < sz" "int b \<le> max_int64"
  shows "parseRange (''bytes='' @ show_nat a @ ''-'' @ show_nat b) sz = Inr [\<lparr>rg_start = a, rg_length = b - a + 1\<rparr>]"
proof -
  let ?s = "show_nat a @ ''-'' @ show_nat b"
  have plain: "\<forall>c \<in> set ?s. c \<noteq> CHR '','' \<and> \<not> is_space c"
    using show_nat_chars [of _ a] show_nat_chars [of _ b] by (auto simp: is_space_def byte_def)
  have split: "split_char (CHR '','') s = [s]" if "CHR '','' \<notin> set s" for s
    using that by (induction s) auto
  have "split_char (CHR '','') ?s = [?s]" by (rule split) (use plain in blast)
  moreover have "TrimString ?s = ?s" by (rule TrimString_id) (use plain in blast)
  moreover have "cut (CHR ''-'') ?s = (show_nat a, show_nat b)"
    using show_nat_chars [of _ a] by (auto simp: cut_def takeWhile_append dropWhile_append)
  moreover have "TrimString (show_nat n) = show_nat n" for n
    by (rule TrimString_id) (use show_nat_chars in blast)
  ultimately show ?thesis
    using assms show_nat_digits [of a] show_nat_digits [of b]
    by (simp add: parseRange_def parse_one_range_def ParseInt64_show Let_def)
qed

lemma ServeContent_range:
  assumes "unconditional r" "HeaderGet r ''If-Range'' = ''''"
    and "HeaderGet r ''Range'' = ''bytes='' @ show_nat a @ ''-'' @ show_nat b"
    and "a \<le> b" "b < length data" "int b \<le> max_int64"
  shows "Method r \<noteq> ''HEAD'' \<Longrightarrow> rs_body (http_ServeContent sniff bd r data w) = rs_body w @ [Bytes (take (b - a + 1) (drop a data))]"
    "rs_status w = None \<Longrightarrow> rs_status (http_ServeContent sniff bd r data w) = Some 206"
proof -
  have pre: "checkPreconditions r w = Inr (HeaderGet r ''Range'')"
    using checkPreconditions_unconditional [of r w] assms(1,2) by simp
  have rng: "parseRange (HeaderGet r ''Range'') (length data) = Inr [\<lparr>rg_start = a, rg_length = b - a + 1\<rparr>]"
    unfolding assms(3) by (rule parseRange_single [OF assms(4-6)])
  have len: "\<not> length data < Suc (b - a)" using assms(5) by simp
  show "Method r \<noteq> ''HEAD'' \<Longrightarrow> rs_body (http_ServeContent sniff bd r data w) = rs_body w @ [Bytes (take (b - a + 1) (drop a data))]"
    "rs_status w = None \<Longrightarrow> rs_status (http_ServeContent sniff bd r data w) = Some 206"
    using len by (simp_all add: http_ServeContent_def pre rng Let_def range_of_def)
qed

end
