(* ===== verification/ObjectStorage.thy ===== *)
theory ObjectStorage
  imports Podcasts Util HttpClient GoRoot GoServe
begin

text \<open>
  The package \<^verbatim>\<open>pkg/objectstorage\<close> (\<^verbatim>\<open>driver.go\<close>, \<^verbatim>\<open>local.go\<close>, \<^verbatim>\<open>s3.go\<close>): where downloaded files are kept.
  The network and the S3 client are parameters; the directory the local driver works in is that of
  GoRoot.  The locale \<open>object_storage\<close> is the contract the
  rest of the program has with a driver, and both drivers are shown to fulfil it.
\<close>

section \<open>The interface\<close>

text \<open>\<^verbatim>\<open>driver.go\<close>.  A storage keeps its objects in a state of type \<open>'o\<close>.\<close>

record ('o, 'p) ObjectStorage =
  SaveRemoteFile ::
    "(nat \<Rightarrow> time) \<Rightarrow> PodcastCredentials option \<Rightarrow> string \<Rightarrow> string \<Rightarrow> string \<Rightarrow> 'o \<Rightarrow> int result \<times> 'o"
  ServeFile ::
    "(nat \<Rightarrow> time) \<Rightarrow> request \<Rightarrow> string \<Rightarrow> string \<Rightarrow> 'o \<Rightarrow> 'p response \<Rightarrow> outcome \<times> 'p response"

text \<open>The part the drivers share: building the request, sending it and looking at the status.\<close>

definition http_download ::
  "http_client \<Rightarrow> time \<Rightarrow> PodcastCredentials option \<Rightarrow> string \<Rightarrow> http_response result" where
  "http_download client now creds remoteLocation =
     (if url_Parse remoteLocation = None then Inl (ErrorText ''parse'')
      else
        (case client now creds remoteLocation of
           Inl err \<Rightarrow> Inl err
         | Inr resp \<Rightarrow>
             if StatusCode resp < 200 \<or> StatusCode resp \<ge> 300
             then Inl (ErrorText (''failed to download file with status '' @ quoted (show_int (StatusCode resp))))
             else Inr resp))"

section \<open>Local storage\<close>

text \<open>\<^verbatim>\<open>io.Copy\<close> of a response body into a newly created file.\<close>

definition io_Copy_file :: "disk \<Rightarrow> time \<Rightarrow> string list \<Rightarrow> http_response \<Rightarrow> fs \<Rightarrow> int result \<times> fs" where
  "io_Copy_file K now p resp d =
     (case dk_write K now of
        Some (k, err) \<Rightarrow> (Inl err, d(p \<mapsto> File (take k (BodyData resp))))
      | None \<Rightarrow>
          ((case BodyErr resp of
              Some err \<Rightarrow> Inl err
            | None \<Rightarrow> Inr (int (length (BodyData resp)))),
           d(p \<mapsto> File (BodyData resp))))"

text \<open>The sniffing of a content type and the random boundaries of \<^verbatim>\<open>http.ServeContent\<close> are parameters.\<close>

record LocalObjectStorage =
  lo_client :: http_client
  lo_disk :: disk
  lo_boundary :: "request \<Rightarrow> string"
  lo_sniff :: "string \<Rightarrow> string"

definition mkdirIfNotExists :: "disk \<Rightarrow> time \<Rightarrow> string \<Rightarrow> fs \<Rightarrow> go_error option \<times> fs" where
  "mkdirIfNotExists K now dir d =
     (case Root_Mkdir K now dir d of
        (None, d') \<Rightarrow> (None, d')
      | (Some err, d') \<Rightarrow> if errors_is ErrExist err then (None, d') else (Some err, d'))"

definition Local_SaveRemoteFile ::
  "LocalObjectStorage \<Rightarrow> (nat \<Rightarrow> time) \<Rightarrow> PodcastCredentials option \<Rightarrow> string \<Rightarrow> string \<Rightarrow> string \<Rightarrow>
   fs \<Rightarrow> int result \<times> fs" where
  "Local_SaveRemoteFile s cl creds remoteLocation podcastGUID fileName d =
     (case ValidateExtURL remoteLocation of
        Some err \<Rightarrow> (Inl (Wrapped (''invalid remoteLocation '' @ quoted remoteLocation @ '': '') err), d)
      | None \<Rightarrow>
          (case mkdirIfNotExists (lo_disk s) (cl 0) podcastGUID d of
             (Some err, d1) \<Rightarrow> (Inl err, d1)
           | (None, d1) \<Rightarrow>
               (let localPath = path_Join podcastGUID fileName
                in (case Root_Create (lo_disk s) (cl 1) localPath d1 of
                      (Inl err, d2) \<Rightarrow> (Inl err, d2)
                    | (Inr f, d2) \<Rightarrow>
                        (case http_download (lo_client s) (cl 2) creds remoteLocation of
                           Inl err \<Rightarrow> (Inl err, d2)
                         | Inr resp \<Rightarrow> io_Copy_file (lo_disk s) (cl 3) f resp d2)))))"

definition Local_ServeFile ::
  "LocalObjectStorage \<Rightarrow> (nat \<Rightarrow> time) \<Rightarrow> request \<Rightarrow> string \<Rightarrow> string \<Rightarrow> fs \<Rightarrow> 'p response \<Rightarrow>
   outcome \<times> 'p response" where
  "Local_ServeFile s cl r podcastGUID fileName d w =
     (case Root_Open (lo_disk s) (cl 0) (path_Join podcastGUID fileName) d of
        Inl err \<Rightarrow> (Fail err, w)
      | Inr data \<Rightarrow> (Done, http_ServeContent (lo_sniff s) (lo_boundary s r) r data w))"

definition local_storage :: "LocalObjectStorage \<Rightarrow> (fs, 'p) ObjectStorage" where
  "local_storage s = \<lparr>SaveRemoteFile = Local_SaveRemoteFile s, ServeFile = Local_ServeFile s\<rparr>"

section \<open>S3 storage\<close>

text \<open>
  The client of the bucket's service is a parameter; \<open>s3_bucket\<close> states what is relied on: an object
  that was uploaded can be read until the same key is uploaded again, and an upload that fails
  leaves the objects as they were.
\<close>

record 'o s3_client =
  s3_Upload :: "time \<Rightarrow> string \<Rightarrow> string \<Rightarrow> string \<times> go_error option \<Rightarrow> 'o \<Rightarrow> go_error option \<times> 'o"
  s3_GetObject :: "time \<Rightarrow> string \<Rightarrow> string \<Rightarrow> 'o \<Rightarrow> (string \<times> go_error option) result"

record 'o S3ObjectStorage =
  s3_http :: http_client
  s3_api :: "'o s3_client"
  s3_BucketName :: string
  s3_Prefix :: string

definition s3Key :: "string \<Rightarrow> string \<Rightarrow> string" where
  "s3Key podcastGUID fileName = podcastGUID @ ''/'' @ fileName"

definition S3_SaveRemoteFile ::
  "'o S3ObjectStorage \<Rightarrow> (nat \<Rightarrow> time) \<Rightarrow> PodcastCredentials option \<Rightarrow> string \<Rightarrow> string \<Rightarrow> string \<Rightarrow>
   'o \<Rightarrow> int result \<times> 'o" where
  "S3_SaveRemoteFile s cl creds remoteLocation podcastGUID fileName d =
     (case ValidateExtURL remoteLocation of
        Some err \<Rightarrow> (Inl (Wrapped (''invalid remoteLocation '' @ quoted remoteLocation @ '': '') err), d)
      | None \<Rightarrow>
          (case http_download (s3_http s) (cl 0) creds remoteLocation of
             Inl err \<Rightarrow> (Inl err, d)
           | Inr resp \<Rightarrow>
               (case s3_Upload (s3_api s) (cl 1) (s3_BucketName s)
                       (s3_Prefix s @ s3Key podcastGUID fileName) (BodyData resp, BodyErr resp) d of
                  (Some err, d') \<Rightarrow> (Inl err, d')
                | (None, d') \<Rightarrow> (Inr (ContentLength resp), d'))))"

definition S3_ServeFile ::
  "'o S3ObjectStorage \<Rightarrow> (nat \<Rightarrow> time) \<Rightarrow> request \<Rightarrow> string \<Rightarrow> string \<Rightarrow> 'o \<Rightarrow> 'p response \<Rightarrow>
   outcome \<times> 'p response" where
  "S3_ServeFile s cl r podcastGUID fileName d w =
     (case s3_GetObject (s3_api s) (cl 0) (s3_BucketName s)
             (s3_Prefix s @ s3Key podcastGUID fileName) d of
        Inl err \<Rightarrow> (Fail err, w)
      | Inr (data, readErr) \<Rightarrow>
          if rs_broken w then (Fail (ErrorText ''write failed''), w)
          else
            (case readErr of
               Some err \<Rightarrow> (Fail err, write_body (Bytes data) w)
             | None \<Rightarrow> (Done, write_body (Bytes data) w)))"

definition s3_storage :: "'o S3ObjectStorage \<Rightarrow> ('o, 'p) ObjectStorage" where
  "s3_storage s = \<lparr>SaveRemoteFile = S3_SaveRemoteFile s, ServeFile = S3_ServeFile s\<rparr>"

section \<open>The contract of a driver\<close>

text \<open>
  What a client may rely on.  \<open>content\<close> is the abstract content of a file, \<open>remote\<close> what an address
  delivers at an instant.  Names are path elements, as \<^verbatim>\<open>SanitiseGUID\<close> makes them.
\<close>

locale object_storage =
  fixes save :: "(nat \<Rightarrow> time) \<Rightarrow> PodcastCredentials option \<Rightarrow> string \<Rightarrow> string \<Rightarrow> string \<Rightarrow> 'o \<Rightarrow> int result \<times> 'o"
    and serve :: "(nat \<Rightarrow> time) \<Rightarrow> request \<Rightarrow> string \<Rightarrow> string \<Rightarrow> 'o \<Rightarrow> 'p response \<Rightarrow> outcome \<times> 'p response"
    and content :: "'o \<Rightarrow> string \<Rightarrow> string \<Rightarrow> string option"
    and remote :: "time \<Rightarrow> PodcastCredentials option \<Rightarrow> string \<Rightarrow> string option"
  assumes save_external: "save cl creds url g f d = (Inr n, d') \<Longrightarrow> ValidateExtURL url = None"
    and save_refused: "ValidateExtURL url \<noteq> None \<Longrightarrow> snd (save cl creds url g f d) = d"
    and save_content:
      "plain_elem g \<Longrightarrow> plain_elem f \<Longrightarrow> save cl creds url g f d = (Inr n, d') \<Longrightarrow>
       \<exists>now data. remote now creds url = Some data \<and> content d' g f = Some data"
    and save_others:
      "plain_elem g \<Longrightarrow> plain_elem f \<Longrightarrow> plain_elem g' \<Longrightarrow> plain_elem f' \<Longrightarrow> (g', f') \<noteq> (g, f) \<Longrightarrow>
       content (snd (save cl creds url g f d)) g' f' = content d g' f'"
    and serve_content:
      "plain_elem g \<Longrightarrow> plain_elem f \<Longrightarrow> Method r = ''GET'' \<Longrightarrow> unconditional r \<Longrightarrow> HeaderGet r ''Range'' = '''' \<Longrightarrow>
       serve cl r g f d w = (Done, w') \<Longrightarrow>
       \<exists>data. content d g f = Some data \<and> rs_body w' = rs_body w @ [Bytes data]"
begin

text \<open>A file stays what it was saved as through any saves of other files.\<close>

lemma saves_of_others:
  assumes "plain_elem g" "plain_elem f"
    "\<forall>(cl, creds, url, g', f') \<in> set ops. plain_elem g' \<and> plain_elem f' \<and> (g', f') \<noteq> (g, f)"
  shows "content (fold (\<lambda>(cl, creds, url, g', f') d. snd (save cl creds url g' f' d)) ops d) g f =
    content d g f"
  using assms(3)
proof (induction ops arbitrary: d)
  case (Cons op ops)
  obtain cl creds url g' f' where op: "op = (cl, creds, url, g', f')" by (cases op)
  with Cons.prems have "plain_elem g'" "plain_elem f'" "(g, f) \<noteq> (g', f')" by auto
  from save_others [OF this(1,2) assms(1,2) this(3)] Cons op show ?case by simp
qed simp

lemma saved_stays:
  assumes "plain_elem g" "plain_elem f" "save cl creds url g f d = (Inr n, d1)"
    "\<forall>(cl, creds, url, g', f') \<in> set ops. plain_elem g' \<and> plain_elem f' \<and> (g', f') \<noteq> (g, f)"
  shows "\<exists>now data. remote now creds url = Some data \<and>
    content (fold (\<lambda>(cl, creds, url, g', f') d. snd (save cl creds url g' f' d)) ops d1) g f = Some data"
  using save_content [OF assms(1-3)] saves_of_others [OF assms(1,2,4)] by simp

lemma saved_then_served:
  assumes "plain_elem g" "plain_elem f" "save cl creds url g f d = (Inr n, d1)"
    "\<forall>(cl, creds, url, g', f') \<in> set ops. plain_elem g' \<and> plain_elem f' \<and> (g', f') \<noteq> (g, f)"
    "serve cl' r g f (fold (\<lambda>(cl, creds, url, g', f') d. snd (save cl creds url g' f' d)) ops d1) w = (Done, w')"
    "Method r = ''GET''" "unconditional r" "HeaderGet r ''Range'' = ''''"
  shows "\<exists>now data. remote now creds url = Some data \<and> rs_body w' = rs_body w @ [Bytes data]"
  using saved_stays [OF assms(1-4)] serve_content [OF assms(1,2,6-8,5)] by auto

end

definition downloaded :: "http_client \<Rightarrow> time \<Rightarrow> PodcastCredentials option \<Rightarrow> string \<Rightarrow> string option" where
  "downloaded client now creds url =
     (case http_download client now creds url of
        Inl err \<Rightarrow> None
      | Inr resp \<Rightarrow> if BodyErr resp = None then Some (BodyData resp) else None)"

subsection \<open>The local driver fulfils it\<close>

definition local_content :: "fs \<Rightarrow> string \<Rightarrow> string \<Rightarrow> string option" where
  "local_content d g f = (case d [g, f] of Some (File data) \<Rightarrow> Some data | _ \<Rightarrow> None)"

lemma root_path_plain [simp]:
  assumes "plain_elem g"
  shows "root_path g = Some [g]"
  using assms plain_not_rooted [OF assms, of "''''"]
  by (auto simp: root_path_def plain_elem_def split_char_absent)

lemma root_path_Join [simp]:
  assumes "plain_elem g" "plain_elem f"
  shows "root_path (path_Join g f) = Some [g, f]"
  using assms plain_not_rooted [OF assms(1), of "''/'' @ f"]
  by (auto simp: root_path_def path_Join_plain plain_elem_def split_char_append split_char_absent)

lemma mkdirIfNotExists_plain:
  assumes "plain_elem g" "mkdirIfNotExists K now g d = (err, d')"
  shows "d' = d \<or> (d' = d([g] \<mapsto> Directory) \<and> d [g] = None)"
  using assms by (auto simp: mkdirIfNotExists_def Root_Mkdir_def node_at_def split: option.splits if_splits)

lemma Root_Create_plain:
  assumes "plain_elem g" "plain_elem f" "Root_Create K now (path_Join g f) d = (res, d')"
  shows "case res of Inl err \<Rightarrow> d' = d
    | Inr p \<Rightarrow> p = [g, f] \<and> d' = d([g, f] \<mapsto> File '''') \<and> d [g, f] \<noteq> Some Directory"
  using assms by (auto simp: Root_Create_def node_at_def split: option.splits if_splits)

lemma Local_SaveRemoteFile_effect:
  assumes plain: "plain_elem g" "plain_elem f" and run: "Local_SaveRemoteFile s cl creds url g f d = (res, d')"
  shows "p \<noteq> [g] \<Longrightarrow> p \<noteq> [g, f] \<Longrightarrow> d' p = d p"
    and "d' [g] = d [g] \<or> (d [g] = None \<and> d' [g] = Some Directory)"
    and "d' [g, f] = d [g, f] \<or> (d [g, f] \<noteq> Some Directory \<and> (\<exists>data. d' [g, f] = Some (File data)))"
proof -
  have "(\<forall>p. p \<noteq> [g] \<longrightarrow> p \<noteq> [g, f] \<longrightarrow> d' p = d p) \<and> (d' [g] = d [g] \<or> (d [g] = None \<and> d' [g] = Some Directory)) \<and>
    (d' [g, f] = d [g, f] \<or> (d [g, f] \<noteq> Some Directory \<and> (\<exists>data. d' [g, f] = Some (File data))))"
  proof (cases "ValidateExtURL url")
    case (Some e)
    with run show ?thesis by (simp add: Local_SaveRemoteFile_def)
  next
    case None
    obtain e1 d1 where m: "mkdirIfNotExists (lo_disk s) (cl 0) g d = (e1, d1)" by fastforce
    obtain res2 d2 where c: "Root_Create (lo_disk s) (cl 1) (path_Join g f) d1 = (res2, d2)" by fastforce
    from run None m c have "d' = d1 \<or> d' = d2 \<or> (\<exists>p data. res2 = Inr p \<and> d' = d2(p \<mapsto> File data))"
      by (auto simp: Local_SaveRemoteFile_def Let_def io_Copy_file_def split: option.splits sum.splits)
    with mkdirIfNotExists_plain [OF plain(1) m] Root_Create_plain [OF plain c] show ?thesis
      by (cases res2) auto
  qed
  then show "p \<noteq> [g] \<Longrightarrow> p \<noteq> [g, f] \<Longrightarrow> d' p = d p"
    and "d' [g] = d [g] \<or> (d [g] = None \<and> d' [g] = Some Directory)"
    and "d' [g, f] = d [g, f] \<or> (d [g, f] \<noteq> Some Directory \<and> (\<exists>data. d' [g, f] = Some (File data)))"
    by auto
qed

lemma Local_SaveRemoteFile_Inr:
  assumes plain: "plain_elem g" "plain_elem f" and run: "Local_SaveRemoteFile s cl creds url g f d = (Inr n, d')"
  shows "\<exists>data. downloaded (lo_client s) (cl 2) creds url = Some data \<and> d' [g, f] = Some (File data) \<and>
    n = int (length data)"
  using run Root_Create_plain [OF plain]
  by (fastforce simp: Local_SaveRemoteFile_def Let_def io_Copy_file_def downloaded_def
      split: option.splits sum.splits prod.splits)

text \<open>On a disk without faults a save and a read succeed.\<close>

lemma Local_SaveRemoteFile_healthy:
  assumes "plain_elem g" "plain_elem f" "lo_disk s = healthy_disk" "ValidateExtURL url = None"
    "downloaded (lo_client s) (cl 2) creds url = Some data"
    "d [g] = None \<or> d [g] = Some Directory" "d [g, f] \<noteq> Some Directory"
  shows "Local_SaveRemoteFile s cl creds url g f d =
    (Inr (int (length data)), d([g] \<mapsto> Directory, [g, f] \<mapsto> File data))"
proof -
  from assms(5) obtain resp where "http_download (lo_client s) (cl 2) creds url = Inr resp"
    "BodyErr resp = None" "BodyData resp = data"
    by (auto simp: downloaded_def split: sum.splits if_splits)
  moreover have "mkdirIfNotExists healthy_disk (cl 0) g d = (None, d([g] \<mapsto> Directory))"
    using assms(1,6) by (auto simp: mkdirIfNotExists_def Root_Mkdir_def healthy_disk_def node_at_def fun_upd_idem)
  ultimately show ?thesis
    using assms by (auto simp: Local_SaveRemoteFile_def Let_def Root_Create_def node_at_def io_Copy_file_def
        healthy_disk_def)
qed

lemma Local_ServeFile_healthy:
  assumes "plain_elem g" "plain_elem f" "lo_disk s = healthy_disk" "d [g, f] = Some (File data)"
  shows "Local_ServeFile s cl r g f d w = (Done, http_ServeContent (lo_sniff s) (lo_boundary s r) r data w)"
  using assms by (simp add: Local_ServeFile_def Root_Open_def node_at_def healthy_disk_def)

lemma Local_ServeFile_content:
  assumes "plain_elem g" "plain_elem f" "Local_ServeFile s cl r g f d w = (Done, w')"
  shows "\<exists>data. local_content d g f = Some data \<and> w' = http_ServeContent (lo_sniff s) (lo_boundary s r) r data w"
  using assms by (auto simp: Local_ServeFile_def Root_Open_def node_at_def local_content_def
      split: option.splits node.splits)

lemma Local_ServeFile_reads:
  assumes "plain_elem g" "plain_elem f" "dk_open (lo_disk s) (cl 0) = None" "local_content d g f = Some data"
  shows "Local_ServeFile s cl r g f d w = (Done, http_ServeContent (lo_sniff s) (lo_boundary s r) r data w)"
  using assms by (auto simp: Local_ServeFile_def Root_Open_def node_at_def local_content_def
      split: option.splits node.splits)

interpretation local_driver: object_storage "Local_SaveRemoteFile s" "Local_ServeFile s" local_content
  "downloaded (lo_client s)" for s
proof (unfold_locales, goal_cases)
  case (1 cl creds url g f d n d')
  then show ?case by (auto simp: Local_SaveRemoteFile_def split: option.splits)
next
  case (2 url cl creds g f d)
  then show ?case by (auto simp: Local_SaveRemoteFile_def)
next
  case (3 g f cl creds url d n d')
  from Local_SaveRemoteFile_Inr [OF this] show ?case by (force simp: local_content_def)
next
  case (4 g f g' f' cl creds url d)
  obtain res d' where "Local_SaveRemoteFile s cl creds url g f d = (res, d')" by fastforce
  from Local_SaveRemoteFile_effect(1) [OF 4(1,2) this, of "[g', f']"] this 4(5) show ?case
    by (auto simp: local_content_def)
next
  case (5 g f r cl d w w')
  from Local_ServeFile_content [OF 5(1,2,6)] ServeContent_whole(1) [OF 5(4,5)] 5(3) show ?case by auto
qed

subsection \<open>The S3 driver fulfils it\<close>

locale s3_bucket =
  fixes s :: "'o S3ObjectStorage"
    and held :: "'o \<Rightarrow> string \<Rightarrow> string \<Rightarrow> string option"
  assumes upload_ok:
      "s3_Upload (s3_api s) now b k (data, rerr) d = (None, d') \<Longrightarrow>
       rerr = None \<and> held d' b' k' = (if b' = b \<and> k' = k then Some data else held d b' k')"
    and upload_failed:
      "s3_Upload (s3_api s) now b k body d = (Some e, d') \<Longrightarrow> held d' = held d"
    and get_object:
      "s3_GetObject (s3_api s) now b k d = Inr (data, None) \<Longrightarrow> held d b k = Some data"

sublocale s3_bucket \<subseteq> s3_driver: object_storage "S3_SaveRemoteFile s" "S3_ServeFile s"
  "\<lambda>d g f. held d (s3_BucketName s) (s3_Prefix s @ s3Key g f)" "downloaded (s3_http s)"
proof (unfold_locales, goal_cases)
  case (1 cl creds url g f d n d')
  then show ?case by (auto simp: S3_SaveRemoteFile_def split: option.splits)
next
  case (2 url cl creds g f d)
  then show ?case by (auto simp: S3_SaveRemoteFile_def)
next
  case (3 g f cl creds url d n d')
  from 3(3) obtain resp where r: "http_download (s3_http s) (cl 0) creds url = Inr resp"
    and u: "s3_Upload (s3_api s) (cl 1) (s3_BucketName s) (s3_Prefix s @ s3Key g f)
      (BodyData resp, BodyErr resp) d = (None, d')"
    by (auto simp: S3_SaveRemoteFile_def split: option.splits sum.splits prod.splits)
  from r upload_ok [OF u] show ?case by (auto simp: downloaded_def intro!: exI [of _ "cl 0"])
next
  case (4 g f g' f' cl creds url d)
  have key: "s3Key g' f' \<noteq> s3Key g f"
    using 4 takeWhile_tail [of "\<lambda>c. c \<noteq> CHR ''/''"]
    by (auto simp: s3Key_def plain_elem_def append_eq_append_conv2 append_eq_Cons_conv Cons_eq_append_conv)
  show ?case
  proof (cases "ValidateExtURL url")
    case None
    show ?thesis
    proof (cases "http_download (s3_http s) (cl 0) creds url")
      case (Inr resp)
      obtain e d' where u: "s3_Upload (s3_api s) (cl 1) (s3_BucketName s) (s3_Prefix s @ s3Key g f)
          (BodyData resp, BodyErr resp) d = (e, d')" by fastforce
      with None Inr have "snd (S3_SaveRemoteFile s cl creds url g f d) = d'"
        by (auto simp: S3_SaveRemoteFile_def split: option.splits)
      with u key upload_ok [of "cl 1" _ _ _ _ d d' "s3_BucketName s" "s3_Prefix s @ s3Key g' f'"]
      show ?thesis by (cases e) (auto dest!: upload_failed)
    qed (simp add: None S3_SaveRemoteFile_def)
  qed (simp add: S3_SaveRemoteFile_def)
next
  case (5 g f r cl d w w')
  then show ?case
    by (auto simp: S3_ServeFile_def write_body_def split: option.splits sum.splits if_splits dest!: get_object)
qed

context s3_bucket
begin

lemmas s3_saved_then_served = s3_driver.saved_then_served

end

end
