(* ===== verification/ObjectStorageProps.thy ===== *)
theory ObjectStorageProps
  imports ObjectStorage
begin

text \<open>
  The properties of object storage: what was saved is what is served, for both drivers, and the
  local driver touches nothing but the one file it saves.
\<close>

section \<open>Demonstration instances\<close>

definition demo_http :: http_client where
  "demo_http = (\<lambda>now creds url. Inr \<lparr>StatusCode = 200, ContentLength = -1, BodyData = ''sound'', BodyErr = None\<rparr>)"

definition failing_http :: http_client where
  "failing_http = (\<lambda>now creds url. Inr \<lparr>StatusCode = 404, ContentLength = 0, BodyData = '''', BodyErr = None\<rparr>)"

definition demo_local :: "http_client \<Rightarrow> LocalObjectStorage" where
  "demo_local client = \<lparr>lo_client = client, lo_disk = healthy_disk, lo_boundary = (\<lambda>_. ''boundary''),
     lo_sniff = (\<lambda>_. ''application/octet-stream'')\<rparr>"

definition demo_s3_client :: "(string \<times> string \<Rightarrow> string option) s3_client" where
  "demo_s3_client =
     \<lparr>s3_Upload = (\<lambda>now b k (data, rerr) d.
        case rerr of Some e \<Rightarrow> (Some e, d) | None \<Rightarrow> (None, d((b, k) \<mapsto> data))),
      s3_GetObject = (\<lambda>now b k d.
        case d (b, k) of None \<Rightarrow> Inl (ErrorText ''NoSuchKey'') | Some data \<Rightarrow> Inr (data, None))\<rparr>"

definition demo_s3 :: "(string \<times> string \<Rightarrow> string option) S3ObjectStorage" where
  "demo_s3 = \<lparr>s3_http = demo_http, s3_api = demo_s3_client, s3_BucketName = ''bucket'', s3_Prefix = ''pre''\<rparr>"

interpretation demo_bucket: s3_bucket demo_s3 "\<lambda>d b k. d (b, k)"
  by unfold_locales (auto simp: demo_s3_def demo_s3_client_def split: option.splits)

lemma demo_plain [simp]: "plain_elem ''g''" "plain_elem ''h''" "plain_elem ''f.mp3''"
  by (auto simp: plain_elem_def)

lemma demo_external [simp]: "ValidateExtURL ''https://a.org/f.mp3'' = None" "url_Parse ''https://a.org/f.mp3'' \<noteq> None"
  by code_simp+

section \<open>Round trip\<close>

text \<open>C28: with the local driver, a file that was saved is served as it was downloaded, whatever other
  files have been saved since, successfully or not: as long as the disk lets it be opened, a plain GET is answered with 200 and all of its bytes, a
  GET for a range of its bytes with 206 and exactly those; a client that wants the file only if
  there is none (If-None-Match with a star) is told 304 and gets no bytes.\<close>

theorem saved_file_is_served_locally:
  assumes "plain_elem g" "plain_elem f" "Local_SaveRemoteFile s cl creds url g f d = (Inr n, d1)"
    "\<forall>(cl, creds, url, g', f') \<in> set ops. plain_elem g' \<and> plain_elem f' \<and> (g', f') \<noteq> (g, f)"
    "dk_open (lo_disk s) (cl' 0) = None" "Local_ServeFile s cl' r g f
       (fold (\<lambda>(cl, creds, url, g', f') d. snd (Local_SaveRemoteFile s cl creds url g' f' d)) ops d1) w = (out, w')"
    "Method r = ''GET''" "rs_status w = None"
  shows "out = Done \<and> (\<exists>now data. downloaded (lo_client s) now creds url = Some data \<and>
    (unconditional r \<and> HeaderGet r ''Range'' = '''' \<longrightarrow>
       rs_status w' = Some 200 \<and> rs_body w' = rs_body w @ [Bytes data]) \<and>
    (\<forall>a b. unconditional r \<and> HeaderGet r ''If-Range'' = '''' \<and>
         HeaderGet r ''Range'' = ''bytes='' @ show_nat a @ ''-'' @ show_nat b \<and>
         a \<le> b \<and> b < length data \<and> int b \<le> max_int64 \<longrightarrow>
       rs_status w' = Some 206 \<and> rs_body w' = rs_body w @ [Bytes (take (b - a + 1) (drop a data))]) \<and>
    (HeaderGet r ''If-Match'' = '''' \<and> HeaderGet r ''If-None-Match'' = ''*'' \<longrightarrow>
       rs_status w' = Some 304 \<and> rs_body w' = rs_body w))"
proof -
  from local_driver.saved_stays [OF assms(1-4)] obtain now data
    where dl: "downloaded (lo_client s) now creds url = Some data"
      and "local_content (fold (\<lambda>(cl, creds, url, g', f') d. snd (Local_SaveRemoteFile s cl creds url g' f' d)) ops d1) g f = Some data"
    by auto
  from Local_ServeFile_reads [where cl = cl' and r = r and w = w, OF assms(1,2,5) this(2)] assms(6) have fin: "out = Done"
    and w': "w' = http_ServeContent (lo_sniff s) (lo_boundary s r) r data w" by auto
  have get: "Method r \<noteq> ''HEAD''" using assms(7) by simp
  have part: "rs_status w' = Some 206 \<and> rs_body w' = rs_body w @ [Bytes (take (b - a + 1) (drop a data))]"
    if "unconditional r" "HeaderGet r ''If-Range'' = ''''"
      "HeaderGet r ''Range'' = ''bytes='' @ show_nat a @ ''-'' @ show_nat b" "a \<le> b" "b < length data" "int b \<le> max_int64" for a b
    unfolding w' by (intro conjI ServeContent_range(2) [OF that assms(8)] ServeContent_range(1) [OF that get])
  have whole: "rs_status w' = Some 200 \<and> rs_body w' = rs_body w @ [Bytes data]"
    if "unconditional r" "HeaderGet r ''Range'' = ''''"
    unfolding w' by (intro conjI ServeContent_whole(2) [OF that assms(8)] ServeContent_whole(1) [OF that get])
  have none: "rs_status w' = Some 304 \<and> rs_body w' = rs_body w"
    if "HeaderGet r ''If-Match'' = ''''" "HeaderGet r ''If-None-Match'' = ''*''"
    unfolding w' by (intro conjI ServeContent_not_modified(2) [OF that assms(7,8)] ServeContent_not_modified(1) [OF that assms(7)])
  from fin dl part whole none show ?thesis by blast
qed

text \<open>A request for the bytes from 1 to 3.\<close>

definition range_request :: request where
  "range_request = (plain_request ''GET'' ''/'')\<lparr>HeaderGet := (\<lambda>h. if h = ''Range'' then ''bytes=1-3'' else '''')\<rparr>"

theorem saved_file_is_served_locally_witness:
  "\<exists>d1 d2 w'. Local_SaveRemoteFile (demo_local demo_http) (\<lambda>_. 0) None ''https://a.org/f.mp3'' ''g'' ''f.mp3'' (\<lambda>_. None) =
       (Inr 5, d1) \<and>
     d2 = snd (Local_SaveRemoteFile (demo_local demo_http) (\<lambda>_. 0) None ''https://a.org/f.mp3'' ''h'' ''f.mp3'' d1) \<and>
     Local_ServeFile (demo_local demo_http) (\<lambda>_. 0) range_request ''g'' ''f.mp3'' d2 (new_response :: unit response) = (Done, w') \<and>
     rs_status w' = Some 206 \<and> rs_body w' = [Bytes ''oun'']"
proof -
  let ?s = "demo_local demo_http" and ?u = "''https://a.org/f.mp3''"
  let ?d1 = "Map.empty([''g''] \<mapsto> Directory, [''g'', ''f.mp3''] \<mapsto> File ''sound'')"
  let ?d2 = "?d1([''h''] \<mapsto> Directory, [''h'', ''f.mp3''] \<mapsto> File ''sound'')"
  have sound: "downloaded (lo_client ?s) now None ?u = Some ''sound''" for now
    using demo_external(2) by (simp add: downloaded_def http_download_def demo_local_def demo_http_def)
  have healthy: "lo_disk ?s = healthy_disk" by (simp add: demo_local_def)
  note save_ok = Local_SaveRemoteFile_healthy [OF _ _ healthy demo_external(1) sound]
  have save: "Local_SaveRemoteFile ?s (\<lambda>_. 0) None ?u ''g'' ''f.mp3'' (\<lambda>_. None) = (Inr 5, ?d1)"
    and save2: "Local_SaveRemoteFile ?s (\<lambda>_. 0) None ?u ''h'' ''f.mp3'' ?d1 = (Inr 5, ?d2)"
    by (subst save_ok; simp)+
  have d2: "?d2 [''g'', ''f.mp3''] = Some (File ''sound'')" by simp
  obtain w' where serve: "Local_ServeFile ?s (\<lambda>_. 0) range_request ''g'' ''f.mp3'' ?d2 (new_response :: unit response) = (Done, w')"
    using Local_ServeFile_healthy [where d = ?d2, OF demo_plain(1,3) healthy d2] by blast
  have nums: "show_nat 1 = ''1''" "show_nat 3 = ''3''" by code_simp+
  have r: "Method range_request = ''GET''" "unconditional range_request" "HeaderGet range_request ''If-Range'' = ''''"
    "HeaderGet range_request ''Range'' = ''bytes='' @ show_nat 1 @ ''-'' @ show_nat 3"
    using nums by (simp_all add: range_request_def plain_request_def unconditional_def)
  let ?ops = "[(\<lambda>_. 0, None, ?u, ''h'', ''f.mp3'')]"
  have serve2: "Local_ServeFile ?s (\<lambda>_. 0) range_request ''g'' ''f.mp3''
      (fold (\<lambda>(cl, creds, url, g', f') d. snd (Local_SaveRemoteFile ?s cl creds url g' f' d)) ?ops ?d1) (new_response :: unit response) = (Done, w')"
    using serve save2 by simp
  have opens: "dk_open (lo_disk ?s) ((\<lambda>_. 0) 0) = None" by (simp add: healthy)
  have ops: "\<forall>(cl, creds, url, g', f') \<in> set ?ops. plain_elem g' \<and> plain_elem f' \<and> (g', f') \<noteq> (''g'', ''f.mp3'')"
    by simp
  have fresh: "rs_status (new_response :: unit response) = None" by (simp add: new_response_def)
  obtain now data where dl: "downloaded (lo_client ?s) now None ?u = Some data"
    and part: "\<forall>a b. unconditional range_request \<and> HeaderGet range_request ''If-Range'' = '''' \<and>
         HeaderGet range_request ''Range'' = ''bytes='' @ show_nat a @ ''-'' @ show_nat b \<and>
         a \<le> b \<and> b < length data \<and> int b \<le> max_int64 \<longrightarrow>
       rs_status w' = Some 206 \<and> rs_body w' = rs_body new_response @ [Bytes (take (b - a + 1) (drop a data))]"
    using saved_file_is_served_locally [where cl' = "\<lambda>_. 0", OF demo_plain(1,3) save ops opens serve2 r(1) fresh] by blast
  have data: "data = ''sound''" using dl sound by simp
  have "rs_status w' = Some 206 \<and> rs_body w' = rs_body new_response @ [Bytes (take (3 - 1 + 1) (drop 1 data))]"
    by (rule part [rule_format]) (intro conjI r(2-4), simp_all add: data)
  then have "rs_status w' = Some 206" "rs_body w' = [Bytes ''oun'']" by (simp_all add: data new_response_def)
  with save save2 serve show ?thesis by (intro exI [of _ ?d1] exI [of _ ?d2] exI [of _ w']) simp
qed

text \<open>the same holds of the S3 driver, given the bucket's service.\<close>

theorem saved_file_is_served_from_s3:
  fixes s :: "'o S3ObjectStorage" and w :: "'p response"
  assumes "s3_bucket s held" "plain_elem g" "plain_elem f" "S3_SaveRemoteFile s cl creds url g f d = (Inr n, d1)"
    "\<forall>(cl, creds, url, g', f') \<in> set ops. plain_elem g' \<and> plain_elem f' \<and> (g', f') \<noteq> (g, f)"
    "S3_ServeFile s cl' r g f
       (fold (\<lambda>(cl, creds, url, g', f') d. snd (S3_SaveRemoteFile s cl creds url g' f' d)) ops d1) w = (Done, w')"
    "Method r = ''GET''" "unconditional r" "HeaderGet r ''Range'' = ''''"
  shows "\<exists>now data. downloaded (s3_http s) now creds url = Some data \<and> rs_body w' = rs_body w @ [Bytes data]"
  by (rule s3_bucket.s3_saved_then_served [OF assms])

theorem saved_file_is_served_from_s3_witness:
  "\<exists>d1 w'. S3_SaveRemoteFile demo_s3 (\<lambda>_. 0) None ''https://a.org/f.mp3'' ''g'' ''f.mp3'' Map.empty = (Inr (- 1), d1) \<and>
     S3_ServeFile demo_s3 (\<lambda>_. 0) (plain_request ''GET'' ''/'') ''g'' ''f.mp3'' d1 (new_response :: unit response) =
       (Done, w') \<and> rs_body w' = [Bytes ''sound'']"
proof -
  let ?u = "''https://a.org/f.mp3''"
  let ?d1 = "Map.empty((''bucket'', ''pre'' @ s3Key ''g'' ''f.mp3'') \<mapsto> ''sound'')"
  let ?w = "write_body (Bytes ''sound'') (new_response :: unit response)"
  have dl: "http_download (s3_http demo_s3) now None ?u = demo_http now None ?u" for now
    using demo_external(2) by (simp add: http_download_def demo_s3_def demo_http_def)
  then have sound: "downloaded (s3_http demo_s3) now None ?u = Some ''sound''" for now
    by (simp add: downloaded_def demo_http_def)
  have save: "S3_SaveRemoteFile demo_s3 (\<lambda>_. 0) None ?u ''g'' ''f.mp3'' Map.empty = (Inr (- 1), ?d1)"
    using dl by (simp add: S3_SaveRemoteFile_def demo_http_def demo_s3_client_def) (simp add: demo_s3_def demo_s3_client_def)
  have serve: "S3_ServeFile demo_s3 (\<lambda>_. 0) (plain_request ''GET'' ''/'') ''g'' ''f.mp3'' ?d1 new_response = (Done, ?w)"
    by (simp add: S3_ServeFile_def demo_s3_def demo_s3_client_def new_response_def)
  have "\<exists>now data. downloaded (s3_http demo_s3) now None ?u = Some data \<and> rs_body ?w = rs_body new_response @ [Bytes data]"
    by (rule saved_file_is_served_from_s3 [OF demo_bucket.s3_bucket_axioms demo_plain(1,3) save, of "[]"])
      (use serve in \<open>auto simp: plain_request_def unconditional_def\<close>)
  with sound have "rs_body ?w = [Bytes ''sound'']" by (auto simp: new_response_def)
  with save serve show ?thesis by (intro exI [of _ ?d1] exI [of _ ?w]) simp
qed

text \<open>C29: a save to the local store touches nothing but the one file of the one podcast: every other path
  below the root is as it was, and at most the podcast's directory has been created.\<close>

theorem local_save_touches_one_file:
  assumes "Local_SaveRemoteFile s cl creds url (SanitiseGUID podcast) (SanitiseGUID ep @ ''.'' @ ext) d = (res, d')"
    and "podcast \<noteq> ''''" "ep \<noteq> ''''" "ext \<noteq> ''''" "CHR ''/'' \<notin> set ext"
    and "p \<noteq> [SanitiseGUID podcast, SanitiseGUID ep @ ''.'' @ ext]"
  shows "d' p = d p \<or> (p = [SanitiseGUID podcast] \<and> d p = None \<and> d' p = Some Directory)"
  using Local_SaveRemoteFile_effect(1,2) [OF plain_sanitised [OF assms(2)] plain_file_name [OF assms(3-5)] assms(1)] assms(6)
  by (cases "p = [SanitiseGUID podcast]") auto

theorem local_save_touches_one_file_witness:
  "snd (Local_SaveRemoteFile (demo_local demo_http) (\<lambda>_. 0) None ''https://a.org/f.mp3''
     (SanitiseGUID ''../etc'') (SanitiseGUID ''passwd'' @ ''.'' @ ''mp3'') Map.empty) [''etc'', ''passwd.mp3''] = None"
proof -
  obtain res d' where run: "Local_SaveRemoteFile (demo_local demo_http) (\<lambda>_. 0) None ''https://a.org/f.mp3''
     (SanitiseGUID ''../etc'') (SanitiseGUID ''passwd'' @ ''.'' @ ''mp3'') Map.empty = (res, d')" by fastforce
  have san: "SanitiseGUID ''../etc'' = ''-etc''" by code_simp
  from local_save_touches_one_file [OF run, of "[''etc'', ''passwd.mp3'']"] run show ?thesis by (simp add: san)
qed

text \<open>the local driver empties the file before it knows whether the download succeeds: when the remote
  server answers with an error status, the file that had been saved before is gone.\<close>

theorem failed_download_empties_file:
  assumes "plain_elem g" "plain_elem f" "lo_disk s = healthy_disk" "ValidateExtURL url = None"
    and "http_download (lo_client s) (cl 2) creds url = Inl e"
    and "d [g] = Some Directory" "d [g, f] = Some (File data)"
  shows "Local_SaveRemoteFile s cl creds url g f d = (Inl e, d([g, f] \<mapsto> File ''''))"
proof -
  have "mkdirIfNotExists healthy_disk (cl 0) g d = (None, d)"
    using assms(1,6) by (auto simp: mkdirIfNotExists_def Root_Mkdir_def healthy_disk_def node_at_def)
  with assms show ?thesis
    by (auto simp: Local_SaveRemoteFile_def Let_def Root_Create_def node_at_def healthy_disk_def)
qed

theorem failed_download_empties_file_witness:
  "local_content (snd (Local_SaveRemoteFile (demo_local failing_http) (\<lambda>_. 0) None
     ''https://a.org/f.mp3'' ''g'' ''f.mp3'' (Map.empty([''g''] \<mapsto> Directory, [''g'', ''f.mp3''] \<mapsto> File ''sound''))))
     ''g'' ''f.mp3'' = Some ''''"
proof -
  let ?d = "Map.empty([''g''] \<mapsto> Directory, [''g'', ''f.mp3''] \<mapsto> File ''sound'')"
  let ?s = "demo_local failing_http"
  have e: "http_download (lo_client ?s) ((\<lambda>_. 0) (2::nat)) None ''https://a.org/f.mp3'' =
      Inl (ErrorText (''failed to download file with status '' @ quoted (show_int 404)))"
    using demo_external(2) by (simp add: http_download_def demo_local_def failing_http_def)
  have "Local_SaveRemoteFile ?s (\<lambda>_. 0) None ''https://a.org/f.mp3'' ''g'' ''f.mp3'' ?d =
      (Inl (ErrorText (''failed to download file with status '' @ quoted (show_int 404))), ?d([''g'', ''f.mp3''] \<mapsto> File ''''))"
    by (rule failed_download_empties_file [OF demo_plain(1,3) _ demo_external(1) e]) (simp_all add: demo_local_def)
  then show ?thesis by (simp add: local_content_def)
qed

section \<open>The logging transport\<close>

text \<open>a download through the transport that logs every request is the download through the transport
  below it: same bytes, same errors, whatever the status and however reading the body ends.  It
  adds one line to the log of a logger for the level info, and none to a stricter one.\<close>

theorem logged_download_is_the_same:
  "http_download (metered E ctx t cls) now creds url =
     http_download (\<lambda>now. transport t (cls now 1)) now creds url \<and>
   length (snd (RoundTrip E t ctx cl creds url out)) =
     length out + (if lg_level (GetLogger (he_machine_id E) ctx) \<le> LevelInfo then 1 else 0)"
proof
  show "http_download (metered E ctx t cls) now creds url =
      http_download (\<lambda>now. transport t (cls now 1)) now creds url"
    unfolding http_download_def metered_def RoundTrip_answer
    by (auto simp: copyResBody_def Let_def split: sum.split option.split)
next
  show "length (snd (RoundTrip E t ctx cl creds url out)) =
      length out + (if lg_level (GetLogger (he_machine_id E) ctx) \<le> LevelInfo then 1 else 0)"
    unfolding RoundTrip_def Let_def log_to_def by (auto split: prod.split)
qed

end
