(* ===== verification/Workers.thy ===== *)
theory Workers
  imports Pages ObjectStorage
begin

text \<open>
  The two background workers: \<^verbatim>\<open>pkg/feedworker/feedworker.go\<close>, which looks for new episodes of every
  podcast and queues their download, and \<^verbatim>\<open>pkg/downloadworker/downloadworker.go\<close>, which downloads
  one episode.  Both are handlers of a queue and work on the whole state of the application.
\<close>

section \<open>Dependencies\<close>

record ('o, 'p) app_deps =
  ap_auth :: auth_deps
  ap_pods :: pod_deps
  ap_queue :: queue_deps
  ap_os :: "('o, 'p) ObjectStorage"

text \<open>The readings of the clock from the n-th call on.\<close>

definition nth_call :: "(nat \<Rightarrow> time) \<Rightarrow> nat \<Rightarrow> nat \<Rightarrow> time" where
  "nth_call cl n = (\<lambda>i. cl (n + i))"

text \<open>A handler on the whole state as a handler of the queue's worker.\<close>

definition as_queue_handler ::
  "((nat \<Rightarrow> time) \<Rightarrow> json \<Rightarrow> 'o store \<Rightarrow> go_error option \<times> 'o store) \<Rightarrow> 'o store queue_handler" where
  "as_queue_handler h = (\<lambda>cl payload (q, d).
     (case h cl payload (d\<lparr>queue_t := q\<rparr>) of (err, d') \<Rightarrow> (err, (queue_t d', d'))))"

section \<open>The feed worker\<close>

abbreviation FeedWorkerQueueName :: string where "FeedWorkerQueueName \<equiv> ''feedWorker''"
abbreviation DownloadWorkerQueueName :: string where "DownloadWorkerQueueName \<equiv> ''downloadWorker''"

definition minCheckInterval :: duration where "minCheckInterval = Minute * 10"

text \<open>The closure of the transaction that stores a new episode and queues its download.\<close>

definition new_episode_closure ::
  "('o, 'p) app_deps \<Rightarrow> (nat \<Rightarrow> time) \<Rightarrow> Episode \<Rightarrow> 'o store \<Rightarrow> go_error option \<times> 'o store" where
  "new_episode_closure A cl ep s =
     (case g_create (pd_episodes (ap_pods A)) (cl 1) (Episode_BeforeSave (pd_validator (ap_pods A))) ep
             (episodes_t s) of
        Inl err \<Rightarrow> (Some err, s)
      | Inr (ep', t') \<Rightarrow>
          (case PushQueueTask (ap_queue A) (nth_call cl 2) DownloadWorkerQueueName (JString (e_GUID ep'))
                  (queue_t s) of
             (Some err, q') \<Rightarrow> (Some err, s\<lparr>episodes_t := t', queue_t := q'\<rparr>)
           | (None, q') \<Rightarrow> (None, s\<lparr>episodes_t := t', queue_t := q'\<rparr>)))"

text \<open>The loop of \<^verbatim>\<open>processPodcast\<close>; each turn takes ten clock readings.\<close>

fun episode_loop ::
  "('o, 'p) app_deps \<Rightarrow> (nat \<Rightarrow> time) \<Rightarrow> Episode list \<Rightarrow> Episode list \<Rightarrow> 'o store \<Rightarrow>
   go_error option \<times> 'o store" where
  "episode_loop A cl existingEpisodes [] s = (None, s)"
| "episode_loop A cl existingEpisodes (ep # episodes) s =
     (let exists = list_ex (\<lambda>exEp. e_GUID exEp = e_GUID ep) existingEpisodes
      in if exists then episode_loop A (nth_call cl 10) existingEpisodes episodes s
         else
           (let ep = ep\<lparr>e_Status := EpisodeStatusPending\<rparr>
            in (case Transaction (qd_tx (ap_queue A)) cl (new_episode_closure A cl ep) s of
                  (Some err, s') \<Rightarrow> (Some err, s')
                | (None, s') \<Rightarrow> episode_loop A (nth_call cl 10) existingEpisodes episodes s')))"

definition processPodcast ::
  "('o, 'p) app_deps \<Rightarrow> (nat \<Rightarrow> time) \<Rightarrow> Podcast \<Rightarrow> 'o store \<Rightarrow> go_error option \<times> 'o store" where
  "processPodcast A cl podcast s =
     (case GetCredentials (ap_pods A) podcast of
        Inl err \<Rightarrow> (Some err, s)
      | Inr creds \<Rightarrow>
          (case ParseFeed (pd_service (ap_pods A)) (cl 0) (p_FeedURL podcast) creds of
             (_, episodes, err) \<Rightarrow>
               (case (case err of
                        Some e \<Rightarrow> if is_parse_errors e then None else Some e
                      | None \<Rightarrow> None) of
                  Some e \<Rightarrow> (Some e, s)
                | None \<Rightarrow>
                    (case ListEpisodes (ap_pods A) (cl 1) (p_GUID podcast) (episodes_t s) of
                       Inl e \<Rightarrow> (Some e, s)
                     | Inr existingEpisodes \<Rightarrow>
                         (case episode_loop A (nth_call cl 10) existingEpisodes episodes s of
                            (Some e, s') \<Rightarrow> (Some e, s')
                          | (None, s') \<Rightarrow>
                              (let now = cl 2;
                                   lastEpisodeAt = (if length episodes > 0
                                     then Some (e_PublishedAt (last episodes)) else None)
                               in (case UpdatePodcastTimes (ap_pods A) (cl 3) podcast (Some now)
                                           lastEpisodeAt (podcasts_t s') of
                                     (Some e, t') \<Rightarrow> (Some e, s'\<lparr>podcasts_t := t'\<rparr>)
                                   | (None, t') \<Rightarrow> (None, s'\<lparr>podcasts_t := t'\<rparr>))))))))"

text \<open>Whether a podcast was checked too recently.\<close>

definition recently_checked :: "time \<Rightarrow> Podcast \<Rightarrow> bool" where
  "recently_checked now pod =
     (case p_LastCheckedAt pod of None \<Rightarrow> False | Some t \<Rightarrow> t + minCheckInterval > now)"

text \<open>
  The loop over the podcasts, with the errors it collects.  The readings of the clock of the n-th
  podcast are \<open>cls n\<close>: the first is the one it is skipped by.
\<close>

fun feed_loop ::
  "('o, 'p) app_deps \<Rightarrow> (nat \<Rightarrow> nat \<Rightarrow> time) \<Rightarrow> nat \<Rightarrow> Podcast list \<Rightarrow> 'o store \<Rightarrow>
   go_error list \<times> 'o store" where
  "feed_loop A cls n [] s = ([], s)"
| "feed_loop A cls n (pod # pods) s =
     (if recently_checked (cls n 0) pod then feed_loop A cls (Suc n) pods s
      else
        (case processPodcast A (nth_call (cls n) 1) pod s of
           (Some err, s') \<Rightarrow>
             (case feed_loop A cls (Suc n) pods s' of (errs, s'') \<Rightarrow> (err # errs, s''))
         | (None, s') \<Rightarrow> feed_loop A cls (Suc n) pods s'))"

text \<open>The podcast's part of the readings of one run of the handler.\<close>

definition FeedWorkerQueueHandler ::
  "('o, 'p) app_deps \<Rightarrow> (nat \<Rightarrow> nat \<Rightarrow> time) \<Rightarrow> json \<Rightarrow> 'o store \<Rightarrow> go_error option \<times> 'o store" where
  "FeedWorkerQueueHandler A cls payload s =
     (case ListPodcasts (ap_pods A) (cls 0 0) (podcasts_t s) of
        Inl err \<Rightarrow> (Some err, s)
      | Inr pods \<Rightarrow>
          (case feed_loop A cls 1 pods s of
             (errs, s') \<Rightarrow> ((if length errs > 0 then Some (Joined errs) else None), s')))"

section \<open>The download worker\<close>

definition DownloadWorkerQueueHandler ::
  "('o, 'p) app_deps \<Rightarrow> (nat \<Rightarrow> time) \<Rightarrow> json \<Rightarrow> 'o store \<Rightarrow> go_error option \<times> 'o store" where
  "DownloadWorkerQueueHandler A cl episodeGUIDAny s =
     (case episodeGUIDAny of
        JString guid \<Rightarrow>
          (case GetEpisode (ap_pods A) (cl 0) guid (podcasts_t s) (episodes_t s) of
             Inl err \<Rightarrow> (Some (Wrapped ''failed to get a pending episode: '' err), s)
           | Inr episode \<Rightarrow>
               (case GetPodcast (ap_pods A) (cl 1) (e_PodcastGUID episode) (podcasts_t s) of
                  Inl err \<Rightarrow> (Some (Wrapped ''failed to get podcast: '' err), s)
                | Inr podcast \<Rightarrow>
                    (case GetCredentials (ap_pods A) podcast of
                       Inl err \<Rightarrow> (Some (Wrapped ''failed to get podcast credentials: '' err), s)
                     | Inr creds \<Rightarrow>
                         (case MIMETypeExtension (e_MimeType episode) of
                            Inl err \<Rightarrow>
                              (Some (Wrapped ''failed to get episode file extension from MimeType: '' err), s)
                          | Inr extension \<Rightarrow>
                              (let fileName = SanitiseGUID (e_GUID episode) @ ''.'' @ extension
                               in (case SaveRemoteFile (ap_os A) (nth_call cl 4) creds (e_DownloadURL episode)
                                           (SanitiseGUID (e_PodcastGUID episode)) fileName (objects_t s) of
                                     (Inl err, o') \<Rightarrow>
                                       (case UpdateEpisodeStatus (ap_pods A) (cl 2) episode EpisodeStatusFailed
                                               None (episodes_t s) of
                                          (Some upErr, t') \<Rightarrow>
                                            (Some (Wrapped (''failed to update episode '' @ quoted (e_GUID episode) @ '' status to failed: '') upErr),
                                             s\<lparr>objects_t := o', episodes_t := t'\<rparr>)
                                        | (None, t') \<Rightarrow>
                                            (Some (Wrapped (''failed to download episode '' @ quoted (e_GUID episode) @ '': '') err),
                                             s\<lparr>objects_t := o', episodes_t := t'\<rparr>))
                                   | (Inr n, o') \<Rightarrow>
                                       (case UpdateEpisodeStatus (ap_pods A) (cl 3) episode EpisodeStatusSuccess
                                               (Some n) (episodes_t s) of
                                          (Some err, t') \<Rightarrow>
                                            (Some (Wrapped (''failed to update episode '' @ quoted (e_GUID episode) @ '' status to success: '') err),
                                             s\<lparr>objects_t := o', episodes_t := t'\<rparr>)
                                        | (None, t') \<Rightarrow>
                                            (None, s\<lparr>objects_t := o', episodes_t := t'\<rparr>))))))))
      | _ \<Rightarrow> (Some (ErrorText ''failed to get episodeGUID from queue data''), s))"

end
