(* ===== verification/WorkerProps.thy ===== *)
theory WorkerProps
  imports Workers PodcastProps QueueProps SessionProps ObjectStorageProps
begin

text \<open>
  The properties of the background workers: what a run of the feed worker adds, that a successful
  run has checked every podcast that was due, and when a download is recorded as successful.
\<close>

section \<open>What the feed worker adds\<close>

text \<open>
  New episodes are appended together with their download tasks, one each, and nothing else of the
  application changes but the times of podcasts.
\<close>

definition feed_growth :: "('o, 'p) app_deps \<Rightarrow> 'o store \<Rightarrow> Episode list \<Rightarrow> 'o store \<Rightarrow> bool" where
  "feed_growth A s new s' \<longleftrightarrow>
     episodes_t s' = episodes_t s @ new \<and>
     (\<exists>tasks. queue_t s' = queue_t s @ tasks \<and> map Data tasks = map (\<lambda>e. JString (e_GUID e)) new \<and>
        (\<forall>q \<in> set tasks. QueueName q = DownloadWorkerQueueName \<and> DeletedAt q = None \<and> ReceiveCount q = 0)) \<and>
     distinct (map e_GUID new) \<and>
     (\<forall>e \<in> set new. e_Status e = EpisodeStatusPending \<and> e_GUID e \<notin> e_GUID ` set (episodes_t s) \<and>
        Episode_BeforeSave (pd_validator (ap_pods A)) e = None) \<and>
     map p_GUID (podcasts_t s') = map p_GUID (podcasts_t s) \<and>
     users_t s' = users_t s \<and> sessions_t s' = sessions_t s \<and> objects_t s' = objects_t s"

lemma feed_growth_episodes: "feed_growth A s new s' \<Longrightarrow> episodes_t s' = episodes_t s @ new"
  by (simp add: feed_growth_def)

lemma feed_growth_fresh:
  "feed_growth A s new s' \<Longrightarrow> e_GUID ` set new \<inter> e_GUID ` set (episodes_t s) = {}"
  unfolding feed_growth_def by (elim conjE) blast

lemma feed_growth_refl [simp]: "feed_growth A s [] s"
  by (simp add: feed_growth_def)

lemma feed_growth_trans:
  assumes "feed_growth A s new s'" "feed_growth A s' new' s''"
  shows "feed_growth A s (new @ new') s''"
proof -
  from assms obtain q1 q2 where "queue_t s' = queue_t s @ q1" "queue_t s'' = queue_t s' @ q2"
    "map Data q1 = map (\<lambda>e. JString (e_GUID e)) new" "map Data q2 = map (\<lambda>e. JString (e_GUID e)) new'"
    "\<forall>q \<in> set q1 \<union> set q2. QueueName q = DownloadWorkerQueueName \<and> DeletedAt q = None \<and> ReceiveCount q = 0"
    unfolding feed_growth_def by fastforce
  then have "\<exists>tasks. queue_t s'' = queue_t s @ tasks \<and> map Data tasks = map (\<lambda>e. JString (e_GUID e)) (new @ new') \<and>
        (\<forall>q \<in> set tasks. QueueName q = DownloadWorkerQueueName \<and> DeletedAt q = None \<and> ReceiveCount q = 0)"
    by (intro exI [of _ "q1 @ q2"]) auto
  moreover have "e_GUID ` set new \<inter> e_GUID ` set new' = {}"
    and "\<forall>e \<in> set new'. e_GUID e \<notin> e_GUID ` set (episodes_t s)"
    using feed_growth_fresh [OF assms(2)] feed_growth_episodes [OF assms(1)] by auto
  moreover from assms have "distinct (map e_GUID new)" "distinct (map e_GUID new')"
    "\<forall>e \<in> set new. e_Status e = EpisodeStatusPending \<and> e_GUID e \<notin> e_GUID ` set (episodes_t s) \<and>
        Episode_BeforeSave (pd_validator (ap_pods A)) e = None"
    "\<forall>e \<in> set new'. e_Status e = EpisodeStatusPending \<and>
        Episode_BeforeSave (pd_validator (ap_pods A)) e = None"
    by (auto simp: feed_growth_def)
  moreover have "episodes_t s'' = episodes_t s @ new @ new'" "map p_GUID (podcasts_t s'') = map p_GUID (podcasts_t s)"
    "users_t s'' = users_t s" "sessions_t s'' = sessions_t s" "objects_t s'' = objects_t s"
    using assms by (auto simp: feed_growth_def)
  ultimately show ?thesis unfolding feed_growth_def by (simp add: ball_Un)
qed

definition app_ok :: "('o, 'p) app_deps \<Rightarrow> bool" where
  "app_ok A \<longleftrightarrow> pod_deps_ok (ap_pods A) \<and> queue_deps_ok (ap_queue A)"

lemma new_episode_growth:
  assumes A: "app_ok A" and run: "new_episode_closure A cl ep s = (None, s')" and st: "e_Status ep = EpisodeStatusPending"
  shows "\<exists>ep'. e_GUID ep' = e_GUID ep \<and> feed_growth A s [ep'] s'"
proof -
  from A have D: "pod_deps_ok (ap_pods A)" and Q: "queue_deps_ok (ap_queue A)" by (auto simp: app_ok_def)
  from run obtain ep' t' q' where c: "g_create (pd_episodes (ap_pods A)) (cl 1)
      (Episode_BeforeSave (pd_validator (ap_pods A))) ep (episodes_t s) = Inr (ep', t')"
    and p: "PushQueueTask (ap_queue A) (nth_call cl 2) DownloadWorkerQueueName (JString (e_GUID ep')) (queue_t s) = (None, q')"
    and s': "s' = s\<lparr>episodes_t := t', queue_t := q'\<rparr>"
    by (auto simp: new_episode_closure_def split: sum.splits prod.splits option.splits)
  note ok = gorm_table.create_ok [OF pod_deps_okD(2) [OF D] c]
  from ok(3) have same: "e_GUID ep' = e_GUID ep" "e_Status ep' = e_Status ep"
    "Episode_BeforeSave V ep' = Episode_BeforeSave V ep" for V by auto
  from PushQueueTask_ok [OF Q p] obtain q where "q' = queue_t s @ [q]" "QueueName q = DownloadWorkerQueueName"
    "Data q = JString (e_GUID ep')" "DeletedAt q = None" "ReceiveCount q = 0" by metis
  with ok(1,2,4) same st s' have "feed_growth A s [ep'] s'"
    by (force simp: feed_growth_def)
  with same(1) show ?thesis by blast
qed

lemma episode_loop_growth:
  assumes A: "app_ok A"
  shows "episode_loop A cl existing eps s = (err, s') \<Longrightarrow>
    \<exists>new. feed_growth A s new s' \<and> e_GUID ` set new \<subseteq> e_GUID ` set eps \<and>
      (err = None \<longrightarrow> e_GUID ` set eps \<subseteq> e_GUID ` set existing \<union> e_GUID ` set new)"
proof (induction eps arbitrary: cl s)
  case Nil
  then show ?case by (intro exI [of _ "[]"]) simp
next
  case (Cons ep eps)
  show ?case
  proof (cases "list_ex (\<lambda>exEp. e_GUID exEp = e_GUID ep) existing")
    case True
    then have "e_GUID ep \<in> e_GUID ` set existing" unfolding list_ex_iff by (metis imageI)
    from Cons.prems True have "episode_loop A (nth_call cl 10) existing eps s = (err, s')" by (simp add: Let_def)
    from Cons.IH [OF this] obtain new where "feed_growth A s new s'" "e_GUID ` set new \<subseteq> e_GUID ` set eps"
      "err = None \<longrightarrow> e_GUID ` set eps \<subseteq> e_GUID ` set existing \<union> e_GUID ` set new" by blast
    with \<open>e_GUID ep \<in> e_GUID ` set existing\<close> show ?thesis by (intro exI [of _ new]) auto
  next
    case False
    let ?ep = "ep\<lparr>e_Status := EpisodeStatusPending\<rparr>"
    obtain e1 s1 where t: "Transaction (qd_tx (ap_queue A)) cl (new_episode_closure A cl ?ep) s = (e1, s1)" by fastforce
    show ?thesis
    proof (cases e1)
      case (Some e)
      with False t Cons.prems have "s' = s1" "err = Some e" by (auto simp: Let_def)
      with Transaction_error [OF t [unfolded Some]] show ?thesis by (intro exI [of _ "[]"]) simp
    next
      case None
      from new_episode_growth [OF A Transaction_ok [OF t [unfolded None]]] obtain ep'
        where g: "e_GUID ep' = e_GUID ep" "feed_growth A s [ep'] s1" by auto
      from False t None Cons.prems have "episode_loop A (nth_call cl 10) existing eps s1 = (err, s')"
        by (simp add: Let_def)
      from Cons.IH [OF this] obtain new where "feed_growth A s1 new s'" "e_GUID ` set new \<subseteq> e_GUID ` set eps"
        "err = None \<longrightarrow> e_GUID ` set eps \<subseteq> e_GUID ` set existing \<union> e_GUID ` set new" by blast
      with feed_growth_trans [OF g(2)] g(1) show ?thesis
        by (intro exI [of _ "[ep'] @ new"]) auto
    qed
  qed
qed

text \<open>What it means that a podcast has been checked.\<close>

definition podcast_checked :: "('o, 'p) app_deps \<Rightarrow> Podcast \<Rightarrow> 'o store \<Rightarrow> bool" where
  "podcast_checked A pod s \<longleftrightarrow>
     (\<exists>now creds q eps err. GetCredentials (ap_pods A) pod = Inr creds \<and>
        ParseFeed (pd_service (ap_pods A)) now (p_FeedURL pod) creds = (q, eps, err) \<and>
        (case err of None \<Rightarrow> True | Some e \<Rightarrow> is_parse_errors e) \<and>
        e_GUID ` set eps \<subseteq> e_GUID ` set (episodes_t s))"

lemma podcast_checked_grows:
  "podcast_checked A pod s \<Longrightarrow> feed_growth A s new s' \<Longrightarrow> podcast_checked A pod s'"
  unfolding podcast_checked_def using feed_growth_episodes [of A s new s'] by (metis Un_upper1 image_mono set_append subset_trans)

lemma processPodcast_growth:
  assumes A: "app_ok A" and run: "processPodcast A cl pod s = (err, s')"
  shows "\<exists>new. feed_growth A s new s'" "err = None \<Longrightarrow> podcast_checked A pod s'"
proof -
  have D: "pod_deps_ok (ap_pods A)" using A by (simp add: app_ok_def)
  have "(\<exists>new. feed_growth A s new s') \<and> (err = None \<longrightarrow> podcast_checked A pod s')"
  proof (cases "s' = s \<and> err \<noteq> None")
    case True
    then show ?thesis using feed_growth_refl by blast
  next
    case False
    obtain q eps perr creds existing where c: "GetCredentials (ap_pods A) pod = Inr creds"
      and f: "ParseFeed (pd_service (ap_pods A)) (cl 0) (p_FeedURL pod) creds = (q, eps, perr)"
      and pe: "case perr of None \<Rightarrow> True | Some e \<Rightarrow> is_parse_errors e"
      and l: "ListEpisodes (ap_pods A) (cl 1) (p_GUID pod) (episodes_t s) = Inr existing"
      using run False
      by (auto simp: processPodcast_def split: sum.splits prod.splits option.splits if_splits)
    obtain e1 s1 where loop: "episode_loop A (nth_call cl 10) existing eps s = (e1, s1)" by fastforce
    from episode_loop_growth [OF A loop] obtain new where g: "feed_growth A s new s1"
      and all: "e1 = None \<longrightarrow> e_GUID ` set eps \<subseteq> e_GUID ` set existing \<union> e_GUID ` set new" by blast
    show ?thesis
    proof (cases e1)
      case (Some e)
      with run c f pe l loop have "s' = s1" "err = Some e" by (auto simp: processPodcast_def split: option.splits)
      with g show ?thesis by blast
    next
      case None
      obtain e2 t' where u: "UpdatePodcastTimes (ap_pods A) (cl 3) pod (Some (cl 2))
          (if length eps > 0 then Some (e_PublishedAt (last eps)) else None) (podcasts_t s1) = (e2, t')" by fastforce
      with run c f pe l loop None have s': "s' = s1\<lparr>podcasts_t := t'\<rparr>" "err = e2"
        by (auto simp: processPodcast_def Let_def split: option.splits)
      have "map p_GUID t' = map p_GUID (podcasts_t s1)"
      proof (cases e2)
        case None
        from UpdatePodcastTimes_ok [OF D u [unfolded None]] show ?thesis by (simp add: map_upd_where_same)
      next
        case (Some e)
        with u show ?thesis by (simp add: UpdatePodcastTimes_def split: sum.splits)
      qed
      with g s' have g': "feed_growth A s new s'" by (simp add: feed_growth_def)
      have "set existing \<subseteq> set (episodes_t s)"
        using ListEpisodes_rows(1) [OF D l] by (metis (no_types, lifting) filter_is_subset mset_eq_setD)
      with all None g' have "e_GUID ` set eps \<subseteq> e_GUID ` set (episodes_t s')"
        using feed_growth_episodes [OF g'] by (simp add: image_Un) blast
      with c f pe g' show ?thesis unfolding podcast_checked_def by blast
    qed
  qed
  then show "\<exists>new. feed_growth A s new s'" "err = None \<Longrightarrow> podcast_checked A pod s'" by auto
qed

lemma feed_loop_growth:
  assumes A: "app_ok A"
  shows "feed_loop A cls n pods s = (errs, s') \<Longrightarrow> (\<exists>new. feed_growth A s new s') \<and>
    length (filter (\<lambda>pod. (\<forall>i. \<not> recently_checked (cls i 0) pod) \<and> \<not> podcast_checked A pod s') pods) \<le> length errs"
proof (induction pods arbitrary: n s s' errs)
  case Nil
  then show ?case using feed_growth_refl [of A s] by (auto intro!: exI [of _ "[]"])
next
  case (Cons pod pods)
  show ?case
  proof (cases "recently_checked (cls n 0) pod")
    case True
    with Cons.prems Cons.IH [of "Suc n" s errs s'] show ?thesis by auto
  next
    case False
    obtain e1 s1 where p: "processPodcast A (nth_call (cls n) 1) pod s = (e1, s1)" by fastforce
    obtain errs1 s2 where l: "feed_loop A cls (Suc n) pods s1 = (errs1, s2)" by fastforce
    from processPodcast_growth(1) [OF A p] Cons.IH [OF l] obtain new1 new2
      where g: "feed_growth A s new1 s1" "feed_growth A s1 new2 s2" by blast
    from Cons.prems False p l have s': "s' = s2" "errs = (case e1 of None \<Rightarrow> errs1 | Some e \<Rightarrow> e # errs1)"
      by (auto split: option.splits prod.splits)
    have "podcast_checked A pod s2" if "e1 = None"
      using podcast_checked_grows [OF processPodcast_growth(2) [OF A p that] g(2)] .
    then show ?thesis
      using Cons.IH [OF l] feed_growth_trans [OF g] s' by (cases e1) auto
  qed
qed

lemma FeedWorker_growth:
  assumes A: "app_ok A" and run: "FeedWorkerQueueHandler A cls payload s = (err, s')"
  shows "\<exists>new. feed_growth A s new s'"
proof (cases "ListPodcasts (ap_pods A) (cls 0 0) (podcasts_t s)")
  case (Inl e)
  with run have "s' = s" by (simp add: FeedWorkerQueueHandler_def)
  then show ?thesis using feed_growth_refl by blast
next
  case (Inr pods)
  obtain errs s1 where "feed_loop A cls 1 pods s = (errs, s1)" by fastforce
  with feed_loop_growth [OF A this] run Inr show ?thesis by (simp add: FeedWorkerQueueHandler_def)
qed

section \<open>The feed worker\<close>

definition demo_app :: "(fs, unit) app_deps" where
  "demo_app = \<lparr>ap_auth = demo_auth, ap_pods = demo_pods, ap_queue = demo_queue,
     ap_os = local_storage (demo_local demo_http)\<rparr>"

lemma demo_app_simps [simp]:
  "ap_pods demo_app = demo_pods" "ap_queue demo_app = demo_queue"
  "ap_os demo_app = local_storage (demo_local demo_http)"
  by (simp_all add: demo_app_def)

lemma demo_app_ok [simp]: "app_ok demo_app"
  by (simp add: app_ok_def)

text \<open>C23: whatever happens during a run of the feed worker, it appends new episodes, each pending, valid and
  with an identifier no stored episode has, and for each of them exactly one download task, in the
  same order; no episode is left without its task or the other way round, and nothing else changes
  but the times of podcasts.\<close>

theorem feed_run_queues_each_new_episode_once:
  assumes "app_ok A" and "FeedWorkerQueueHandler A cls payload s = (err, s')"
  shows "\<exists>new tasks.
    episodes_t s' = episodes_t s @ new \<and> queue_t s' = queue_t s @ tasks \<and>
    map Data tasks = map (\<lambda>e. JString (e_GUID e)) new \<and>
    (\<forall>q \<in> set tasks. QueueName q = DownloadWorkerQueueName \<and> DeletedAt q = None \<and> ReceiveCount q = 0) \<and>
    distinct (map e_GUID new) \<and> e_GUID ` set new \<inter> e_GUID ` set (episodes_t s) = {} \<and>
    (\<forall>e \<in> set new. e_Status e = EpisodeStatusPending \<and> Episode_BeforeSave (pd_validator (ap_pods A)) e = None) \<and>
    map p_GUID (podcasts_t s') = map p_GUID (podcasts_t s) \<and>
    users_t s' = users_t s \<and> sessions_t s' = sessions_t s \<and> objects_t s' = objects_t s"
  using FeedWorker_growth [OF assms] unfolding feed_growth_def by (elim exE conjE) blast

definition demo_store :: "fs store" where
  "demo_store = \<lparr>users_t = [], sessions_t = [],
     podcasts_t = [podcast_zero\<lparr>p_GUID := ''u-pod'', p_FeedURL := ''https://h.example/feed''\<rparr>],
     episodes_t = [], queue_t = [], objects_t = Map.empty\<rparr>"

theorem feed_run_queues_each_new_episode_once_witness:
  "\<exists>new tasks. episodes_t (snd (FeedWorkerQueueHandler demo_app (\<lambda>_ _. 7) JNull demo_store)) = new \<and>
     queue_t (snd (FeedWorkerQueueHandler demo_app (\<lambda>_ _. 7) JNull demo_store)) = tasks \<and>
     map Data tasks = map (\<lambda>e. JString (e_GUID e)) new"
proof -
  obtain err s' where "FeedWorkerQueueHandler demo_app (\<lambda>_ _. 7) JNull demo_store = (err, s')" by fastforce
  from feed_run_queues_each_new_episode_once [OF demo_app_ok this] this show ?thesis
    by (auto simp: demo_store_def)
qed

text \<open>C24: a podcast that cannot be checked does not keep the others from being checked: at most as many due
  podcasts are left unchecked as the run reports errors, so that a run without an error has stored
  every episode that the feed of every due podcast listed.\<close>

theorem feed_run_checks_due_podcasts:
  assumes A: "app_ok A" and l: "ListPodcasts (ap_pods A) (cls 0 0) (podcasts_t s) = Inr pods"
    and run: "FeedWorkerQueueHandler A cls payload s = (err, s')"
  shows "mset pods = mset (filter (\<lambda>p. p_DeletedAt p = None) (podcasts_t s)) \<and>
    (\<exists>errs. err = (if errs = [] then None else Some (Joined errs)) \<and>
      length (filter (\<lambda>pod. (\<forall>i. \<not> recently_checked (cls i 0) pod) \<and> \<not> podcast_checked A pod s') pods) \<le> length errs)"
proof -
  obtain errs s1 where loop: "feed_loop A cls 1 pods s = (errs, s1)" by fastforce
  with run l have "s' = s1" "err = (if errs = [] then None else Some (Joined errs))"
    by (auto simp: FeedWorkerQueueHandler_def)
  with feed_loop_growth [OF A loop] ListPodcasts_rows [OF _ l] A show ?thesis by (auto simp: app_ok_def)
qed

theorem feed_run_checks_due_podcasts_witness:
  "\<exists>errs. fst (FeedWorkerQueueHandler demo_app (\<lambda>_ _. 7) JNull demo_store) = (if errs = [] then None else Some (Joined errs)) \<and>
     (errs = [] \<longrightarrow> podcast_checked demo_app (hd (podcasts_t demo_store))
       (snd (FeedWorkerQueueHandler demo_app (\<lambda>_ _. 7) JNull demo_store)))"
proof -
  obtain err s' where run: "FeedWorkerQueueHandler demo_app (\<lambda>_ _. 7) JNull demo_store = (err, s')" by fastforce
  have pods: "ListPodcasts (ap_pods demo_app) ((\<lambda>_ _. 7) (0::nat) (0::nat)) (podcasts_t demo_store) = Inr (podcasts_t demo_store)"
    by (simp add: ListPodcasts_def demo_store_def mem_podcasts_def mem_gorm_def live_rows_def podcast_zero_def)
  from feed_run_checks_due_podcasts [OF demo_app_ok pods run] run show ?thesis
    by (auto simp: demo_store_def recently_checked_def podcast_zero_def split: if_splits)
qed

section \<open>The download worker\<close>

text \<open>The steps of a run that got as far as saving the file.\<close>

lemma DownloadWorker_run:
  assumes A: "app_ok A" and inv: "episodes_inv (ap_pods A) (episodes_t s)"
    and run: "DownloadWorkerQueueHandler A cl payload s = (err, s')"
  obtains "s' = s" "err \<noteq> None"
  | guid row ext creds res where "payload = JString guid"
    "row \<in> set (episodes_t s)" "e_DeletedAt row = None" "e_GUID row = guid"
    "MIMETypeExtension (e_MimeType row) = Inr ext"
    "plain_elem (SanitiseGUID (e_PodcastGUID row))" "plain_elem (SanitiseGUID guid @ ''.'' @ ext)"
    "SaveRemoteFile (ap_os A) (nth_call cl 4) creds (e_DownloadURL row) (SanitiseGUID (e_PodcastGUID row))
       (SanitiseGUID guid @ ''.'' @ ext) (objects_t s) = (res, objects_t s')"
    "s' = s\<lparr>objects_t := objects_t s', episodes_t := episodes_t s'\<rparr>"
    "case res of
       Inl e \<Rightarrow> err \<noteq> None \<and> (episodes_t s' = episodes_t s \<or>
         episodes_t s' = upd_where (\<lambda>y. e_GUID y = guid \<and> e_DeletedAt y = None) (set_status (cl 2) EpisodeStatusFailed None) (episodes_t s))
     | Inr n \<Rightarrow> (if err \<noteq> None then episodes_t s' = episodes_t s
         else episodes_t s' = upd_where (\<lambda>y. e_GUID y = guid \<and> e_DeletedAt y = None) (set_status (cl 3) EpisodeStatusSuccess (Some n)) (episodes_t s))"
proof -
  have D: "pod_deps_ok (ap_pods A)" using A by (simp add: app_ok_def)
  show thesis
  proof (cases "s' = s \<and> err \<noteq> None")
    case True
    then show thesis using that(1) by blast
  next
    case False
    then obtain guid ep pod creds ext where pl: "payload = JString guid"
      and g: "GetEpisode (ap_pods A) (cl 0) guid (podcasts_t s) (episodes_t s) = Inr ep"
      and p: "GetPodcast (ap_pods A) (cl 1) (e_PodcastGUID ep) (podcasts_t s) = Inr pod"
      and c: "GetCredentials (ap_pods A) pod = Inr creds"
      and x: "MIMETypeExtension (e_MimeType ep) = Inr ext"
      using run by (auto simp: DownloadWorkerQueueHandler_def split: json.splits sum.splits)
    from GetEpisode_row [OF D g] obtain row where row: "row \<in> set (episodes_t s)" "e_DeletedAt row = None"
      "e_GUID row = guid" "ep = row\<lparr>e_Podcast := e_Podcast ep\<rparr>" by blast
    have same: "e_GUID ep = guid" "e_PodcastGUID ep = e_PodcastGUID row" "e_MimeType ep = e_MimeType row"
      "e_DownloadURL ep = e_DownloadURL row" by (subst row(4), simp add: row(3))+
    have "Episode_BeforeSave (pd_validator (ap_pods A)) row = None" using inv row(1) by (simp add: episodes_inv_def)
    then have "e_PodcastGUID row \<noteq> ''''" "guid \<noteq> ''''"
      using row(3) pod_deps_okD(3) [OF D] by (auto simp: Episode_BeforeSave_None_iff Episode_fields_def field_ok_def
          tag_meaning.tag_simps)
    with extension_plain [OF x] have plain: "plain_elem (SanitiseGUID (e_PodcastGUID row))"
      "plain_elem (SanitiseGUID guid @ ''.'' @ ext)" using plain_sanitised plain_file_name by auto
    obtain res o' where save: "SaveRemoteFile (ap_os A) (nth_call cl 4) creds (e_DownloadURL row)
       (SanitiseGUID (e_PodcastGUID row)) (SanitiseGUID guid @ ''.'' @ ext) (objects_t s) = (res, o')" by fastforce
    define now st n where "now = (case res of Inl e \<Rightarrow> cl 2 | Inr k \<Rightarrow> cl 3)"
      and "st = (case res of Inl e \<Rightarrow> EpisodeStatusFailed | Inr k \<Rightarrow> EpisodeStatusSuccess)"
      and "n = (case res of Inl e \<Rightarrow> None | Inr k \<Rightarrow> Some k)"
    obtain ue t' where u: "UpdateEpisodeStatus (ap_pods A) now ep st n (episodes_t s) = (ue, t')" by fastforce
    have t': "case ue of Some e \<Rightarrow> t' = episodes_t s
       | None \<Rightarrow> t' = upd_where (\<lambda>y. e_GUID y = guid \<and> e_DeletedAt y = None) (set_status now st n) (episodes_t s)"
    proof (cases ue)
      case None
      from UpdateEpisodeStatus_ok [OF D u [unfolded None]] None same show ?thesis by simp
    next
      case (Some e)
      with u show ?thesis by (simp add: UpdateEpisodeStatus_def split: sum.splits)
    qed
    have s': "s' = s\<lparr>objects_t := o', episodes_t := t'\<rparr>"
      "case res of Inl e \<Rightarrow> err \<noteq> None | Inr k \<Rightarrow> err \<noteq> None \<longleftrightarrow> ue \<noteq> None"
      using run pl g p c x save same u
      by (auto simp: DownloadWorkerQueueHandler_def Let_def now_def st_def n_def split: sum.splits option.splits)
    show thesis
    proof (rule that(2) [OF pl row(1-3) _ plain])
      show "MIMETypeExtension (e_MimeType row) = Inr ext" using x same by simp
      show "SaveRemoteFile (ap_os A) (nth_call cl 4) creds (e_DownloadURL row) (SanitiseGUID (e_PodcastGUID row))
       (SanitiseGUID guid @ ''.'' @ ext) (objects_t s) = (res, objects_t s')" using save s'(1) by simp
      show "s' = s\<lparr>objects_t := objects_t s', episodes_t := episodes_t s'\<rparr>" using s'(1) by simp
      show "case res of
       Inl e \<Rightarrow> err \<noteq> None \<and> (episodes_t s' = episodes_t s \<or>
         episodes_t s' = upd_where (\<lambda>y. e_GUID y = guid \<and> e_DeletedAt y = None) (set_status (cl 2) EpisodeStatusFailed None) (episodes_t s))
     | Inr n \<Rightarrow> (if err \<noteq> None then episodes_t s' = episodes_t s
         else episodes_t s' = upd_where (\<lambda>y. e_GUID y = guid \<and> e_DeletedAt y = None) (set_status (cl 3) EpisodeStatusSuccess (Some n)) (episodes_t s))"
        using s' t' by (cases res; cases ue) (auto simp: now_def st_def n_def)
    qed
  qed
qed

text \<open>The file of an episode has been saved: what its address delivered is kept under its own name.\<close>

definition episode_saved ::
  "('o \<Rightarrow> string \<Rightarrow> string \<Rightarrow> string option) \<Rightarrow> (time \<Rightarrow> PodcastCredentials option \<Rightarrow> string \<Rightarrow> string option) \<Rightarrow>
   'o \<Rightarrow> Episode \<Rightarrow> bool" where
  "episode_saved content remote ob e \<longleftrightarrow> (\<exists>ext now creds data. MIMETypeExtension (e_MimeType e) = Inr ext \<and>
     remote now creds (e_DownloadURL e) = Some data \<and>
     content ob (SanitiseGUID (e_PodcastGUID e)) (SanitiseGUID (e_GUID e) @ ''.'' @ ext) = Some data)"

text \<open>C25: however a run of the download worker ends, an episode it records as successful has been
  saved, under the episode's own name in its podcast's directory, with exactly the bytes its address
  delivered, and only a run without an error records one.  A run without an error does record the
  episode of its task; a run with an error changes at most the status of that episode, to failed.  No other
  episode is touched.\<close>

theorem download_success_means_saved:
  assumes A: "app_ok A" and os: "object_storage (SaveRemoteFile (ap_os A)) (ServeFile (ap_os A)) content remote"
    and inv: "episodes_inv (ap_pods A) (episodes_t s)"
    and run: "DownloadWorkerQueueHandler A cl payload s = (err, s')"
  shows "(\<forall>e \<in> set (episodes_t s'). e_Status e = EpisodeStatusSuccess \<longrightarrow> e \<in> set (episodes_t s) \<or>
      (err = None \<and> payload = JString (e_GUID e) \<and> episode_saved content remote (objects_t s') e)) \<and>
    (err = None \<longrightarrow> (\<exists>e \<in> set (episodes_t s'). payload = JString (e_GUID e) \<and>
      e_Status e = EpisodeStatusSuccess \<and> episode_saved content remote (objects_t s') e)) \<and>
    (err \<noteq> None \<longrightarrow> (\<forall>e \<in> set (episodes_t s'). e \<in> set (episodes_t s) \<or> e_Status e = EpisodeStatusFailed)) \<and>
    (\<forall>e. payload \<noteq> JString (e_GUID e) \<longrightarrow> (e \<in> set (episodes_t s') \<longleftrightarrow> e \<in> set (episodes_t s)))"
  using A inv run
proof (cases rule: DownloadWorker_run)
  case (2 guid row ext creds res)
  let ?upd = "\<lambda>st n now. upd_where (\<lambda>y. e_GUID y = guid \<and> e_DeletedAt y = None) (set_status now st n) (episodes_t s)"
  have others: "e \<in> set (?upd st n now) \<longleftrightarrow> e \<in> set (episodes_t s)" if "payload \<noteq> JString (e_GUID e)" for e st n now
    using that 2(1) by (auto simp: set_upd_where)
  show ?thesis
  proof (cases "err = None")
    case True
    with 2(10) obtain n where res: "res = Inr n" and t: "episodes_t s' = ?upd EpisodeStatusSuccess (Some n) (cl 3)"
      by (cases res) auto
    from object_storage.save_content [OF os 2(6,7) 2(8) [unfolded res]] obtain now data
      where d: "remote now creds (e_DownloadURL row) = Some data"
        "content (objects_t s') (SanitiseGUID (e_PodcastGUID row)) (SanitiseGUID guid @ ''.'' @ ext) = Some data" by blast
    have same: "y = row" if "y \<in> set (episodes_t s)" "e_GUID y = guid" for y
      using inv that 2(2,4) by (auto simp: episodes_inv_def intro: distinct_key_eq)
    let ?row = "set_status (cl 3) EpisodeStatusSuccess (Some n) row"
    have saved: "episode_saved content remote (objects_t s') ?row"
      using d 2(4,5) by (auto simp: episode_saved_def set_status_def)
    have "?row \<in> set (episodes_t s')" unfolding t by (rule upd_where_hit [OF 2(2)]) (use 2(3,4) in simp)
    moreover have "e \<in> set (episodes_t s) \<or> e = ?row" if "e \<in> set (episodes_t s')" for e
      using that same unfolding t by (auto simp: set_upd_where)
    moreover have "payload = JString (e_GUID ?row)" "e_Status ?row = EpisodeStatusSuccess" using 2(1,4) by simp_all
    moreover have "\<forall>e. payload \<noteq> JString (e_GUID e) \<longrightarrow> (e \<in> set (episodes_t s') \<longleftrightarrow> e \<in> set (episodes_t s))"
      using others unfolding t by blast
    ultimately show ?thesis using True saved by blast
  next
    case False
    with 2(10) have "episodes_t s' = episodes_t s \<or> episodes_t s' = ?upd EpisodeStatusFailed None (cl 2)"
      by (cases res) auto
    then show ?thesis
    proof
      assume t: "episodes_t s' = ?upd EpisodeStatusFailed None (cl 2)"
      have "e \<in> set (episodes_t s) \<or> e_Status e = EpisodeStatusFailed" if "e \<in> set (episodes_t s')" for e
        using that unfolding t by (auto simp: set_upd_where)
      then show ?thesis using False others unfolding t by fastforce
    qed (use False in auto)
  qed
qed auto

definition dl_store :: "fs store" where
  "dl_store = demo_store\<lparr>episodes_t := [(demo_episode ''one'' 10 ''https://a.org/f.mp3'')\<lparr>e_Status := EpisodeStatusPending\<rparr>]\<rparr>"

lemma dl_store_inv: "episodes_inv demo_pods (episodes_t dl_store)"
proof -
  have short: "rune_count s \<le> n" if "length s \<le> n" for s n using rune_count_le [of s] that by simp
  have "std_validator HttpUrl (FStr ''https://a.org/f.mp3'')" by code_simp
  then show ?thesis
    by (simp add: episodes_inv_def dl_store_def demo_episode_def episode_zero_def Episode_BeforeSave_None_iff
        Episode_fields_def field_ok_def short nat_le_iff Suc_le_eq)
qed

lemma dl_get:
  "GetEpisode demo_pods now ''u-one'' (podcasts_t dl_store) (episodes_t dl_store) =
     Inr ((hd (episodes_t dl_store))\<lparr>e_Podcast := hd (podcasts_t dl_store)\<rparr>)"
  "GetPodcast demo_pods now ''u-pod'' (podcasts_t dl_store) = Inr (hd (podcasts_t dl_store))"
  "GetCredentials demo_pods (hd (podcasts_t dl_store)) = Inr None"
  by (simp_all add: GetEpisode_def GetPodcast_def GetCredentials_def dl_store_def demo_store_def demo_episode_def
      episode_zero_def podcast_zero_def mem_episodes_def mem_podcasts_def mem_gorm_def mem_pick_def live_rows_def)

lemma dl_episode [simp]:
  "e_GUID (hd (episodes_t dl_store)) = ''u-one''" "e_PodcastGUID (hd (episodes_t dl_store)) = ''u-pod''"
  "e_MimeType (hd (episodes_t dl_store)) = ''audio/mpeg''"
  "e_DownloadURL (hd (episodes_t dl_store)) = ''https://a.org/f.mp3''" "objects_t dl_store = Map.empty"
  by (simp_all add: dl_store_def demo_store_def demo_episode_def)

lemma dl_save:
  "SaveRemoteFile (ap_os demo_app) cl None ''https://a.org/f.mp3'' (SanitiseGUID ''u-pod'') (SanitiseGUID ''u-one'' @ ''.mp3'') Map.empty =
     (Inr 5, Map.empty([SanitiseGUID ''u-pod''] \<mapsto> Directory, [SanitiseGUID ''u-pod'', SanitiseGUID ''u-one'' @ ''.mp3''] \<mapsto> File ''sound''))"
proof -
  have "plain_elem (SanitiseGUID ''u-pod'')" "plain_elem (SanitiseGUID ''u-one'' @ ''.mp3'')"
    using plain_sanitised [of "''u-pod''"] plain_file_name [of "''u-one''" "''mp3''"] by simp_all
  moreover have "downloaded demo_http now None ''https://a.org/f.mp3'' = Some ''sound''" for now
    using demo_external(2) by (simp add: downloaded_def http_download_def demo_http_def)
  ultimately show ?thesis
    using Local_SaveRemoteFile_healthy [of "SanitiseGUID ''u-pod''" "SanitiseGUID ''u-one'' @ ''.mp3''"
        "demo_local demo_http" "''https://a.org/f.mp3''" cl None "''sound''" Map.empty] demo_external(1)
    by (simp add: local_storage_def demo_local_def)
qed

lemma dl_run: "fst (DownloadWorkerQueueHandler demo_app (\<lambda>_. 7) (JString ''u-one'') dl_store) = None"
proof -
  obtain t' where "UpdateEpisodeStatus demo_pods 7 ((hd (episodes_t dl_store))\<lparr>e_Podcast := hd (podcasts_t dl_store)\<rparr>)
      EpisodeStatusSuccess (Some 5) (episodes_t dl_store) = (None, t')"
  proof -
    have "Episode_BeforeSave std_validator ((hd (episodes_t dl_store))\<lparr>e_Podcast := hd (podcasts_t dl_store)\<rparr>) = None"
      using dl_store_inv by (simp add: episodes_inv_def dl_store_def)
    from mem_episodes.updates_total [of "Episode_BeforeSave std_validator", OF this] obtain t' where "g_updates mem_episodes 7 (Episode_BeforeSave std_validator)
        ((hd (episodes_t dl_store))\<lparr>e_Podcast := hd (podcasts_t dl_store)\<rparr>) (\<lambda>e. e\<lparr>e_Status := EpisodeStatusSuccess, e_Bytes := 5\<rparr>)
        (episodes_t dl_store) = Inr t'" by blast
    then show thesis by (intro that) (simp add: UpdateEpisodeStatus_def)
  qed
  then show ?thesis
    using dl_get dl_save [of "nth_call (\<lambda>_. 7) 4"]
    by (simp add: DownloadWorkerQueueHandler_def MIMETypeExtension_def mimeToExt_def split: prod.splits)
qed

lemma demo_app_storage:
  "object_storage (SaveRemoteFile (ap_os demo_app)) (ServeFile (ap_os demo_app)) local_content (downloaded demo_http)"
  using local_driver.object_storage_axioms [of "demo_local demo_http"]
  by (simp add: local_storage_def demo_local_def)

theorem download_success_means_saved_witness:
  "\<exists>row' \<in> set (episodes_t (snd (DownloadWorkerQueueHandler demo_app (\<lambda>_. 7) (JString ''u-one'') dl_store))).
     e_GUID row' = ''u-one'' \<and> e_Status row' = EpisodeStatusSuccess \<and>
     episode_saved local_content (downloaded demo_http)
       (objects_t (snd (DownloadWorkerQueueHandler demo_app (\<lambda>_. 7) (JString ''u-one'') dl_store))) row'"
proof -
  obtain s' where run: "DownloadWorkerQueueHandler demo_app (\<lambda>_. 7) (JString ''u-one'') dl_store = (None, s')"
    using dl_run by (metis prod.collapse)
  from download_success_means_saved [OF demo_app_ok demo_app_storage _ run] dl_store_inv run show ?thesis by auto
qed

end
