(* ===== verification/Forms.thy ===== *)
theory Forms
  imports Workers Auth GoText
begin

text \<open>
  The forms of the web server and the helpers its handlers share (the end of
  \<^verbatim>\<open>pkg/webserver/handlers.go\<close>): decoding a form, the validation rules of the form structs
  (declared with the pages, under \<^verbatim>\<open>pkg/components\<close>), the texts of validation errors, messages for
  the page, and numbers in a path.
\<close>

section \<open>Dependencies of the web server\<close>

text \<open>
  The form decoder (gorilla/schema) is a parameter: for a request, the struct it fills in and its
  error, if any.  So are the English text of a validation error and the writer of feed XML.
\<close>

record decoder =
  dec_AddPodcast :: "request \<Rightarrow> go_error option \<times> AddPodcastFormData"
  dec_ProfileUpdatePassword :: "request \<Rightarrow> go_error option \<times> ProfileUpdatePasswordFormData"
  dec_CreateUser :: "request \<Rightarrow> go_error option \<times> CreateUserFormData"
  dec_UpdateUser :: "request \<Rightarrow> go_error option \<times> UpdateUserFormData"
  dec_UpdatePassword :: "request \<Rightarrow> go_error option \<times> UpdatePasswordFormData"

record 'o web_deps =
  wb_app :: "('o, page) app_deps"
  wb_baseURL :: string
  wb_itunes :: itunes_http
  wb_decoder :: decoder
  wb_validate :: validator
  wb_translate :: "string \<Rightarrow> string"
  wb_WriteFeedXML :: "feed \<Rightarrow> string \<times> go_error option"
  wb_static :: "request \<Rightarrow> page response \<Rightarrow> page response"

abbreviation wb_users :: "'o web_deps \<Rightarrow> user_deps" where
  "wb_users W \<equiv> ad_users (ap_auth (wb_app W))"

abbreviation wb_pods :: "'o web_deps \<Rightarrow> pod_deps" where
  "wb_pods W \<equiv> ap_pods (wb_app W)"

type_synonym 'o web_handler = "(req_context, 'o store, page) handler"

section \<open>Form data\<close>

definition empty_ProfileUpdatePasswordFormData :: ProfileUpdatePasswordFormData where
  "empty_ProfileUpdatePasswordFormData =
     \<lparr>pf_CurrentPassword = '''', pf_Password = '''', pf_RepeatPassword = ''''\<rparr>"

definition empty_CreateUserFormData :: CreateUserFormData where
  "empty_CreateUserFormData =
     \<lparr>cf_Username = '''', cf_Password = '''', cf_RepeatPassword = '''', cf_AccessLevel = 0\<rparr>"

definition empty_UpdateUserFormData :: UpdateUserFormData where
  "empty_UpdateUserFormData = \<lparr>uf_Username = '''', uf_AccessLevel = 0\<rparr>"

definition empty_UpdatePasswordFormData :: UpdatePasswordFormData where
  "empty_UpdatePasswordFormData = \<lparr>wf_Password = '''', wf_RepeatPassword = ''''\<rparr>"

definition empty_AddPodcastFormData :: AddPodcastFormData where
  "empty_AddPodcastFormData = \<lparr>af_FeedURL = '''', af_FeedUsername = '''', af_FeedPassword = ''''\<rparr>"

text \<open>The \<^verbatim>\<open>validate\<close> tags of the structs.\<close>

definition ProfileUpdatePassword_fields :: "ProfileUpdatePasswordFormData \<Rightarrow> field list" where
  "ProfileUpdatePassword_fields f =
     [(''CurrentPassword'', [Required], FStr (pf_CurrentPassword f)),
      (''Password'', [Required, Gte 8, Lte 64], FStr (pf_Password f)),
      (''RepeatPassword'', [Required, Gte 8, Lte 64], FStr (pf_RepeatPassword f))]"

definition CreateUser_fields :: "CreateUserFormData \<Rightarrow> field list" where
  "CreateUser_fields f =
     [(''Username'', [Required, Gte 1, Lte 50], FStr (cf_Username f)),
      (''Password'', [Required, Gte 8, Lte 64], FStr (cf_Password f)),
      (''RepeatPassword'', [Required, Gte 8, Lte 64], FStr (cf_RepeatPassword f)),
      (''AccessLevel'', [Required, Gte 1, Lte 3], FInt (cf_AccessLevel f))]"

definition UpdateUser_fields :: "UpdateUserFormData \<Rightarrow> field list" where
  "UpdateUser_fields f =
     [(''Username'', [Required, Gte 1, Lte 50], FStr (uf_Username f)),
      (''AccessLevel'', [Required, Gte 1, Lte 3], FInt (uf_AccessLevel f))]"

definition UpdatePassword_fields :: "UpdatePasswordFormData \<Rightarrow> field list" where
  "UpdatePassword_fields f =
     [(''Password'', [Required, Gte 8, Lte 64], FStr (wf_Password f)),
      (''RepeatPassword'', [Required, Gte 8, Lte 64], FStr (wf_RepeatPassword f))]"

section \<open>Helpers\<close>

text \<open>\<^verbatim>\<open>r.ParseForm\<close>, then the decoder on \<^verbatim>\<open>r.PostForm\<close>; the struct starts as its zero value.\<close>

definition parseFormData :: "(request \<Rightarrow> go_error option \<times> 'f) \<Rightarrow> 'f \<Rightarrow> request \<Rightarrow> go_error option \<times> 'f" where
  "parseFormData decode zero r =
     (case ParseFormErr r of
        Some err \<Rightarrow> (Some err, zero)
      | None \<Rightarrow> decode r)"

definition translateValidationErrs :: "(string \<Rightarrow> string) \<Rightarrow> go_error \<Rightarrow> string option" where
  "translateValidationErrs translate err =
     (case as_validation_errors err of
        None \<Rightarrow> None
      | Some vErr \<Rightarrow>
          (let errorTexts = map translate vErr
           in if length errorTexts = 0 then None else Some (strings_Join errorTexts '', '')))"

definition setShowMessageHeader :: "string \<Rightarrow> string \<Rightarrow> 'p response \<Rightarrow> 'p response" where
  "setShowMessageHeader message level w =
     (let q = [CHR 0x22]
      in header_set ''HX-Trigger''
           (''{'' @ q @ ''showMessage'' @ q @ '':{'' @ q @ ''level'' @ q @ '':'' @ q @ level @ q @ '','' @
            q @ ''message'' @ q @ '':'' @ q @ message @ q @ ''}}'') w)"

text \<open>The bounds \<^verbatim>\<open>parseUint\<close> checks again hold of every 64-bit value.\<close>

definition parseUint :: "string \<Rightarrow> nat result" where
  "parseUint str =
     (case ParseUint64 str of
        None \<Rightarrow> Inl (ErrorText ''strconv.ParseUint'')
      | Some u \<Rightarrow>
          if u > 18446744073709551615 then Inl (ErrorText ''parseUint: out of bounds'') else Inr u)"

text \<open>A form with an error: the text shown for it.\<close>

definition validation_text :: "(string \<Rightarrow> string) \<Rightarrow> go_error \<Rightarrow> string" where
  "validation_text translate err =
     (case translateValidationErrs translate err of
        Some errorText \<Rightarrow> errorText
      | None \<Rightarrow> ''Invalid request'')"

lemma validate_struct_text:
  "validate_struct V fs = Some err \<Longrightarrow>
   validation_text tr err = strings_Join (map tr (map fst (filter (\<lambda>f. \<not> field_ok V f) fs))) '', ''"
  by (auto simp: validate_struct_def Let_def validation_text_def translateValidationErrs_def split: if_splits)

end
