(* ===== verification/Handlers.thy ===== *)
theory Handlers
  imports Forms
begin

text \<open>
  The handlers of \<^verbatim>\<open>pkg/webserver/handlers.go\<close>, one definition per handler, on the whole state of
  the application.
\<close>

section \<open>Podcasts\<close>

definition HomeHandler :: "'o web_deps \<Rightarrow> 'o web_handler" where
  "HomeHandler W = (\<lambda>ctx r (d, w).
     (if URLPath r \<noteq> ''/'' then (Fail HttpNotFound, (d, w))
      else
        (case ListPodcasts (wb_pods W) (call_clock ctx 10 0) (podcasts_t d) of
           Inl err \<Rightarrow> (Fail err, (d, w))
         | Inr pods \<Rightarrow> Render 200 (Page (HomePage pods)) (d, w))))"

definition SearchPodcastsHandler :: "'o web_handler" where
  "SearchPodcastsHandler = (\<lambda>ctx r s. Render 200 (Page SearchPodcastsPage) s)"

definition SearchResultsHandler :: "'o web_deps \<Rightarrow> 'o web_handler" where
  "SearchResultsHandler W = (\<lambda>ctx r s.
     (let q = PostFormValue r ''query''
      in if length q = 0
         then Render 200 (Page (SearchResultsPartial [] ''Search query cannot be empty'')) s
         else if length q \<ge> 250
         then Render 200 (Page (SearchResultsPartial [] ''Search query must be less than 250 characters'')) s
         else
           (case Search (wb_itunes W) q of
              Inl err \<Rightarrow> Render 200 (Page (SearchResultsPartial [] ''There was an unexpected error'')) s
            | Inr results \<Rightarrow> Render 200 (Page (SearchResultsPartial results '''')) s)))"

definition AddPodcastHandler :: "'o web_deps \<Rightarrow> 'o web_handler" where
  "AddPodcastHandler W = (\<lambda>ctx r (d, w).
     (case parseFormData (dec_AddPodcast (wb_decoder W)) empty_AddPodcastFormData r of
        (Some err, _) \<Rightarrow> Render 200 (Page (AddPodcastPartial ''Invalid request'')) (d, w)
      | (None, formData) \<Rightarrow>
          (let creds = (if af_FeedUsername formData \<noteq> '''' \<and> af_FeedPassword formData \<noteq> ''''
                 then Some \<lparr>CredUsername = af_FeedUsername formData, CredPassword = af_FeedPassword formData\<rparr>
                 else None)
           in (case AddPodcast (wb_pods W) (call_clock ctx 10) (cx_random ctx 1) (af_FeedURL formData) creds
                       (podcasts_t d) of
                 (Inl err, t') \<Rightarrow>
                   (let d' = d\<lparr>podcasts_t := t'\<rparr>
                    in if errors_is ErrDuplicatedKey err
                       then Render 200 (Page (AddPodcastPartial ''This podcast is already added'')) (d', w)
                       else if errors_is ErrEncryptionNotConfigured err
                       then Render 200 (Page (AddPodcastPartial
                              ''Encryption must be configured to subscribe to password protected feeds'')) (d', w)
                       else Render 200 (Page (AddPodcastPartial ''Invalid feed'')) (d', w))
               | (Inr podcast, t') \<Rightarrow>
                   (let fileName = SanitiseGUID (p_GUID podcast) @ ''.'' @ ''jpg'';
                        (_, o') = SaveRemoteFile (ap_os (wb_app W)) (call_clock ctx 11) creds (p_ImageURL podcast)
                                    (SanitiseGUID (p_GUID podcast)) fileName (objects_t d);
                        (_, q') = PushQueueTask (ap_queue (wb_app W)) (call_clock ctx 12) FeedWorkerQueueName
                                    (JString '''') (queue_t d)
                    in Render 200 (Page (AddPodcastPartial ''''))
                         (d\<lparr>podcasts_t := t', objects_t := o', queue_t := q'\<rparr>, w))))))"

definition ViewPodcastHandler :: "'o web_deps \<Rightarrow> 'o web_handler" where
  "ViewPodcastHandler W = (\<lambda>ctx r (d, w).
     (case GetPodcast (wb_pods W) (call_clock ctx 10 0) (PathValue r ''guid'') (podcasts_t d) of
        Inl err \<Rightarrow>
          if errors_is ErrRecordNotFound err then (Fail HttpNotFound, (d, w)) else (Fail err, (d, w))
      | Inr pod \<Rightarrow>
          (case ListEpisodes (wb_pods W) (call_clock ctx 11 0) (p_GUID pod) (episodes_t d) of
             Inl err \<Rightarrow> (Fail err, (d, w))
           | Inr eps \<Rightarrow> Render 200 (Page (ViewPodcastPage (wb_baseURL W) pod eps)) (d, w))))"

definition ViewEpisodeHandler :: "'o web_deps \<Rightarrow> 'o web_handler" where
  "ViewEpisodeHandler W = (\<lambda>ctx r (d, w).
     (case GetEpisode (wb_pods W) (call_clock ctx 10 0) (PathValue r ''guid'') (podcasts_t d) (episodes_t d) of
        Inl err \<Rightarrow>
          if errors_is ErrRecordNotFound err then (Fail HttpNotFound, (d, w)) else (Fail err, (d, w))
      | Inr episode \<Rightarrow> Render 200 (Page (ViewEpisodePage episode)) (d, w)))"

definition DownloadEpisodeHandler :: "'o web_deps \<Rightarrow> 'o web_handler" where
  "DownloadEpisodeHandler W = (\<lambda>ctx r (d, w).
     (case GetEpisode (wb_pods W) (call_clock ctx 10 0) (PathValue r ''guid'') (podcasts_t d) (episodes_t d) of
        Inl err \<Rightarrow>
          if errors_is ErrRecordNotFound err then (Fail HttpNotFound, (d, w)) else (Fail err, (d, w))
      | Inr ep \<Rightarrow>
          (case MIMETypeExtension (e_MimeType ep) of
             Inl err \<Rightarrow> (Fail err, (d, w))
           | Inr extension \<Rightarrow>
               (let w1 = header_set ''Content-Disposition''
                      (''attachment; filename='' @ e_GUID ep @ ''.'' @ extension) w;
                    w2 = header_set ''Content-Type'' (e_MimeType ep) w1;
                    fileName = SanitiseGUID (e_GUID ep) @ ''.'' @ extension
                in (case ServeFile (ap_os (wb_app W)) (call_clock ctx 11) r (SanitiseGUID (e_PodcastGUID ep))
                            fileName (objects_t d) w2 of
                      (out, w3) \<Rightarrow> (out, (d, w3)))))))"

definition requeue_closure ::
  "'o web_deps \<Rightarrow> (nat \<Rightarrow> time) \<Rightarrow> Episode \<Rightarrow> 'o store \<Rightarrow> go_error option \<times> 'o store" where
  "requeue_closure W cl ep d =
     (case UpdateEpisodeStatus (wb_pods W) (cl 1) ep EpisodeStatusPending None (episodes_t d) of
        (Some err, t') \<Rightarrow> (Some err, d\<lparr>episodes_t := t'\<rparr>)
      | (None, t') \<Rightarrow>
          (case PushQueueTask (ap_queue (wb_app W)) (nth_call cl 2) DownloadWorkerQueueName (JString (e_GUID ep))
                  (queue_t d) of
             (Some err, q') \<Rightarrow> (Some err, d\<lparr>episodes_t := t', queue_t := q'\<rparr>)
           | (None, q') \<Rightarrow> (None, d\<lparr>episodes_t := t', queue_t := q'\<rparr>)))"

definition RequeueDownloadHandler :: "'o web_deps \<Rightarrow> 'o web_handler" where
  "RequeueDownloadHandler W = (\<lambda>ctx r (d, w).
     (case GetEpisode (wb_pods W) (call_clock ctx 10 0) (PathValue r ''guid'') (podcasts_t d) (episodes_t d) of
        Inl err \<Rightarrow>
          if errors_is ErrRecordNotFound err then (Fail HttpNotFound, (d, w)) else (Fail err, (d, w))
      | Inr ep \<Rightarrow>
          (case Transaction (qd_tx (ap_queue (wb_app W))) (call_clock ctx 11)
                  (requeue_closure W (call_clock ctx 11) ep) d of
             (Some err, d') \<Rightarrow> (Fail err, (d', w))
           | (None, d') \<Rightarrow>
               Render 200 (Page (EpisodeListItemPartial (ep\<lparr>e_Status := EpisodeStatusPending\<rparr>))) (d', w))))"

definition DownloadImageHandler :: "'o web_deps \<Rightarrow> 'o web_handler" where
  "DownloadImageHandler W = (\<lambda>ctx r (d, w).
     (case GetPodcast (wb_pods W) (call_clock ctx 10 0) (PathValue r ''guid'') (podcasts_t d) of
        Inl err \<Rightarrow>
          if errors_is ErrRecordNotFound err then (Fail HttpNotFound, (d, w)) else (Fail err, (d, w))
      | Inr pod \<Rightarrow>
          (let fileName = SanitiseGUID (p_GUID pod) @ ''.'' @ ''jpg''
           in (case ServeFile (ap_os (wb_app W)) (call_clock ctx 11) r (SanitiseGUID (p_GUID pod)) fileName
                       (objects_t d) w of
                 (out, w') \<Rightarrow> (out, (d, w'))))))"

definition FeedHandler :: "'o web_deps \<Rightarrow> 'o web_handler" where
  "FeedHandler W = (\<lambda>ctx r (d, w).
     (case GenerateFeed (wb_pods W) (call_clock ctx 10) (wb_baseURL W) (PathValue r ''guid'') (podcasts_t d)
             (episodes_t d) of
        Inl err \<Rightarrow>
          if errors_is ErrRecordNotFound err then (Fail HttpNotFound, (d, w)) else (Fail err, (d, w))
      | Inr feed \<Rightarrow>
          (let w' = header_set ''Content-Type'' ''application/xml'' w
           in if rs_broken w' then (Fail (ErrorText ''write failed''), (d, w'))
              else
                (case wb_WriteFeedXML W feed of
                   (xml, Some err) \<Rightarrow> (Fail err, (d, write_body (Bytes xml) w'))
                 | (xml, None) \<Rightarrow> (Done, (d, write_body (Bytes xml) w'))))))"

section \<open>The own password\<close>

definition CurrentUserUpdatePasswordGetHandler :: "'o web_handler" where
  "CurrentUserUpdatePasswordGetHandler = (\<lambda>ctx r s.
     Render 200 (Page (ProfileUpdatePasswordPage '''' False)) s)"

definition CurrentUserUpdatePasswordPostHandler :: "'o web_deps \<Rightarrow> 'o web_handler" where
  "CurrentUserUpdatePasswordPostHandler W = (\<lambda>ctx r (d, w).
     (let renderPage = (\<lambda>errorText isSuccess. Render 200 (Page (ProfileUpdatePasswordPage errorText isSuccess)))
      in (case parseFormData (dec_ProfileUpdatePassword (wb_decoder W)) empty_ProfileUpdatePasswordFormData r of
            (Some err, _) \<Rightarrow> renderPage ''Invalid request'' False (d, w)
          | (None, formData) \<Rightarrow>
              (case validate_struct (wb_validate W) (ProfileUpdatePassword_fields formData) of
                 Some err \<Rightarrow> renderPage (validation_text (wb_translate W) err) False (d, w)
               | None \<Rightarrow>
                   (case GetUserFromCtx ctx of
                      None \<Rightarrow> (Fail (ErrorText ''failed to fetch user from session''), (d, w))
                    | Some user \<Rightarrow>
                        (case CheckPassword (ud_bcrypt (wb_users W)) user (pf_CurrentPassword formData) of
                           Some err \<Rightarrow> renderPage ''Current password was incorrect'' False (d, w)
                         | None \<Rightarrow>
                             if pf_Password formData \<noteq> pf_RepeatPassword formData
                             then renderPage ''New passwords must match'' False (d, w)
                             else
                               (case UpdatePassword (wb_users W) (call_clock ctx 10 0) (cx_random ctx 1) (ID user)
                                       (pf_Password formData) (users_t d) of
                                  (Some err, t') \<Rightarrow>
                                    (case assert_password_error err of
                                       Some text \<Rightarrow> renderPage text False (d\<lparr>users_t := t'\<rparr>, w)
                                     | None \<Rightarrow>
                                         renderPage ''Failed to update password'' False (d\<lparr>users_t := t'\<rparr>, w))
                                | (None, t') \<Rightarrow> renderPage '''' True (d\<lparr>users_t := t'\<rparr>, w))))))))"

section \<open>User administration\<close>

definition ManageUsersHandler :: "'o web_deps \<Rightarrow> 'o web_handler" where
  "ManageUsersHandler W = (\<lambda>ctx r (d, w).
     (case ListUsers (wb_users W) (call_clock ctx 10 0) (users_t d) of
        Inl err \<Rightarrow> (Fail err, (d, w))
      | Inr users \<Rightarrow>
          (let createUserSuccess = (QueryGet r ''createUserSuccess'' = ''true'')
           in Render 200 (Page (ManageUsersPage users createUserSuccess)) (d, w))))"

text \<open>A request without an authenticated user ends in a nil dereference.\<close>

definition DeleteUserHandler :: "'o web_deps \<Rightarrow> 'o web_handler" where
  "DeleteUserHandler W = (\<lambda>ctx r (d, w).
     (let currentUser = GetUserFromCtx ctx;
          refuse = (\<lambda>message. (Done, (d, write_header 200
            (header_add ''HX-Reswap'' ''none'' (setShowMessageHeader message ''error'' w)))))
      in (case parseUint (PathValue r ''id'') of
            Inl err \<Rightarrow> refuse ''Invalid user ID in request''
          | Inr userID \<Rightarrow>
              if userID = 0 then refuse ''Invalid user ID in request''
              else
                (case currentUser of
                   None \<Rightarrow> (Panic ''nil pointer dereference'', (d, w))
                 | Some current \<Rightarrow>
                     if userID = ID current then refuse ''Cannot delete the current user''
                     else
                       (case DeleteUser (wb_users W) (call_clock ctx 10 0) userID (users_t d) of
                          (Some err, t') \<Rightarrow>
                            if errors_is ErrRecordNotFound err
                            then (Fail HttpNotFound, (d\<lparr>users_t := t'\<rparr>, w))
                            else (Fail err, (d\<lparr>users_t := t'\<rparr>, w))
                        | (None, t') \<Rightarrow>
                            (Done, (d\<lparr>users_t := t'\<rparr>, write_header 200
                              (setShowMessageHeader ''User deleted successfully'' ''success'' w))))))))"

definition CreateUserGetHandler :: "'o web_handler" where
  "CreateUserGetHandler = (\<lambda>ctx r s. Render 200 (Page (CreateUserPage '''' empty_CreateUserFormData)) s)"

definition CreateUserPostHandler :: "'o web_deps \<Rightarrow> 'o web_handler" where
  "CreateUserPostHandler W = (\<lambda>ctx r (d, w).
     (let renderPage = (\<lambda>formData errorText. Render 200 (Page (CreateUserPage errorText formData)))
      in (case parseFormData (dec_CreateUser (wb_decoder W)) empty_CreateUserFormData r of
            (Some err, formData) \<Rightarrow> renderPage formData ''Invalid request'' (d, w)
          | (None, formData) \<Rightarrow>
              (case validate_struct (wb_validate W) (CreateUser_fields formData) of
                 Some err \<Rightarrow> renderPage formData (validation_text (wb_translate W) err) (d, w)
               | None \<Rightarrow>
                   if cf_Password formData \<noteq> cf_RepeatPassword formData
                   then renderPage formData ''Passwords must match'' (d, w)
                   else
                     (case CreateUser (wb_users W) (call_clock ctx 10 0) (cx_random ctx 1) (cf_Username formData)
                             (cf_Password formData) (cf_AccessLevel formData) (users_t d) of
                        (Some err, t') \<Rightarrow>
                          (let d' = d\<lparr>users_t := t'\<rparr>
                           in (case assert_password_error err of
                                 Some text \<Rightarrow> renderPage formData text (d', w)
                               | None \<Rightarrow>
                                   if errors_is ErrDuplicatedKey err
                                   then renderPage formData ''A user with this username already exists'' (d', w)
                                   else renderPage formData ''Failed to create user'' (d', w)))
                      | (None, t') \<Rightarrow>
                          (Done, (d\<lparr>users_t := t'\<rparr>,
                            http_Redirect r ''/users?createUserSuccess=true'' 302 w)))))))"

definition EditUserGetHandler :: "'o web_deps \<Rightarrow> 'o web_handler" where
  "EditUserGetHandler W = (\<lambda>ctx r (d, w).
     (case parseUint (PathValue r ''id'') of
        Inl err \<Rightarrow> (Fail (HttpBadRequest ''Invalid request URL''), (d, w))
      | Inr userID \<Rightarrow>
          (case GetUserByID (wb_users W) (call_clock ctx 10 0) userID (users_t d) of
             Inl err \<Rightarrow> (Fail (Wrapped ''failed to GetUserByID: '' err), (d, w))
           | Inr user \<Rightarrow>
               Render 200 (Page (EditUserPage userID
                 \<lparr>uf_Username = Username user, uf_AccessLevel = AccessLevel user\<rparr>)) (d, w))))"

definition UpdateUserHandler :: "'o web_deps \<Rightarrow> 'o web_handler" where
  "UpdateUserHandler W = (\<lambda>ctx r (d, w).
     (case parseUint (PathValue r ''id'') of
        Inl err \<Rightarrow> (Fail (HttpBadRequest ''Invalid request URL''), (d, w))
      | Inr userID \<Rightarrow>
          (let renderPage = (\<lambda>formData errorText isSuccess.
                 Render 200 (Page (UpdateUserFormPartial errorText isSuccess userID formData)))
           in (case parseFormData (dec_UpdateUser (wb_decoder W)) empty_UpdateUserFormData r of
                 (Some err, formData) \<Rightarrow> renderPage formData ''Invalid request'' False (d, w)
               | (None, formData) \<Rightarrow>
                   (case validate_struct (wb_validate W) (UpdateUser_fields formData) of
                      Some err \<Rightarrow> renderPage formData (validation_text (wb_translate W) err) False (d, w)
                    | None \<Rightarrow>
                        (case GetUserFromCtx ctx of
                           None \<Rightarrow> (Panic ''nil pointer dereference'', (d, w))
                         | Some current \<Rightarrow>
                             if userID = ID current \<and> uf_AccessLevel formData < AccessLevelAdmin
                             then renderPage formData
                                    ''To prevent lockout, you cannot change the current user access level to below Admin''
                                    False (d, w)
                             else
                               (case UpdateUser (wb_users W) (call_clock ctx 10 0) userID (uf_Username formData)
                                       (uf_AccessLevel formData) (users_t d) of
                                  (Some err, t') \<Rightarrow>
                                    if errors_is ErrDuplicatedKey err
                                    then renderPage formData ''A user with this username already exists'' False
                                           (d\<lparr>users_t := t'\<rparr>, w)
                                    else renderPage formData ''Failed to update user'' False (d\<lparr>users_t := t'\<rparr>, w)
                                | (None, t') \<Rightarrow> renderPage formData '''' True (d\<lparr>users_t := t'\<rparr>, w))))))))"

definition UpdatePasswordHandler :: "'o web_deps \<Rightarrow> 'o web_handler" where
  "UpdatePasswordHandler W = (\<lambda>ctx r (d, w).
     (case parseUint (PathValue r ''id'') of
        Inl err \<Rightarrow> (Fail (HttpBadRequest ''Invalid request URL''), (d, w))
      | Inr userID \<Rightarrow>
          (let renderPage = (\<lambda>errorText isSuccess.
                 Render 200 (Page (UpdatePasswordFormPartial errorText isSuccess userID)))
           in (case parseFormData (dec_UpdatePassword (wb_decoder W)) empty_UpdatePasswordFormData r of
                 (Some err, _) \<Rightarrow> renderPage ''Invalid request'' False (d, w)
               | (None, formData) \<Rightarrow>
                   (case validate_struct (wb_validate W) (UpdatePassword_fields formData) of
                      Some err \<Rightarrow> renderPage (validation_text (wb_translate W) err) False (d, w)
                    | None \<Rightarrow>
                        if wf_Password formData \<noteq> wf_RepeatPassword formData
                        then renderPage ''Passwords must match'' False (d, w)
                        else
                          (case UpdatePassword (wb_users W) (call_clock ctx 10 0) (cx_random ctx 1) userID
                                  (wf_Password formData) (users_t d) of
                             (Some err, t') \<Rightarrow>
                               (case assert_password_error err of
                                  Some text \<Rightarrow> renderPage text False (d\<lparr>users_t := t'\<rparr>, w)
                                | None \<Rightarrow>
                                    renderPage ''Failed to update password'' False (d\<lparr>users_t := t'\<rparr>, w))
                           | (None, t') \<Rightarrow> renderPage '''' True (d\<lparr>users_t := t'\<rparr>, w)))))))"

end
