(* ===== verification/Webserver.thy ===== *)
theory Webserver
  imports Handlers
begin

text \<open>
  The route table of \<^verbatim>\<open>pkg/webserver/webserver.go\<close>: each pattern with its handler and the
  configuration of the authentication and access control middlewares.
\<close>

section \<open>Route configuration\<close>

abbreviation skipAuth :: mw_config where "skipAuth \<equiv> AuthenticationMiddlewareConfig True False"
abbreviation useBasicAuth :: mw_config where "useBasicAuth \<equiv> AuthenticationMiddlewareConfig False True"
abbreviation requireNone :: mw_config where "requireNone \<equiv> AccessControlMiddlewareConfig AccessLevelNone"
abbreviation requireReadOnly :: mw_config where
  "requireReadOnly \<equiv> AccessControlMiddlewareConfig AccessLevelReadOnly"
abbreviation requireManagePods :: mw_config where
  "requireManagePods \<equiv> AccessControlMiddlewareConfig AccessLevelManagePodcasts"
abbreviation requireAdmin :: mw_config where
  "requireAdmin \<equiv> AccessControlMiddlewareConfig AccessLevelAdmin"

type_synonym 'o route = "string \<times> 'o web_handler \<times> mw_config list"

section \<open>Routes\<close>

definition session_routes :: "'o web_deps \<Rightarrow> 'o route list" where
  "session_routes W =
     [(''GET /auth/login'', GetLoginHandler, [skipAuth, requireNone]),
      (''POST /auth/login'', PostLoginHandler (ap_auth (wb_app W)) (wb_baseURL W), [skipAuth, requireNone]),
      (''GET /auth/logout'', LogoutHandler (ap_auth (wb_app W)) (wb_baseURL W), [skipAuth, requireNone])]"

definition read_routes :: "'o web_deps \<Rightarrow> 'o route list" where
  "read_routes W =
     [(''GET /'', HomeHandler W, [requireReadOnly]),
      (''GET /profile/password'', CurrentUserUpdatePasswordGetHandler, [requireReadOnly]),
      (''POST /profile/password'', CurrentUserUpdatePasswordPostHandler W, [requireReadOnly]),
      (''GET /podcasts/{guid}'', ViewPodcastHandler W, [requireReadOnly]),
      (''GET /podcasts/{guid}/image'', DownloadImageHandler W, [requireReadOnly]),
      (''GET /episodes/{guid}'', ViewEpisodeHandler W, [requireReadOnly]),
      (''GET /episodes/{guid}/download'', DownloadEpisodeHandler W, [requireReadOnly]),
      (''GET /feeds/{guid}'', FeedHandler W, [useBasicAuth, requireReadOnly]),
      (''GET /feeds/{guid}/image'', DownloadImageHandler W, [useBasicAuth, requireReadOnly]),
      (''GET /feeds/episodes/{guid}/download'', DownloadEpisodeHandler W, [useBasicAuth, requireReadOnly])]"

definition manage_routes :: "'o web_deps \<Rightarrow> 'o route list" where
  "manage_routes W =
     [(''GET /podcasts/search'', SearchPodcastsHandler, [requireManagePods]),
      (''POST /podcasts/search'', SearchResultsHandler W, [requireManagePods]),
      (''POST /podcasts/add'', AddPodcastHandler W, [requireManagePods]),
      (''POST /episodes/{guid}/requeue-download'', RequeueDownloadHandler W, [requireManagePods])]"

definition admin_routes :: "'o web_deps \<Rightarrow> 'o route list" where
  "admin_routes W =
     [(''GET /users'', ManageUsersHandler W, [requireAdmin]),
      (''GET /users/create'', CreateUserGetHandler, [requireAdmin]),
      (''POST /users/create'', CreateUserPostHandler W, [requireAdmin]),
      (''GET /users/{id}/edit'', EditUserGetHandler W, [requireAdmin]),
      (''PUT /users/{id}'', UpdateUserHandler W, [requireAdmin]),
      (''PUT /users/{id}/password'', UpdatePasswordHandler W, [requireAdmin]),
      (''POST /users/{id}/delete'', DeleteUserHandler W, [requireAdmin])]"

text \<open>
  The order in which routes are added has no influence on which one serves a request: the most
  specific pattern does.  The routes are grouped by the level they require.
\<close>

definition web_routes :: "'o web_deps \<Rightarrow> 'o route list" where
  "web_routes W = session_routes W @ read_routes W @ manage_routes W @ admin_routes W"

definition NewWebserver ::
  "'o web_deps \<Rightarrow> nat \<Rightarrow> (mw_config, req_context, 'o store, page) server" where
  "NewWebserver W port =
     (let server = NewServer ('':'' @ show_nat port);
          server = SetServerMiddlewares (server_middlewares (ap_auth (wb_app W))) server;
          server = AddFileServer ''GET /static/'' (wb_static W) [skipAuth, requireNone] server
      in fold (\<lambda>(pattern, h, configs). AddRoute pattern h configs) (web_routes W) server)"

section \<open>The routes of the server\<close>

lemma fold_AddRoute:
  "sv_mux (fold (\<lambda>(pattern, h, configs). AddRoute pattern h configs) rs s) =
     sv_mux s @ map (\<lambda>(pattern, h, configs). (pattern, wrap_handler (rev (sv_mws s)) configs h)) rs"
  by (induction rs arbitrary: s) (auto simp: AddRoute_def)

lemma NewWebserver_mux:
  "sv_mux (NewWebserver W port) =
     (''GET /static/'', route_handler (ap_auth (wb_app W)) [skipAuth, requireNone]
        (\<lambda>ctx r (d, w). (Done, (d, wb_static W r w)))) #
     map (\<lambda>(pattern, h, configs). (pattern, route_handler (ap_auth (wb_app W)) configs h)) (web_routes W)"
  by (simp add: NewWebserver_def Let_def fold_AddRoute AddFileServer_def AddRoute_def SetServerMiddlewares_def
      NewServer_def route_handler_def)

end
