(* ===== verification/HandlerFacts.thy ===== *)
theory HandlerFacts
  imports Webserver UserFacts
begin

text \<open>
  What each handler may change: one lemma per handler that writes, one per group of routes.
\<close>

lemma Render_state [simp]: "fst (snd (Render c b s)) = fst s"
  by (cases s) (simp add: Render_def Let_def)

section \<open>Reading routes\<close>

lemma read_handlers [simp]:
  "fst (snd (HomeHandler W ctx r (d, w))) = d"
  "fst (snd (ViewPodcastHandler W ctx r (d, w))) = d"
  "fst (snd (DownloadImageHandler W ctx r (d, w))) = d"
  "fst (snd (ViewEpisodeHandler W ctx r (d, w))) = d"
  "fst (snd (DownloadEpisodeHandler W ctx r (d, w))) = d"
  "fst (snd (FeedHandler W ctx r (d, w))) = d"
  "fst (snd (CurrentUserUpdatePasswordGetHandler ctx r (d, w))) = d"
  "fst (snd (SearchPodcastsHandler ctx r (d, w))) = d"
  "fst (snd (SearchResultsHandler W ctx r (d, w))) = d"
  "fst (snd (ManageUsersHandler W ctx r (d, w))) = d"
  "fst (snd (CreateUserGetHandler ctx r (d, w))) = d"
  "fst (snd (EditUserGetHandler W ctx r (d, w))) = d"
  by (simp_all add: HomeHandler_def ViewPodcastHandler_def DownloadImageHandler_def ViewEpisodeHandler_def
      DownloadEpisodeHandler_def FeedHandler_def CurrentUserUpdatePasswordGetHandler_def SearchPodcastsHandler_def
      SearchResultsHandler_def ManageUsersHandler_def CreateUserGetHandler_def EditUserGetHandler_def Let_def
      split: sum.splits prod.splits option.splits)

text \<open>A change of the own password, by someone who knows the current one.\<close>

definition own_password_change :: "'o web_deps \<Rightarrow> req_context \<Rightarrow> 'o store \<Rightarrow> 'o store \<Rightarrow> bool" where
  "own_password_change W ctx d d' \<longleftrightarrow>
     (\<exists>u current now rnd pw. GetUserFromCtx ctx = Some u \<and>
        CheckPassword (ud_bcrypt (wb_users W)) u current = None \<and>
        d' = d\<lparr>users_t := snd (UpdatePassword (wb_users W) now rnd (ID u) pw (users_t d))\<rparr>)"

lemma CurrentUserUpdatePasswordPost_frame:
  "fst (snd (CurrentUserUpdatePasswordPostHandler W ctx r (d, w))) = d \<or>
   own_password_change W ctx d (fst (snd (CurrentUserUpdatePasswordPostHandler W ctx r (d, w))))"
proof (rule disjCI)
  let ?h = "CurrentUserUpdatePasswordPostHandler W ctx r (d, w)"
  assume no: "\<not> own_password_change W ctx d (fst (snd ?h))"
  obtain perr f where p: "parseFormData (dec_ProfileUpdatePassword (wb_decoder W))
      empty_ProfileUpdatePasswordFormData r = (perr, f)" by fastforce
  show "fst (snd ?h) = d"
  proof (rule ccontr)
    assume ch: "fst (snd ?h) \<noteq> d"
    then obtain u where u: "GetUserFromCtx ctx = Some u" "perr = None"
      "CheckPassword (ud_bcrypt (wb_users W)) u (pf_CurrentPassword f) = None" "pf_Password f = pf_RepeatPassword f"
      "validate_struct (wb_validate W) (ProfileUpdatePassword_fields f) = None"
      using p by (simp add: CurrentUserUpdatePasswordPostHandler_def Let_def split: option.splits if_splits)
    obtain e t' where "UpdatePassword (wb_users W) (call_clock ctx 10 0) (cx_random ctx 1) (ID u) (pf_Password f)
        (users_t d) = (e, t')" by fastforce
    with u p have "fst (snd ?h) = d\<lparr>users_t := snd (UpdatePassword (wb_users W) (call_clock ctx 10 0) (cx_random ctx 1)
        (ID u) (pf_Password f) (users_t d))\<rparr>"
      by (simp add: CurrentUserUpdatePasswordPostHandler_def Let_def split: option.splits)
    with u no show False unfolding own_password_change_def by blast
  qed
qed

lemma read_routes_frame:
  assumes "(pattern, h, configs) \<in> set (read_routes W)"
  shows "fst (snd (h ctx r (d, w))) = d \<or> own_password_change W ctx d (fst (snd (h ctx r (d, w))))"
  using assms CurrentUserUpdatePasswordPost_frame [of W ctx r d w] unfolding read_routes_def
  by (elim set_ConsD [elim_format] disjE) auto

section \<open>Sessions\<close>

text \<open>What changes sessions only does so by operations on sessions.\<close>

definition session_change :: "auth_deps \<Rightarrow> 'a auth_db_scheme \<Rightarrow> 'a auth_db_scheme \<Rightarrow> bool" where
  "session_change D d d' \<longleftrightarrow>
     (\<exists>t'. changed_by run_session_op D (sessions_t d) t' \<and> d' = d\<lparr>sessions_t := t'\<rparr>)"

lemma session_change_refl [simp]: "session_change D d d"
  unfolding session_change_def by (intro exI [of _ "sessions_t d"]) simp

lemma session_change_op: "session_change D d (d\<lparr>sessions_t := snd (run_session_op D op (sessions_t d))\<rparr>)"
  unfolding session_change_def by (rule exI [of _ "snd (run_session_op D op (sessions_t d))"]) (simp add: changed_by_op)

lemma session_op_response:
  "fst (snd (CreateSession D cl rnd b uid (t, w))) = snd (run_session_op D (CreateSessionOp cl rnd b uid) t)"
  "fst (snd (DeleteSession D cl b r (t, w))) = snd (run_session_op D (DeleteSessionOp cl b r) t)"
  by (simp_all add: CreateSession_def DeleteSession_def Let_def split: sum.splits prod.splits option.splits)

lemma session_handlers:
  "fst (snd (GetLoginHandler ctx r (d, w))) = d"
  "session_change D d (fst (snd (PostLoginHandler D b ctx r (d, w))))"
  "session_change D d (fst (snd (LogoutHandler D b ctx r (d, w))))"
proof -
  show "fst (snd (GetLoginHandler ctx r (d, w))) = d"
    by (simp add: GetLoginHandler_def renderLoginPage_def)
  have "fst (snd (PostLoginHandler D b ctx r (d, w))) = d \<or>
    (\<exists>uid. fst (snd (PostLoginHandler D b ctx r (d, w))) = d\<lparr>sessions_t :=
       fst (snd (CreateSession D (call_clock ctx 11) (cx_random ctx 0) b uid (sessions_t d, w)))\<rparr>)"
    by (auto simp: PostLoginHandler_def renderLoginPage_def Let_def
        split: sum.splits prod.splits outcome.splits option.splits) (metis fst_conv snd_conv)+
  then show "session_change D d (fst (snd (PostLoginHandler D b ctx r (d, w))))"
    unfolding session_op_response using session_change_op session_change_refl by metis
  have "fst (snd (LogoutHandler D b ctx r (d, w))) =
      d\<lparr>sessions_t := fst (snd (DeleteSession D (call_clock ctx 10) b r (sessions_t d, w)))\<rparr>"
    by (simp add: LogoutHandler_def Let_def split: prod.splits outcome.splits)
  then show "session_change D d (fst (snd (LogoutHandler D b ctx r (d, w))))"
    unfolding session_op_response using session_change_op by metis
qed

lemma session_routes_frame:
  "(pattern, h, configs) \<in> set (session_routes W) \<Longrightarrow>
   session_change (ap_auth (wb_app W)) d (fst (snd (h ctx r (d, w))))"
  by (auto simp: session_routes_def session_handlers)

section \<open>Managing podcasts\<close>

lemma AddPodcastHandler_frame:
  "(fst (snd (AddPodcastHandler W ctx r (d, w))))
     \<lparr>podcasts_t := podcasts_t d, objects_t := objects_t d, queue_t := queue_t d\<rparr> = d"
  by (simp add: AddPodcastHandler_def Let_def split: option.splits prod.splits sum.splits)

lemma AddPodcastHandler_queue:
  "queue_t (fst (snd (AddPodcastHandler W ctx r (d, w)))) = queue_t d \<or>
   queue_t (fst (snd (AddPodcastHandler W ctx r (d, w)))) =
     snd (PushQueueTask (ap_queue (wb_app W)) (call_clock ctx 12) FeedWorkerQueueName (JString '''') (queue_t d))"
proof -
  obtain e q' where "PushQueueTask (ap_queue (wb_app W)) (call_clock ctx 12) FeedWorkerQueueName (JString '''')
      (queue_t d) = (e, q')" by fastforce
  then show ?thesis by (simp add: AddPodcastHandler_def Let_def split: option.splits prod.splits sum.splits)
qed

lemma RequeueDownloadHandler_frame:
  "(fst (snd (RequeueDownloadHandler W ctx r (d, w))))\<lparr>episodes_t := episodes_t d, queue_t := queue_t d\<rparr> = d"
  by (simp add: RequeueDownloadHandler_def requeue_closure_def Transaction_def
      split: sum.splits option.splits prod.splits)

lemma manage_routes_frame:
  assumes "(pattern, h, configs) \<in> set (manage_routes W)"
  shows "users_t (fst (snd (h ctx r (d, w)))) = users_t d" "sessions_t (fst (snd (h ctx r (d, w)))) = sessions_t d"
proof -
  have "users_t (fst (snd (AddPodcastHandler W ctx r (d, w)))) = users_t d"
    "sessions_t (fst (snd (AddPodcastHandler W ctx r (d, w)))) = sessions_t d"
    using arg_cong [OF AddPodcastHandler_frame, of users_t] arg_cong [OF AddPodcastHandler_frame, of sessions_t]
    by simp_all
  moreover have "users_t (fst (snd (RequeueDownloadHandler W ctx r (d, w)))) = users_t d"
    "sessions_t (fst (snd (RequeueDownloadHandler W ctx r (d, w)))) = sessions_t d"
    using arg_cong [OF RequeueDownloadHandler_frame, of users_t] arg_cong [OF RequeueDownloadHandler_frame, of sessions_t]
    by simp_all
  ultimately show "users_t (fst (snd (h ctx r (d, w)))) = users_t d"
    "sessions_t (fst (snd (h ctx r (d, w)))) = sessions_t d"
    using assms by (auto simp: manage_routes_def)
qed

section \<open>User administration\<close>

text \<open>
  The operations an administrator's request may run: anything but deleting the own account or
  lowering its level.
\<close>

fun safe_op :: "nat \<Rightarrow> user_op \<Rightarrow> bool" where
  "safe_op me (DeleteUserOp now i) = (i \<noteq> me)"
| "safe_op me (UpdateUserOp now i name al) = (i = me \<longrightarrow> AccessLevelAdmin \<le> al)"
| "safe_op me _ = True"

definition admin_change :: "'o web_deps \<Rightarrow> req_context \<Rightarrow> 'o store \<Rightarrow> 'o store \<Rightarrow> bool" where
  "admin_change W ctx d d' \<longleftrightarrow>
     (\<exists>op. d' = d\<lparr>users_t := snd (run_user_op (wb_users W) op (users_t d))\<rparr> \<and>
        (\<forall>me. GetUserFromCtx ctx = Some me \<longrightarrow> safe_op (ID me) op))"

lemma DeleteUserHandler_frame:
  "fst (snd (DeleteUserHandler W ctx r (d, w))) = d \<or> admin_change W ctx d (fst (snd (DeleteUserHandler W ctx r (d, w))))"
proof (cases "parseUint (PathValue r ''id'')")
  case (Inr i)
  show ?thesis
  proof (cases "i = 0 \<or> GetUserFromCtx ctx = None \<or> i = ID (the (GetUserFromCtx ctx))")
    case True
    with Inr show ?thesis by (auto simp: DeleteUserHandler_def Let_def split: option.splits)
  next
    case False
    then obtain u where u: "GetUserFromCtx ctx = Some u" "i \<noteq> 0" "i \<noteq> ID u" by auto
    obtain e t' where "DeleteUser (wb_users W) (call_clock ctx 10 0) i (users_t d) = (e, t')" by fastforce
    with u Inr have "fst (snd (DeleteUserHandler W ctx r (d, w))) =
        d\<lparr>users_t := snd (run_user_op (wb_users W) (DeleteUserOp (call_clock ctx 10 0) i) (users_t d))\<rparr>"
      by (simp add: DeleteUserHandler_def Let_def split: option.splits)
    moreover have "safe_op (ID u) (DeleteUserOp (call_clock ctx 10 0) i)" using u by simp
    ultimately show ?thesis using u(1) unfolding admin_change_def by (metis option.inject)
  qed
qed (simp add: DeleteUserHandler_def Let_def)

lemma CreateUserPostHandler_frame:
  "fst (snd (CreateUserPostHandler W ctx r (d, w))) = d \<or>
   admin_change W ctx d (fst (snd (CreateUserPostHandler W ctx r (d, w))))"
proof -
  let ?h = "CreateUserPostHandler W ctx r (d, w)"
  obtain perr f where p: "parseFormData (dec_CreateUser (wb_decoder W)) empty_CreateUserFormData r = (perr, f)" by fastforce
  let ?op = "CreateUserOp (call_clock ctx 10 0) (cx_random ctx 1) (cf_Username f) (cf_RepeatPassword f) (cf_AccessLevel f)"
  obtain e t' where o: "run_user_op (wb_users W) ?op (users_t d) = (e, t')" by fastforce
  with p have "fst (snd ?h) = d \<or> fst (snd ?h) = d\<lparr>users_t := t'\<rparr>"
    by (auto simp: CreateUserPostHandler_def Let_def split: option.splits)
  moreover have "safe_op me ?op" for me by simp
  ultimately show ?thesis using o unfolding admin_change_def by (metis snd_conv)
qed

lemma UpdateUserHandler_frame:
  "fst (snd (UpdateUserHandler W ctx r (d, w))) = d \<or> admin_change W ctx d (fst (snd (UpdateUserHandler W ctx r (d, w))))"
proof (cases "parseUint (PathValue r ''id'')")
  case (Inr i)
  let ?h = "UpdateUserHandler W ctx r (d, w)"
  obtain perr f where p: "parseFormData (dec_UpdateUser (wb_decoder W)) empty_UpdateUserFormData r = (perr, f)" by fastforce
  let ?op = "UpdateUserOp (call_clock ctx 10 0) i (uf_Username f) (uf_AccessLevel f)"
  obtain e t' where o: "run_user_op (wb_users W) ?op (users_t d) = (e, t')" by fastforce
  have "fst (snd ?h) = d \<or> (fst (snd ?h) = d\<lparr>users_t := t'\<rparr> \<and> (\<forall>me. GetUserFromCtx ctx = Some me \<longrightarrow> safe_op (ID me) ?op))"
    using p o Inr by (auto simp: UpdateUserHandler_def Let_def split: option.splits)
  then show ?thesis using o unfolding admin_change_def by (metis snd_conv)
qed (simp add: UpdateUserHandler_def)

lemma UpdatePasswordHandler_frame:
  "fst (snd (UpdatePasswordHandler W ctx r (d, w))) = d \<or>
   admin_change W ctx d (fst (snd (UpdatePasswordHandler W ctx r (d, w))))"
proof (cases "parseUint (PathValue r ''id'')")
  case (Inr i)
  let ?h = "UpdatePasswordHandler W ctx r (d, w)"
  obtain perr f where p: "parseFormData (dec_UpdatePassword (wb_decoder W)) empty_UpdatePasswordFormData r = (perr, f)" by fastforce
  let ?op = "UpdatePasswordOp (call_clock ctx 10 0) (cx_random ctx 1) i (wf_RepeatPassword f)"
  obtain e t' where o: "run_user_op (wb_users W) ?op (users_t d) = (e, t')" by fastforce
  have "fst (snd ?h) = d \<or> fst (snd ?h) = d\<lparr>users_t := t'\<rparr>"
    using p o Inr by (auto simp: UpdatePasswordHandler_def Let_def split: option.splits)
  moreover have "safe_op me ?op" for me by simp
  ultimately show ?thesis using o unfolding admin_change_def by (metis snd_conv)
qed (simp add: UpdatePasswordHandler_def)

lemma admin_routes_frame:
  assumes "(pattern, h, configs) \<in> set (admin_routes W)"
  shows "fst (snd (h ctx r (d, w))) = d \<or> admin_change W ctx d (fst (snd (h ctx r (d, w))))"
  using assms DeleteUserHandler_frame [of W ctx r d w] CreateUserPostHandler_frame [of W ctx r d w]
    UpdateUserHandler_frame [of W ctx r d w] UpdatePasswordHandler_frame [of W ctx r d w]
  unfolding admin_routes_def by auto

section \<open>Administrators\<close>

definition live_admin :: "nat \<Rightarrow> User list \<Rightarrow> bool" where
  "live_admin i t \<longleftrightarrow> (\<exists>u \<in> set t. ID u = i \<and> DeletedAt u = None \<and> AccessLevelAdmin \<le> AccessLevel u)"

lemma safe_op_keeps_admin:
  assumes D: "user_deps_ok D" and inv: "users_inv D t" and safe: "safe_op i op" and a: "live_admin i t"
  shows "live_admin i (snd (run_user_op D op t))"
proof (cases "fst (run_user_op D op t)")
  case (Some e)
  then have "run_user_op D op t = (Some e, snd (run_user_op D op t))" by (metis prod.collapse)
  from user_op_error [OF this] a show ?thesis by simp
next
  case None
  then have run: "run_user_op D op t = (None, snd (run_user_op D op t))" by (metis prod.collapse)
  let ?t' = "snd (run_user_op D op t)"
  from a obtain a0 where a0: "a0 \<in> set t" "ID a0 = i" "DeletedAt a0 = None" "AccessLevelAdmin \<le> AccessLevel a0"
    by (auto simp: live_admin_def)
  have uniq: "u = a0" if "u \<in> set t" "ID u = i" for u
    using inv that a0 by (auto simp: users_inv_def intro: distinct_key_eq)
  show ?thesis
  proof (cases op)
    case (CreateUserOp now rnd name pw al)
    with run have "CreateUser D now rnd name pw al t = (None, ?t')" by simp
    then obtain u where "?t' = t @ [u]" by (rule CreateUser_ok [OF D])
    with a show ?thesis by (auto simp: live_admin_def)
  next
    case (UpdateUserOp now j name al)
    with run have "UpdateUser D now j name al t = (None, ?t')" by simp
    then obtain u where u: "u \<in> set t" "ID u = j" "DeletedAt u = None"
      and t': "?t' = upd_where (\<lambda>y. ID y = j) (\<lambda>_. u\<lparr>Username := name, AccessLevel := al, UpdatedAt := now\<rparr>) t"
      by (rule UpdateUser_ok [OF D])
    show ?thesis
    proof (cases "j = i")
      case True
      with safe UpdateUserOp have "AccessLevelAdmin \<le> al" by simp
      with True u show ?thesis unfolding live_admin_def t'
        by (intro bexI [of _ "u\<lparr>Username := name, AccessLevel := al, UpdatedAt := now\<rparr>"]) (auto simp: set_upd_where)
    next
      case False
      with a0 show ?thesis unfolding live_admin_def t' by (intro bexI [of _ a0]) (auto simp: set_upd_where)
    qed
  next
    case (UpdatePasswordOp now rnd j pw)
    with run have "UpdatePassword D now rnd j pw t = (None, ?t')" by simp
    then obtain u h where u: "u \<in> set t" "ID u = j" "DeletedAt u = None"
      and t': "?t' = upd_where (\<lambda>y. ID y = j) (\<lambda>_. u\<lparr>Password := h, UpdatedAt := now\<rparr>) t"
      by (rule UpdatePassword_ok [OF D])
    show ?thesis
    proof (cases "j = i")
      case True
      with u uniq a0 show ?thesis unfolding live_admin_def t'
        by (intro bexI [of _ "u\<lparr>Password := h, UpdatedAt := now\<rparr>"]) (auto simp: set_upd_where)
    next
      case False
      with a0 show ?thesis unfolding live_admin_def t' by (intro bexI [of _ a0]) (auto simp: set_upd_where)
    qed
  next
    case (DeleteUserOp now j)
    with run have "DeleteUser D now j t = (None, ?t')" by simp
    then have t': "?t' = upd_where (\<lambda>y. DeletedAt y = None \<and> ID y = j) (\<lambda>y. y\<lparr>DeletedAt := Some now\<rparr>) t"
      by (rule DeleteUser_ok [OF D]) auto
    from safe DeleteUserOp a0 show ?thesis unfolding live_admin_def t'
      by (intro bexI [of _ a0]) (auto simp: set_upd_where)
  qed
qed

end
