(* ===== verification/WebserverProps.thy ===== *)
theory WebserverProps
  imports HandlerFacts AuthProps WorkerProps
begin

text \<open>
  The properties of the web server as a whole: what a request may change depends on the access
  level of the account it is proved to be from, administrators never run out, and a download that
  is requeued is queued exactly once.
\<close>

section \<open>A route and its handler\<close>

lemma default_stack_state:
  fixes configs :: "'g list" and h :: "('c, 'd, 'p) handler"
  assumes "wrap_handler (rev (DefaultMiddlewareStack lg)) configs h ctx r (d, w) = (out, (d', w'))"
  shows "\<exists>w0. d' = fst (snd (h ctx r (d, w0)))"
proof -
  let ?eh = "mw_Handler (ErrorHandlerMiddleware :: ('g, 'c, 'd, 'p) middleware) h None"
  have e: "fst (snd (?eh ctx r (d, w0))) = fst (snd (h ctx r (d, w0)))" for w0
  proof -
    obtain hout dh wh where h: "h ctx r (d, w0) = (hout, (dh, wh))" by (metis surj_pair)
    obtain o1 d1 w1 where r: "?eh ctx r (d, w0) = (o1, (d1, w1))" by (metis surj_pair)
    from ErrorHandler_effect(1) [OF h r] h r show ?thesis by simp
  qed
  have "\<exists>w0. d' = fst (snd (?eh ctx r (d, w0)))"
  proof -
    let ?in = "\<lambda>v. mw_Handler (ResponseHeaderMiddleware :: ('g, 'c, 'd, 'p) middleware) ?eh None ctx r (d, v)"
    have "d' = fst (snd (?in (if lg ctx then w\<lparr>rs_wrapped := Some 200\<rparr> else w)))"
      using assms unfolding default_stack_eq
      by (auto simp: LogMiddleware_def split: prod.splits outcome.splits if_splits)
    then show ?thesis by (auto simp: ResponseHeaderMiddleware_def)
  qed
  with e show ?thesis by simp
qed

lemma refused_state:
  fixes h :: "('a, 'p) auth_handler"
  assumes no: "\<not> entitled D configs ctx r d"
    and run: "route_handler D configs h ctx r (d, w) = (out, (d', w'))"
  shows "d' = d \<or> d' = touched D ctx r d"
proof -
  have l: "required_level configs \<noteq> - 1" using no by (auto simp: entitled_def)
  from run have "wrap_handler (rev (DefaultMiddlewareStack cx_logger)) configs (auth_stack D configs h) ctx r (d, w) = (out, (d', w'))"
    by (simp add: route_handler_eq auth_stack_def)
  from default_stack_state [OF this] obtain w0 where d': "d' = fst (snd (auth_stack D configs h ctx r (d, w0)))" by blast
  from auth_stack_refused [OF no l, where w = w0 and 'p = 'p] obtain o1 w1 d1
    where "auth_stack D configs h ctx r (d, w0) = (o1, (d1, w1))" "d1 = d \<or> d1 = touched D ctx r d" by blast
  with d' show ?thesis by simp
qed

lemma entitled_state:
  fixes h :: "('a, 'p) auth_handler"
  assumes ok: "entitled D configs ctx r d" and l: "required_level configs \<noteq> - 1"
    and cfg: "find AuthenticationMiddleware_Match configs = cfg"
      "case cfg of Some (AuthenticationMiddlewareConfig s b) \<Rightarrow> \<not> s | _ \<Rightarrow> True"
    and run: "route_handler D configs h ctx r (d, w) = (out, (d', w'))"
  shows "\<exists>u w0. authenticated D cfg ctx r d = Some u \<and> AccessLevel u \<ge> required_level configs \<and>
    d' = fst (snd (h (CtxWithUser ctx u) r (before_handler D cfg ctx r d, w0)))"
proof -
  let ?stack = "\<lambda>u. wrap_handler (rev (DefaultMiddlewareStack cx_logger)) configs
        (\<lambda>_ r (_, w). h (CtxWithUser ctx u) r (before_handler D cfg ctx r d, w)) ctx r (d, w)"
  from entitled_request_handled [OF ok l cfg, of h w] have
    "\<exists>u. authenticated D cfg ctx r d = Some u \<and> AccessLevel u \<ge> required_level configs \<and> (out, (d', w')) = ?stack u"
    unfolding run .
  then obtain u
    where u: "authenticated D cfg ctx r d = Some u" "AccessLevel u \<ge> required_level configs"
      and stack: "(out, (d', w')) = ?stack u"
    by blast
  from default_stack_state [OF stack [symmetric]] obtain w0 where
    "d' = fst (snd (h (CtxWithUser ctx u) r (before_handler D cfg ctx r d, w0)))" by (auto simp del: CtxWithUser_simps)
  with u show ?thesis by blast
qed

lemma open_state:
  fixes h :: "('a, 'p) auth_handler"
  assumes run: "route_handler D [skipAuth, requireNone] h ctx r (d, w) = (out, (d', w'))"
  shows "\<exists>w0. d' = fst (snd (h ctx r (d, w0)))"
proof -
  have "route_handler D [skipAuth, requireNone] h =
      wrap_handler (rev (DefaultMiddlewareStack cx_logger)) [skipAuth, requireNone] h"
    by (simp add: route_handler_eq AuthenticationMiddleware_Handler_def AccessControlMiddleware_Handler_def
        AuthenticationMiddleware_Match_def AccessControlMiddleware_Match_def)
  with default_stack_state run show ?thesis by metis
qed

lemma touched_frame: "session_change D d (touched D ctx r d)"
  using session_change_op [where D = D and d = d]
  by (auto simp: touched_def run_session_op.simps(2) [symmetric] simp del: run_session_op.simps split: sum.splits)

lemma before_frame: "session_change D d (before_handler D cfg ctx r d)"
  by (simp add: before_handler_def touched_frame split: option.splits mw_config.splits bool.splits)

lemma sessions_only:
  assumes "session_change D d d'"
  shows "users_t d' = users_t d" "podcasts_t d' = podcasts_t d" "episodes_t d' = episodes_t d"
    "queue_t d' = queue_t d" "objects_t d' = objects_t d"
  using assms by (auto simp: session_change_def)

section \<open>What a request to the server did\<close>

lemma guarded_state:
  fixes h :: "('a, 'p) auth_handler"
  assumes l: "required_level configs = l" "1 \<le> l"
    and cfg: "find AuthenticationMiddleware_Match configs = cfg" "cfg \<in> {None, Some useBasicAuth}"
    and run: "route_handler D configs h ctx r (d, w) = (out, (d', w'))"
  shows "session_change D d d' \<or>
    (\<exists>u w0. authenticated D cfg ctx r d = Some u \<and> AccessLevel u \<ge> l \<and>
      d' = fst (snd (h (CtxWithUser ctx u) r (before_handler D cfg ctx r d, w0))))"
proof (cases "entitled D configs ctx r d")
  case True
  have "required_level configs \<noteq> - 1" "case cfg of Some (AuthenticationMiddlewareConfig s b) \<Rightarrow> \<not> s | _ \<Rightarrow> True"
    using l cfg(2) by auto
  from entitled_state [OF True this(1) cfg(1) this(2) run] l show ?thesis by blast
next
  case False
  from refused_state [OF False run] touched_frame show ?thesis by (metis session_change_refl)
qed

lemma route_configs:
  "(p, h, c) \<in> set (session_routes W) \<Longrightarrow> c = [skipAuth, requireNone]"
  "(p, h, c) \<in> set (read_routes W) \<Longrightarrow> c = [requireReadOnly] \<or> c = [useBasicAuth, requireReadOnly]"
  "(p, h, c) \<in> set (manage_routes W) \<Longrightarrow> c = [requireManagePods]"
  "(p, h, c) \<in> set (admin_routes W) \<Longrightarrow> c = [requireAdmin]"
  by (auto simp: session_routes_def read_routes_def manage_routes_def admin_routes_def)

lemma config_levels [simp]:
  "required_level [AccessControlMiddlewareConfig l] = l"
  "required_level [useBasicAuth, AccessControlMiddlewareConfig l] = l"
  "\<not> AuthenticationMiddleware_Match (AccessControlMiddlewareConfig l)"
  "AuthenticationMiddleware_Match (AuthenticationMiddlewareConfig a b)"
  by (simp_all add: required_level_def AccessControlMiddleware_Match_def AuthenticationMiddleware_Match_def)

lemma server_request:
  assumes route: "(pattern, h) \<in> set (sv_mux (NewWebserver W port))" and run: "h ctx r (d, w) = (out, (d', w'))"
  obtains (sessions) "session_change (ap_auth (wb_app W)) d d'"
  | (read) cfg u d0 where "authenticated (ap_auth (wb_app W)) cfg ctx r d = Some u" "cfg \<in> {None, Some useBasicAuth}"
      "AccessLevel u \<ge> 1" "session_change (ap_auth (wb_app W)) d d0" "own_password_change W (CtxWithUser ctx u) d0 d'"
  | (manage) u p h0 c d0 w0 where "authenticated (ap_auth (wb_app W)) None ctx r d = Some u" "AccessLevel u \<ge> 2"
      "users_t d' = users_t d" "session_change (ap_auth (wb_app W)) d d0" "(p, h0, c) \<in> set (manage_routes W)"
      "d' = fst (snd (h0 (CtxWithUser ctx u) r (d0, w0)))"
  | (admin) u d0 where "authenticated (ap_auth (wb_app W)) None ctx r d = Some u" "AccessLevel u \<ge> 3"
      "session_change (ap_auth (wb_app W)) d d0" "admin_change W (CtxWithUser ctx u) d0 d'"
proof -
  let ?D = "ap_auth (wb_app W)"
  have users: "users_t (before_handler ?D cfg ctx r d) = users_t d" for cfg
    using sessions_only(1) [OF before_frame] .
  from route consider (static) "h = route_handler ?D [skipAuth, requireNone] (\<lambda>ctx r (d, w). (Done, (d, wb_static W r w)))"
    | (route) p h0 c where "(p, h0, c) \<in> set (web_routes W)" "h = route_handler ?D c h0"
    unfolding NewWebserver_mux by auto
  then show thesis
  proof cases
    case static
    from open_state [OF run [unfolded static]] show thesis by (intro sessions) auto
  next
    case route: (route p h0 c)
    note run' = run [unfolded route(2)]
    from route(1) consider "(p, h0, c) \<in> set (session_routes W)" | "(p, h0, c) \<in> set (read_routes W)"
      | "(p, h0, c) \<in> set (manage_routes W)" | "(p, h0, c) \<in> set (admin_routes W)"
      by (auto simp: web_routes_def)
    then show thesis
    proof cases
      case 1
      from open_state [OF run' [unfolded route_configs(1) [OF 1]]] session_routes_frame [OF 1]
      show thesis by (metis sessions)
    next
      case 2
      let ?cfg = "find AuthenticationMiddleware_Match c"
      have c: "required_level c = 1" "?cfg \<in> {None, Some useBasicAuth}" using route_configs(2) [OF 2] by auto
      from guarded_state [OF c(1) order_refl refl c(2) run'] show thesis
      proof (elim disjE exE conjE)
        fix u w0
        assume u: "authenticated ?D ?cfg ctx r d = Some u" "1 \<le> AccessLevel u"
          and d': "d' = fst (snd (h0 (CtxWithUser ctx u) r (before_handler ?D ?cfg ctx r d, w0)))"
        from read_routes_frame [OF 2, of "CtxWithUser ctx u" r "before_handler ?D ?cfg ctx r d" w0] show thesis
          unfolding d' [symmetric]
        proof
          assume "d' = before_handler ?D ?cfg ctx r d"
          then show thesis using before_frame by (intro sessions) blast
        next
          assume "own_password_change W (CtxWithUser ctx u) (before_handler ?D ?cfg ctx r d) d'"
          from read [OF u(1) c(2) u(2) before_frame this] show thesis .
        qed
      qed (simp_all add: sessions)
    next
      case 3
      from guarded_state [OF _ _ _ _ run', of 2 None] route_configs(3) [OF 3] have
        "session_change ?D d d' \<or> (\<exists>u w0. authenticated ?D None ctx r d = Some u \<and> AccessLevel u \<ge> 2 \<and>
          d' = fst (snd (h0 (CtxWithUser ctx u) r (before_handler ?D None ctx r d, w0))))" by simp
      then show thesis
      proof (elim disjE exE conjE)
        fix u w0
        assume u: "authenticated ?D None ctx r d = Some u" "2 \<le> AccessLevel u"
          and d': "d' = fst (snd (h0 (CtxWithUser ctx u) r (before_handler ?D None ctx r d, w0)))"
        have "users_t d' = users_t d" unfolding d' manage_routes_frame(1) [OF 3] by (rule users)
        from manage [OF u this before_frame 3 d'] show thesis .
      qed (simp add: sessions)
    next
      case 4
      from guarded_state [OF _ _ _ _ run', of 3 None] route_configs(4) [OF 4] have
        "session_change ?D d d' \<or> (\<exists>u w0. authenticated ?D None ctx r d = Some u \<and> AccessLevel u \<ge> 3 \<and>
          d' = fst (snd (h0 (CtxWithUser ctx u) r (before_handler ?D None ctx r d, w0))))" by simp
      then show thesis
      proof (elim disjE exE conjE)
        fix u w0
        assume u: "authenticated ?D None ctx r d = Some u" "3 \<le> AccessLevel u"
          and d': "d' = fst (snd (h0 (CtxWithUser ctx u) r (before_handler ?D None ctx r d, w0)))"
        from admin_routes_frame [OF 4, of "CtxWithUser ctx u" r "before_handler ?D None ctx r d" w0] show thesis
          unfolding d' [symmetric]
        proof
          assume "d' = before_handler ?D None ctx r d"
          then show thesis using before_frame by (intro sessions) blast
        next
          assume "admin_change W (CtxWithUser ctx u) (before_handler ?D None ctx r d) d'"
          from admin [OF u before_frame this] show thesis .
        qed
      qed (simp add: sessions)
    qed
  qed
qed

section \<open>Access levels\<close>

text \<open>C1: no request changes more than the account it is proved to be from may change.  The podcasts, the
  episodes, the queue and the stored files change only for an account of level 2 or more, the
  accounts only for an administrator or, as to its own password, for the account itself; what any
  other request changes are sessions.\<close>

theorem server_respects_access_levels:
  assumes "(pattern, h) \<in> set (sv_mux (NewWebserver W port))" and "h ctx r (d, w) = (out, (d', w'))"
  shows "((podcasts_t d', episodes_t d', queue_t d', objects_t d') \<noteq> (podcasts_t d, episodes_t d, queue_t d, objects_t d) \<longrightarrow>
      (\<exists>u. authenticated (ap_auth (wb_app W)) None ctx r d = Some u \<and> AccessLevel u \<ge> 2)) \<and>
    (users_t d' \<noteq> users_t d \<longrightarrow>
      (\<exists>u. authenticated (ap_auth (wb_app W)) None ctx r d = Some u \<and> AccessLevel u \<ge> 3) \<or>
      (\<exists>cfg u current now rnd pw. authenticated (ap_auth (wb_app W)) cfg ctx r d = Some u \<and>
        cfg \<in> {None, Some useBasicAuth} \<and> CheckPassword (ud_bcrypt (wb_users W)) u current = None \<and>
        users_t d' = snd (UpdatePassword (wb_users W) now rnd (ID u) pw (users_t d))))"
  using assms
proof (cases rule: server_request)
  case sessions
  from sessions_only [OF this] show ?thesis by simp
next
  case (read cfg u d0)
  from sessions_only [OF read(4)] read(5) obtain current now rnd pw
    where "CheckPassword (ud_bcrypt (wb_users W)) u current = None"
      "d' = d0\<lparr>users_t := snd (UpdatePassword (wb_users W) now rnd (ID u) pw (users_t d))\<rparr>"
    by (auto simp: own_password_change_def)
  with sessions_only [OF read(4)] have "podcasts_t d' = podcasts_t d" "episodes_t d' = episodes_t d"
    "queue_t d' = queue_t d" "objects_t d' = objects_t d"
    and own: "users_t d' = snd (UpdatePassword (wb_users W) now rnd (ID u) pw (users_t d))"
      "CheckPassword (ud_bcrypt (wb_users W)) u current = None" by simp_all
  moreover from own read(1,2) have "\<exists>cfg u current now rnd pw. authenticated (ap_auth (wb_app W)) cfg ctx r d = Some u \<and>
      cfg \<in> {None, Some useBasicAuth} \<and> CheckPassword (ud_bcrypt (wb_users W)) u current = None \<and>
      users_t d' = snd (UpdatePassword (wb_users W) now rnd (ID u) pw (users_t d))" by blast
  ultimately show ?thesis by simp
next
  case (manage u)
  then show ?thesis by auto
next
  case (admin u d0)
  from sessions_only [OF admin(3)] admin(4) have "podcasts_t d' = podcasts_t d" "episodes_t d' = episodes_t d"
    "queue_t d' = queue_t d" "objects_t d' = objects_t d" by (auto simp: admin_change_def)
  with admin(1,2) show ?thesis by auto
qed

definition demo_web :: "fs web_deps" where
  "demo_web =
     \<lparr>wb_app = \<lparr>ap_auth = demo_auth, ap_pods = demo_pods, ap_queue = demo_queue,
        ap_os = local_storage (demo_local demo_http)\<rparr>,
      wb_baseURL = ''http://h'', wb_itunes = (\<lambda>_. Inl (ErrorText ''offline'')),
      wb_decoder =
        \<lparr>dec_AddPodcast = (\<lambda>r. (None, empty_AddPodcastFormData)),
         dec_ProfileUpdatePassword = (\<lambda>r. (None, empty_ProfileUpdatePasswordFormData)),
         dec_CreateUser = (\<lambda>r. (None, empty_CreateUserFormData)),
         dec_UpdateUser = (\<lambda>r. (None, empty_UpdateUserFormData)),
         dec_UpdatePassword = (\<lambda>r. (None, empty_UpdatePasswordFormData))\<rparr>,
      wb_validate = std_validator, wb_translate = id, wb_WriteFeedXML = (\<lambda>_. ('''', None)),
      wb_static = (\<lambda>_ w. w)\<rparr>"

lemma demo_web_simps [simp]:
  "ap_auth (wb_app demo_web) = demo_auth" "wb_pods demo_web = demo_pods" "ap_queue (wb_app demo_web) = demo_queue"
  by (simp_all add: demo_web_def)

definition web_store :: "fs store" where
  "web_store = demo_store\<lparr>users_t := demo_table\<rparr>"

definition two_admins :: "fs store" where
  "two_admins = demo_store\<lparr>users_t := [demo_user 1 ''alice'' 3, demo_user 2 ''bob'' 3]\<rparr>"

definition delete_request :: request where
  "delete_request = (plain_request ''POST'' ''/users/1/delete'')\<lparr>PathValue := (\<lambda>_. ''1'')\<rparr>"

abbreviation delete_route :: "fs web_handler" where
  "delete_route \<equiv> route_handler demo_auth [requireAdmin] (DeleteUserHandler demo_web)"

lemma delete_route: "(''POST /users/{id}/delete'', delete_route) \<in> set (sv_mux (NewWebserver demo_web 80))"
  by (auto simp: NewWebserver_mux web_routes_def admin_routes_def)

lemma delete_request_nobody: "authenticated demo_auth None ctx delete_request d = None"
  by (simp add: authenticated_def GetSession_def getSessionIDFromCookie_def delete_request_def plain_request_def)

theorem server_respects_access_levels_witness:
  "queue_t (fst (snd (delete_route demo_ctx delete_request (web_store, new_response)))) = queue_t web_store"
proof -
  obtain out d' w' where run: "delete_route demo_ctx delete_request (web_store, new_response) = (out, (d', w'))"
    by (metis surj_pair)
  from server_respects_access_levels [OF delete_route run] run delete_request_nobody [of demo_ctx web_store] show ?thesis by auto
qed

lemma authenticated_account:
  assumes D: "auth_deps_ok D" and u: "authenticated D cfg ctx r d = Some u" "AccessLevel u \<ge> 1"
    and cfg: "cfg \<in> {None, Some useBasicAuth}"
  shows "u \<in> set (users_t d)" "DeletedAt u = None"
proof -
  have "u \<in> set (users_t d) \<and> DeletedAt u = None"
  proof (cases "cfg = None")
    case True
    with u obtain s where s: "GetSession D (call_clock ctx 0) r (users_t d) (sessions_t d) = Inr s" "u = SessionUser s"
      by (auto simp: authenticated_def split: sum.splits)
    have "u \<noteq> user_zero" using u(2) by (auto simp: user_zero_def)
    with GetSession_Inr [OF D s(1)] s(2) show ?thesis by metis
  next
    case False
    with u cfg show ?thesis
      by (auto simp: authenticated_def checkUsernameAndPassword_def split: option.splits sum.splits
          dest: by_name.found [OF auth_deps_okD(1) [OF D]])
  qed
  then show "u \<in> set (users_t d)" "DeletedAt u = None" by auto
qed

text \<open>C10: administrators never run out: whatever request the server handles, if there was a live account
  with administrator access before, there is one afterwards; an administrator cannot delete the own
  account or lower its level, and nobody else may touch another account.\<close>

theorem administrators_never_run_out:
  assumes D: "auth_deps_ok (ap_auth (wb_app W))" and inv: "users_inv (wb_users W) (users_t d)"
    and admin: "live_admin i (users_t d)"
    and req: "(pattern, h) \<in> set (sv_mux (NewWebserver W port))" "h ctx r (d, w) = (out, (d', w'))"
  shows "\<exists>j. live_admin j (users_t d')"
  using req
proof (cases rule: server_request)
  case sessions
  from sessions_only [OF this] admin show ?thesis by auto
next
  case (read cfg u d0)
  then obtain now rnd pw where
    "users_t d' = snd (run_user_op (wb_users W) (UpdatePasswordOp now rnd (ID u) pw) (users_t d))"
    using sessions_only [OF read(4)] by (auto simp: own_password_change_def)
  with safe_op_keeps_admin [OF auth_deps_okD(1) [OF D] inv _ admin, of "UpdatePasswordOp now rnd (ID u) pw"]
  show ?thesis by auto
next
  case (manage u)
  with admin show ?thesis by auto
next
  case (admin u d0)
  then obtain op where op: "users_t d' = snd (run_user_op (wb_users W) op (users_t d))" "safe_op (ID u) op"
    using sessions_only [OF admin(3)] by (auto simp: admin_change_def)
  have "live_admin (ID u) (users_t d)"
    using authenticated_account [OF D admin(1)] admin(2) by (auto simp: live_admin_def)
  from safe_op_keeps_admin [OF auth_deps_okD(1) [OF D] inv op(2) this] op(1) show ?thesis by auto
qed

theorem administrators_never_run_out_witness:
  "\<exists>j. live_admin j (users_t (fst (snd (delete_route demo_ctx delete_request (web_store, new_response)))))"
proof -
  obtain out d' w' where run: "delete_route demo_ctx delete_request (web_store, new_response) = (out, (d', w'))"
    by (metis surj_pair)
  have "live_admin 1 (users_t web_store)"
    by (simp add: live_admin_def web_store_def demo_table_def demo_user_def user_zero_def)
  moreover have "users_inv (wb_users demo_web) (users_t web_store)"
    using demo_table_inv by (simp add: web_store_def demo_auth_def)
  ultimately show ?thesis
    using administrators_never_run_out [OF _ _ _ delete_route run, of 1] run by auto
qed

section \<open>Administrators deleting each other\<close>

lemma DeleteUser_total:
  assumes up: "user_deps_up D" and u: "u \<in> set t" "DeletedAt u = None"
  shows "DeleteUser D now (ID u) t =
    (None, upd_where (\<lambda>y. DeletedAt y = None \<and> ID y = ID u) (\<lambda>y. y\<lparr>DeletedAt := Some now\<rparr>) t)"
proof -
  from up have D: "user_deps_ok D" and av: "gorm_available user_schema (ud_gorm D)" by (simp_all add: user_deps_up_def)
  have "live_rows user_schema (\<lambda>y. ID y = ID u) t \<noteq> []"
    using u by (auto simp: live_rows_def filter_empty_conv)
  then obtain r where "GetUserByID D now (ID u) t = Inr r"
    using gorm_available.first_total [OF av, of "\<lambda>y. ID y = ID u" t now] by (auto simp: GetUserByID_def)
  moreover obtain n t' where "g_delete (ud_gorm D) now (\<lambda>y. ID y = ID u) t = Inr (n, t')"
    using gorm_available.delete_total [OF av] by blast
  ultimately have run: "DeleteUser D now (ID u) t = (None, t')" by (simp add: DeleteUser_def)
  show ?thesis by (rule DeleteUser_ok [OF D run]) (simp add: run)
qed

lemma DeleteUserHandler_deletes:
  assumes up: "user_deps_up (wb_users W)" and v: "v \<in> set (users_t d)" "DeletedAt v = None" "ID v \<noteq> 0" "ID v \<noteq> ID u"
    and id: "parseUint (PathValue r ''id'') = Inr (ID v)"
  obtains w' where "DeleteUserHandler W (CtxWithUser ctx u) r (d, w) = (Done, (d\<lparr>users_t :=
    upd_where (\<lambda>y. DeletedAt y = None \<and> ID y = ID v) (\<lambda>y. y\<lparr>DeletedAt := Some (call_clock ctx 10 0)\<rparr>) (users_t d)\<rparr>, w'))"
  using v(3,4) id DeleteUser_total [OF up v(1,2)] by (simp add: DeleteUserHandler_def Let_def)

text \<open>C27: the check that an administrator does not delete the own account looks only at the account
  the request was authenticated with: when the last two administrators delete each other and both requests
  have been authenticated before either deletion, both succeed and no administrator is left.\<close>

theorem overlapping_deletions_leave_no_administrator:
  assumes up: "user_deps_up (wb_users W)"
    and u: "u \<in> set (users_t d)" "DeletedAt u = None" "ID u \<noteq> 0"
    and v: "v \<in> set (users_t d)" "DeletedAt v = None" "ID v \<noteq> 0" "ID u \<noteq> ID v"
    and last: "\<forall>i. live_admin i (users_t d) \<longrightarrow> i \<in> {ID u, ID v}"
    and req: "parseUint (PathValue r1 ''id'') = Inr (ID v)" "parseUint (PathValue r2 ''id'') = Inr (ID u)"
    and run: "DeleteUserHandler W (CtxWithUser ctx1 u) r1 (d, w1) = (out1, (d1, w1'))"
      "DeleteUserHandler W (CtxWithUser ctx2 v) r2 (d1, w2) = (out2, (d2, w2'))"
  shows "out1 = Done \<and> out2 = Done \<and> (\<forall>i. \<not> live_admin i (users_t d2))"
proof -
  let ?del = "\<lambda>i now. upd_where (\<lambda>y. DeletedAt y = None \<and> ID y = i) (\<lambda>y. y\<lparr>DeletedAt := Some now\<rparr>) :: User list \<Rightarrow> _"
  have 1: "out1 = Done \<and> users_t d1 = ?del (ID v) (call_clock ctx1 10 0) (users_t d)"
    by (rule DeleteUserHandler_deletes [OF up v(1-3) _ req(1), of u ctx1 w1]) (use run(1) v(4) in auto)
  with u v(4) have "u \<in> set (users_t d1)" by (force simp: set_upd_where)
  then have 2: "out2 = Done \<and> users_t d2 = ?del (ID u) (call_clock ctx2 10 0) (users_t d1)"
    by (rule DeleteUserHandler_deletes [OF up _ u(2,3) _ req(2), of d1 v ctx2 w2]) (use run(2) v(4) in auto)
  from last have "\<forall>y \<in> set (users_t d). DeletedAt y = None \<longrightarrow> AccessLevelAdmin \<le> AccessLevel y \<longrightarrow> ID y \<in> {ID u, ID v}"
    unfolding live_admin_def by blast
  then have "\<not> live_admin i (users_t d2)" for i
    by (auto simp: 1 2 live_admin_def set_upd_where)
  with 1 2 show ?thesis by simp
qed

theorem overlapping_deletions_leave_no_administrator_witness:
  "\<exists>d2 w2'. DeleteUserHandler demo_web (CtxWithUser demo_ctx (demo_user 2 ''bob'' 3)) delete_request
      (fst (snd (DeleteUserHandler demo_web (CtxWithUser demo_ctx (demo_user 1 ''alice'' 3))
         (delete_request\<lparr>PathValue := (\<lambda>_. ''2'')\<rparr>) (two_admins, new_response))), new_response) = (Done, (d2, w2')) \<and>
    (\<forall>i. \<not> live_admin i (users_t d2))"
proof -
  let ?h = "\<lambda>u i d. DeleteUserHandler demo_web (CtxWithUser demo_ctx u) (delete_request\<lparr>PathValue := (\<lambda>_. i)\<rparr>) (d, new_response)"
  let ?a = "demo_user 1 ''alice'' 3" and ?b = "demo_user 2 ''bob'' 3"
  obtain o1 d1 w1 where 1: "?h ?a ''2'' two_admins = (o1, (d1, w1))" by (metis surj_pair)
  obtain o2 d2 w2 where 2: "?h ?b ''1'' d1 = (o2, (d2, w2))" by (metis surj_pair)
  have ids: "parseUint ''2'' = Inr 2" "parseUint ''1'' = Inr 1"
    by (simp_all add: parseUint_def ParseUint64_def all_digits_def is_digit_def digit_val_def byte_def)
  have [simp]: "ID (demo_user i n l) = i" "DeletedAt (demo_user i n l) = None" for i n l
    by (simp_all add: demo_user_def user_zero_def)
  have t: "users_t two_admins = [?a, ?b]" by (simp add: two_admins_def)
  have up: "user_deps_up (wb_users demo_web)" using demo_deps_up by simp
  have "o1 = Done \<and> o2 = Done \<and> (\<forall>i. \<not> live_admin i (users_t d2))"
    by (rule overlapping_deletions_leave_no_administrator [OF up _ _ _ _ _ _ _ _ _ _ 1 2])
      (use ids in \<open>auto simp: t live_admin_def\<close>)
  with 1 2 show ?thesis by (auto simp: delete_request_def)
qed

section \<open>Requeueing a download\<close>

lemma RequeueDownloadHandler_effect:
  assumes W: "app_ok (wb_app W)" and run: "RequeueDownloadHandler W ctx r (d, w) = (out, (d', w'))"
  shows "d' = d \<or> (\<exists>ep q. ep \<in> set (episodes_t d) \<and> e_DeletedAt ep = None \<and> e_GUID ep = PathValue r ''guid'' \<and>
    QueueName q = DownloadWorkerQueueName \<and> Data q = JString (e_GUID ep) \<and> DeletedAt q = None \<and> ReceiveCount q = 0 \<and>
    (\<exists>cl. PushQueueTask (ap_queue (wb_app W)) cl DownloadWorkerQueueName (JString (e_GUID ep)) (queue_t d) = (None, queue_t d')) \<and>
    d' = d\<lparr>queue_t := queue_t d @ [q],
      episodes_t := upd_where (\<lambda>y. e_GUID y = e_GUID ep \<and> e_DeletedAt y = None)
        (set_status (call_clock ctx 11 1) EpisodeStatusPending None) (episodes_t d)\<rparr>)"
proof -
  from W have D: "pod_deps_ok (wb_pods W)" and Q: "queue_deps_ok (ap_queue (wb_app W))" by (auto simp: app_ok_def)
  show ?thesis
  proof (cases "d' = d")
    case False
    then obtain ep where g: "GetEpisode (wb_pods W) (call_clock ctx 10 0) (PathValue r ''guid'') (podcasts_t d) (episodes_t d) = Inr ep"
      using run by (auto simp: RequeueDownloadHandler_def split: sum.splits if_splits)
    obtain e1 d1 where t: "Transaction (qd_tx (ap_queue (wb_app W))) (call_clock ctx 11)
        (requeue_closure W (call_clock ctx 11) ep) d = (e1, d1)" by fastforce
    have d1: "d' = d1"
    proof (cases e1)
      case None
      with run g t have "Render 200 (Page (EpisodeListItemPartial (ep\<lparr>e_Status := EpisodeStatusPending\<rparr>))) (d1, w) = (out, (d', w'))"
        by (simp add: RequeueDownloadHandler_def)
      from Render_effect(1) [OF this] show ?thesis .
    qed (use run g t in \<open>simp add: RequeueDownloadHandler_def\<close>)
    have "e1 = None"
    proof (rule ccontr)
      assume "e1 \<noteq> None"
      then obtain e where "e1 = Some e" by blast
      with Transaction_error t have "d1 = d" by metis
      with False d1 show False by simp
    qed
    from Transaction_ok [OF t [unfolded this]] have c: "requeue_closure W (call_clock ctx 11) ep d = (None, d')"
      by (simp add: d1)
    then obtain t' q' where u: "UpdateEpisodeStatus (wb_pods W) (call_clock ctx 11 1) ep EpisodeStatusPending None (episodes_t d) = (None, t')"
      and p: "PushQueueTask (ap_queue (wb_app W)) (nth_call (call_clock ctx 11) 2) DownloadWorkerQueueName (JString (e_GUID ep)) (queue_t d) = (None, q')"
      and d': "d' = d\<lparr>episodes_t := t', queue_t := q'\<rparr>"
      by (auto simp: requeue_closure_def split: prod.splits option.splits)
    from GetEpisode_row [OF D g] obtain row where row: "row \<in> set (episodes_t d)" "e_DeletedAt row = None"
      "e_GUID row = PathValue r ''guid''" "ep = row\<lparr>e_Podcast := e_Podcast ep\<rparr>" by blast
    have same: "e_GUID ep = e_GUID row" by (subst row(4)) simp
    from PushQueueTask_ok [OF Q p] obtain q where "q' = queue_t d @ [q]" "QueueName q = DownloadWorkerQueueName"
      "Data q = JString (e_GUID ep)" "DeletedAt q = None" "ReceiveCount q = 0" by blast
    moreover have "\<exists>cl. PushQueueTask (ap_queue (wb_app W)) cl DownloadWorkerQueueName (JString (e_GUID row)) (queue_t d) =
        (None, queue_t d')" using p same d' by auto
    ultimately show ?thesis using UpdateEpisodeStatus_ok [OF D u] row(1-3) same d'
      by (intro disjI2 exI [of _ row] exI [of _ q]) simp
  qed simp
qed

text \<open>C26: requeueing a download marks the episode as pending and queues exactly one download task for it, or,
  when any of it fails, changes nothing at all.\<close>

theorem requeue_is_atomic:
  assumes W: "app_ok (wb_app W)" and run: "RequeueDownloadHandler W ctx r (d, w) = (out, (d', w'))"
  shows "d' = d \<or> (\<exists>ep q. ep \<in> set (episodes_t d) \<and> e_DeletedAt ep = None \<and> e_GUID ep = PathValue r ''guid'' \<and>
    QueueName q = DownloadWorkerQueueName \<and> Data q = JString (e_GUID ep) \<and> DeletedAt q = None \<and> ReceiveCount q = 0 \<and>
    d' = d\<lparr>queue_t := queue_t d @ [q],
      episodes_t := upd_where (\<lambda>y. e_GUID y = e_GUID ep \<and> e_DeletedAt y = None)
        (set_status (call_clock ctx 11 1) EpisodeStatusPending None) (episodes_t d)\<rparr>)"
  using RequeueDownloadHandler_effect [OF assms] by blast

theorem requeue_is_atomic_witness:
  "fst (snd (RequeueDownloadHandler demo_web demo_ctx delete_request (web_store, new_response))) = web_store"
proof -
  obtain out d' w' where run: "RequeueDownloadHandler demo_web demo_ctx delete_request (web_store, new_response) = (out, (d', w'))"
    by (metis surj_pair)
  have "app_ok (wb_app demo_web)" by (simp add: app_ok_def)
  from requeue_is_atomic [OF this run] run show ?thesis by (auto simp: web_store_def demo_store_def)
qed

end
