(* ===== verification/GoMux.thy ===== *)
theory GoMux
  imports GoHttp
begin

text \<open>
  \<^verbatim>\<open>http.ServeMux\<close> and \<^verbatim>\<open>http.CrossOriginProtection\<close> of Go's standard library: which of the registered
  patterns serves a request, and which requests of other sites are refused before that.  Patterns are
  those the program uses: a method, a path of literal segments and \<^verbatim>\<open>{name}\<close> wildcards, and possibly a
  slash at the end.
\<close>

section \<open>Patterns\<close>

text \<open>\<open>Multi\<close> stands for the slash at the end of a pattern: any rest of a path.\<close>

datatype segment = Lit string | Wild string | Multi

record route_pattern =
  pt_Method :: string
  pt_Segments :: "segment list"

definition valid_wildcard :: "string \<Rightarrow> bool" where
  "valid_wildcard name \<longleftrightarrow>
     (case name of [] \<Rightarrow> False
      | c # cs \<Rightarrow> (is_alpha c \<or> c = CHR ''_'') \<and> list_all (\<lambda>c. is_alnum c \<or> c = CHR ''_'') cs)"

definition path_unescape :: "string \<Rightarrow> string" where
  "path_unescape s = (case unescape EncodePath s of None \<Rightarrow> s | Some u \<Rightarrow> u)"

definition parse_segment :: "string \<Rightarrow> segment option" where
  "parse_segment s =
     (if CHR ''{'' \<notin> set s then Some (Lit (path_unescape s))
      else if hd s = CHR ''{'' \<and> last s = CHR ''}'' \<and> valid_wildcard (butlast (tl s))
      then Some (Wild (butlast (tl s)))
      else None)"

text \<open>The segments of a path after its first slash; an empty one at the end is the slash at the end.\<close>

fun parse_segments :: "string list \<Rightarrow> segment list option" where
  "parse_segments [] = Some []"
| "parse_segments [s] = (if s = '''' then Some [Multi] else map_option (\<lambda>g. [g]) (parse_segment s))"
| "parse_segments (s # ss) =
     (case parse_segment s of
        None \<Rightarrow> None
      | Some g \<Rightarrow> map_option (\<lambda>gs. g # gs) (parse_segments ss))"

definition wild_names :: "segment list \<Rightarrow> string list" where
  "wild_names gs = concat (map (\<lambda>g. case g of Wild n \<Rightarrow> [n] | _ \<Rightarrow> []) gs)"

definition parse_pattern :: "string \<Rightarrow> route_pattern option" where
  "parse_pattern s =
     (case cut (CHR '' '') s of
        (m, p) \<Rightarrow>
          if m = '''' \<or> \<not> list_all is_upper m \<or> \<not> prefix ''/'' p then None
          else
            (case parse_segments (split_char (CHR ''/'') (tl p)) of
               None \<Rightarrow> None
             | Some gs \<Rightarrow> if distinct (wild_names gs) then Some \<lparr>pt_Method = m, pt_Segments = gs\<rparr> else None))"

section \<open>Which patterns may stand together\<close>

datatype relationship = Equivalent | MoreGeneral | MoreSpecific | Disjoint | Overlaps

fun combine_relationships :: "relationship \<Rightarrow> relationship \<Rightarrow> relationship" where
  "combine_relationships Equivalent r = r"
| "combine_relationships Disjoint r = Disjoint"
| "combine_relationships Overlaps r = (if r = Disjoint then Disjoint else Overlaps)"
| "combine_relationships MoreGeneral r =
     (if r = Equivalent then MoreGeneral else if r = MoreSpecific then Overlaps else r)"
| "combine_relationships MoreSpecific r =
     (if r = Equivalent then MoreSpecific else if r = MoreGeneral then Overlaps else r)"

fun compare_segments :: "segment \<Rightarrow> segment \<Rightarrow> relationship" where
  "compare_segments Multi Multi = Equivalent"
| "compare_segments Multi _ = MoreGeneral"
| "compare_segments _ Multi = MoreSpecific"
| "compare_segments (Wild _) (Wild _) = Equivalent"
| "compare_segments (Wild _) (Lit s) = (if s = ''/'' then Disjoint else MoreGeneral)"
| "compare_segments (Lit s) (Wild _) = (if s = ''/'' then Disjoint else MoreSpecific)"
| "compare_segments (Lit s) (Lit t) = (if s = t then Equivalent else Disjoint)"

text \<open>The shorter pattern goes on only if it ends in a slash.\<close>

fun compare_paths :: "bool \<Rightarrow> bool \<Rightarrow> segment list \<Rightarrow> segment list \<Rightarrow> relationship" where
  "compare_paths m1 m2 (g # gs) (h # hs) =
     combine_relationships (compare_segments g h) (compare_paths m1 m2 gs hs)"
| "compare_paths m1 m2 [] [] = Equivalent"
| "compare_paths m1 m2 [] (h # hs) = (if m1 then MoreGeneral else Disjoint)"
| "compare_paths m1 m2 (g # gs) [] = (if m2 then MoreSpecific else Disjoint)"

definition compare_methods :: "string \<Rightarrow> string \<Rightarrow> relationship" where
  "compare_methods m n =
     (if m = n then Equivalent else if m = ''GET'' \<and> n = ''HEAD'' then MoreGeneral
      else if m = ''HEAD'' \<and> n = ''GET'' then MoreSpecific else Disjoint)"

definition compare_patterns :: "route_pattern \<Rightarrow> route_pattern \<Rightarrow> relationship" where
  "compare_patterns p q =
     (let gs = pt_Segments p; hs = pt_Segments q
      in combine_relationships (compare_methods (pt_Method p) (pt_Method q))
           (compare_paths (last gs = Multi) (last hs = Multi) gs hs))"

text \<open>Registering a pattern panics when it conflicts with one registered before.\<close>

definition conflicts :: "route_pattern \<Rightarrow> route_pattern \<Rightarrow> bool" where
  "conflicts p q \<longleftrightarrow> compare_patterns p q = Equivalent \<or> compare_patterns p q = Overlaps"

fun registers :: "string list \<Rightarrow> bool" where
  "registers [] = True"
| "registers (s # ss) \<longleftrightarrow>
     (case parse_pattern s of
        None \<Rightarrow> False
      | Some p \<Rightarrow> list_all (\<lambda>t. case parse_pattern t of None \<Rightarrow> True | Some q \<Rightarrow> \<not> conflicts p q) ss) \<and>
     registers ss"

section \<open>Finding the pattern of a request\<close>

text \<open>The segments of a path: unescaped, the slash at the end of the path as a segment of its own.\<close>

definition path_segments :: "string \<Rightarrow> string list" where
  "path_segments p =
     (if p = '''' then []
      else
        (let ss = split_char (CHR ''/'') (tl p)
         in if last ss = '''' then map path_unescape (butlast ss) @ [''/''] else map path_unescape ss))"

definition children :: "(segment \<Rightarrow> bool) \<Rightarrow> (segment list \<times> 'a) list \<Rightarrow> (segment list \<times> 'a) list" where
  "children P cs = map (\<lambda>(gs, a). (tl gs, a)) (filter (\<lambda>(gs, a). gs \<noteq> [] \<and> P (hd gs)) cs)"

definition is_Wild :: "segment \<Rightarrow> bool" where
  "is_Wild g = (case g of Wild _ \<Rightarrow> True | _ \<Rightarrow> False)"

text \<open>
  The walk down the tree of patterns: a literal segment is tried first, then a wildcard, then the slash
  that takes any rest.  What the wildcards matched is collected on the way.
\<close>

fun match_path :: "(segment list \<times> 'a) list \<Rightarrow> string list \<Rightarrow> string list \<Rightarrow> ('a \<times> string list) option" where
  "match_path cs [] ms = (case filter (\<lambda>(gs, a). gs = []) cs of [] \<Rightarrow> None | (_, a) # _ \<Rightarrow> Some (a, ms))"
| "match_path cs (s # ss) ms =
     (case match_path (children (\<lambda>g. g = Lit s) cs) ss ms of
        Some x \<Rightarrow> Some x
      | None \<Rightarrow>
          (case (if s = ''/'' then None else match_path (children is_Wild cs) ss (ms @ [s])) of
             Some x \<Rightarrow> Some x
           | None \<Rightarrow> (case children (\<lambda>g. g = Multi) cs of [] \<Rightarrow> None | (_, a) # _ \<Rightarrow> Some (a, ms))))"

type_synonym 'h mux = "(route_pattern \<times> 'h) list"

definition parsed_mux :: "(string \<times> 'h) list \<Rightarrow> 'h mux" where
  "parsed_mux mux = concat (map (\<lambda>(s, h). case parse_pattern s of None \<Rightarrow> [] | Some p \<Rightarrow> [(p, h)]) mux)"

definition method_match :: "'h mux \<Rightarrow> string \<Rightarrow> string \<Rightarrow> ((route_pattern \<times> 'h) \<times> string list) option" where
  "method_match mux m path =
     match_path (map (\<lambda>(p, h). (pt_Segments p, (p, h))) (filter (\<lambda>(p, h). pt_Method p = m) mux))
       (path_segments path) []"

text \<open>A pattern for \<^verbatim>\<open>GET\<close> serves \<^verbatim>\<open>HEAD\<close> too.\<close>

definition mux_match :: "'h mux \<Rightarrow> string \<Rightarrow> string \<Rightarrow> ((route_pattern \<times> 'h) \<times> string list) option" where
  "mux_match mux m path =
     (case method_match mux m path of
        Some x \<Rightarrow> Some x
      | None \<Rightarrow> if m = ''HEAD'' then method_match mux ''GET'' path else None)"

section \<open>Redirects and refusals\<close>

definition clean_path :: "string \<Rightarrow> string" where
  "clean_path p =
     (if p = '''' then ''/''
      else
        (let p = (if prefix ''/'' p then p else ''/'' @ p); np = path_Clean p
         in if suffix ''/'' p \<and> np \<noteq> ''/'' then np @ ''/'' else np))"

definition exact_match :: "((route_pattern \<times> 'h) \<times> string list) option \<Rightarrow> string \<Rightarrow> bool" where
  "exact_match found path =
     (case found of
        None \<Rightarrow> False
      | Some ((p, _), _) \<Rightarrow>
          if last (pt_Segments p) \<noteq> Multi then True
          else if path \<noteq> '''' \<and> \<not> suffix ''/'' path then False
          else length (pt_Segments p) = count_list path (CHR ''/''))"

text \<open>Whether the path is served only with a slash at its end.\<close>

definition needs_slash :: "'h mux \<Rightarrow> string \<Rightarrow> string \<Rightarrow> bool" where
  "needs_slash mux m path \<longleftrightarrow>
     \<not> exact_match (mux_match mux m path) path \<and> \<not> suffix ''/'' path \<and>
     exact_match (mux_match mux m (path @ ''/'')) (path @ ''/'')"

fun str_le :: "string \<Rightarrow> string \<Rightarrow> bool" where
  "str_le [] t = True"
| "str_le (c # s) [] = False"
| "str_le (c # s) (d # t) \<longleftrightarrow> byte c < byte d \<or> c = d \<and> str_le s t"

fun insert_str :: "string \<Rightarrow> string list \<Rightarrow> string list" where
  "insert_str s [] = [s]"
| "insert_str s (t # ts) = (if str_le s t then s # t # ts else t # insert_str s ts)"

definition allowed_methods :: "'h mux \<Rightarrow> string \<Rightarrow> string list" where
  "allowed_methods mux path =
     (let paths = (if suffix ''/'' path then [path] else [path, path @ ''/'']);
          ms = remdups (filter (\<lambda>m. list_ex (\<lambda>p. method_match mux m p \<noteq> None) paths) (map (pt_Method \<circ> fst) mux));
          ms = (if ''GET'' \<in> set ms then List.insert ''HEAD'' ms else ms)
      in foldr insert_str ms [])"

fun comma_separated :: "string list \<Rightarrow> string" where
  "comma_separated [] = ''''"
| "comma_separated [s] = s"
| "comma_separated (s # ss) = s @ '', '' @ comma_separated ss"

definition http_Error :: "string \<Rightarrow> int \<Rightarrow> 'p response \<Rightarrow> 'p response" where
  "http_Error message code w =
     write_body (Bytes (message @ [CHR 0x0A])) (write_header code
       (header_set ''X-Content-Type-Options'' ''nosniff'' (header_set ''Content-Type'' ''text/plain; charset=utf-8'' w)))"

section \<open>Serving\<close>

text \<open>
  A request as it comes in: with its \<^verbatim>\<open>Host\<close>, its path as it was sent and its query.  The values of
  the wildcards are set when its pattern has been found.
\<close>

record incoming =
  in_request :: request
  in_Host :: string
  in_EscapedPath :: string
  in_RawQuery :: string

type_synonym ('c, 'd, 'p) http_handler = "'c \<Rightarrow> request \<Rightarrow> 'd \<times> 'p response \<Rightarrow> outcome \<times> ('d \<times> 'p response)"

definition path_values :: "segment list \<Rightarrow> string list \<Rightarrow> string \<Rightarrow> string" where
  "path_values gs ms n = (case map_of (zip (wild_names gs) ms) n of None \<Rightarrow> '''' | Some v \<Rightarrow> v)"

definition ServeMux_ServeHTTP ::
  "('c, 'd, 'p) http_handler mux \<Rightarrow> 'c \<Rightarrow> incoming \<Rightarrow> 'd \<times> 'p response \<Rightarrow> outcome \<times> ('d \<times> 'p response)" where
  "ServeMux_ServeHTTP mux ctx q s =
     (case s of (d, w) \<Rightarrow>
        let r = in_request q; m = Method r;
            path = (if m = ''CONNECT'' then in_EscapedPath q else clean_path (in_EscapedPath q));
            redirect = (\<lambda>p. (Done, (d, http_Redirect r
              (url_String (empty_url\<lparr>Path := p, RawQuery := in_RawQuery q\<rparr>)) 301 w)))
        in if needs_slash mux m path then redirect (clean_path (URLPath r) @ ''/'')
           else if path \<noteq> in_EscapedPath q then redirect path
           else
             (case mux_match mux m path of
                Some ((p, h), ms) \<Rightarrow> h ctx (r\<lparr>PathValue := path_values (pt_Segments p) ms\<rparr>) (d, w)
              | None \<Rightarrow>
                  (case allowed_methods mux path of
                     [] \<Rightarrow> (Done, (d, http_Error ''404 page not found'' 404 w))
                   | ms \<Rightarrow> (Done, (d, http_Error ''Method Not Allowed'' 405
                       (header_set ''Allow'' (comma_separated ms) w))))))"

text \<open>
  \<^verbatim>\<open>CrossOriginProtection.Check\<close> without trusted origins or exempted patterns.
\<close>

definition CrossOriginProtection_Check :: "incoming \<Rightarrow> string option" where
  "CrossOriginProtection_Check q =
     (let r = in_request q; site = HeaderGet r ''Sec-Fetch-Site''; origin = HeaderGet r ''Origin'';
          old = ''cross-origin request detected, and/or browser is out of date: Sec-Fetch-Site is missing, and Origin does not match Host''
      in if Method r \<in> {''GET'', ''HEAD'', ''OPTIONS''} then None
         else if site \<noteq> '''' then
           (if site = ''same-origin'' \<or> site = ''none'' then None
            else Some ''cross-origin request detected from Sec-Fetch-Site header'')
         else if origin = '''' then None
         else
           (case url_Parse origin of
              Some u \<Rightarrow> if Host u = in_Host q then None else Some old
            | None \<Rightarrow> Some old))"

definition CrossOriginProtection_Handler ::
  "('c \<Rightarrow> incoming \<Rightarrow> 'd \<times> 'p response \<Rightarrow> outcome \<times> ('d \<times> 'p response)) \<Rightarrow>
   'c \<Rightarrow> incoming \<Rightarrow> 'd \<times> 'p response \<Rightarrow> outcome \<times> ('d \<times> 'p response)" where
  "CrossOriginProtection_Handler next ctx q s =
     (case CrossOriginProtection_Check q of
        Some message \<Rightarrow> (Done, (fst s, http_Error message 403 (snd s)))
      | None \<Rightarrow> next ctx q s)"

section \<open>What the walk finds\<close>

text \<open>A pattern matches a path when each segment does; the values of its wildcards are the segments there.\<close>

fun segs_match :: "segment list \<Rightarrow> string list \<Rightarrow> bool" where
  "segs_match [] ss = (ss = [])"
| "segs_match (Multi # gs) ss = (ss \<noteq> [])"
| "segs_match (Lit t # gs) ss = (case ss of [] \<Rightarrow> False | s # ss \<Rightarrow> s = t \<and> segs_match gs ss)"
| "segs_match (Wild n # gs) ss = (case ss of [] \<Rightarrow> False | s # ss \<Rightarrow> s \<noteq> ''/'' \<and> segs_match gs ss)"

lemma children_set: "(gs, a) \<in> set (children P cs) \<longleftrightarrow> (\<exists>g. (g # gs, a) \<in> set cs \<and> P g)"
  by (force simp: children_def neq_Nil_conv image_iff)

lemma is_Wild_iff: "is_Wild g \<longleftrightarrow> (\<exists>n. g = Wild n)"
  by (cases g) (simp_all add: is_Wild_def)

lemma parsed_mux_set:
  "(p, h) \<in> set (parsed_mux mux) \<longleftrightarrow> (\<exists>s. (s, h) \<in> set mux \<and> parse_pattern s = Some p)"
  by (force simp: parsed_mux_def split: option.splits)

lemma match_path_sound:
  "match_path cs ss ms = Some (a, ms') \<Longrightarrow> \<exists>gs. (gs, a) \<in> set cs \<and> segs_match gs ss"
proof (induction cs ss ms rule: match_path.induct)
  case (1 cs ms)
  let ?f = "filter (\<lambda>(gs, a). gs = []) cs"
  from 1 obtain gs rest where f: "?f = (gs, a) # rest" by (cases "?f") auto
  then have "(gs, a) \<in> set ?f" by simp
  then show ?case by force
next
  case (2 cs s ss ms)
  show ?case
  proof (cases "match_path (children (\<lambda>g. g = Lit s) cs) ss ms")
    case (Some x)
    with 2 obtain gs where "(gs, a) \<in> set (children (\<lambda>g. g = Lit s) cs)" "segs_match gs ss" by fastforce
    then show ?thesis by (force simp: children_set)
  next
    case None
    note lit = this
    show ?thesis
    proof (cases "if s = ''/'' then None else match_path (children is_Wild cs) ss (ms @ [s])")
      case (Some x)
      with 2 lit obtain gs where "(gs, a) \<in> set (children is_Wild cs)" "segs_match gs ss" "s \<noteq> ''/''"
        by (fastforce split: if_splits)
      then obtain n where "(Wild n # gs, a) \<in> set cs" by (auto simp: children_set is_Wild_iff)
      with \<open>segs_match gs ss\<close> \<open>s \<noteq> ''/''\<close> show ?thesis by force
    next
      case None
      with 2 lit obtain gs rest where "children (\<lambda>g. g = Multi) cs = (gs, a) # rest"
        by (fastforce split: list.splits)
      then have "(gs, a) \<in> set (children (\<lambda>g. g = Multi) cs)" by simp
      then show ?thesis by (force simp: children_set)
    qed
  qed
qed

end
