(* ===== verification/Serving.thy ===== *)
theory Serving
  imports GoMux WebserverProps
begin

text \<open>
  How the web server answers a request as it comes in (\<^verbatim>\<open>Server.Start\<close> and \<^verbatim>\<open>Server.AddRoute\<close> of
  \<^verbatim>\<open>pkg/framework/server.go\<close>): the check for requests of other sites, the choice of the route, and
  the route's handler; with the properties of the server that depend on which route is chosen.
\<close>

section \<open>The server's handler\<close>

text \<open>The function \<^verbatim>\<open>AddRoute\<close> registers: an error that no middleware has handled is only logged.\<close>

definition handlerFunc :: "('c, 'd, 'p) handler \<Rightarrow> ('c, 'd, 'p) handler" where
  "handlerFunc h = (\<lambda>ctx r s.
     (case h ctx r s of
        (Fail err, s') \<Rightarrow> (Done, s')
      | (out, s') \<Rightarrow> (out, s')))"

definition server_Handler ::
  "('g, 'c, 'd, 'p) server \<Rightarrow> 'c \<Rightarrow> incoming \<Rightarrow> 'd \<times> 'p response \<Rightarrow> outcome \<times> ('d \<times> 'p response)" where
  "server_Handler s = CrossOriginProtection_Handler
     (ServeMux_ServeHTTP (parsed_mux (map (\<lambda>(pattern, h). (pattern, handlerFunc h)) (sv_mux s))))"

section \<open>What serving a request does\<close>

definition serves_method :: "route_pattern \<Rightarrow> string \<Rightarrow> bool" where
  "serves_method p m \<longleftrightarrow> pt_Method p = m \<or> m = ''HEAD'' \<and> pt_Method p = ''GET''"

lemma mux_match_sound:
  assumes "mux_match mux m path = Some ((p, h), ms)"
  shows "(p, h) \<in> set mux" "serves_method p m" "segs_match (pt_Segments p) (path_segments path)"
proof -
  from assms obtain m' where m': "method_match mux m' path = Some ((p, h), ms)" "m' = m \<or> m = ''HEAD'' \<and> m' = ''GET''"
    by (auto simp: mux_match_def split: option.splits if_splits)
  from match_path_sound [OF m'(1) [unfolded method_match_def]] m'(2)
  show "(p, h) \<in> set mux" "serves_method p m" "segs_match (pt_Segments p) (path_segments path)"
    by (auto simp: serves_method_def)
qed

lemma server_Handler_state:
  assumes "server_Handler s ctx q (d, w) = (out, (d', w'))"
  obtains (none) "d' = d"
  | (route) pattern h p ms where "(pattern, h) \<in> set (sv_mux s)" "parse_pattern pattern = Some p"
      "serves_method p (Method (in_request q))" "CrossOriginProtection_Check q = None"
      "d' = fst (snd (h ctx ((in_request q)\<lparr>PathValue := path_values (pt_Segments p) ms\<rparr>) (d, w)))"
proof (cases "CrossOriginProtection_Check q")
  case (Some m)
  with assms none show thesis by (simp add: server_Handler_def CrossOriginProtection_Handler_def)
next
  case None
  let ?mux = "parsed_mux (map (\<lambda>(pattern, h). (pattern, handlerFunc h)) (sv_mux s))"
  from assms None have "ServeMux_ServeHTTP ?mux ctx q (d, w) = (out, (d', w'))"
    by (simp add: server_Handler_def CrossOriginProtection_Handler_def)
  then consider "d' = d" | path p h ms where "mux_match ?mux (Method (in_request q)) path = Some ((p, h), ms)"
      "h ctx ((in_request q)\<lparr>PathValue := path_values (pt_Segments p) ms\<rparr>) (d, w) = (out, (d', w'))"
    by (auto simp: ServeMux_ServeHTTP_def Let_def split: if_splits option.splits list.splits)
  then show thesis
  proof cases
    case (2 path p h ms)
    from mux_match_sound(1,2) [OF 2(1)] obtain pattern h0 where "(pattern, h0) \<in> set (sv_mux s)" "h = handlerFunc h0"
      "parse_pattern pattern = Some p" "serves_method p (Method (in_request q))" by (auto simp: parsed_mux_set)
    with 2(2) None show thesis
      by (intro route [of pattern h0 p ms]) (auto simp: handlerFunc_def split: prod.splits outcome.splits)
  qed (rule none)
qed

section \<open>Reading requests\<close>

lemma parse_pattern_method: "parse_pattern s = Some p \<Longrightarrow> pt_Method p = fst (cut (CHR '' '') s)"
  by (auto simp: parse_pattern_def split: prod.splits option.splits if_splits)

lemma get_route_frame:
  assumes "(pattern, h, configs) \<in> set (web_routes W)" "fst (cut (CHR '' '') pattern) = ''GET''"
  shows "session_change (ap_auth (wb_app W)) d (fst (snd (h ctx r (d, w))))"
  using assms session_routes_frame [of pattern h configs W d ctx r w]
  by (auto simp: web_routes_def read_routes_def manage_routes_def admin_routes_def cut_def)

lemma session_change_trans: "session_change D d d1 \<Longrightarrow> session_change D d1 d2 \<Longrightarrow> session_change D d d2"
  unfolding session_change_def using changed_by_trans by fastforce

lemma get_request_state:
  assumes route: "(pattern, h) \<in> set (sv_mux (NewWebserver W port))" and get: "fst (cut (CHR '' '') pattern) = ''GET''"
  shows "session_change (ap_auth (wb_app W)) d (fst (snd (h ctx r (d, w))))"
proof -
  let ?D = "ap_auth (wb_app W)"
  obtain out d' w' where run: "h ctx r (d, w) = (out, (d', w'))" by (metis surj_pair)
  from route consider (static) "h = route_handler ?D [skipAuth, requireNone] (\<lambda>ctx r (d, w). (Done, (d, wb_static W r w)))"
    | (route) h0 c where "(pattern, h0, c) \<in> set (web_routes W)" "h = route_handler ?D c h0"
    unfolding NewWebserver_mux by auto
  then have "session_change ?D d d'"
  proof cases
    case static
    from open_state [OF run [unfolded static]] show ?thesis by auto
  next
    case (route h0 c)
    note run' = run [unfolded route(2)] and frame = get_route_frame [OF route(1) get]
    have c: "c = [skipAuth, requireNone] \<or>
      1 \<le> required_level c \<and> find AuthenticationMiddleware_Match c \<in> {None, Some useBasicAuth}"
      using route(1) route_configs [of pattern h0 c W] by (auto simp: web_routes_def)
    then show ?thesis
    proof
      assume "c = [skipAuth, requireNone]"
      from open_state [OF run' [unfolded this]] frame show ?thesis by auto
    next
      assume "1 \<le> required_level c \<and> find AuthenticationMiddleware_Match c \<in> {None, Some useBasicAuth}"
      then have "1 \<le> required_level c" "find AuthenticationMiddleware_Match c \<in> {None, Some useBasicAuth}" by auto
      from guarded_state [OF refl this(1) refl this(2) run'] show ?thesis
        using session_change_trans [OF before_frame frame] by auto
    qed
  qed
  with run show ?thesis by simp
qed

section \<open>Requests of other sites\<close>

text \<open>What a browser says of a request that another site's page made.\<close>

definition from_other_site :: "incoming \<Rightarrow> bool" where
  "from_other_site q \<longleftrightarrow>
     (let r = in_request q in
        HeaderGet r ''Sec-Fetch-Site'' \<in> {''cross-site'', ''same-site''} \<or>
        HeaderGet r ''Sec-Fetch-Site'' = '''' \<and> HeaderGet r ''Origin'' \<noteq> '''' \<and>
        (\<forall>u. url_Parse (HeaderGet r ''Origin'') = Some u \<longrightarrow> Host u \<noteq> in_Host q))"

lemma other_site_method:
  "from_other_site q \<Longrightarrow> CrossOriginProtection_Check q = None \<Longrightarrow>
   Method (in_request q) \<in> {''GET'', ''HEAD'', ''OPTIONS''}"
  by (auto simp: from_other_site_def CrossOriginProtection_Check_def Let_def split: if_splits option.splits)

lemma route_methods:
  "(pattern, h) \<in> set (sv_mux (NewWebserver W port)) \<Longrightarrow>
   fst (cut (CHR '' '') pattern) \<in> {''GET'', ''POST'', ''PUT''}"
  unfolding NewWebserver_mux web_routes_def session_routes_def read_routes_def manage_routes_def admin_routes_def
  by (auto simp: cut_def)

text \<open>C14: a page of another site cannot make a browser change anything: whatever such a request carries,
  cookies included, accounts, podcasts, episodes, tasks and files stay as they are; all it can reach are the
  routes that read, which may at most touch sessions.\<close>

theorem other_sites_change_nothing:
  assumes other: "from_other_site q"
    and run: "server_Handler (NewWebserver W port) ctx q (d, w) = (out, (d', w'))"
  shows "session_change (ap_auth (wb_app W)) d d' \<and> users_t d' = users_t d \<and> podcasts_t d' = podcasts_t d \<and>
    episodes_t d' = episodes_t d \<and> queue_t d' = queue_t d \<and> objects_t d' = objects_t d"
proof -
  have "session_change (ap_auth (wb_app W)) d d'"
    using run
  proof (cases rule: server_Handler_state)
    case (route pattern h p ms)
    from other_site_method [OF other route(4)] route(3) route_methods [OF route(1)] parse_pattern_method [OF route(2)]
    have "fst (cut (CHR '' '') pattern) = ''GET''" by (auto simp: serves_method_def)
    from get_request_state [OF route(1) this] show ?thesis unfolding route(5) .
  qed simp
  with sessions_only [OF this] show ?thesis by simp
qed

definition forged_request :: incoming where
  "forged_request = \<lparr>in_request = delete_request\<lparr>HeaderGet :=
      (\<lambda>n. if n = ''Sec-Fetch-Site'' then ''cross-site'' else '''')\<rparr>,
     in_Host = ''h'', in_EscapedPath = ''/users/1/delete'', in_RawQuery = ''''\<rparr>"

theorem other_sites_change_nothing_witness:
  "users_t (fst (snd (server_Handler (NewWebserver demo_web 80) demo_ctx forged_request (web_store, new_response)))) =
   users_t web_store"
proof -
  obtain out d' w' where run:
    "server_Handler (NewWebserver demo_web 80) demo_ctx forged_request (web_store, new_response) = (out, (d', w'))"
    by (metis surj_pair)
  from other_sites_change_nothing [OF _ run] run show ?thesis
    by (simp add: from_other_site_def forged_request_def)
qed

section \<open>The routes\<close>

lemma parsed_routes:
  "parse_pattern ''GET /static/'' = Some \<lparr>pt_Method = ''GET'', pt_Segments = [Lit ''static'', Multi]\<rparr>"
  "parse_pattern ''GET /auth/login'' = Some \<lparr>pt_Method = ''GET'', pt_Segments = [Lit ''auth'', Lit ''login'']\<rparr>"
  "parse_pattern ''POST /auth/login'' = Some \<lparr>pt_Method = ''POST'', pt_Segments = [Lit ''auth'', Lit ''login'']\<rparr>"
  "parse_pattern ''GET /auth/logout'' = Some \<lparr>pt_Method = ''GET'', pt_Segments = [Lit ''auth'', Lit ''logout'']\<rparr>"
  "parse_pattern ''GET /'' = Some \<lparr>pt_Method = ''GET'', pt_Segments = [Multi]\<rparr>"
  "parse_pattern ''GET /profile/password'' = Some \<lparr>pt_Method = ''GET'', pt_Segments = [Lit ''profile'', Lit ''password'']\<rparr>"
  "parse_pattern ''POST /profile/password'' = Some \<lparr>pt_Method = ''POST'', pt_Segments = [Lit ''profile'', Lit ''password'']\<rparr>"
  "parse_pattern ''GET /podcasts/{guid}'' = Some \<lparr>pt_Method = ''GET'', pt_Segments = [Lit ''podcasts'', Wild ''guid'']\<rparr>"
  "parse_pattern ''GET /podcasts/{guid}/image'' = Some \<lparr>pt_Method = ''GET'', pt_Segments = [Lit ''podcasts'', Wild ''guid'', Lit ''image'']\<rparr>"
  "parse_pattern ''GET /episodes/{guid}'' = Some \<lparr>pt_Method = ''GET'', pt_Segments = [Lit ''episodes'', Wild ''guid'']\<rparr>"
  "parse_pattern ''GET /episodes/{guid}/download'' = Some \<lparr>pt_Method = ''GET'', pt_Segments = [Lit ''episodes'', Wild ''guid'', Lit ''download'']\<rparr>"
  "parse_pattern ''GET /feeds/{guid}'' = Some \<lparr>pt_Method = ''GET'', pt_Segments = [Lit ''feeds'', Wild ''guid'']\<rparr>"
  "parse_pattern ''GET /feeds/{guid}/image'' = Some \<lparr>pt_Method = ''GET'', pt_Segments = [Lit ''feeds'', Wild ''guid'', Lit ''image'']\<rparr>"
  "parse_pattern ''GET /feeds/episodes/{guid}/download'' = Some \<lparr>pt_Method = ''GET'', pt_Segments = [Lit ''feeds'', Lit ''episodes'', Wild ''guid'', Lit ''download'']\<rparr>"
  "parse_pattern ''GET /podcasts/search'' = Some \<lparr>pt_Method = ''GET'', pt_Segments = [Lit ''podcasts'', Lit ''search'']\<rparr>"
  "parse_pattern ''POST /podcasts/search'' = Some \<lparr>pt_Method = ''POST'', pt_Segments = [Lit ''podcasts'', Lit ''search'']\<rparr>"
  "parse_pattern ''POST /podcasts/add'' = Some \<lparr>pt_Method = ''POST'', pt_Segments = [Lit ''podcasts'', Lit ''add'']\<rparr>"
  "parse_pattern ''POST /episodes/{guid}/requeue-download'' = Some \<lparr>pt_Method = ''POST'', pt_Segments = [Lit ''episodes'', Wild ''guid'', Lit ''requeue-download'']\<rparr>"
  "parse_pattern ''GET /users'' = Some \<lparr>pt_Method = ''GET'', pt_Segments = [Lit ''users'']\<rparr>"
  "parse_pattern ''GET /users/create'' = Some \<lparr>pt_Method = ''GET'', pt_Segments = [Lit ''users'', Lit ''create'']\<rparr>"
  "parse_pattern ''POST /users/create'' = Some \<lparr>pt_Method = ''POST'', pt_Segments = [Lit ''users'', Lit ''create'']\<rparr>"
  "parse_pattern ''GET /users/{id}/edit'' = Some \<lparr>pt_Method = ''GET'', pt_Segments = [Lit ''users'', Wild ''id'', Lit ''edit'']\<rparr>"
  "parse_pattern ''PUT /users/{id}'' = Some \<lparr>pt_Method = ''PUT'', pt_Segments = [Lit ''users'', Wild ''id'']\<rparr>"
  "parse_pattern ''PUT /users/{id}/password'' = Some \<lparr>pt_Method = ''PUT'', pt_Segments = [Lit ''users'', Wild ''id'', Lit ''password'']\<rparr>"
  "parse_pattern ''POST /users/{id}/delete'' = Some \<lparr>pt_Method = ''POST'', pt_Segments = [Lit ''users'', Wild ''id'', Lit ''delete'']\<rparr>"
  by code_simp+

lemma web_patterns:
  "map fst (sv_mux (NewWebserver W port)) =
     [''GET /static/'',
      ''GET /auth/login'',
      ''POST /auth/login'',
      ''GET /auth/logout'',
      ''GET /'',
      ''GET /profile/password'',
      ''POST /profile/password'',
      ''GET /podcasts/{guid}'',
      ''GET /podcasts/{guid}/image'',
      ''GET /episodes/{guid}'',
      ''GET /episodes/{guid}/download'',
      ''GET /feeds/{guid}'',
      ''GET /feeds/{guid}/image'',
      ''GET /feeds/episodes/{guid}/download'',
      ''GET /podcasts/search'',
      ''POST /podcasts/search'',
      ''POST /podcasts/add'',
      ''POST /episodes/{guid}/requeue-download'',
      ''GET /users'',
      ''GET /users/create'',
      ''POST /users/create'',
      ''GET /users/{id}/edit'',
      ''PUT /users/{id}'',
      ''PUT /users/{id}/password'',
      ''POST /users/{id}/delete'']"
  by (simp add: NewWebserver_mux web_routes_def session_routes_def read_routes_def manage_routes_def admin_routes_def)

text \<open>the server starts with its routes: every pattern is well formed and no two of them could serve the
  same request without one being more specific, so that registering them does not panic.\<close>

theorem routes_register: "registers (map fst (sv_mux (NewWebserver W port)))"
  unfolding web_patterns
  by (simp add: parsed_routes conflicts_def compare_patterns_def compare_methods_def)

section \<open>The addresses of a feed\<close>

text \<open>A GUID as the program makes them: hexadecimal digits and dashes.\<close>

definition plain_guid :: "string \<Rightarrow> bool" where
  "plain_guid g \<longleftrightarrow> g \<noteq> '''' \<and> list_all (\<lambda>c. is_alnum c \<or> c = CHR ''-'') g"

lemma plain_guid_chars:
  assumes "plain_guid g"
  shows "g \<noteq> ''''" "CHR ''/'' \<notin> set g" "CHR ''%'' \<notin> set g" "CHR ''.'' \<notin> set g"
  using assms by (auto simp: plain_guid_def list_all_iff is_alnum_def is_alpha_def is_lower_def is_upper_def is_digit_def byte_def)

lemma unescape_plain: "CHR ''%'' \<notin> set g \<Longrightarrow> unescape EncodePath g = Some g"
  by (induction g) (auto simp: host_mode_def)

lemma path_unescape_plain [simp]: "plain_guid g \<Longrightarrow> path_unescape g = g"
  by (simp add: path_unescape_def unescape_plain plain_guid_chars)

lemma path_unescape_words [simp]:
  "path_unescape ''feeds'' = ''feeds''" "path_unescape ''episodes'' = ''episodes''"
  "path_unescape ''image'' = ''image''" "path_unescape ''download'' = ''download''"
  by (simp_all add: path_unescape_def unescape_plain)

lemma suffix_slash: "suffix [c] s \<longleftrightarrow> s \<noteq> [] \<and> last s = c"
  by (cases s rule: rev_cases) auto

lemma feed_path:
  assumes g: "plain_guid g"
  shows "clean_path (''/feeds/'' @ g) = ''/feeds/'' @ g" "path_segments (''/feeds/'' @ g) = [''feeds'', g]"
    "clean_path (''/feeds/'' @ g @ ''/image'') = ''/feeds/'' @ g @ ''/image''"
    "path_segments (''/feeds/'' @ g @ ''/image'') = [''feeds'', g, ''image'']"
    "clean_path (''/feeds/episodes/'' @ g @ ''/download'') = ''/feeds/episodes/'' @ g @ ''/download''"
    "path_segments (''/feeds/episodes/'' @ g @ ''/download'') = [''feeds'', ''episodes'', g, ''download'']"
proof -
  note c = plain_guid_chars [OF g]
  have s: "last g \<noteq> CHR ''/''" using c(1,2) last_in_set by metis
  have [simp]: "g \<noteq> ''.''" "g \<noteq> ''..''" using c(4) by auto
  show "clean_path (''/feeds/'' @ g) = ''/feeds/'' @ g" "path_segments (''/feeds/'' @ g) = [''feeds'', g]"
    using c g s by (simp_all add: clean_path_def path_Clean_def path_segments_def split_char_absent suffix_slash Let_def)
  show "clean_path (''/feeds/'' @ g @ ''/image'') = ''/feeds/'' @ g @ ''/image''"
    "path_segments (''/feeds/'' @ g @ ''/image'') = [''feeds'', g, ''image'']"
    using c g by (simp_all add: clean_path_def path_Clean_def path_segments_def split_char_append suffix_slash Let_def)
  show "clean_path (''/feeds/episodes/'' @ g @ ''/download'') = ''/feeds/episodes/'' @ g @ ''/download''"
    "path_segments (''/feeds/episodes/'' @ g @ ''/download'') = [''feeds'', ''episodes'', g, ''download'']"
    using c g by (simp_all add: clean_path_def path_Clean_def path_segments_def split_char_append suffix_slash Let_def)
qed

text \<open>A route for feeds, found by its path.\<close>

definition feed_route :: "'o web_deps \<Rightarrow> 'o web_handler \<Rightarrow> 'o web_handler" where
  "feed_route W h = handlerFunc (route_handler (ap_auth (wb_app W)) [useBasicAuth, requireReadOnly] h)"

abbreviation web_mux :: "'o web_deps \<Rightarrow> nat \<Rightarrow> 'o web_handler mux" where
  "web_mux W port \<equiv> parsed_mux (map (\<lambda>(pattern, h). (pattern, handlerFunc h)) (sv_mux (NewWebserver W port)))"

lemmas route_tree = NewWebserver_mux web_routes_def session_routes_def read_routes_def manage_routes_def
  admin_routes_def parsed_mux_def parsed_routes children_def is_Wild_def

lemma feed_matches:
  assumes "plain_guid g"
  shows "mux_match (web_mux W port) ''GET'' (''/feeds/'' @ g) =
      Some ((\<lparr>pt_Method = ''GET'', pt_Segments = [Lit ''feeds'', Wild ''guid'']\<rparr>, feed_route W (FeedHandler W)), [g])"
    "mux_match (web_mux W port) ''GET'' (''/feeds/'' @ g @ ''/image'') =
      Some ((\<lparr>pt_Method = ''GET'', pt_Segments = [Lit ''feeds'', Wild ''guid'', Lit ''image'']\<rparr>, feed_route W (DownloadImageHandler W)), [g])"
    "mux_match (web_mux W port) ''GET'' (''/feeds/episodes/'' @ g @ ''/download'') =
      Some ((\<lparr>pt_Method = ''GET'', pt_Segments = [Lit ''feeds'', Lit ''episodes'', Wild ''guid'', Lit ''download'']\<rparr>, feed_route W (DownloadEpisodeHandler W)), [g])"
proof -
  have [simp]: "g \<noteq> ''/''" using plain_guid_chars [OF assms] by auto
  show "mux_match (web_mux W port) ''GET'' (''/feeds/'' @ g) =
      Some ((\<lparr>pt_Method = ''GET'', pt_Segments = [Lit ''feeds'', Wild ''guid'']\<rparr>, feed_route W (FeedHandler W)), [g])"
    unfolding mux_match_def method_match_def feed_path [OF assms]
    by (simp add: route_tree feed_route_def)
  show "mux_match (web_mux W port) ''GET'' (''/feeds/'' @ g @ ''/image'') =
      Some ((\<lparr>pt_Method = ''GET'', pt_Segments = [Lit ''feeds'', Wild ''guid'', Lit ''image'']\<rparr>, feed_route W (DownloadImageHandler W)), [g])"
    unfolding mux_match_def method_match_def feed_path [OF assms]
    by (simp add: route_tree feed_route_def)
  show "mux_match (web_mux W port) ''GET'' (''/feeds/episodes/'' @ g @ ''/download'') =
      Some ((\<lparr>pt_Method = ''GET'', pt_Segments = [Lit ''feeds'', Lit ''episodes'', Wild ''guid'', Lit ''download'']\<rparr>, feed_route W (DownloadEpisodeHandler W)), [g])"
    unfolding mux_match_def method_match_def feed_path [OF assms]
    by (simp add: route_tree feed_route_def)
qed

lemma feed_request:
  assumes "Method (in_request q) = ''GET''" "clean_path (in_EscapedPath q) = in_EscapedPath q"
    and m: "mux_match (web_mux W port) ''GET'' (in_EscapedPath q) = Some ((p, h), ms)" "last (pt_Segments p) \<noteq> Multi"
  shows "server_Handler (NewWebserver W port) ctx q (d, w) =
    h ctx ((in_request q)\<lparr>PathValue := path_values (pt_Segments p) ms\<rparr>) (d, w)"
  using assms
  by (simp add: server_Handler_def CrossOriginProtection_Handler_def CrossOriginProtection_Check_def
      ServeMux_ServeHTTP_def Let_def needs_slash_def exact_match_def)

definition leads_to :: "'o web_deps \<Rightarrow> string \<Rightarrow> 'o web_handler \<Rightarrow> string \<Rightarrow> bool" where
  "leads_to W path h g \<longleftrightarrow>
     (\<forall>port ctx q d w. Method (in_request q) = ''GET'' \<longrightarrow> in_EscapedPath q = path \<longrightarrow>
        server_Handler (NewWebserver W port) ctx q (d, w) =
        feed_route W h ctx ((in_request q)\<lparr>PathValue := (\<lambda>n. if n = ''guid'' then g else [])\<rparr>) (d, w))"

lemma leads_to_guid:
  assumes "clean_path path = path" "last gs \<noteq> Multi" "wild_names gs = [''guid'']"
    and "\<And>port. mux_match (web_mux W port) ''GET'' path = Some ((\<lparr>pt_Method = ''GET'', pt_Segments = gs\<rparr>, feed_route W h), [g])"
  shows "leads_to W path h g"
proof -
  have "path_values gs [g] = (\<lambda>n. if n = ''guid'' then g else [])"
    using assms(3) by (auto simp: path_values_def fun_eq_iff)
  with assms feed_request [where W = W] show ?thesis unfolding leads_to_def by fastforce
qed

lemma feed_leads:
  assumes "plain_guid g"
  shows "leads_to W (''/feeds/'' @ g) (FeedHandler W) g"
    "leads_to W (''/feeds/'' @ g @ ''/image'') (DownloadImageHandler W) g"
    "leads_to W (''/feeds/episodes/'' @ g @ ''/download'') (DownloadEpisodeHandler W) g"
proof -
  note path = feed_path [OF assms] and found = feed_matches [OF assms]
  show "leads_to W (''/feeds/'' @ g) (FeedHandler W) g"
    by (rule leads_to_guid [OF path(1) _ _ found(1)]) (simp_all add: wild_names_def)
  show "leads_to W (''/feeds/'' @ g @ ''/image'') (DownloadImageHandler W) g"
    by (rule leads_to_guid [OF path(3) _ _ found(2)]) (simp_all add: wild_names_def)
  show "leads_to W (''/feeds/episodes/'' @ g @ ''/download'') (DownloadEpisodeHandler W) g"
    by (rule leads_to_guid [OF path(5) _ _ found(3)]) (simp_all add: wild_names_def)
qed

lemma feed_items_of_set: "it \<in> set (feed_items_of baseURL eps) \<Longrightarrow> \<exists>ep \<in> set eps. it = item_of_episode baseURL ep"
  by (induction eps) (auto split: if_splits)

text \<open>C34: the addresses a generated feed hands out lead back to this server: its own address to the feed,
  the address of its image to the image, and the address of each episode to the download of that episode.\<close>

theorem feed_addresses_lead_back:
  assumes ids: "plain_guid (p_GUID pod)" "\<forall>ep \<in> set eps. plain_guid (e_GUID ep)"
    and f: "f = feedFromPodcast baseURL pod eps"
  shows "(\<exists>path. fd_AtomLinkHref f = baseURL @ path \<and> leads_to W path (FeedHandler W) (p_GUID pod)) \<and>
    (\<exists>path. fd_ITunesImage f = baseURL @ path \<and> leads_to W path (DownloadImageHandler W) (p_GUID pod)) \<and>
    (\<forall>it \<in> set (fd_Items f). \<exists>path. it_EnclosureURL it = baseURL @ path \<and>
       leads_to W path (DownloadEpisodeHandler W) (it_GUID it))"
proof (intro conjI ballI)
  show "\<exists>path. fd_AtomLinkHref f = baseURL @ path \<and> leads_to W path (FeedHandler W) (p_GUID pod)"
    using feed_leads(1) [OF ids(1)] by (auto simp: f feedFromPodcast_def)
  show "\<exists>path. fd_ITunesImage f = baseURL @ path \<and> leads_to W path (DownloadImageHandler W) (p_GUID pod)"
    using feed_leads(2) [OF ids(1)] by (auto simp: f feedFromPodcast_def)
  fix it assume "it \<in> set (fd_Items f)"
  then obtain ep where ep: "ep \<in> set eps" "it = item_of_episode baseURL ep"
    by (auto simp: f feedFromPodcast_def dest: feed_items_of_set)
  with ids(2) feed_leads(3) [of "e_GUID ep" W]
  show "\<exists>path. it_EnclosureURL it = baseURL @ path \<and> leads_to W path (DownloadEpisodeHandler W) (it_GUID it)"
    by (auto simp: item_of_episode_def)
qed


definition demo_feed :: feed where
  "demo_feed = feedFromPodcast ''http://h'' (podcast_zero\<lparr>p_GUID := ''p-1''\<rparr>)
     [episode_zero\<lparr>e_GUID := ''e-1'', e_Status := EpisodeStatusSuccess\<rparr>]"

theorem feed_addresses_lead_back_witness:
  "\<exists>path. it_EnclosureURL (hd (fd_Items demo_feed)) = ''http://h'' @ path \<and>
    leads_to demo_web path (DownloadEpisodeHandler demo_web) (it_GUID (hd (fd_Items demo_feed)))"
proof -
  let ?pod = "podcast_zero\<lparr>p_GUID := ''p-1''\<rparr>"
  let ?eps = "[episode_zero\<lparr>e_GUID := ''e-1'', e_Status := EpisodeStatusSuccess\<rparr>]"
  have "plain_guid (p_GUID ?pod)" "\<forall>ep \<in> set ?eps. plain_guid (e_GUID ep)"
    by (simp_all add: plain_guid_def is_alnum_def is_alpha_def is_lower_def is_digit_def byte_def)
  moreover have "hd (fd_Items demo_feed) \<in> set (fd_Items demo_feed)"
    by (simp add: demo_feed_def feedFromPodcast_def)
  ultimately show ?thesis
    using feed_addresses_lead_back [where W = demo_web and f = demo_feed, OF _ _ demo_feed_def] by blast
qed

end
