(* ===== verification/Config.thy ===== *)
theory Config
  imports HttpClient GoRoot
begin

text \<open>
  The configuration (\<^verbatim>\<open>pkg/config/config.go\<close>, \<^verbatim>\<open>pkg/config/fs.go\<close>): its data, the rules it is
  validated with, how it is loaded and what of it is logged.  The library that reads files and the
  environment (viper) is a parameter; the settings the program gives it are data.
\<close>

section \<open>Data\<close>

definition applicationName :: string where "applicationName = ''castkeeper''"
definition ObjectStorageDriverLocal :: string where "ObjectStorageDriverLocal = ''local''"
definition ObjectStorageDriverS3 :: string where "ObjectStorageDriverS3 = ''awss3''"
definition EncryptionDriverSecretKey :: string where "EncryptionDriverSecretKey = ''secretkey''"
definition LogLevelDebug :: string where "LogLevelDebug = ''debug''"
definition LogLevelInfo :: string where "LogLevelInfo = ''info''"
definition LogLevelWarn :: string where "LogLevelWarn = ''warn''"
definition LogLevelError :: string where "LogLevelError = ''error''"

lemmas config_consts = applicationName_def ObjectStorageDriverLocal_def ObjectStorageDriverS3_def
  EncryptionDriverSecretKey_def LogLevelDebug_def LogLevelInfo_def LogLevelWarn_def LogLevelError_def

record WebServerConfig =
  Port :: int

record ObjectStorageConfig =
  os_Driver :: string
  S3Bucket :: string
  S3Prefix :: string
  S3ForcePathStyle :: bool

record EncryptionConfig =
  en_Driver :: string
  SecretKey :: string

record Config =
  LogLevel :: string
  EnvName :: string
  BaseURL :: string
  DataPath :: string
  WebServer :: WebServerConfig
  cf_ObjectStorage :: ObjectStorageConfig
  Encryption :: EncryptionConfig

section \<open>Validation\<close>

definition WebServer_fields :: "WebServerConfig \<Rightarrow> field list" where
  "WebServer_fields w = [(''Port'', [Required, Gt 0, Lte 65535], FInt (Port w))]"

definition ObjectStorage_fields :: "ObjectStorageConfig \<Rightarrow> field list" where
  "ObjectStorage_fields o' =
     [(''Driver'', [Required, Oneof [''local'', ''awss3'']], FStr (os_Driver o')),
      (''S3Bucket'', [RequiredIf (os_Driver o' = ''awss3'')], FStr (S3Bucket o')),
      (''S3Prefix'', [Lte 250], FStr (S3Prefix o'))]"

definition Encryption_fields :: "EncryptionConfig \<Rightarrow> field list" where
  "Encryption_fields e =
     [(''Driver'', [Omitempty [Oneof [''secretkey'']]], FStr (en_Driver e)),
      (''SecretKey'',
       [Omitempty [RequiredIf (en_Driver e = ''secretkey''), Gte 16, Lte 64]], FStr (SecretKey e))]"

text \<open>
  The struct's own fields, then those of the structs inside it.  A struct is zero when all its fields
  are; the one marked \<^verbatim>\<open>omitempty\<close> is passed over then.
\<close>

definition Config_fields :: "Config \<Rightarrow> field list" where
  "Config_fields c =
     [(''LogLevel'', [Required, Oneof [''debug'', ''info'', ''warn'', ''error'']], FStr (LogLevel c)),
      (''EnvName'', [Required], FStr (EnvName c)),
      (''BaseURL'', [Required], FStr (BaseURL c)),
      (''DataPath'', [Required], FStr (DataPath c)),
      (''WebServer'', [Required], FStruct (WebServer c \<noteq> \<lparr>Port = 0\<rparr>)),
      (''ObjectStorage'', [Required],
       FStruct (cf_ObjectStorage c \<noteq>
         \<lparr>os_Driver = '''', S3Bucket = '''', S3Prefix = '''', S3ForcePathStyle = False\<rparr>))] @
     WebServer_fields (WebServer c) @
     ObjectStorage_fields (cf_ObjectStorage c) @
     (if Encryption c = \<lparr>en_Driver = '''', SecretKey = ''''\<rparr> then []
      else Encryption_fields (Encryption c))"

section \<open>Loading\<close>

text \<open>What the program sets up in viper, and what viper then answers.\<close>

datatype setting = SStr string | SInt int

record viper =
  vp_ConfigFile :: "string option"
  vp_ConfigName :: "string option"
  vp_ConfigPaths :: "string list"
  vp_Defaults :: "(string \<times> setting) list"
  vp_EnvPrefix :: string
  vp_EnvReplace :: "(string \<times> string) list"
  vp_AutomaticEnv :: bool

definition new_viper :: viper where
  "new_viper = \<lparr>vp_ConfigFile = None, vp_ConfigName = None, vp_ConfigPaths = [], vp_Defaults = [],
     vp_EnvPrefix = '''', vp_EnvReplace = [], vp_AutomaticEnv = False\<rparr>"

record config_env =
  ce_ReadInConfig :: "viper \<Rightarrow> go_error option"
  ce_Unmarshal :: "viper \<Rightarrow> Config result"
  ce_ConfigFileUsed :: "viper \<Rightarrow> string"
  ce_validator :: validator
  ce_http :: http_env
  ce_version :: string

definition slogLogLevel :: "string \<Rightarrow> int" where
  "slogLogLevel ll =
     (if ll = LogLevelDebug then LevelDebug
      else if ll = LogLevelInfo then LevelInfo
      else if ll = LogLevelWarn then LevelWarn
      else if ll = LogLevelError then LevelError
      else LevelInfo)"

text \<open>
  A value as \<^verbatim>\<open>reflect\<close> and \<^verbatim>\<open>%v\<close> see it, and a struct as its fields with their values and their
  \<^verbatim>\<open>secret\<close> tags.
\<close>

datatype go_value = VString string | VInt int | VBool bool | VStruct

fun fmt_v :: "go_value \<Rightarrow> string" where
  "fmt_v (VString s) = s"
| "fmt_v (VInt i) = show_int i"
| "fmt_v (VBool b) = (if b then ''true'' else ''false'')"
| "fmt_v VStruct = ''''"

type_synonym struct_view = "(string \<times> go_value \<times> string) list"

definition debugStruct :: "struct_view \<Rightarrow> string \<Rightarrow> string list \<Rightarrow> string list" where
  "debugStruct s pre debugVals =
     fold (\<lambda>(name, v, secret) vals.
       if v = VStruct then vals
       else (let val = (if secret \<noteq> '''' then VString ''(secret omitted)'' else v)
             in vals @ [pre @ name @ '': '' @ fmt_v val])) s debugVals"

definition view_Config :: "Config \<Rightarrow> struct_view" where
  "view_Config c =
     [(''LogLevel'', VString (LogLevel c), ''''), (''EnvName'', VString (EnvName c), ''''),
      (''BaseURL'', VString (BaseURL c), ''''), (''DataPath'', VString (DataPath c), ''''),
      (''WebServer'', VStruct, ''''), (''ObjectStorage'', VStruct, ''''), (''Encryption'', VStruct, '''')]"

definition view_WebServer :: "WebServerConfig \<Rightarrow> struct_view" where
  "view_WebServer w = [(''Port'', VInt (Port w), '''')]"

definition view_ObjectStorage :: "ObjectStorageConfig \<Rightarrow> struct_view" where
  "view_ObjectStorage o' =
     [(''Driver'', VString (os_Driver o'), ''''), (''S3Bucket'', VString (S3Bucket o'), ''''),
      (''S3Prefix'', VString (S3Prefix o'), ''''), (''S3ForcePathStyle'', VBool (S3ForcePathStyle o'), '''')]"

definition view_Encryption :: "EncryptionConfig \<Rightarrow> struct_view" where
  "view_Encryption e =
     [(''Driver'', VString (en_Driver e), ''''), (''SecretKey'', VString (SecretKey e), ''true'')]"

definition debugConfig :: "Config \<Rightarrow> string" where
  "debugConfig cfg =
     (let debugVals = debugStruct (view_Config cfg) '''' [];
          debugVals = debugStruct (view_WebServer (WebServer cfg)) ''WebServer.'' debugVals;
          debugVals = debugStruct (view_ObjectStorage (cf_ObjectStorage cfg)) ''ObjectStorage.'' debugVals;
          debugVals = debugStruct (view_Encryption (Encryption cfg)) ''Encryption.'' debugVals
      in strings_Join debugVals '', '')"

definition loadConfig ::
  "config_env \<Rightarrow> viper \<Rightarrow> string \<Rightarrow> string list \<times> log_line list \<Rightarrow>
   (Config \<times> logger) result \<times> (string list \<times> log_line list)" where
  "loadConfig E v configFilePath out =
     (let v = (if configFilePath \<noteq> '''' then v\<lparr>vp_ConfigFile := Some configFilePath\<rparr>
               else v\<lparr>vp_ConfigName := Some ''castkeeper'',
                      vp_ConfigPaths := vp_ConfigPaths v @ [''/etc/castkeeper/'', ''.'']\<rparr>);
          v = v\<lparr>vp_Defaults := vp_Defaults v @
                 [(''LogLevel'', SStr LogLevelInfo), (''EnvName'', SStr ''unknown''),
                  (''WebServer.Port'', SInt 8080)],
                vp_EnvPrefix := ''castkeeper'', vp_EnvReplace := [(''.'', ''_'')],
                vp_AutomaticEnv := True\<rparr>;
          (std, log) = out;
          std = (case ce_ReadInConfig E v of
                   None \<Rightarrow> std
                 | Some err \<Rightarrow> std @ [''no config file was found: '' @ he_error_text (ce_http E) err])
      in (case ce_Unmarshal E v of
            Inl err \<Rightarrow> (Inl err, (std, log))
          | Inr config \<Rightarrow>
              (case validate_struct (ce_validator E) (Config_fields config) of
                 Some err \<Rightarrow> (Inl err, (std, log))
               | None \<Rightarrow>
                   (let lg = NewLogger (he_machine_id (ce_http E)) applicationName (EnvName config)
                               (ce_version E) (slogLogLevel (LogLevel config));
                        log = log_to lg LevelInfo
                                (''successfully loaded config from: '' @ ce_ConfigFileUsed E v) [] log;
                        log = log_to lg LevelDebug (''loaded config: '' @ debugConfig config) [] log
                    in (Inr (config, lg), (std, log))))))"

definition LoadConfig ::
  "config_env \<Rightarrow> string \<Rightarrow> string list \<times> log_line list \<Rightarrow>
   (Config \<times> logger) result \<times> (string list \<times> log_line list)" where
  "LoadConfig E configFilePath out = loadConfig E new_viper configFilePath out"

section \<open>The data directory\<close>

text \<open>
  A call that can panic: a value, an error, or the panic's value.  \<^verbatim>\<open>fs.go\<close>: a directory that is made when it
  is missing; when it cannot be opened the program stops.
\<close>

datatype 'a call = Returns 'a | Fails go_error | Panics go_error

definition MustOpenLocalFSRoot ::
  "disk \<Rightarrow> (nat \<Rightarrow> time) \<Rightarrow> string \<Rightarrow> fs \<Rightarrow> (string list) call \<times> fs" where
  "MustOpenLocalFSRoot K cl basePath d =
     (case os_MkdirAll K (cl 0) basePath d of
        (Some err, d') \<Rightarrow> (Panics err, d')
      | (None, d') \<Rightarrow>
          (case os_OpenRoot K (cl 1) basePath d' of
             Inl err \<Rightarrow> (Panics err, d')
           | Inr root \<Rightarrow> (Returns root, d')))"

lemma MustOpenLocalFSRoot_Returns:
  assumes "MustOpenLocalFSRoot K cl path d = (Returns root, d')"
  shows "root = abs_path K path" "d q = Some n \<Longrightarrow> d' q = Some n" "node_at d' root = Some Directory"
  using assms mkdir_all_keeps [of d q n K "cl 0" "[]" "abs_path K path"]
  by (auto simp: MustOpenLocalFSRoot_def os_MkdirAll_def os_OpenRoot_def
      split: prod.splits option.splits sum.splits if_splits)

text \<open>On the tree it left, and on any later one that still has its directories, it changes nothing.\<close>

lemma MustOpenLocalFSRoot_again:
  assumes first: "MustOpenLocalFSRoot K cl path d = (Returns root, d1)"
    and kept: "\<And>p. d1 p = Some Directory \<Longrightarrow> d2 p = Some Directory"
    and cwd: "dk_cwd K' = dk_cwd K"
    and second: "MustOpenLocalFSRoot K' cl' path d2 = (r, d3)"
  shows "d3 = d2" "r = Returns root \<or> (\<exists>e. dk_open K' (cl' 1) = Some e \<and> r = Panics e)"
proof -
  have path: "abs_path K' path = abs_path K path" by (simp add: abs_path_def Let_def cwd)
  from first have ok: "path \<noteq> ''''" "fst (mkdir_all K (cl 0) [] (abs_path K path) d) = None"
      "snd (mkdir_all K (cl 0) [] (abs_path K path) d) = d1" "root = abs_path K path"
    by (auto simp: MustOpenLocalFSRoot_def os_MkdirAll_def os_OpenRoot_def
        split: prod.splits option.splits sum.splits if_splits)
  have again: "mkdir_all K' (cl' 0) [] (abs_path K path) d2 = (None, d2)"
    by (rule mkdir_all_again [OF ok(2)]) (simp add: ok(3) kept)
  have "node_at d1 root = Some Directory" using MustOpenLocalFSRoot_Returns(3) [OF first] .
  then have "node_at d2 root = Some Directory" using kept by (auto simp: node_at_def split: if_splits)
  with second again ok(1,4) path
  show "d3 = d2" "r = Returns root \<or> (\<exists>e. dk_open K' (cl' 1) = Some e \<and> r = Panics e)"
    by (auto simp: MustOpenLocalFSRoot_def os_MkdirAll_def os_OpenRoot_def split: option.splits)
qed

end
