(* ===== verification/ConfigProps.thy ===== *)
theory ConfigProps
  imports Config
begin

text \<open>
  What is accepted as a configuration, and that its secret stays out of the log.
\<close>

section \<open>Acceptance\<close>

text \<open>The rules of the documentation, on the configuration that was read.\<close>

definition encryption_accepted :: "EncryptionConfig \<Rightarrow> bool" where
  "encryption_accepted e \<longleftrightarrow>
     en_Driver e \<in> {'''', ''secretkey''} \<and>
     (SecretKey e = '''' \<or> 16 \<le> rune_count (SecretKey e) \<and> rune_count (SecretKey e) \<le> 64)"

definition config_accepted :: "Config \<Rightarrow> bool" where
  "config_accepted c \<longleftrightarrow>
     LogLevel c \<in> {''debug'', ''info'', ''warn'', ''error''} \<and>
     EnvName c \<noteq> '''' \<and> BaseURL c \<noteq> '''' \<and> DataPath c \<noteq> '''' \<and>
     1 \<le> Port (WebServer c) \<and> Port (WebServer c) \<le> 65535 \<and>
     os_Driver (cf_ObjectStorage c) \<in> {''local'', ''awss3''} \<and>
     (os_Driver (cf_ObjectStorage c) = ''awss3'' \<longrightarrow> S3Bucket (cf_ObjectStorage c) \<noteq> '''') \<and>
     rune_count (S3Prefix (cf_ObjectStorage c)) \<le> 250 \<and>
     encryption_accepted (Encryption c)"

context tag_meaning begin

lemma Encryption_fields_ok:
  "list_all (field_ok V) (Encryption_fields e) \<longleftrightarrow> encryption_accepted e"
  by (auto simp: Encryption_fields_def field_ok_def encryption_accepted_def tag_simps)

lemma WebServer_fields_ok:
  "list_all (field_ok V) (WebServer_fields w) \<longleftrightarrow> 1 \<le> Port w \<and> Port w \<le> 65535"
  by (auto simp: WebServer_fields_def field_ok_def tag_simps)

lemma ObjectStorage_fields_ok:
  "list_all (field_ok V) (ObjectStorage_fields s) \<longleftrightarrow>
     os_Driver s \<in> {''local'', ''awss3''} \<and> (os_Driver s = ''awss3'' \<longrightarrow> S3Bucket s \<noteq> '''') \<and>
     rune_count (S3Prefix s) \<le> 250"
  by (auto simp: ObjectStorage_fields_def field_ok_def tag_simps)

lemma Config_fields_ok:
  "validate_struct V (Config_fields c) = None \<longleftrightarrow> config_accepted c"
proof -
  have none: "encryption_accepted \<lparr>en_Driver = '''', SecretKey = ''''\<rparr>"
    by (simp add: encryption_accepted_def)
  have own: "list_all (field_ok V)
       (take 6 (Config_fields c)) \<longleftrightarrow>
     LogLevel c \<in> {''debug'', ''info'', ''warn'', ''error''} \<and>
     EnvName c \<noteq> '''' \<and> BaseURL c \<noteq> '''' \<and> DataPath c \<noteq> '''' \<and>
     WebServer c \<noteq> \<lparr>Port = 0\<rparr> \<and>
     cf_ObjectStorage c \<noteq> \<lparr>os_Driver = '''', S3Bucket = '''', S3Prefix = '''', S3ForcePathStyle = False\<rparr>"
    by (auto simp: Config_fields_def field_ok_def tag_simps)
  have split: "Config_fields c = take 6 (Config_fields c) @ WebServer_fields (WebServer c) @
      ObjectStorage_fields (cf_ObjectStorage c) @
      (if Encryption c = \<lparr>en_Driver = '''', SecretKey = ''''\<rparr> then []
       else Encryption_fields (Encryption c))"
    by (simp add: Config_fields_def)
  have "validate_struct V (Config_fields c) = None \<longleftrightarrow> list_all (field_ok V) (Config_fields c)"
    by (simp add: validate_struct_None list_all_iff)
  also have "\<dots> \<longleftrightarrow> config_accepted c"
    unfolding list_all_append own WebServer_fields_ok ObjectStorage_fields_ok config_accepted_def
    by (subst split) (auto simp: own WebServer_fields_ok ObjectStorage_fields_ok Encryption_fields_ok none)
  finally show ?thesis .
qed

end

lemma LoadConfig_accepts:
  assumes "tag_meaning (ce_validator E)" and "\<And>v. ce_Unmarshal E v = Inr c"
  shows "(\<exists>lg out'. LoadConfig E path out = (Inr (c, lg), out')) \<longleftrightarrow> config_accepted c"
  using tag_meaning.Config_fields_ok [OF assms(1), of c] assms(2)
  by (auto simp: LoadConfig_def loadConfig_def Let_def split: option.split prod.split)

text \<open>a configuration is accepted exactly when it keeps the documented rules, with one exception: the encryption driver may be given without a secret key.\<close>

theorem config_accepted_iff:
  assumes "tag_meaning (ce_validator E)" and "\<And>v. ce_Unmarshal E v = Inr c"
  shows "(\<exists>lg out'. LoadConfig E path out = (Inr (c, lg), out')) \<longleftrightarrow> config_accepted c"
  using LoadConfig_accepts [OF assms] .

definition demo_config :: Config where
  "demo_config = \<lparr>LogLevel = ''debug'', EnvName = ''testdata'', BaseURL = ''http://www.example.com'',
     DataPath = ''./data'', WebServer = \<lparr>Port = 80\<rparr>,
     cf_ObjectStorage = \<lparr>os_Driver = ''local'', S3Bucket = '''', S3Prefix = '''', S3ForcePathStyle = False\<rparr>,
     Encryption = \<lparr>en_Driver = ''secretkey'', SecretKey = ''1111111111111111''\<rparr>\<rparr>"

definition demo_config_env :: "Config \<Rightarrow> config_env" where
  "demo_config_env c = \<lparr>ce_ReadInConfig = (\<lambda>_. None), ce_Unmarshal = (\<lambda>_. Inr c),
     ce_ConfigFileUsed = (\<lambda>_. ''castkeeper.yml''), ce_validator = std_validator,
     ce_http = \<lparr>he_close = (\<lambda>_. None), he_machine_id = Inr ''m'', he_error_text = (\<lambda>_. ''error'')\<rparr>,
     ce_version = ''abc''\<rparr>"

lemma demo_config_accepted: "config_accepted demo_config"
  by code_simp

theorem config_accepted_iff_witness:
  "\<exists>lg out'. LoadConfig (demo_config_env demo_config) ''castkeeper.yml'' ([], []) = (Inr (demo_config, lg), out')"
  using config_accepted_iff [where E = "demo_config_env demo_config" and c = demo_config and path = "''castkeeper.yml''"
      and out = "([], [])"]
    demo_config_accepted std_tags.tag_meaning_axioms
  by (simp add: demo_config_env_def)

section \<open>The secret\<close>

lemma debugConfig_secret:
  "debugConfig (c\<lparr>Encryption := (Encryption c)\<lparr>SecretKey := s\<rparr>\<rparr>) = debugConfig c"
  by (simp add: debugConfig_def view_Config_def view_Encryption_def debugStruct_def)

text \<open>What the length rules make of a key.\<close>

definition key_acceptable :: "string \<Rightarrow> bool" where
  "key_acceptable s \<longleftrightarrow> s = '''' \<or> 16 \<le> rune_count s \<and> rune_count s \<le> 64"

definition with_key :: "string \<Rightarrow> Config \<Rightarrow> Config" where
  "with_key s c = c\<lparr>Encryption := (Encryption c)\<lparr>SecretKey := s\<rparr>\<rparr>"

lemma with_key_simps [simp]:
  "EnvName (with_key s c) = EnvName c" "LogLevel (with_key s c) = LogLevel c"
  "debugConfig (with_key s c) = debugConfig c"
  by (simp_all add: with_key_def debugConfig_secret)

text \<open>Validation tells two keys apart only by whether they are acceptable.\<close>

lemma validate_struct_append:
  "validate_struct V (fs @ gs) =
     (let bad = map fst (filter (\<lambda>f. \<not> field_ok V f) fs) @ map fst (filter (\<lambda>f. \<not> field_ok V f) gs)
      in if bad = [] then None else Some (ValidationErrors bad))"
  by (simp add: validate_struct_def)

context tag_meaning begin

lemma Encryption_fields_key:
  "map fst (filter (\<lambda>f. \<not> field_ok V f) (Encryption_fields (e\<lparr>SecretKey := s\<rparr>))) =
     (if en_Driver e \<in> {'''', ''secretkey''} then [] else [''Driver'']) @ (if key_acceptable s then [] else [''SecretKey''])"
  by (auto simp: Encryption_fields_def field_ok_def key_acceptable_def tag_simps)

lemma validate_key:
  assumes "key_acceptable s = key_acceptable s'"
  shows "validate_struct V (Config_fields (with_key s c)) = validate_struct V (Config_fields (with_key s' c))"
proof -
  let ?enc = "\<lambda>s. if Encryption (with_key s c) = \<lparr>en_Driver = '''', SecretKey = ''''\<rparr> then []
    else Encryption_fields (Encryption (with_key s c))"
  have enc: "map fst (filter (\<lambda>f. \<not> field_ok V f) (?enc s)) =
     (if en_Driver (Encryption c) \<in> {'''', ''secretkey''} then [] else [''Driver'']) @ (if key_acceptable s then [] else [''SecretKey''])" for s
    using Encryption_fields_key [where e = "Encryption c" and s = s]
    by (cases "Encryption c") (auto simp: with_key_def key_acceptable_def)
  have split: "\<exists>rest. \<forall>s. Config_fields (with_key s c) = rest @ ?enc s"
    unfolding Config_fields_def append_assoc [symmetric] by (intro exI allI) (simp add: with_key_def)
  then obtain rest where rest: "\<And>s. Config_fields (with_key s c) = rest @ ?enc s" by blast
  show ?thesis unfolding rest validate_struct_append enc assms ..
qed

end

text \<open>Loading when what was read has that key.\<close>

definition load_with_key ::
  "config_env \<Rightarrow> string \<Rightarrow> string list \<times> log_line list \<Rightarrow> Config \<Rightarrow> string \<Rightarrow>
   (Config \<times> logger) result \<times> (string list \<times> log_line list)" where
  "load_with_key E path out c s = LoadConfig (E\<lparr>ce_Unmarshal := \<lambda>_. Inr (with_key s c)\<rparr>) path out"

text \<open>C40: nothing that is logged while the configuration is loaded tells what the secret key is, at any
  level of logging, whether the configuration is accepted or refused.  What is printed does not depend on
  the key at all, a refused configuration is not logged, and two keys that are both of an acceptable length, or
  both not, give the same lines in the log, the same logger and the same error.\<close>

theorem secret_key_not_logged:
  assumes "tag_meaning (ce_validator E)"
  shows "fst (snd (load_with_key E path out c s)) = fst (snd (load_with_key E path out c s')) \<and>
    (\<forall>e. fst (load_with_key E path out c s) = Inl e \<longrightarrow> snd (snd (load_with_key E path out c s)) = snd out) \<and>
    (key_acceptable s = key_acceptable s' \<longrightarrow> snd (load_with_key E path out c s) = snd (load_with_key E path out c s') \<and>
       map_sum id snd (fst (load_with_key E path out c s)) = map_sum id snd (fst (load_with_key E path out c s')))"
proof -
  note V = tag_meaning.validate_key [OF assms(1), of s s' c]
  obtain std log where out: "out = (std, log)" by (cases out)
  show ?thesis unfolding load_with_key_def LoadConfig_def loadConfig_def Let_def out using V
    by (auto split: option.splits)
qed

text \<open>Two keys that are accepted, and two that are too short.\<close>

theorem secret_key_not_logged_witness:
  "snd (load_with_key (demo_config_env demo_config) ''f'' ([], []) demo_config ''1111111111111111'') =
   snd (load_with_key (demo_config_env demo_config) ''f'' ([], []) demo_config ''2222222222222222'') \<and>
   (\<exists>e. fst (load_with_key (demo_config_env demo_config) ''f'' ([], []) demo_config ''short'') = Inl e \<and>
        fst (load_with_key (demo_config_env demo_config) ''f'' ([], []) demo_config ''tiny'') = Inl e \<and>
        snd (snd (load_with_key (demo_config_env demo_config) ''f'' ([], []) demo_config ''short'')) = [])"
proof -
  let ?load = "load_with_key (demo_config_env demo_config) ''f'' ([], []) demo_config"
  have V: "tag_meaning (ce_validator (demo_config_env demo_config))"
    using std_tags.tag_meaning_axioms by (simp add: demo_config_env_def)
  note same = secret_key_not_logged [OF V, of "''f''" "([], [])" demo_config]
  have keys: "key_acceptable ''1111111111111111''" "key_acceptable ''2222222222222222''"
    "\<not> key_acceptable ''short''" "\<not> key_acceptable ''tiny''" by code_simp+
  have "\<not> config_accepted (with_key ''short'' demo_config)" by code_simp
  then have "validate_struct std_validator (Config_fields (with_key ''short'' demo_config)) \<noteq> None"
    by (simp add: std_tags.Config_fields_ok)
  then obtain e where e: "fst (?load ''short'') = Inl e"
    by (auto simp: load_with_key_def LoadConfig_def loadConfig_def Let_def demo_config_env_def)
  from same [of "''short''" "''tiny''"] keys e have "map_sum id snd (fst (?load ''tiny'')) = Inl e" by simp
  then have "fst (?load ''tiny'') = Inl e" by (cases "fst (?load ''tiny'')") auto
  with same [of "''1111111111111111''" "''2222222222222222''"] same [of "''short''" "''tiny''"] keys e
  show ?thesis by auto
qed

end
