(* ===== verification/Keys.thy ===== *)
theory Keys
  imports Config Encryption
begin

text \<open>
  The encryption key of an installation (\<^verbatim>\<open>pkg/database/encryption/config.go\<close> and
  \<^verbatim>\<open>key_derivation.go\<close>): a data key that is kept in the data directory, encrypted with a key derived
  from the configured secret.  The cryptographic library and argon2 are parameters; the locale
  \<open>keyset_laws\<close> says what is relied on.
\<close>

section \<open>The library\<close>

record 'h tink_lib =
  tk_IDKey :: "string \<Rightarrow> string \<Rightarrow> nat \<Rightarrow> nat \<Rightarrow> nat \<Rightarrow> nat \<Rightarrow> string"
  tk_NewAESGCMSIV :: "string \<Rightarrow> tink_aead result"
  tk_NewHandle :: "nat \<Rightarrow> 'h result"
  tk_Write :: "nat \<Rightarrow> 'h \<Rightarrow> tink_aead \<Rightarrow> string result"
  tk_Read :: "string \<Rightarrow> tink_aead \<Rightarrow> 'h result"
  tk_New :: "'h \<Rightarrow> tink_aead result"

text \<open>
  What was written with a key is read back with it, a file that was cut short is not, and the
  ciphers decrypt what they encrypted.
\<close>

locale keyset_laws =
  fixes L :: "'h tink_lib"
  assumes read_write: "tk_Write L rnd h kek = Inr bytes \<Longrightarrow> tk_Read L bytes kek = Inr h"
    and read_truncated: "tk_Write L rnd h kek = Inr bytes \<Longrightarrow> k < length bytes \<Longrightarrow>
      \<exists>err. tk_Read L (take k bytes) kek = Inl err"
    and cipher: "tk_New L h = Inr A \<Longrightarrow> aead A"

section \<open>The program\<close>

definition dekFileName :: string where "dekFileName = ''dek.json''"

definition DeriveAEADFromSecret :: "'h tink_lib \<Rightarrow> string \<Rightarrow> tink_aead result" where
  "DeriveAEADFromSecret L secret =
     (let fixedSalt = ''castkeeper:kek'';
          key = tk_IDKey L secret fixedSalt 1 (64 * 1024) 1 32
      in tk_NewAESGCMSIV L key)"

definition loadDEK ::
  "'h tink_lib \<Rightarrow> disk \<Rightarrow> (nat \<Rightarrow> time) \<Rightarrow> tink_aead \<Rightarrow> fs \<Rightarrow> tink_aead result" where
  "loadDEK L K cl kekAEAD dataDir =
     (case Root_Open K (cl 0) dekFileName dataDir of
        Inl err \<Rightarrow> Inl err
      | Inr f \<Rightarrow>
          (case tk_Read L f kekAEAD of
             Inl err \<Rightarrow> Inl err
           | Inr handle \<Rightarrow> tk_New L handle))"

definition createDEK ::
  "'h tink_lib \<Rightarrow> disk \<Rightarrow> (nat \<Rightarrow> time) \<Rightarrow> nat \<Rightarrow> tink_aead \<Rightarrow> fs \<Rightarrow> tink_aead result \<times> fs" where
  "createDEK L K cl rnd kekAEAD dataDir =
     (case tk_NewHandle L rnd of
        Inl err \<Rightarrow> (Inl err, dataDir)
      | Inr handle \<Rightarrow>
          (case Root_Create K (cl 0) dekFileName dataDir of
             (Inl err, d) \<Rightarrow> (Inl err, d)
           | (Inr f, d) \<Rightarrow>
               (case tk_Write L (rnd + 1) handle kekAEAD of
                  Inl err \<Rightarrow> (Inl err, d)
                | Inr bytes \<Rightarrow>
                    (case File_Write K (cl 1) f bytes d of
                       (Some err, d') \<Rightarrow> (Inl err, d')
                     | (None, d') \<Rightarrow>
                         (case dk_sync K (cl 2) of
                            Some err \<Rightarrow> (Inl err, d')
                          | None \<Rightarrow> (tk_New L handle, d'))))))"

definition loadOrCreateDEK ::
  "'h tink_lib \<Rightarrow> disk \<Rightarrow> (nat \<Rightarrow> time) \<Rightarrow> nat \<Rightarrow> tink_aead \<Rightarrow> fs \<Rightarrow> tink_aead result \<times> fs" where
  "loadOrCreateDEK L K cl rnd kekAEAD dataDir =
     (case Root_Stat K (cl 0) dekFileName dataDir of
        Inl err \<Rightarrow>
          if errors_is ErrNotExist err then createDEK L K (\<lambda>i. cl (1 + i)) rnd kekAEAD dataDir
          else (Inl err, dataDir)
      | Inr _ \<Rightarrow> (loadDEK L K (\<lambda>i. cl (1 + i)) kekAEAD dataDir, dataDir))"

text \<open>
  A call with a root at hand.  An error returned with a nil service and a nil service without an
  error are different results.
\<close>

definition ConfigureEncryptedValueService ::
  "'h tink_lib \<Rightarrow> disk \<Rightarrow> (nat \<Rightarrow> time) \<Rightarrow> nat \<Rightarrow> Config \<Rightarrow> fs \<Rightarrow> EncryptedValueService call \<times> fs" where
  "ConfigureEncryptedValueService L K cl rnd cfg d =
     (if en_Driver (Encryption cfg) \<noteq> EncryptionDriverSecretKey then (Returns None, d)
      else
        (case DeriveAEADFromSecret L (SecretKey (Encryption cfg)) of
           Inl err \<Rightarrow> (Fails err, d)
         | Inr kekAEAD \<Rightarrow>
             (case MustOpenLocalFSRoot K cl (path_Join (DataPath cfg) '''') d of
                (Panics err, d1) \<Rightarrow> (Panics err, d1)
              | (Fails err, d1) \<Rightarrow> (Fails err, d1)
              | (Returns root, d1) \<Rightarrow>
                  (case in_root root (loadOrCreateDEK L K (\<lambda>i. cl (2 + i)) rnd kekAEAD) d1 of
                     (Inl err, d2) \<Rightarrow> (Fails err, d2)
                   | (Inr dekAEAD, d2) \<Rightarrow> (Returns (NewEncryptedValueService dekAEAD), d2)))))"

section \<open>Facts\<close>

lemma root_path_dek [simp]: "root_path dekFileName = Some [dekFileName]"
  by (simp add: dekFileName_def root_path_def)

lemma dek_not_empty [simp]: "dekFileName \<noteq> ''''"
  by (simp add: dekFileName_def)

text \<open>The directory holds a key that opens with \<open>kek\<close> and gives the cipher \<open>A\<close>.\<close>

definition holds_key :: "'h tink_lib \<Rightarrow> tink_aead \<Rightarrow> tink_aead \<Rightarrow> fs \<Rightarrow> bool" where
  "holds_key L kek A d \<longleftrightarrow>
     (\<exists>bytes h. d [dekFileName] = Some (File bytes) \<and> tk_Read L bytes kek = Inr h \<and> tk_New L h = Inr A)"

text \<open>A disk that does not report a file that is there as missing.\<close>

definition honest_disk :: "disk \<Rightarrow> bool" where
  "honest_disk K \<longleftrightarrow> (\<forall>now err. dk_stat K now = Some err \<longrightarrow> \<not> errors_is ErrNotExist err)"

definition disk_fault :: "disk \<Rightarrow> bool" where
  "disk_fault K \<longleftrightarrow> (\<exists>now. dk_stat K now \<noteq> None \<or> dk_open K now \<noteq> None)"

lemma honest_healthy [simp]: "honest_disk healthy_disk"
  by (simp add: honest_disk_def healthy_disk_def)

text \<open>With a key file in place the directory is only read.\<close>

lemma loadOrCreateDEK_present:
  assumes "d [dekFileName] = Some n" "honest_disk K"
    and "loadOrCreateDEK L K cl rnd kek d = (r, d')"
  shows "d' = d" "r = Inr A \<Longrightarrow> holds_key L kek A d"
  using assms
  by (auto simp: loadOrCreateDEK_def Root_Stat_def node_at_def honest_disk_def loadDEK_def Root_Open_def
      holds_key_def split: option.splits if_splits node.splits sum.splits)

lemma holds_key_load:
  assumes "holds_key L kek A d" "loadOrCreateDEK L K cl rnd kek d = (r, d')" "honest_disk K"
  shows "r = Inr A \<or> (\<exists>err. r = Inl err \<and> disk_fault K)"
  using assms
  by (auto simp: loadOrCreateDEK_def Root_Stat_def node_at_def honest_disk_def loadDEK_def Root_Open_def
      holds_key_def disk_fault_def split: option.splits if_splits node.splits sum.splits)

context keyset_laws begin

lemma createDEK_holds_key:
  assumes "createDEK L K cl rnd kek d = (Inr A, d')"
  shows "holds_key L kek A d'"
  using assms
  by (auto simp: createDEK_def Root_Create_def File_Write_def holds_key_def dest: read_write
      split: sum.splits prod.splits option.splits if_splits)

lemma loadOrCreateDEK_holds_key:
  assumes "loadOrCreateDEK L K cl rnd kek d = (Inr A, d')"
  shows "holds_key L kek A d'"
proof (cases "Root_Stat K (cl 0) dekFileName d")
  case (Inl err)
  with assms show ?thesis
    by (auto simp: loadOrCreateDEK_def split: if_splits intro: createDEK_holds_key)
next
  case (Inr _)
  with assms show ?thesis
    by (auto simp: loadOrCreateDEK_def loadDEK_def Root_Open_def node_at_def holds_key_def
        split: sum.splits option.splits node.splits)
qed

lemma holds_key_cipher: "holds_key L kek A d \<Longrightarrow> aead A"
  by (auto simp: holds_key_def dest: cipher)

end

lemma ConfigureEncryptedValueService_Returns:
  assumes "ConfigureEncryptedValueService L K cl rnd cfg d = (Returns (Some A), d1)"
  obtains kek d0 e where
    "DeriveAEADFromSecret L (SecretKey (Encryption cfg)) = Inr kek"
    "en_Driver (Encryption cfg) = EncryptionDriverSecretKey"
    "MustOpenLocalFSRoot K cl (path_Join (DataPath cfg) '''') d =
       (Returns (abs_path K (path_Join (DataPath cfg) '''')), d0)"
    "loadOrCreateDEK L K (\<lambda>i. cl (2 + i)) rnd kek (subtree (abs_path K (path_Join (DataPath cfg) '''')) d0) =
       (Inr A, e)"
    "d1 = graft (abs_path K (path_Join (DataPath cfg) '''')) e d0"
proof -
  obtain kek where kek: "DeriveAEADFromSecret L (SecretKey (Encryption cfg)) = Inr kek"
    and drv: "en_Driver (Encryption cfg) = EncryptionDriverSecretKey"
    using assms by (auto simp: ConfigureEncryptedValueService_def split: if_splits sum.splits)
  obtain root d0 where open': "MustOpenLocalFSRoot K cl (path_Join (DataPath cfg) '''') d = (Returns root, d0)"
    using assms kek drv
    by (cases "MustOpenLocalFSRoot K cl (path_Join (DataPath cfg) '''') d"; cases "fst (MustOpenLocalFSRoot K cl (path_Join (DataPath cfg) '''') d)")
       (auto simp: ConfigureEncryptedValueService_def)
  obtain r e where run: "loadOrCreateDEK L K (\<lambda>i. cl (2 + i)) rnd kek (subtree root d0) = (r, e)"
    by fastforce
  have root: "root = abs_path K (path_Join (DataPath cfg) '''')"
    using MustOpenLocalFSRoot_Returns(1) [OF open'] .
  have "r = Inr A \<and> d1 = graft root e d0"
    using assms kek drv open' run
    by (auto simp: ConfigureEncryptedValueService_def in_root_def NewEncryptedValueService_def
        split: sum.splits)
  with kek drv open' run root that show thesis by blast
qed

lemma loadOrCreateDEK_dirs:
  assumes "loadOrCreateDEK L K cl rnd kek d = (r, d')" "d q = Some Directory"
  shows "d' q = Some Directory"
  using assms
  by (auto simp: loadOrCreateDEK_def createDEK_def Root_Create_def File_Write_def node_at_def
      split: sum.splits if_splits prod.splits option.splits)

lemma graft_dirs:
  assumes "loadOrCreateDEK L K cl rnd kek (subtree root d) = (r, e)" "d p = Some Directory"
  shows "graft root e d p = Some Directory"
proof (cases "prefix root p")
  case True
  then obtain q where "p = root @ q" by (auto simp: prefix_def)
  with loadOrCreateDEK_dirs [OF assms(1), of q] assms(2) show ?thesis
    by (simp add: graft_def subtree_def)
qed (simp add: graft_def assms(2))

end
