(* ===== verification/KeysProps.thy ===== *)
theory KeysProps
  imports Keys ConfigProps
begin

text \<open>
  The encryption key across restarts, and what an interrupted first start leaves behind.
\<close>

section \<open>A restart\<close>

definition dek_path :: "disk \<Rightarrow> Config \<Rightarrow> string list" where
  "dek_path K cfg = abs_path K (path_Join (DataPath cfg) '''') @ [dekFileName]"

text \<open>The same installation: data directory, working directory, driver and secret are the same.\<close>

definition same_installation :: "disk \<Rightarrow> Config \<Rightarrow> disk \<Rightarrow> Config \<Rightarrow> bool" where
  "same_installation K cfg K' cfg' \<longleftrightarrow>
     dk_cwd K' = dk_cwd K \<and> DataPath cfg' = DataPath cfg \<and> Encryption cfg' = Encryption cfg"

text \<open>What happens to the file system in between leaves the directories and the key file alone.\<close>

definition kept_between :: "disk \<Rightarrow> Config \<Rightarrow> fs \<Rightarrow> fs \<Rightarrow> bool" where
  "kept_between K cfg d1 d2 \<longleftrightarrow>
     (\<forall>p. d1 p = Some Directory \<longrightarrow> d2 p = Some Directory) \<and> d2 (dek_path K cfg) = d1 (dek_path K cfg)"

text \<open>C30: a value encrypted before a restart is decrypted after it, whatever else was written in between
  and with whatever fresh randomness: the second start takes up the key the first one made or found,
  and changes no file.  It can only fail to start for a fault of the disk.\<close>

theorem encrypted_values_survive_restart:
  assumes lib: "keyset_laws L" and disk: "honest_disk K'"
    and first: "ConfigureEncryptedValueService L K cl rnd cfg d = (Returns (Some A), d1)"
    and enc: "Encrypt (Some A) rnd1 plain ad = Inr ev"
    and between: "same_installation K cfg K' cfg'" "kept_between K cfg d1 d2"
    and second: "ConfigureEncryptedValueService L K' cl' rnd' cfg' d2 = (r, d3)"
  shows "d3 = d2 \<and>
    (case r of Returns s \<Rightarrow> Decrypt s ev ad = Inr plain | _ \<Rightarrow> disk_fault K')"
proof -
  let ?root = "abs_path K (path_Join (DataPath cfg) '''')"
  obtain kek d0 e where kek: "DeriveAEADFromSecret L (SecretKey (Encryption cfg)) = Inr kek"
    and drv: "en_Driver (Encryption cfg) = EncryptionDriverSecretKey"
    and open1: "MustOpenLocalFSRoot K cl (path_Join (DataPath cfg) '''') d = (Returns ?root, d0)"
    and run1: "loadOrCreateDEK L K (\<lambda>i. cl (2 + i)) rnd kek (subtree ?root d0) = (Inr A, e)"
    and d1: "d1 = graft ?root e d0"
    by (rule ConfigureEncryptedValueService_Returns [OF first])
  have key: "holds_key L kek A e"
    using keyset_laws.loadOrCreateDEK_holds_key [OF lib run1] .
  have "d1 (?root @ [dekFileName]) = e [dekFileName]" unfolding d1 by (simp add: graft_def)
  with key between(2) have key2: "holds_key L kek A (subtree ?root d2)"
    by (simp add: holds_key_def kept_between_def dek_path_def subtree_def)
  have dirs: "d2 p = Some Directory" if "d0 p = Some Directory" for p
    using graft_dirs [OF run1 that] between(2) unfolding d1 kept_between_def by blast
  obtain r2 d2' where open2: "MustOpenLocalFSRoot K' cl' (path_Join (DataPath cfg) '''') d2 = (r2, d2')"
    by fastforce
  have cwd: "dk_cwd K' = dk_cwd K" using between(1) by (simp add: same_installation_def)
  note again = MustOpenLocalFSRoot_again [OF open1 dirs cwd open2]
  obtain r3 e3 where run2: "loadOrCreateDEK L K' (\<lambda>i. cl' (2 + i)) rnd' kek (subtree ?root d2) = (r3, e3)"
    by fastforce
  obtain n where n: "subtree ?root d2 [dekFileName] = Some n" using key2 by (auto simp: holds_key_def)
  have e3: "e3 = subtree ?root d2" using loadOrCreateDEK_present(1) [OF n disk run2] .
  have r3: "r3 = Inr A \<or> (\<exists>err. r3 = Inl err \<and> disk_fault K')"
    using holds_key_load [OF key2 run2 disk] .
  have cfg': "DataPath cfg' = DataPath cfg" "Encryption cfg' = Encryption cfg"
    using between(1) by (simp_all add: same_installation_def)
  have dec: "Decrypt (Some A) ev ad = Inr plain"
    using Decrypt_Encrypt(1) [OF _ enc] keyset_laws.holds_key_cipher [OF lib key]
    by (simp add: service_ok_def)
  from again(2) consider (ok) "r2 = Returns ?root" | (bad) err where "r2 = Panics err" "disk_fault K'"
    by (auto simp: disk_fault_def)
  then show ?thesis
  proof cases
    case ok
    have "(r, d3) = (case r3 of Inl err \<Rightarrow> Fails err | Inr B \<Rightarrow> Returns (Some B), graft ?root e3 d2)"
      using second open2 again(1) ok run2 cfg' kek drv
      by (simp add: ConfigureEncryptedValueService_def in_root_def NewEncryptedValueService_def
          split: sum.splits)
    with r3 e3 dec show ?thesis by auto
  next
    case bad
    then show ?thesis using second open2 again(1) cfg' kek drv
      by (auto simp: ConfigureEncryptedValueService_def)
  qed
qed

text \<open>A library for the witnesses: a key is a text without a closing brace, which ends its file.\<close>

definition demo_tink :: "string tink_lib" where
  "demo_tink = \<lparr>tk_IDKey = (\<lambda>secret salt _ _ _ _. secret @ salt), tk_NewAESGCMSIV = (\<lambda>_. Inr demo_aead),
     tk_NewHandle = (\<lambda>rnd. Inr (replicate (rnd + 1) (CHR ''k''))),
     tk_Write = (\<lambda>_ h _. if CHR ''}'' \<in> set h then Inl (ErrorText ''key'') else Inr (h @ ''}'')),
     tk_Read = (\<lambda>s _. if s \<noteq> [] \<and> last s = CHR ''}'' then Inr (butlast s) else Inl (ErrorText ''json'')),
     tk_New = (\<lambda>_. Inr demo_aead)\<rparr>"

interpretation demo_tink: keyset_laws demo_tink
proof
  fix rnd h kek bytes k
  assume w: "tk_Write demo_tink rnd h kek = Inr bytes" and k: "k < length bytes"
  then have b: "bytes = h @ ''}''" "CHR ''}'' \<notin> set h"
    by (auto simp: demo_tink_def split: if_splits)
  have "last (take k h) \<noteq> CHR ''}'' " if "take k h \<noteq> []"
    using last_in_set [OF that] set_take_subset [of k h] b(2) by fastforce
  with b k show "\<exists>err. tk_Read demo_tink (take k bytes) kek = Inl err"
    by (auto simp: demo_tink_def)
qed (auto simp: demo_tink_def split: if_splits
    dest: demo_aead.decrypt_encrypt demo_aead.ciphertext_nonempty)

lemma demo_path: "path_Join (DataPath demo_config) '''' = ''data''"
    "abs_path healthy_disk ''data'' = [''data'']"
  by code_simp+

definition demo_start :: "fs \<Rightarrow> EncryptedValueService call \<times> fs" where
  "demo_start d = ConfigureEncryptedValueService demo_tink healthy_disk (\<lambda>_. 0) 0 demo_config d"

lemma demo_tink_simps [simp]:
  "DeriveAEADFromSecret demo_tink secret = Inr demo_aead"
  "tk_NewHandle demo_tink 0 = Inr ''k''"
  "tk_Write demo_tink rnd ''k'' kek = Inr ''k}''"
  "tk_New demo_tink h = Inr demo_aead"
  by (simp_all add: DeriveAEADFromSecret_def demo_tink_def)

lemma demo_config_simps [simp]:
  "en_Driver (Encryption demo_config) = EncryptionDriverSecretKey" "DataPath demo_config = ''./data''"
  by (simp_all add: demo_config_def EncryptionDriverSecretKey_def)

lemma demo_open: "MustOpenLocalFSRoot healthy_disk cl ''data'' (\<lambda>_. None) =
    (Returns [''data''], (\<lambda>_. None)([''data''] \<mapsto> Directory))"
  by (simp add: MustOpenLocalFSRoot_def os_MkdirAll_def os_OpenRoot_def demo_path node_at_def)

lemma demo_first_start: "fst (demo_start (\<lambda>_. None)) = Returns (Some demo_aead)"
  by (simp add: demo_start_def ConfigureEncryptedValueService_def demo_path [simplified] demo_open in_root_def
      loadOrCreateDEK_def Root_Stat_def node_at_def createDEK_def Root_Create_def File_Write_def
      subtree_def NewEncryptedValueService_def)

theorem encrypted_values_survive_restart_witness:
  "\<exists>d1 ev s. demo_start (\<lambda>_. None) = (Returns (Some demo_aead), d1) \<and>
     Encrypt (Some demo_aead) 0 ''pw'' ''pod'' = Inr ev \<and>
     demo_start d1 = (Returns s, d1) \<and> Decrypt s ev ''pod'' = Inr ''pw''"
proof -
  define d1 where "d1 = snd (demo_start (\<lambda>_. None))"
  obtain ev where ev: "Encrypt (Some demo_aead) 0 ''pw'' ''pod'' = Inr ev"
    by (simp add: Encrypt_def demo_aead_def)
  have one: "demo_start (\<lambda>_. None) = (Returns (Some demo_aead), d1)"
    using demo_first_start by (simp add: d1_def prod_eq_iff)
  obtain r d3 where two: "demo_start d1 = (r, d3)" by fastforce
  have "\<not> disk_fault healthy_disk" by (simp add: disk_fault_def)
  moreover from encrypted_values_survive_restart [OF demo_tink.keyset_laws_axioms honest_healthy
      one [unfolded demo_start_def] ev, where cfg' = demo_config and ?d2.0 = d1
      and cl' = "\<lambda>_. 0" and rnd' = "0" and r = r and ?d3.0 = d3] two
  have "d3 = d1 \<and> (case r of Returns s \<Rightarrow> Decrypt s ev ''pod'' = Inr ''pw'' | _ \<Rightarrow> disk_fault healthy_disk)"
    by (simp add: same_installation_def kept_between_def demo_start_def)
  ultimately show ?thesis using one ev two by (cases r) auto
qed

section \<open>An interrupted first start\<close>

text \<open>C31: when writing the new key fails half way, the start fails and leaves the cut-off file behind, and
  from then on no start succeeds while that file is there, even on a disk without faults.\<close>

theorem interrupted_key_write_blocks_starts:
  assumes lib: "keyset_laws L"
    and drv: "en_Driver (Encryption cfg) = ''secretkey''"
    and kek: "DeriveAEADFromSecret L (SecretKey (Encryption cfg)) = Inr kek"
    and new: "tk_NewHandle L rnd = Inr h" "tk_Write L (rnd + 1) h kek = Inr bytes"
    and disk: "dk_stat K (cl 2) = None" "dk_create K (cl 3) = None"
      "dk_write K (cl 4) = Some (k, err)" "k < length bytes"
    and first: "MustOpenLocalFSRoot K cl (path_Join (DataPath cfg) '''') d = (Returns root, d0)"
      "d0 (dek_path K cfg) = None" "ConfigureEncryptedValueService L K cl rnd cfg d = (r, d1)"
    and later: "honest_disk K'" "same_installation K cfg K' cfg'" "kept_between K cfg d1 d2"
      "ConfigureEncryptedValueService L K' cl' rnd' cfg' d2 = (r', d3)"
  shows "r = Fails err \<and> d1 (dek_path K cfg) = Some (File (take k bytes)) \<and>
    (\<nexists>s. r' = Returns s)"
proof -
  let ?root = "abs_path K (path_Join (DataPath cfg) '''')"
  have root: "root = ?root" using MustOpenLocalFSRoot_Returns(1) [OF first(1)] .
  have absent: "subtree ?root d0 [dekFileName] = None"
    using first(2) by (simp add: subtree_def dek_path_def)
  let ?e = "(subtree ?root d0)([dekFileName] \<mapsto> File (take k bytes))"
  have load: "loadOrCreateDEK L K (\<lambda>i. cl (2 + i)) rnd kek (subtree ?root d0) = (Inl err, ?e)"
    using absent disk(1-3) new
    by (simp add: loadOrCreateDEK_def Root_Stat_def node_at_def createDEK_def Root_Create_def
        File_Write_def eval_nat_numeral)
  have run1: "r = Fails err" "d1 = graft ?root ?e d0"
    using first(1,3) drv kek load root
    by (auto simp: ConfigureEncryptedValueService_def EncryptionDriverSecretKey_def in_root_def)
  have left: "d1 (dek_path K cfg) = Some (File (take k bytes))"
    by (simp add: run1(2) dek_path_def graft_def)
  have cut: "\<exists>e. tk_Read L (take k bytes) kek = Inl e"
    by (rule keyset_laws.read_truncated [OF lib new(2) disk(4)])
  have path: "abs_path K' (path_Join (DataPath cfg') '''') = ?root"
    using later(2) by (simp add: same_installation_def abs_path_def Let_def)
  have file2: "d2 (?root @ [dekFileName]) = Some (File (take k bytes))"
    using later(3) left by (simp add: kept_between_def dek_path_def)
  have "r' \<noteq> Returns s" for s
  proof
    assume "r' = Returns s"
    with later(4) have ret: "ConfigureEncryptedValueService L K' cl' rnd' cfg' d2 = (Returns s, d3)" by simp
    have drv': "en_Driver (Encryption cfg') = EncryptionDriverSecretKey"
        "DeriveAEADFromSecret L (SecretKey (Encryption cfg')) = Inr kek"
      using later(2) drv kek by (simp_all add: same_installation_def EncryptionDriverSecretKey_def)
    then obtain A where s: "s = Some A"
      using ret by (auto simp: ConfigureEncryptedValueService_def NewEncryptedValueService_def
          split: prod.splits call.splits sum.splits)
    obtain d0' e' where o: "MustOpenLocalFSRoot K' cl' (path_Join (DataPath cfg') '''') d2 = (Returns ?root, d0')"
      and l: "loadOrCreateDEK L K' (\<lambda>i. cl' (2 + i)) rnd' kek (subtree ?root d0') = (Inr A, e')"
      using ConfigureEncryptedValueService_Returns [OF ret [unfolded s]] drv'(2) unfolding path
      by (metis sum.inject(2))
    have "subtree ?root d0' [dekFileName] = Some (File (take k bytes))"
      using MustOpenLocalFSRoot_Returns(2) [OF o file2] by (simp add: subtree_def)
    from loadOrCreateDEK_present(2) [OF this later(1) l refl] this cut show False
      by (auto simp: holds_key_def)
  qed
  then show ?thesis using run1(1) left by blast
qed

text \<open>A disk that is full after one byte.\<close>

definition full_disk :: disk where
  "full_disk = healthy_disk\<lparr>dk_write := \<lambda>_. Some (1, ErrorText ''no space left on device'')\<rparr>"

lemma full_path: "abs_path full_disk ''data'' = [''data'']"
  by code_simp

lemma full_disk_simps [simp]:
  "dk_mkdir full_disk now = None" "dk_create full_disk now = None" "dk_open full_disk now = None"
  "dk_write full_disk now = Some (1, ErrorText ''no space left on device'')" "dk_stat full_disk now = None"
  by (simp_all add: full_disk_def)

lemma full_open: "MustOpenLocalFSRoot full_disk cl ''data'' (\<lambda>_. None) =
    (Returns [''data''], (\<lambda>_. None)([''data''] \<mapsto> Directory))"
  by (simp add: MustOpenLocalFSRoot_def os_MkdirAll_def os_OpenRoot_def full_path node_at_def)

theorem interrupted_key_write_blocks_starts_witness:
  "\<exists>d1. ConfigureEncryptedValueService demo_tink full_disk (\<lambda>_. 0) 0 demo_config (\<lambda>_. None) =
      (Fails (ErrorText ''no space left on device''), d1) \<and>
    (\<nexists>s. fst (demo_start d1) = Returns s)"
proof -
  obtain r d1 where one: "ConfigureEncryptedValueService demo_tink full_disk (\<lambda>_. 0) 0 demo_config (\<lambda>_. None) = (r, d1)"
    by fastforce
  obtain r' d3 where two: "demo_start d1 = (r', d3)" by fastforce
  have cfg: "en_Driver (Encryption demo_config) = ''secretkey''"
    by (simp add: EncryptionDriverSecretKey_def)
  have none: "((\<lambda>_. None)([''data''] \<mapsto> Directory)) (dek_path full_disk demo_config) = None"
    by (simp add: dek_path_def demo_path [simplified] full_path)
  have inst: "same_installation full_disk demo_config healthy_disk demo_config"
    "kept_between full_disk demo_config d1 d1"
    by (simp_all add: same_installation_def kept_between_def full_disk_def)
  have "MustOpenLocalFSRoot full_disk (\<lambda>_. 0) (path_Join (DataPath demo_config) '''') (\<lambda>_. None) =
      (Returns [''data''], (\<lambda>_. None)([''data''] \<mapsto> Directory))"
    by (simp add: demo_path [simplified] full_open)
  from interrupted_key_write_blocks_starts [OF demo_tink.keyset_laws_axioms cfg, of demo_aead 0 "''k''" "''k}''"
      full_disk "\<lambda>_. 0" 1 "ErrorText ''no space left on device''", OF _ _ _ _ _ _ _ this none one
      honest_healthy inst two [unfolded demo_start_def]]
  show ?thesis using one two by simp
qed

end
