(* ===== verification/Migrations.thy ===== *)
theory Migrations
  imports UserFacts Config "HOL-Library.List_Lexorder" "HOL-Library.Char_ord"
begin

text \<open>
  Opening the database (\<^verbatim>\<open>pkg/database/config.go\<close>) and bringing its tables up to date
  (\<^verbatim>\<open>pkg/database/migrations.go\<close>, \<^verbatim>\<open>migrations/001_init.go\<close>, \<^verbatim>\<open>migrations/002_add_encrypted_values.go\<close>).
  The database is what migrations touch: which tables there are and with which columns, the users, and
  the table of applied migrations.  gorm's migrator is a parameter; the locale \<open>migrator_laws\<close> states
  the documented behaviour that is relied on.
\<close>

section \<open>State\<close>

record appliedMigration =
  am_Name :: string
  am_AppliedAt :: time

definition applied_schema :: "(appliedMigration, string) schema" where
  "applied_schema =
     \<lparr>sc_pk = am_Name, sc_deleted = (\<lambda>_. False), sc_mark = (\<lambda>now a. a),
      sc_created = (\<lambda>k now a. a), sc_updated = (\<lambda>now a. a),
      sc_conflict = (\<lambda>x y. am_Name x = am_Name y)\<rparr>"

lemma applied_schema_simps [simp]:
  "sc_pk applied_schema = am_Name" "sc_deleted applied_schema a = False"
  "sc_created applied_schema k now a = a" "sc_updated applied_schema now a = a"
  "sc_conflict applied_schema x y \<longleftrightarrow> am_Name x = am_Name y"
  by (simp_all add: applied_schema_def)

definition mem_applied :: "appliedMigration gorm" where
  "mem_applied = mem_gorm applied_schema (fresh_str am_Name)"

interpretation mem_applied: gorm_available applied_schema mem_applied
  unfolding mem_applied_def
proof (rule mem_gorm_available)
  show "schema_ok applied_schema (fresh_str am_Name)"
    using fresh_str_fresh [of "am_Name :: appliedMigration \<Rightarrow> string"] by (auto simp: schema_ok_def)
qed

text \<open>The models, and the fields gorm knows of each: those of its struct and of the structs embedded in it.\<close>

datatype model =
    PodcastModel | EpisodeModel | UserModel | SessionModel | QueueTaskModel | ScheduledTaskStateModel
  | AppliedMigrationModel

definition gorm_Model_fields :: "string list" where
  "gorm_Model_fields = [''ID'', ''CreatedAt'', ''UpdatedAt'', ''DeletedAt'']"

fun model_fields :: "model \<Rightarrow> string list" where
  "model_fields PodcastModel =
     [''GUID'', ''Title'', ''Author'', ''Description'', ''Language'', ''Link'', ''Categories'', ''IsExplicit'',
      ''ImageURL'', ''FeedURL'', ''LastCheckedAt'', ''LastEpisodeAt'', ''EncryptedData'', ''CreatedAt'',
      ''UpdatedAt'', ''DeletedAt'']"
| "model_fields EpisodeModel =
     [''GUID'', ''PodcastGUID'', ''Title'', ''Description'', ''DownloadURL'', ''Bytes'', ''MimeType'',
      ''DurationSecs'', ''PublishedAt'', ''Status'', ''CreatedAt'', ''UpdatedAt'', ''DeletedAt'']"
| "model_fields UserModel = gorm_Model_fields @ [''Username'', ''Password'', ''AccessLevel'']"
| "model_fields SessionModel = [''ID'', ''UserID'', ''StartTime'', ''LastSeenTime'', ''DeletedAt'']"
| "model_fields QueueTaskModel = gorm_Model_fields @ [''QueueName'', ''VisibleAfter'', ''ReceiveCount'', ''Data'']"
| "model_fields ScheduledTaskStateModel = [''TaskName'', ''LastRunTime'']"
| "model_fields AppliedMigrationModel = [''Name'', ''AppliedAt'']"

record migration_db =
  md_columns :: "model \<Rightarrow> string list option"
  md_users :: "User list"
  md_applied :: "appliedMigration list"

record gorm_migrator =
  AutoMigrate :: "time \<Rightarrow> model \<Rightarrow> migration_db \<Rightarrow> go_error option \<times> migration_db"
  HasColumn :: "model \<Rightarrow> string \<Rightarrow> migration_db \<Rightarrow> bool"
  AddColumn :: "time \<Rightarrow> model \<Rightarrow> string \<Rightarrow> migration_db \<Rightarrow> go_error option \<times> migration_db"

record db_env =
  de_migrator :: gorm_migrator
  de_users :: user_deps
  de_applied :: "appliedMigration gorm"
  de_tx :: transactions
  de_error_text :: "go_error \<Rightarrow> string"

section \<open>The migrations\<close>

text \<open>A chain of \<^verbatim>\<open>AutoMigrate\<close> calls that ends at the first error.\<close>

fun auto_migrate_all ::
  "gorm_migrator \<Rightarrow> (nat \<Rightarrow> time) \<Rightarrow> model list \<Rightarrow> migration_db \<Rightarrow> go_error option \<times> migration_db" where
  "auto_migrate_all M cl [] d = (None, d)"
| "auto_migrate_all M cl (m # ms) d =
     (case AutoMigrate M (cl 0) m d of
        (Some err, d') \<Rightarrow> (Some err, d')
      | (None, d') \<Rightarrow> auto_migrate_all M (\<lambda>i. cl (1 + i)) ms d')"

fun save_as_admin ::
  "user_deps \<Rightarrow> (nat \<Rightarrow> time) \<Rightarrow> User list \<Rightarrow> User list \<Rightarrow> go_error option \<times> User list" where
  "save_as_admin D cl [] t = (None, t)"
| "save_as_admin D cl (user # userList) t =
     (case g_save (ud_gorm D) (cl 0) (User_BeforeSave (ud_validator D))
             (user\<lparr>AccessLevel := AccessLevelAdmin\<rparr>) t of
        Inl err \<Rightarrow> (Some err, t)
      | Inr t' \<Rightarrow> save_as_admin D (\<lambda>i. cl (1 + i)) userList t')"

definition Migration001Init_Migrate ::
  "db_env \<Rightarrow> (nat \<Rightarrow> time) \<Rightarrow> migration_db \<Rightarrow> go_error option \<times> migration_db" where
  "Migration001Init_Migrate E cl d =
     (case auto_migrate_all (de_migrator E) cl
             [PodcastModel, EpisodeModel, UserModel, SessionModel, QueueTaskModel, ScheduledTaskStateModel] d of
        (Some err, d') \<Rightarrow> (Some err, d')
      | (None, d') \<Rightarrow>
          (case g_find_order (ud_gorm (de_users E)) (cl 6) (asc ID) (\<lambda>_. True) (md_users d') of
             Inl err \<Rightarrow> (Some err, d')
           | Inr userList \<Rightarrow>
               (case save_as_admin (de_users E) (\<lambda>i. cl (7 + i)) userList (md_users d') of
                  (err, t') \<Rightarrow> (err, d'\<lparr>md_users := t'\<rparr>))))"

definition Migration002AddPodcastCredentials_Migrate ::
  "db_env \<Rightarrow> (nat \<Rightarrow> time) \<Rightarrow> migration_db \<Rightarrow> go_error option \<times> migration_db" where
  "Migration002AddPodcastCredentials_Migrate E cl d =
     (if HasColumn (de_migrator E) PodcastModel ''EncryptedData'' d then (None, d)
      else
        (case AddColumn (de_migrator E) (cl 0) PodcastModel ''EncryptedData'' d of
           (Some err, d1) \<Rightarrow> (Some err, d1)
         | (None, d1) \<Rightarrow>
             (case AddColumn (de_migrator E) (cl 1) PodcastModel ''KeyVersion'' d1 of
                (Some err, d2) \<Rightarrow> (Some err, d2)
              | (None, d2) \<Rightarrow>
                  (case AddColumn (de_migrator E) (cl 2) PodcastModel ''Salt'' d2 of
                     (Some err, d3) \<Rightarrow> (Some err, d3)
                   | (None, d3) \<Rightarrow> (None, d3)))))"

text \<open>The interface \<^verbatim>\<open>migration\<close>.\<close>

record migration =
  Name :: string
  Migrate :: "(nat \<Rightarrow> time) \<Rightarrow> migration_db \<Rightarrow> go_error option \<times> migration_db"

definition allMigrations :: "db_env \<Rightarrow> migration list" where
  "allMigrations E =
     [\<lparr>Name = ''001-init'', Migrate = Migration001Init_Migrate E\<rparr>,
      \<lparr>Name = ''002-add-podcast-credentials'', Migrate = Migration002AddPodcastCredentials_Migrate E\<rparr>]"

section \<open>Applying them\<close>

definition listAppliedMigrations :: "db_env \<Rightarrow> time \<Rightarrow> migration_db \<Rightarrow> (appliedMigration list) result" where
  "listAppliedMigrations E now d =
     g_find_order (de_applied E) now (asc am_Name) (\<lambda>_. True) (md_applied d)"

text \<open>The closure of the transaction of one migration; the row is created without a hook.\<close>

definition migration_closure ::
  "db_env \<Rightarrow> (nat \<Rightarrow> time) \<Rightarrow> migration \<Rightarrow> migration_db \<Rightarrow> go_error option \<times> migration_db" where
  "migration_closure E cl m d =
     (case Migrate m (\<lambda>i. cl (3 + i)) d of
        (Some err, d') \<Rightarrow> (Some err, d')
      | (None, d') \<Rightarrow>
          (case g_create (de_applied E) (cl 1) (\<lambda>_. None)
                  \<lparr>am_Name = Name m, am_AppliedAt = cl 2\<rparr> (md_applied d') of
             Inl err \<Rightarrow> (Some err, d')
           | Inr (_, t') \<Rightarrow> (None, d'\<lparr>md_applied := t'\<rparr>)))"

text \<open>The loop of \<^verbatim>\<open>migrate\<close>; every migration has its own readings of the clock.\<close>

fun migrate_loop ::
  "db_env \<Rightarrow> (nat \<Rightarrow> nat \<Rightarrow> time) \<Rightarrow> logger \<Rightarrow> appliedMigration list \<Rightarrow> migration list \<Rightarrow>
   migration_db \<times> log_line list \<Rightarrow> go_error option \<times> (migration_db \<times> log_line list)" where
  "migrate_loop E cls lg appliedMigrations [] s = (None, s)"
| "migrate_loop E cls lg appliedMigrations (m # ms) (d, out) =
     (if list_ex (\<lambda>am. am_Name am = Name m) appliedMigrations
      then migrate_loop E (\<lambda>n. cls (Suc n)) lg appliedMigrations ms (d, out)
      else
        (case Transaction (de_tx E) (cls 0) (migration_closure E (cls 0) m) d of
           (Some err, d') \<Rightarrow>
             (Some err, (d', log_to lg LevelError
                (''Failed to apply migration '' @ quoted (Name m) @ '': '' @ de_error_text E err) [] out))
         | (None, d') \<Rightarrow>
             migrate_loop E (\<lambda>n. cls (Suc n)) lg appliedMigrations ms
               (d', log_to lg LevelInfo (''Successfully applied migration '' @ quoted (Name m)) [] out)))"

definition migrate ::
  "db_env \<Rightarrow> (nat \<Rightarrow> nat \<Rightarrow> time) \<Rightarrow> logger \<Rightarrow> migration_db \<times> log_line list \<Rightarrow>
   go_error option \<times> (migration_db \<times> log_line list)" where
  "migrate E cls lg s =
     (case s of (d, out) \<Rightarrow>
        (case AutoMigrate (de_migrator E) (cls 0 0) AppliedMigrationModel d of
           (Some err, d') \<Rightarrow> (Some err, (d', out))
         | (None, d') \<Rightarrow>
             (case listAppliedMigrations E (cls 0 1) d' of
                Inl err \<Rightarrow> (Some err, (d', out))
              | Inr appliedMigrations \<Rightarrow>
                  migrate_loop E (\<lambda>n. cls (Suc n)) lg appliedMigrations (allMigrations E) (d', out))))"

section \<open>Opening the database\<close>

text \<open>\<^verbatim>\<open>dbDialector\<close>: the name of the database file.\<close>

definition dbDialector :: "disk \<Rightarrow> time \<Rightarrow> Config \<Rightarrow> bool \<Rightarrow> fs \<Rightarrow> string result \<times> fs" where
  "dbDialector K now cfg inMemory d =
     (if inMemory then (Inr '':memory:'', d)
      else
        (case os_MkdirAll K now (DataPath cfg) d of
           (Some err, d') \<Rightarrow> (Inl err, d')
         | (None, d') \<Rightarrow> (Inr (path_Join (DataPath cfg) ''data.db''), d')))"

text \<open>
  \<^verbatim>\<open>gorm.Open\<close> connects to the database file of that name; the connection is the database it holds.
\<close>

definition ConfigureDatabase ::
  "db_env \<Rightarrow> disk \<Rightarrow> (string \<Rightarrow> migration_db result) \<Rightarrow> (nat \<Rightarrow> nat \<Rightarrow> time) \<Rightarrow> Config \<Rightarrow> logger \<Rightarrow> bool \<Rightarrow>
   fs \<times> log_line list \<Rightarrow> migration_db result \<times> (fs \<times> log_line list)" where
  "ConfigureDatabase E K gorm_Open cls cfg lg inMemory s =
     (case s of (d, out) \<Rightarrow>
        (case dbDialector K (cls 0 0) cfg inMemory d of
           (Inl err, d') \<Rightarrow> (Inl err, (d', out))
         | (Inr dsn, d') \<Rightarrow>
             (case gorm_Open dsn of
                Inl err \<Rightarrow> (Inl err, (d', out))
              | Inr db \<Rightarrow>
                  (case migrate E (\<lambda>n. cls (Suc n)) lg (db, out) of
                     (Some err, (_, out')) \<Rightarrow> (Inl err, (d', out'))
                   | (None, (db', out')) \<Rightarrow> (Inr db', (d', out'))))))"

section \<open>What is relied on\<close>

text \<open>
  Migrating a model changes no row.  It may change other tables besides the model's own, those of the
  models it belongs to; the model of the applied migrations has no such relation.
\<close>

locale migrator_laws =
  fixes M :: gorm_migrator
  assumes auto_rows:
      "AutoMigrate M now m d = (e, d') \<Longrightarrow> md_users d' = md_users d \<and> md_applied d' = md_applied d"
    and auto_applied:
      "AutoMigrate M now AppliedMigrationModel d = (e, d') \<Longrightarrow> m \<noteq> AppliedMigrationModel \<Longrightarrow>
       md_columns d' m = md_columns d m"
    and has_column:
      "HasColumn M m c d \<longleftrightarrow> (\<exists>cs. md_columns d m = Some cs \<and> c \<in> set cs)"
    and add_unknown:
      "c \<notin> set (model_fields m) \<Longrightarrow> \<exists>e. AddColumn M now m c d = (Some e, d)"
    and add_rows:
      "AddColumn M now m c d = (e, d') \<Longrightarrow> md_users d' = md_users d \<and> md_applied d' = md_applied d"

definition db_env_ok :: "db_env \<Rightarrow> bool" where
  "db_env_ok E \<longleftrightarrow> migrator_laws (de_migrator E) \<and> user_deps_ok (de_users E) \<and>
     gorm_table applied_schema (de_applied E)"

definition applied_names :: "migration_db \<Rightarrow> string list" where
  "applied_names d = map am_Name (md_applied d)"

lemma db_env_okD:
  assumes "db_env_ok E"
  shows "migrator_laws (de_migrator E)" "user_deps_ok (de_users E)" "gorm_table applied_schema (de_applied E)"
  using assms by (simp_all add: db_env_ok_def)

section \<open>Facts\<close>

context migrator_laws begin

lemma auto_migrate_all_rows:
  "auto_migrate_all M cl ms d = (e, d') \<Longrightarrow> md_users d' = md_users d \<and> md_applied d' = md_applied d"
proof (induction ms arbitrary: cl d)
  case (Cons m ms)
  obtain e1 d1 where a: "AutoMigrate M (cl 0) m d = (e1, d1)" by fastforce
  with Cons auto_rows [OF a] show ?case by (cases e1) auto
qed simp

end

lemma Migration001_applied:
  assumes "db_env_ok E" "Migration001Init_Migrate E cl d = (e, d')"
  shows "md_applied d' = md_applied d"
proof -
  obtain e1 d1 where a: "auto_migrate_all (de_migrator E) cl
      [PodcastModel, EpisodeModel, UserModel, SessionModel, QueueTaskModel, ScheduledTaskStateModel] d = (e1, d1)"
    by fastforce
  from migrator_laws.auto_migrate_all_rows [OF db_env_okD(1) [OF assms(1)] a] assms(2) a show ?thesis
    by (auto simp: Migration001Init_Migrate_def split: prod.splits option.splits sum.splits)
qed

lemma Migration002_rows:
  assumes "db_env_ok E" "Migration002AddPodcastCredentials_Migrate E cl d = (e, d')"
  shows "md_users d' = md_users d \<and> md_applied d' = md_applied d"
proof -
  note rows = migrator_laws.add_rows [OF db_env_okD(1) [OF assms(1)]]
  show ?thesis using assms(2)
    by (auto simp: Migration002AddPodcastCredentials_Migrate_def split: if_splits prod.splits option.splits
        dest!: rows)
qed

definition keeps_applied :: "migration \<Rightarrow> bool" where
  "keeps_applied m \<longleftrightarrow> (\<forall>cl d. md_applied (snd (Migrate m cl d)) = md_applied d)"

lemma allMigrations_keep:
  assumes "db_env_ok E"
  shows "list_all keeps_applied (allMigrations E)"
proof -
  have "md_applied (snd (Migration001Init_Migrate E cl d)) = md_applied d"
    "md_applied (snd (Migration002AddPodcastCredentials_Migrate E cl d)) = md_applied d" for cl d
    using Migration001_applied [OF assms, of cl d] Migration002_rows [OF assms, of cl d]
    by (metis prod.collapse)+
  then show ?thesis by (simp add: allMigrations_def keeps_applied_def)
qed

text \<open>A migration's transaction records its name, or leaves everything as it was.\<close>

lemma migration_transaction:
  assumes E: "db_env_ok E" and keeps: "keeps_applied m"
    and run: "Transaction (de_tx E) cl (migration_closure E cl m) d = (e, d')"
  shows "e \<noteq> None \<Longrightarrow> d' = d" "e = None \<Longrightarrow> applied_names d' = applied_names d @ [Name m]"
    "e = None \<Longrightarrow> \<exists>d1. Migrate m (\<lambda>i. cl (3 + i)) d = (None, d1) \<and> md_users d' = md_users d1"
proof -
  show "e \<noteq> None \<Longrightarrow> d' = d" using run Transaction_error by fastforce
  assume "e = None"
  with run have c: "migration_closure E cl m d = (None, d')" using Transaction_ok by fastforce
  then obtain d1 r t' where m: "Migrate m (\<lambda>i. cl (3 + i)) d = (None, d1)"
    and r: "g_create (de_applied E) (cl 1) (\<lambda>_. None) \<lparr>am_Name = Name m, am_AppliedAt = cl 2\<rparr> (md_applied d1)
      = Inr (r, t')" and d': "d' = d1\<lparr>md_applied := t'\<rparr>"
    by (auto simp: migration_closure_def split: prod.splits option.splits sum.splits)
  have "t' = md_applied d1 @ [r]" "r = \<lparr>am_Name = Name m, am_AppliedAt = cl 2\<rparr>"
    using gorm_table.create_ok(2,3) [OF db_env_okD(3) [OF E] r] by simp_all
  moreover have "md_applied d1 = md_applied d" using keeps m unfolding keeps_applied_def by (metis snd_conv)
  ultimately show "applied_names d' = applied_names d @ [Name m]"
    using d' by (simp add: applied_names_def)
  show "\<exists>d1. Migrate m (\<lambda>i. cl (3 + i)) d = (None, d1) \<and> md_users d' = md_users d1"
    using m d' by auto
qed

definition missing :: "appliedMigration list \<Rightarrow> migration list \<Rightarrow> migration list" where
  "missing as ms = filter (\<lambda>m. Name m \<notin> am_Name ` set as) ms"

lemma missing_Cons:
  "missing as (m # ms) = (if list_ex (\<lambda>am. am_Name am = Name m) as then missing as ms else m # missing as ms)"
  by (auto simp: missing_def list_ex_iff image_iff)

lemma migrate_loop_names:
  assumes E: "db_env_ok E"
    and keeps: "list_all keeps_applied ms"
    and run: "migrate_loop E cls lg as ms (d, out) = (e, (d', out'))"
  shows "\<exists>k \<le> length (missing as ms). applied_names d' = applied_names d @ take k (map Name (missing as ms)) \<and>
    (e = None \<longleftrightarrow> k = length (missing as ms))"
  using keeps run
proof (induction ms arbitrary: cls d out)
  case Nil
  then show ?case by (simp add: missing_def)
next
  case (Cons m ms)
  show ?case
  proof (cases "list_ex (\<lambda>am. am_Name am = Name m) as")
    case True
    with Cons.prems(2) have "migrate_loop E (\<lambda>n. cls (Suc n)) lg as ms (d, out) = (e, (d', out'))" by simp
    from Cons.IH [OF _ this] Cons.prems(1) True show ?thesis by (simp add: missing_Cons)
  next
    case False
    obtain e1 d1 where t: "Transaction (de_tx E) (cls 0) (migration_closure E (cls 0) m) d = (e1, d1)"
      by fastforce
    have "keeps_applied m" using Cons.prems(1) by simp
    note tx = migration_transaction [OF E this t]
    show ?thesis
    proof (cases e1)
      case None
      with Cons.prems(2) False t have
        "migrate_loop E (\<lambda>n. cls (Suc n)) lg as ms
           (d1, log_to lg LevelInfo (''Successfully applied migration '' @ quoted (Name m)) [] out) = (e, (d', out'))"
        by simp
      from Cons.IH [OF _ this] Cons.prems(1) obtain k where k: "k \<le> length (missing as ms)"
        "applied_names d' = applied_names d1 @ take k (map Name (missing as ms))"
        "e = None \<longleftrightarrow> k = length (missing as ms)" by auto
      have "applied_names d1 = applied_names d @ [Name m]" using tx(2) None by auto
      with k False show ?thesis by (intro exI [of _ "Suc k"]) (simp add: missing_Cons)
    next
      case (Some err)
      with Cons.prems(2) False t tx(1) show ?thesis by (intro exI [of _ 0]) (auto simp: missing_Cons)
    qed
  qed
qed

definition keeps_users :: "migration \<Rightarrow> bool" where
  "keeps_users m \<longleftrightarrow> (\<forall>cl d. md_users (snd (Migrate m cl d)) = md_users d)"

lemma migrate_loop_users:
  assumes E: "db_env_ok E" and keeps: "list_all keeps_applied ms" "list_all keeps_users (missing as ms)"
    and run: "migrate_loop E cls lg as ms (d, out) = (e, (d', out'))"
  shows "md_users d' = md_users d"
  using keeps run
proof (induction ms arbitrary: cls d out)
  case (Cons m ms)
  show ?case
  proof (cases "list_ex (\<lambda>am. am_Name am = Name m) as")
    case True
    with Cons.prems(3) have "migrate_loop E (\<lambda>n. cls (Suc n)) lg as ms (d, out) = (e, (d', out'))" by simp
    from Cons.IH [OF _ _ this] Cons.prems(1,2) True show ?thesis by (simp add: missing_Cons)
  next
    case False
    obtain e1 d1 where t: "Transaction (de_tx E) (cls 0) (migration_closure E (cls 0) m) d = (e1, d1)"
      by fastforce
    have "keeps_applied m" and u: "keeps_users m" using Cons.prems(1,2) False by (simp_all add: missing_Cons)
    note tx = migration_transaction [OF E this(1) t]
    show ?thesis
    proof (cases e1)
      case None
      with tx(3) obtain d2 where "Migrate m (\<lambda>i. cls 0 (3 + i)) d = (None, d2)" "md_users d1 = md_users d2"
        by auto
      with u have d1: "md_users d1 = md_users d" unfolding keeps_users_def by (metis snd_conv)
      from Cons.prems(3) False t None have
        "migrate_loop E (\<lambda>n. cls (Suc n)) lg as ms
           (d1, log_to lg LevelInfo (''Successfully applied migration '' @ quoted (Name m)) [] out) = (e, (d', out'))"
        by simp
      from Cons.IH [OF _ _ this] Cons.prems(1,2) False d1 show ?thesis by (simp add: missing_Cons)
    next
      case (Some err)
      with Cons.prems(3) False t tx(1) show ?thesis by auto
    qed
  qed
qed simp

text \<open>A run up to the loop.\<close>

lemma migrate_cases:
  assumes E: "db_env_ok E" and run: "migrate E cls lg (d, out) = (e, (d', out'))"
  obtains (early) "e \<noteq> None" "md_users d' = md_users d" "md_applied d' = md_applied d"
      "\<And>m. m \<noteq> AppliedMigrationModel \<Longrightarrow> md_columns d' m = md_columns d m"
  | (loop) as d0 where "md_users d0 = md_users d" "md_applied d0 = md_applied d"
      "\<And>m. m \<noteq> AppliedMigrationModel \<Longrightarrow> md_columns d0 m = md_columns d m"
      "am_Name ` set as = set (applied_names d)"
      "migrate_loop E (\<lambda>n. cls (Suc n)) lg as (allMigrations E) (d0, out) = (e, (d', out'))"
proof -
  obtain e0 d0 where a: "AutoMigrate (de_migrator E) (cls 0 0) AppliedMigrationModel d = (e0, d0)" by fastforce
  note laws = db_env_okD(1) [OF E]
  note rows = migrator_laws.auto_rows [OF laws a] migrator_laws.auto_applied [OF laws a]
  show thesis
  proof (cases e0)
    case (Some err)
    with run a rows show thesis by (intro early) (auto simp: migrate_def)
  next
    case None
    show thesis
    proof (cases "listAppliedMigrations E (cls 0 1) d0")
      case (Inl err)
      with run a None rows show thesis by (intro early) (auto simp: migrate_def)
    next
      case (Inr as)
      have "set as = set (md_applied d0)"
        using gorm_table.find_order_set [OF db_env_okD(3) [OF E] Inr [unfolded listAppliedMigrations_def]]
        by (auto simp: live_rows_def)
      then have "am_Name ` set as = set (applied_names d)" using rows by (simp add: applied_names_def)
      with run a None Inr rows show thesis by (intro loop [of d0 as]) (auto simp: migrate_def)
    qed
  qed
qed

text \<open>A start that can read the table of migrations gets to the loop.\<close>

lemma migrate_listed:
  assumes E: "db_env_ok E" and run: "migrate E cls lg (d, out) = (e, (d', out'))"
    and auto: "AutoMigrate (de_migrator E) (cls 0 0) AppliedMigrationModel d = (None, d0)"
    and list: "listAppliedMigrations E (cls 0 1) d0 = Inr as"
  shows "migrate_loop E (\<lambda>n. cls (Suc n)) lg as (allMigrations E) (d0, out) = (e, (d', out'))"
    "am_Name ` set as = set (applied_names d)" "applied_names d0 = applied_names d"
proof -
  note rows = migrator_laws.auto_rows [OF db_env_okD(1) [OF E] auto]
  have "set as = set (md_applied d)"
    using gorm_table.find_order_set [OF db_env_okD(3) [OF E] list [unfolded listAppliedMigrations_def]] rows
    by (simp add: live_rows_def)
  then show "am_Name ` set as = set (applied_names d)" by (simp add: applied_names_def)
  show "applied_names d0 = applied_names d" using rows by (simp add: applied_names_def)
  show "migrate_loop E (\<lambda>n. cls (Suc n)) lg as (allMigrations E) (d0, out) = (e, (d', out'))"
    using run auto list by (simp add: migrate_def)
qed

text \<open>The loop passes over what is recorded.\<close>

lemma migrate_loop_idle:
  "list_all (\<lambda>m. list_ex (\<lambda>am. am_Name am = Name m) as) ms \<Longrightarrow> migrate_loop E cls lg as ms s = (None, s)"
  by (cases s, induction ms arbitrary: cls) auto

section \<open>Making accounts administrators\<close>

definition made_admin :: "User \<Rightarrow> User" where
  "made_admin u = (if DeletedAt u = None then u\<lparr>AccessLevel := AccessLevelAdmin\<rparr> else u)"

definition forget_update :: "User \<Rightarrow> User" where
  "forget_update u = u\<lparr>UpdatedAt := 0\<rparr>"

lemma save_as_admin_effect:
  assumes D: "user_deps_ok D" and "distinct (map ID t)" "distinct (map ID us)"
    and "\<forall>u \<in> set us. u \<in> set t \<and> DeletedAt u = None"
    and "save_as_admin D cl us t = (None, t')"
  shows "map forget_update t' =
    map (\<lambda>x. if x \<in> set us then forget_update (x\<lparr>AccessLevel := AccessLevelAdmin\<rparr>) else forget_update x) t"
  using assms(2-)
proof (induction us arbitrary: cl t)
  case (Cons u us)
  obtain t1 where s: "g_save (ud_gorm D) (cl 0) (User_BeforeSave (ud_validator D))
      (u\<lparr>AccessLevel := AccessLevelAdmin\<rparr>) t = Inr t1"
    and rest: "save_as_admin D (\<lambda>i. cl (1 + i)) us t1 = (None, t')"
    using Cons.prems(4) by (auto split: sum.splits)
  let ?u = "u\<lparr>AccessLevel := AccessLevelAdmin, UpdatedAt := cl 0\<rparr>"
  have u: "u \<in> set t" "DeletedAt u = None" using Cons.prems(3) by auto
  have t1: "t1 = map (\<lambda>y. if ID y = ID u then ?u else y) t"
    using gorm_table.save_row [OF user_deps_okD(1) [OF D] s u(1)] u(2)
    by (simp add: upd_where_def user_schema_def)
  have same: "y = u" if "y \<in> set t" "ID y = ID u" for y
    using that u(1) Cons.prems(1) by (auto simp: distinct_map inj_on_def)
  have ids: "map ID t1 = map ID t" unfolding t1 by (auto simp: same)
  have "x \<in> set t1 \<and> DeletedAt x = None" if "x \<in> set us" for x
  proof -
    have "ID x \<noteq> ID u" using imageI [OF that, of ID] Cons.prems(2) by auto
    with that Cons.prems(3) show ?thesis unfolding t1 by (auto simp: image_iff)
  qed
  then have "map forget_update t' = map (\<lambda>x. if x \<in> set us then forget_update (x\<lparr>AccessLevel := AccessLevelAdmin\<rparr>) else forget_update x) t1"
    using Cons.IH [OF _ _ _ rest] Cons.prems(1,2) ids by auto
  also have "\<dots> = map (\<lambda>x. if x \<in> set (u # us) then forget_update (x\<lparr>AccessLevel := AccessLevelAdmin\<rparr>) else forget_update x) t"
  proof -
    have notin: "?u \<notin> set us" "u \<notin> set us" using Cons.prems(2) by (auto simp: image_iff)
    show ?thesis unfolding t1
      using notin same by (auto simp: forget_update_def)
  qed
  finally show ?case .
qed (simp add: forget_update_def)

end
