(* ===== verification/MigrationProps.thy ===== *)
theory MigrationProps
  imports Migrations UserProps
begin

text \<open>
  What bringing the database up to date does to it: each migration once and in order, administrators
  made only by the first, and the upgrade that cannot succeed.
\<close>

section \<open>Facts about the two migrations\<close>

lemma keeps_users_002:
  "db_env_ok E \<Longrightarrow>
   keeps_users \<lparr>Name = n, Migrate = Migration002AddPodcastCredentials_Migrate E\<rparr>"
  unfolding keeps_users_def using Migration002_rows by (metis migration.select_convs(2) prod.collapse)

lemma recorded_iff: "am_Name ` set as = S \<Longrightarrow> list_ex (\<lambda>am. am_Name am = n) as \<longleftrightarrow> n \<in> S"
  unfolding list_ex_iff by blast


lemma Migration001_users:
  assumes E: "db_env_ok E" and dist: "distinct (map ID (md_users d))"
    and run: "Migration001Init_Migrate E cl d = (None, d')"
  shows "map forget_update (md_users d') = map (forget_update \<circ> made_admin) (md_users d)"
proof -
  obtain d1 us t' where a: "auto_migrate_all (de_migrator E) cl
      [PodcastModel, EpisodeModel, UserModel, SessionModel, QueueTaskModel, ScheduledTaskStateModel] d = (None, d1)"
    and f: "g_find_order (ud_gorm (de_users E)) (cl 6) (asc ID) (\<lambda>_. True) (md_users d1) = Inr us"
    and s: "save_as_admin (de_users E) (\<lambda>i. cl (7 + i)) us (md_users d1) = (None, t')"
    and d': "d' = d1\<lparr>md_users := t'\<rparr>"
    using run by (auto simp: Migration001Init_Migrate_def split: prod.splits option.splits sum.splits)
  have d1: "md_users d1 = md_users d"
    using migrator_laws.auto_migrate_all_rows [OF db_env_okD(1) [OF E] a] by simp
  have g: "gorm_table user_schema (ud_gorm (de_users E))" using user_deps_okD(1) [OF db_env_okD(2) [OF E]] .
  have live: "mset us = mset (filter (\<lambda>u. DeletedAt u = None) (md_users d))"
    using gorm_table.find_order_rows [OF g f] d1 by (simp add: live_rows_def user_schema_def)
  then have us: "set us = {u \<in> set (md_users d). DeletedAt u = None}"
    by (metis mset_eq_setD set_filter)
  have "distinct (map ID us)"
  proof -
    have "mset (map ID us) = mset (map ID (filter (\<lambda>u. DeletedAt u = None) (md_users d)))"
      using live by (metis mset_map)
    moreover have "distinct (map ID (filter (\<lambda>u. DeletedAt u = None) (md_users d)))"
      using dist by (rule distinct_map_filter)
    ultimately show ?thesis by (metis mset_eq_imp_distinct_iff)
  qed
  with save_as_admin_effect [OF db_env_okD(2) [OF E] _ _ _ s] dist us d1 d'
  show ?thesis by (auto simp: made_admin_def)
qed

section \<open>A migrator\<close>

text \<open>As gorm does, it migrates the tables of the models a model belongs to with it.\<close>

fun belongs_to :: "model \<Rightarrow> model list" where
  "belongs_to EpisodeModel = [PodcastModel]"
| "belongs_to SessionModel = [UserModel]"
| "belongs_to _ = []"

definition add_columns :: "model \<Rightarrow> migration_db \<Rightarrow> migration_db" where
  "add_columns m d =
     (let cs = (case md_columns d m of None \<Rightarrow> [] | Some cs \<Rightarrow> cs)
      in d\<lparr>md_columns := (md_columns d)(m \<mapsto> cs @ filter (\<lambda>c. c \<notin> set cs) (model_fields m))\<rparr>)"

definition demo_migrator :: gorm_migrator where
  "demo_migrator =
     \<lparr>AutoMigrate = (\<lambda>now m d. (None, fold add_columns (belongs_to m @ [m]) d)),
      HasColumn = (\<lambda>m c d. case md_columns d m of None \<Rightarrow> False | Some cs \<Rightarrow> c \<in> set cs),
      AddColumn = (\<lambda>now m c d.
        if c \<notin> set (model_fields m) then (Some (ErrorText ''failed to look up field''), d)
        else (case md_columns d m of
                None \<Rightarrow> (Some (ErrorText ''no such table''), d)
              | Some cs \<Rightarrow> (None, d\<lparr>md_columns := (md_columns d)(m \<mapsto> cs @ [c])\<rparr>)))\<rparr>"

lemma add_columns_simps:
  "md_users (add_columns m d) = md_users d" "md_applied (add_columns m d) = md_applied d"
  "m' \<noteq> m \<Longrightarrow> md_columns (add_columns m d) m' = md_columns d m'"
  by (simp_all add: add_columns_def Let_def)

interpretation demo_migrator: migrator_laws demo_migrator
proof (unfold_locales, goal_cases)
  case (1 now m d e d')
  then show ?case by (cases m) (auto simp: demo_migrator_def add_columns_simps)
qed (auto simp: demo_migrator_def add_columns_simps split: option.splits if_splits)

definition demo_db_env :: db_env where
  "demo_db_env = \<lparr>de_migrator = demo_migrator, de_users = demo_deps, de_applied = mem_applied,
     de_tx = plain_tx, de_error_text = (\<lambda>_. ''error'')\<rparr>"

lemma demo_db_env_ok: "db_env_ok demo_db_env"
  by (simp add: db_env_ok_def demo_db_env_def demo_migrator.migrator_laws_axioms
      mem_applied.gorm_table_axioms)

definition demo_db :: "string list \<Rightarrow> migration_db" where
  "demo_db names = \<lparr>md_columns = [PodcastModel \<mapsto> [''GUID'', ''Title'']], md_users = [demo_user 1 ''alice'' 1],
     md_applied = map (\<lambda>n. \<lparr>am_Name = n, am_AppliedAt = 0\<rparr>) names\<rparr>"

definition demo_logger :: logger where
  "demo_logger = \<lparr>lg_level = LevelInfo, lg_attrs = []\<rparr>"

section \<open>Properties\<close>



text \<open>the start that applies the first migration to a database with accounts makes every live account an
  administrator and changes nothing else about any account.\<close>

theorem first_migration_makes_administrators:
  assumes E: "db_env_ok E" and new: "''001-init'' \<notin> set (applied_names d)"
    and dist: "distinct (map ID (md_users d))"
    and run: "migrate E cls lg (d, out) = (None, (d', out'))"
  shows "map forget_update (md_users d') = map (forget_update \<circ> made_admin) (md_users d)"
proof -
  from E run show ?thesis
  proof (cases rule: migrate_cases)
    case early
    then show ?thesis by simp
  next
    case (loop as d0)
    let ?m1 = "\<lparr>Name = ''001-init'', Migrate = Migration001Init_Migrate E\<rparr>"
    let ?m2 = "\<lparr>Name = ''002-add-podcast-credentials'', Migrate = Migration002AddPodcastCredentials_Migrate E\<rparr>"
    have all: "allMigrations E = [?m1, ?m2]" by (simp add: allMigrations_def)
    have keep: "keeps_applied ?m1" "keeps_applied ?m2" using allMigrations_keep [OF E] by (simp_all add: all)
    have no: "\<not> list_ex (\<lambda>am. am_Name am = Name ?m1) as"
      using new recorded_iff [OF loop(4)] by simp
    obtain e1 d1 where t: "Transaction (de_tx E) (cls 1) (migration_closure E (cls 1) ?m1) d0 = (e1, d1)"
      by fastforce
    with loop(5) no have e1: "e1 = None" unfolding all by (cases e1) auto
    from migration_transaction(3) [OF E keep(1) t e1] obtain dm where
      m: "Migration001Init_Migrate E (\<lambda>i. cls 1 (3 + i)) d0 = (None, dm)" "md_users d1 = md_users dm" by auto
    obtain out1 where rest: "migrate_loop E (\<lambda>n. cls (Suc (Suc n))) lg as [?m2] (d1, out1) = (None, (d', out'))"
      using loop(5) no t e1 unfolding all by simp
    have "list_all keeps_users (missing as [?m2])" using keeps_users_002 [OF E] by (simp add: missing_def)
    then have "md_users d' = md_users d1"
      using migrate_loop_users [OF E _ _ rest] keep(2) by simp
    with Migration001_users [OF E _ m(1)] m(2) dist loop(1) show ?thesis by simp
  qed
qed

text \<open>C36: a database that was set up before podcasts had credentials cannot be brought up to date: the
  second migration fails on every start, because it adds columns that the model of a podcast does not
  have, and leaves the podcasts table as it was.\<close>

theorem upgrade_to_credentials_fails:
  assumes E: "db_env_ok E"
    and state: "''001-init'' \<in> set (applied_names d)" "''002-add-podcast-credentials'' \<notin> set (applied_names d)"
      "md_columns d PodcastModel = Some cs" "''EncryptedData'' \<notin> set cs"
    and run: "migrate E cls lg (d, out) = (e, (d', out'))"
  shows "e \<noteq> None \<and> applied_names d' = applied_names d \<and> md_columns d' PodcastModel = Some cs"
proof -
  note laws = db_env_okD(1) [OF E]
  have fails: "fst (Migration002AddPodcastCredentials_Migrate E cl d0) \<noteq> None"
    if "md_columns d0 PodcastModel = Some cs" for cl d0
  proof -
    have "\<not> HasColumn (de_migrator E) PodcastModel ''EncryptedData'' d0"
      using migrator_laws.has_column [OF laws] that state(4) by auto
    moreover have "\<exists>err. AddColumn (de_migrator E) now PodcastModel ''KeyVersion'' d1 = (Some err, d1)" for now d1
      by (rule migrator_laws.add_unknown [OF laws]) simp
    ultimately show ?thesis
      by (auto simp: Migration002AddPodcastCredentials_Migrate_def split: prod.split option.split)
        (metis option.distinct(1) prod.inject)+
  qed
  from E run show ?thesis
  proof (cases rule: migrate_cases)
    case early
    with state(3) show ?thesis by (simp add: applied_names_def)
  next
    case (loop as d0)
    have cols: "md_columns d0 PodcastModel = Some cs" using loop(3) state(3) by simp
    have names: "list_ex (\<lambda>am. am_Name am = ''001-init'') as"
      "\<not> list_ex (\<lambda>am. am_Name am = ''002-add-podcast-credentials'') as"
      using state(1,2) recorded_iff [OF loop(4)] by simp_all
    let ?m2 = "\<lparr>Name = ''002-add-podcast-credentials'', Migrate = Migration002AddPodcastCredentials_Migrate E\<rparr>"
    have tx: "\<exists>err. Transaction (de_tx E) cl (migration_closure E cl ?m2) d0 = (Some err, d0)" for cl
    proof (cases "Migration002AddPodcastCredentials_Migrate E (\<lambda>i. cl (3 + i)) d0")
      case (Pair e2 d2)
      with fails [OF cols, of "\<lambda>i. cl (3 + i)"] obtain err where "e2 = Some err" by auto
      with Pair show ?thesis by (auto simp: Transaction_def migration_closure_def split: option.split)
    qed
    obtain err where "Transaction (de_tx E) (cls 2) (migration_closure E (cls 2) ?m2) d0 = (Some err, d0)"
      using tx by blast
    with loop(5) names have "e = Some err" "d' = d0"
      by (simp_all add: allMigrations_def numeral_2_eq_2)
    with loop(2) cols show ?thesis by (simp add: applied_names_def)
  qed
qed

theorem upgrade_to_credentials_fails_witness:
  "fst (migrate demo_db_env (\<lambda>_ _. 5) demo_logger (demo_db [''001-init''], [])) \<noteq> None"
proof -
  obtain e d' out' where run: "migrate demo_db_env (\<lambda>_ _. 5) demo_logger (demo_db [''001-init''], []) = (e, (d', out'))"
    by (metis prod.collapse)
  have "e \<noteq> None \<and> applied_names d' = applied_names (demo_db [''001-init'']) \<and>
      md_columns d' PodcastModel = Some [''GUID'', ''Title'']"
    by (rule upgrade_to_credentials_fails [OF demo_db_env_ok _ _ _ _ run])
       (simp_all add: demo_db_def applied_names_def)
  with run show ?thesis by simp
qed

end
