(* ===== verification/Storage.thy ===== *)
theory Storage
  imports ObjectStorage Config
begin

text \<open>
  The choice of a storage at start-up (\<^verbatim>\<open>pkg/objectstorage/config.go\<close>).  The objects of an installation
  are kept in the file system of the machine or in the buckets of S3, so the state of either driver is
  a part of the pair of both; loading the AWS configuration and making a client from it are parameters.
\<close>

section \<open>Both places\<close>

record 's objects =
  ob_fs :: fs
  ob_s3 :: 's

text \<open>A storage whose objects are a part of a larger state, given how to read and replace that part.\<close>

definition part_storage ::
  "('d \<Rightarrow> 'o) \<Rightarrow> ('o \<Rightarrow> 'd \<Rightarrow> 'd) \<Rightarrow> ('o, 'p) ObjectStorage \<Rightarrow> ('d, 'p) ObjectStorage" where
  "part_storage get put s =
     \<lparr>SaveRemoteFile = (\<lambda>cl creds url g f d.
        (case SaveRemoteFile s cl creds url g f (get d) of (res, e) \<Rightarrow> (res, put e d))),
      ServeFile = (\<lambda>cl r g f d w. ServeFile s cl r g f (get d) w)\<rparr>"

definition local_below :: "string list \<Rightarrow> LocalObjectStorage \<Rightarrow> ('s objects, 'p) ObjectStorage" where
  "local_below root s =
     part_storage (\<lambda>d. subtree root (ob_fs d)) (\<lambda>e d. d\<lparr>ob_fs := graft root e (ob_fs d)\<rparr>) (local_storage s)"

definition s3_below :: "'s S3ObjectStorage \<Rightarrow> ('s objects, 'p) ObjectStorage" where
  "s3_below s = part_storage ob_s3 (\<lambda>e d. d\<lparr>ob_s3 := e\<rparr>) (s3_storage s)"

section \<open>The choice\<close>

record 's storage_env =
  se_client :: "duration \<Rightarrow> http_client"
  se_disk :: disk
  se_boundary :: "request \<Rightarrow> string"
  se_sniff :: "string \<Rightarrow> string"
  se_LoadDefaultConfig :: "string result"
  se_NewFromConfig :: "string \<Rightarrow> bool \<Rightarrow> 's s3_client"

definition ConfigureObjectStorage ::
  "'s storage_env \<Rightarrow> (nat \<Rightarrow> time) \<Rightarrow> Config \<Rightarrow> fs \<Rightarrow> ('s objects, 'p) ObjectStorage call \<times> fs" where
  "ConfigureObjectStorage E cl cfg d =
     (let httpClient = se_client E (Minute * 15)
      in if os_Driver (cf_ObjectStorage cfg) = ObjectStorageDriverLocal then
           (case MustOpenLocalFSRoot (se_disk E) cl (path_Join (DataPath cfg) ''objects'') d of
              (Panics err, d') \<Rightarrow> (Panics err, d')
            | (Fails err, d') \<Rightarrow> (Fails err, d')
            | (Returns root, d') \<Rightarrow>
                (Returns (local_below root
                   \<lparr>lo_client = httpClient, lo_disk = se_disk E, lo_boundary = se_boundary E, lo_sniff = se_sniff E\<rparr>), d'))
         else if os_Driver (cf_ObjectStorage cfg) = ObjectStorageDriverS3 then
           (case se_LoadDefaultConfig E of
              Inl err \<Rightarrow> (Fails err, d)
            | Inr awsCfg \<Rightarrow>
                (Returns (s3_below
                   \<lparr>s3_http = httpClient,
                    s3_api = se_NewFromConfig E awsCfg (S3ForcePathStyle (cf_ObjectStorage cfg)),
                    s3_BucketName = S3Bucket (cf_ObjectStorage cfg),
                    s3_Prefix = S3Prefix (cf_ObjectStorage cfg)\<rparr>), d))
         else (Fails (ErrorText ''unknown objectstorage driver''), d))"

section \<open>Both keep the contract\<close>

locale storage_part = object_storage save serve content remote
  for save :: "(nat \<Rightarrow> time) \<Rightarrow> PodcastCredentials option \<Rightarrow> string \<Rightarrow> string \<Rightarrow> string \<Rightarrow> 'o \<Rightarrow> int result \<times> 'o"
    and serve :: "(nat \<Rightarrow> time) \<Rightarrow> request \<Rightarrow> string \<Rightarrow> string \<Rightarrow> 'o \<Rightarrow> 'p response \<Rightarrow> outcome \<times> 'p response"
    and content and remote +
  fixes get :: "'d \<Rightarrow> 'o" and put :: "'o \<Rightarrow> 'd \<Rightarrow> 'd"
  assumes get_put: "get (put e d) = e"
    and put_get: "put (get d) d = d"

sublocale storage_part \<subseteq> part: object_storage
  "\<lambda>cl creds url g f d. (case save cl creds url g f (get d) of (res, e) \<Rightarrow> (res, put e d))"
  "\<lambda>cl r g f d w. serve cl r g f (get d) w" "\<lambda>d. content (get d)" remote
proof (unfold_locales, goal_cases)
  case (1 cl creds url g f d n d')
  then show ?case by (auto dest: save_external split: prod.splits)
next
  case (2 url cl creds g f d)
  then show ?case using save_refused [OF 2, of cl creds g f "get d"] put_get by (auto split: prod.split)
next
  case (3 g f cl creds url d n d')
  then obtain e where "save cl creds url g f (get d) = (Inr n, e)" "d' = put e d" by (auto split: prod.splits)
  with save_content [OF 3(1,2)] show ?case by (metis get_put)
next
  case (4 g f g' f' cl creds url d)
  from save_others [OF this, of cl creds url "get d"] show ?case by (auto simp: get_put split: prod.split)
next
  case (5 g f r cl d w w')
  then show ?case by (auto dest: serve_content)
qed

interpretation below: storage_part "Local_SaveRemoteFile s" "Local_ServeFile s" local_content
  "downloaded (lo_client s)" "\<lambda>d. subtree root (ob_fs d)" "\<lambda>e d. d\<lparr>ob_fs := graft root e (ob_fs d)\<rparr>" for s root
  by unfold_locales simp_all

sublocale s3_bucket \<subseteq> below: storage_part "S3_SaveRemoteFile s" "S3_ServeFile s"
  "\<lambda>d g f. held d (s3_BucketName s) (s3_Prefix s @ s3Key g f)" "downloaded (s3_http s)"
  ob_s3 "\<lambda>e d. d\<lparr>ob_s3 := e\<rparr>"
  by unfold_locales simp_all

lemma local_below_storage:
  "object_storage (SaveRemoteFile (local_below root s)) (ServeFile (local_below root s))
     (\<lambda>d. local_content (subtree root (ob_fs d))) (downloaded (lo_client s))"
  using below.part.object_storage_axioms [of root s]
  by (simp add: local_below_def part_storage_def local_storage_def)

context s3_bucket begin

lemma s3_below_storage:
  "object_storage (SaveRemoteFile (s3_below s)) (ServeFile (s3_below s))
    (\<lambda>d g f. held (ob_s3 d) (s3_BucketName s) (s3_Prefix s @ s3Key g f)) (downloaded (s3_http s))"
  using below.part.object_storage_axioms
  by (simp add: s3_below_def part_storage_def s3_storage_def)

end

end
