(* ===== verification/Commands.thy ===== *)
theory Commands
  imports Migrations
begin

text \<open>
  The command line tools for accounts (\<^verbatim>\<open>cmd/createuser\<close>, \<^verbatim>\<open>cmd/edituser\<close>, \<^verbatim>\<open>cmd/changepassword\<close>,
  \<^verbatim>\<open>cmd/deleteuser\<close>, \<^verbatim>\<open>cmd/listusers\<close>, \<^verbatim>\<open>cmd/version\<close>) and what they share (\<^verbatim>\<open>pkg/config/cli/cli.go\<close>).
  The parsing of flags (cobra) and the terminal are parameters: a command is given the values of
  its flags, and reading a password from the terminal has a result.
\<close>

section \<open>Setting up\<close>

record cli_env =
  cl_db :: db_env
  cl_disk :: disk
  cl_gorm_Open :: "string \<Rightarrow> migration_db result"
  cl_config :: "string \<Rightarrow> config_env"
  cl_ReadPassword :: "string result"
  cl_error_text :: "go_error \<Rightarrow> string"

text \<open>
  \<^verbatim>\<open>ConfigureCLI\<close>: the environment variable for the log level is set, which decides what viper reads;
  then the configuration and the database, which brings it up to date.
\<close>

definition ConfigureCLI ::
  "cli_env \<Rightarrow> (nat \<Rightarrow> nat \<Rightarrow> time) \<Rightarrow> string \<Rightarrow> bool \<Rightarrow> fs \<Rightarrow> (Config \<times> migration_db) result" where
  "ConfigureCLI E cls cfgFile verbose d =
     (let logLevel = (if verbose then LevelDebug else LevelWarn);
          CASTKEEPER_LOGLEVEL = (if verbose then ''debug'' else ''warn'');
          logger = \<lparr>lg_level = logLevel, lg_attrs = []\<rparr>
      in (case LoadConfig (cl_config E CASTKEEPER_LOGLEVEL) cfgFile ([], []) of
            (Inl err, _) \<Rightarrow> Inl (Wrapped ''failed to read config: '' err)
          | (Inr (cfg, _), _) \<Rightarrow>
              (case ConfigureDatabase (cl_db E) (cl_disk E) (cl_gorm_Open E) cls cfg logger False (d, []) of
                 (Inl err, _) \<Rightarrow> Inl (Wrapped ''failed to connect to database: '' err)
               | (Inr db, _) \<Rightarrow> Inr (cfg, db))))"

text \<open>How a command ends: \<^verbatim>\<open>log.Fatal\<close> with a message, or normally with the lines it printed.\<close>

datatype cli_outcome = Fatal string | Printed "string list"

definition fatalf :: "cli_env \<Rightarrow> string \<Rightarrow> go_error \<Rightarrow> cli_outcome" where
  "fatalf E message err = Fatal (message @ cl_error_text E err)"

definition readPassword :: "cli_env \<Rightarrow> string \<Rightarrow> string result" where
  "readPassword E argPassword =
     (if argPassword \<noteq> '''' then Inr argPassword
      else (case cl_ReadPassword E of Inl err \<Rightarrow> Inl err | Inr pwBytes \<Rightarrow> Inr pwBytes))"

section \<open>The commands\<close>

text \<open>What each does on the users of the database it has opened; the flags come first.\<close>

definition createuser_on ::
  "cli_env \<Rightarrow> time \<Rightarrow> nat \<Rightarrow> string \<Rightarrow> string \<Rightarrow> int \<Rightarrow> User list \<Rightarrow> cli_outcome \<times> User list" where
  "createuser_on E now rnd username password accessLevel t =
     (case readPassword E password of
        Inl err \<Rightarrow> (fatalf E ''failed to read password: '' err, t)
      | Inr password \<Rightarrow>
          (case CreateUser (de_users (cl_db E)) now rnd username password accessLevel t of
             (Some err, t') \<Rightarrow> (fatalf E ''failed to create user: '' err, t')
           | (None, t') \<Rightarrow> (Printed [''successfully created user '' @ quoted username], t')))"

definition edituser_on ::
  "cli_env \<Rightarrow> (nat \<Rightarrow> time) \<Rightarrow> string \<Rightarrow> string \<Rightarrow> int \<Rightarrow> User list \<Rightarrow> cli_outcome \<times> User list" where
  "edituser_on E cl username newUsername newAccessLevel t =
     (case GetUserByUsername (de_users (cl_db E)) (cl 0) username t of
        Inl err \<Rightarrow> (fatalf E ''failed to get user by username: '' err, t)
      | Inr user \<Rightarrow>
          (case UpdateUser (de_users (cl_db E)) (cl 1) (ID user) newUsername newAccessLevel t of
             (Some err, t') \<Rightarrow> (fatalf E ''failed to update user: '' err, t')
           | (None, t') \<Rightarrow> (Printed [''successfully updated user '' @ quoted newUsername], t')))"

definition changepassword_on ::
  "cli_env \<Rightarrow> (nat \<Rightarrow> time) \<Rightarrow> nat \<Rightarrow> string \<Rightarrow> string \<Rightarrow> User list \<Rightarrow> cli_outcome \<times> User list" where
  "changepassword_on E cl rnd username newPassword t =
     (case GetUserByUsername (de_users (cl_db E)) (cl 0) username t of
        Inl err \<Rightarrow> (fatalf E ''failed to get user by username: '' err, t)
      | Inr user \<Rightarrow>
          (case readPassword E newPassword of
             Inl err \<Rightarrow> (fatalf E ''failed to read password: '' err, t)
           | Inr password \<Rightarrow>
               (case UpdatePassword (de_users (cl_db E)) (cl 1) rnd (ID user) password t of
                  (Some err, t') \<Rightarrow> (fatalf E ''failed to change password: '' err, t')
                | (None, t') \<Rightarrow> (Printed [''successfully changed password for user '' @ quoted username], t'))))"

definition deleteuser_on ::
  "cli_env \<Rightarrow> (nat \<Rightarrow> time) \<Rightarrow> string \<Rightarrow> User list \<Rightarrow> cli_outcome \<times> User list" where
  "deleteuser_on E cl username t =
     (case GetUserByUsername (de_users (cl_db E)) (cl 0) username t of
        Inl err \<Rightarrow> (fatalf E ''failed to get user by username: '' err, t)
      | Inr user \<Rightarrow>
          (case DeleteUser (de_users (cl_db E)) (cl 1) (ID user) t of
             (Some err, t') \<Rightarrow> (fatalf E ''failed to delete user: '' err, t')
           | (None, t') \<Rightarrow> (Printed [''successfully deleted user '' @ quoted username], t')))"

definition listusers_on :: "cli_env \<Rightarrow> time \<Rightarrow> User list \<Rightarrow> cli_outcome \<times> User list" where
  "listusers_on E now t =
     (case ListUsers (de_users (cl_db E)) now t of
        Inl err \<Rightarrow> (fatalf E ''failed to list users: '' err, t)
      | Inr userList \<Rightarrow>
          if length userList = 0 then (Printed [''No users found''], t)
          else (Printed (map (\<lambda>user. show_nat (ID user) @ [CHR 0x09] @ Username user @ '' ('' @
                  AccessLevel_Format (AccessLevel user) @ '')'') userList), t))"

text \<open>A command as a whole: \<^verbatim>\<open>run\<close> sets up and then works on the database, or ends with the error.\<close>

definition run_command ::
  "cli_env \<Rightarrow> (nat \<Rightarrow> nat \<Rightarrow> time) \<Rightarrow> string \<Rightarrow> bool \<Rightarrow> fs \<Rightarrow> (User list \<Rightarrow> cli_outcome \<times> User list) \<Rightarrow>
   cli_outcome \<times> migration_db option" where
  "run_command E cls cfgFile verbose d body =
     (case ConfigureCLI E cls cfgFile verbose d of
        Inl err \<Rightarrow> (fatalf E '''' err, None)
      | Inr (_, db) \<Rightarrow>
          (case body (md_users db) of (out, t') \<Rightarrow> (out, Some (db\<lparr>md_users := t'\<rparr>))))"

definition version_run :: "string \<Rightarrow> cli_outcome" where
  "version_run Version = Printed [''CastKeeper version '' @ Version]"

section \<open>What a command may do to the accounts\<close>

datatype command =
    CreateCmd time nat string string int
  | EditCmd "nat \<Rightarrow> time" string string int
  | ChangePasswordCmd "nat \<Rightarrow> time" nat string string
  | DeleteCmd "nat \<Rightarrow> time" string
  | ListCmd time

fun command_on :: "cli_env \<Rightarrow> command \<Rightarrow> User list \<Rightarrow> cli_outcome \<times> User list" where
  "command_on E (CreateCmd now rnd name pw al) t = createuser_on E now rnd name pw al t"
| "command_on E (EditCmd cl name new al) t = edituser_on E cl name new al t"
| "command_on E (ChangePasswordCmd cl rnd name pw) t = changepassword_on E cl rnd name pw t"
| "command_on E (DeleteCmd cl name) t = deleteuser_on E cl name t"
| "command_on E (ListCmd now) t = listusers_on E now t"

text \<open>A command is at most one operation on the accounts, and none when it ends with an error.\<close>

lemma command_on_effect:
  assumes "command_on E c t = (out, t')"
  shows "t' = t \<or> (\<exists>op. run_user_op (de_users (cl_db E)) op t = (None, t'))"
    "out = Fatal m \<Longrightarrow> t' = t"
proof -
  let ?D = "de_users (cl_db E)"
  have "(t' = t \<or> (\<exists>op. run_user_op ?D op t = (None, t'))) \<and> (out = Fatal m \<longrightarrow> t' = t)"
  proof (cases c)
    case (CreateCmd now rnd name pw al)
    show ?thesis
    proof (cases "readPassword E pw")
      case (Inr p)
      obtain e t1 where r: "run_user_op ?D (CreateUserOp now rnd name p al) t = (e, t1)" by fastforce
      then have "e = None \<Longrightarrow> \<exists>op. run_user_op ?D op t = (None, t1)" "e \<noteq> None \<Longrightarrow> t1 = t"
        by (blast, metis option.exhaust user_op_error)
      with r assms CreateCmd Inr show ?thesis by (cases e) (auto simp: createuser_on_def fatalf_def)
    qed (use assms CreateCmd in \<open>auto simp: createuser_on_def\<close>)
  next
    case (EditCmd cl name new al)
    show ?thesis
    proof (cases "GetUserByUsername ?D (cl 0) name t")
      case (Inr u)
      obtain e t1 where r: "run_user_op ?D (UpdateUserOp (cl 1) (ID u) new al) t = (e, t1)" by fastforce
      then have "e = None \<Longrightarrow> \<exists>op. run_user_op ?D op t = (None, t1)" "e \<noteq> None \<Longrightarrow> t1 = t"
        by (blast, metis option.exhaust user_op_error)
      with r assms EditCmd Inr show ?thesis by (cases e) (auto simp: edituser_on_def fatalf_def)
    qed (use assms EditCmd in \<open>auto simp: edituser_on_def\<close>)
  next
    case (ChangePasswordCmd cl rnd name pw)
    show ?thesis
    proof (cases "GetUserByUsername ?D (cl 0) name t")
      case u: (Inr u)
      show ?thesis
      proof (cases "readPassword E pw")
        case (Inr p)
        obtain e t1 where r: "run_user_op ?D (UpdatePasswordOp (cl 1) rnd (ID u) p) t = (e, t1)" by fastforce
        then have "e = None \<Longrightarrow> \<exists>op. run_user_op ?D op t = (None, t1)" "e \<noteq> None \<Longrightarrow> t1 = t"
          by (blast, metis option.exhaust user_op_error)
        with r assms ChangePasswordCmd u Inr show ?thesis by (cases e) (auto simp: changepassword_on_def fatalf_def)
      qed (use assms ChangePasswordCmd u in \<open>auto simp: changepassword_on_def\<close>)
    qed (use assms ChangePasswordCmd in \<open>auto simp: changepassword_on_def\<close>)
  next
    case (DeleteCmd cl name)
    show ?thesis
    proof (cases "GetUserByUsername ?D (cl 0) name t")
      case (Inr u)
      obtain e t1 where r: "run_user_op ?D (DeleteUserOp (cl 1) (ID u)) t = (e, t1)" by fastforce
      then have "e = None \<Longrightarrow> \<exists>op. run_user_op ?D op t = (None, t1)" "e \<noteq> None \<Longrightarrow> t1 = t"
        by (blast, metis option.exhaust user_op_error)
      with r assms DeleteCmd Inr show ?thesis by (cases e) (auto simp: deleteuser_on_def fatalf_def)
    qed (use assms DeleteCmd in \<open>auto simp: deleteuser_on_def\<close>)
  next
    case (ListCmd now)
    with assms show ?thesis by (auto simp: listusers_on_def split: sum.splits if_splits)
  qed
  then show "t' = t \<or> (\<exists>op. run_user_op ?D op t = (None, t'))" "out = Fatal m \<Longrightarrow> t' = t" by auto
qed

end
