(* ===== verification/Serve.thy ===== *)
theory Serve
  imports Webserver Scheduler Storage Keys Commands
begin

text \<open>
  The server program (\<^verbatim>\<open>cmd/serve/serve.go\<close>): what it sets up, in which order and how it gives up, and
  how the web server, the scheduler and the three queue workers are put together on one database.
\<close>

section \<open>Setting up\<close>

record ('h, 's) serve_env =
  sv_config :: config_env
  sv_db :: db_env
  sv_gorm_Open :: "string \<Rightarrow> migration_db result"
  sv_storage :: "'s storage_env"
  sv_tink :: "'h tink_lib"
  sv_rnd :: nat
  sv_error_text :: "go_error \<Rightarrow> string"

text \<open>What is running once everything is set up.\<close>

record 's running =
  rn_cfg :: Config
  rn_logger :: logger
  rn_db :: migration_db
  rn_objstore :: "('s objects, page) ObjectStorage"
  rn_encService :: EncryptedValueService

datatype 's startup = Started "'s running" | FatalExit string | PanicExit go_error

definition serve_setup ::
  "('h, 's) serve_env \<Rightarrow> (nat \<Rightarrow> nat \<Rightarrow> time) \<Rightarrow> string \<Rightarrow> fs \<Rightarrow> 's startup \<times> fs" where
  "serve_setup E cls cfgFile d =
     (case LoadConfig (sv_config E) cfgFile ([], []) of
        (Inl err, _) \<Rightarrow> (FatalExit (''failed to read config: '' @ sv_error_text E err), d)
      | (Inr (cfg, logger), (_, out)) \<Rightarrow>
          (case ConfigureDatabase (sv_db E) (se_disk (sv_storage E)) (sv_gorm_Open E) (\<lambda>n. cls (2 + n)) cfg logger
                  False (d, out) of
             (Inl err, (d1, _)) \<Rightarrow> (FatalExit (''failed to connect to database: '' @ sv_error_text E err), d1)
           | (Inr db, (d1, _)) \<Rightarrow>
               (case ConfigureObjectStorage (sv_storage E) (cls 0) cfg d1 of
                  (Panics err, d2) \<Rightarrow> (PanicExit err, d2)
                | (Fails err, d2) \<Rightarrow>
                    (FatalExit (''failed to configure objectstorage: '' @ sv_error_text E err), d2)
                | (Returns objstore, d2) \<Rightarrow>
                    (case ConfigureEncryptedValueService (sv_tink E) (se_disk (sv_storage E)) (cls 1) (sv_rnd E)
                            cfg d2 of
                       (Panics err, d3) \<Rightarrow> (PanicExit err, d3)
                     | (Fails err, d3) \<Rightarrow>
                         (FatalExit (''failed to configure encryption: '' @ sv_error_text E err), d3)
                     | (Returns encService, d3) \<Rightarrow>
                         (Started \<lparr>rn_cfg = cfg, rn_logger = logger, rn_db = db, rn_objstore = objstore,
                            rn_encService = encService\<rparr>, d3)))))"

section \<open>Putting it together\<close>

text \<open>
  The dependencies of the web server and the workers: those of the libraries, with the address, the
  storage and the encryption service of the set-up.
\<close>

definition serve_deps :: "('s objects) web_deps \<Rightarrow> 's running \<Rightarrow> ('s objects) web_deps" where
  "serve_deps L R =
     L\<lparr>wb_baseURL := BaseURL (rn_cfg R),
       wb_app := (wb_app L)\<lparr>ap_os := rn_objstore R,
         ap_pods := (ap_pods (wb_app L))\<lparr>pd_enc := rn_encService R\<rparr>\<rparr>\<rparr>"

definition serve_server :: "('s objects) web_deps \<Rightarrow> 's running \<Rightarrow>
    (mw_config, req_context, ('s objects) store, page) server" where
  "serve_server L R = NewWebserver (serve_deps L R) (nat (Port (WebServer (rn_cfg R))))"

definition serve_tasks :: "ScheduledTaskDefinition list" where
  "serve_tasks =
     [\<lparr>td_TaskName = FeedWorkerQueueName, td_Interval = Minute\<rparr>,
      \<lparr>td_TaskName = HouseKeepingQueueName, td_Interval = Hour\<rparr>]"

text \<open>The scheduler shares the queue and the transactions of the database.\<close>

definition serve_scheduler :: "ScheduledTaskState gorm \<Rightarrow> 'o web_deps \<Rightarrow> sched_deps" where
  "serve_scheduler g W =
     \<lparr>sd_validator = qd_validator (ap_queue (wb_app W)), sd_gorm = g,
      sd_tx = qd_tx (ap_queue (wb_app W)), sd_queue = ap_queue (wb_app W)\<rparr>"

text \<open>The handler of each of the three queues; the readings of the feed worker's clock are split per podcast.\<close>

definition serve_handler ::
  "'o web_deps \<Rightarrow> string \<Rightarrow> (nat \<Rightarrow> nat \<Rightarrow> time) \<Rightarrow> json \<Rightarrow> 'o store \<Rightarrow> go_error option \<times> 'o store" where
  "serve_handler W queueName cls payload d =
     (if queueName = FeedWorkerQueueName then FeedWorkerQueueHandler (wb_app W) cls payload d
      else if queueName = DownloadWorkerQueueName then DownloadWorkerQueueHandler (wb_app W) (cls 0) payload d
      else
        (case HouseKeepingQueueWorker (ap_auth (wb_app W)) (cls 0) (sessions_t d) of
           (err, t') \<Rightarrow> (err, d\<lparr>sessions_t := t'\<rparr>)))"

definition serve_queues :: "string list" where
  "serve_queues = [FeedWorkerQueueName, DownloadWorkerQueueName, HouseKeepingQueueName]"

section \<open>Facts about the set-up\<close>

lemma serve_setup_Started:
  assumes "serve_setup E cls cfgFile d = (Started R, d')"
  obtains out d1 out1 d2 where
    "LoadConfig (sv_config E) cfgFile ([], []) = (Inr (rn_cfg R, rn_logger R), out)"
    "ConfigureDatabase (sv_db E) (se_disk (sv_storage E)) (sv_gorm_Open E) (\<lambda>n. cls (2 + n)) (rn_cfg R)
       (rn_logger R) False (d, snd out) = (Inr (rn_db R), (d1, out1))"
    "ConfigureObjectStorage (sv_storage E) (cls 0) (rn_cfg R) d1 = (Returns (rn_objstore R), d2)"
    "ConfigureEncryptedValueService (sv_tink E) (se_disk (sv_storage E)) (cls 1) (sv_rnd E) (rn_cfg R) d2 =
       (Returns (rn_encService R), d')"
  using assms
  by (auto simp: serve_setup_def split: prod.splits sum.splits call.splits)

end
