(* ===== verification/UserDirectory.thy ===== *)
theory UserDirectory
  imports Auth UserProps SessionFacts
begin

text \<open>
  What the package for accounts promises, stated without tables: a directory of accounts by
  identifier, each with a name, a password and a level, and a set of names that are taken.  Every
  operation of the package is a step of the directory, and a log-in reads the directory.
\<close>

section \<open>The directory\<close>

record account =
  ac_Name :: string
  ac_Password :: string
  ac_Level :: int

record directory =
  dr_accounts :: "nat \<Rightarrow> account option"
  dr_taken :: "string set"

definition valid_name_level :: "string \<Rightarrow> int \<Rightarrow> bool" where
  "valid_name_level name level \<longleftrightarrow> name \<noteq> '''' \<and> rune_count name \<le> 50 \<and> 1 \<le> level \<and> level \<le> 3"

definition strong_password :: "string \<Rightarrow> bool" where
  "strong_password pw \<longleftrightarrow> 8 \<le> length pw \<and> length pw \<le> 64"

text \<open>
  The name of a deleted account stays taken; a name that an account gives up is free again.  The
  identifier of a new account is any that is free.
\<close>

inductive directory_step :: "user_op \<Rightarrow> directory \<Rightarrow> directory \<Rightarrow> bool" where
  create: "dr_accounts A i = None \<Longrightarrow> name \<notin> dr_taken A \<Longrightarrow> valid_name_level name level \<Longrightarrow> strong_password pw \<Longrightarrow>
    directory_step (CreateUserOp now rnd name pw level) A
      \<lparr>dr_accounts = (dr_accounts A)(i \<mapsto> \<lparr>ac_Name = name, ac_Password = pw, ac_Level = level\<rparr>),
       dr_taken = insert name (dr_taken A)\<rparr>"
| update: "dr_accounts A i = Some a \<Longrightarrow> name = ac_Name a \<or> name \<notin> dr_taken A \<Longrightarrow> valid_name_level name level \<Longrightarrow>
    directory_step (UpdateUserOp now i name level) A
      \<lparr>dr_accounts = (dr_accounts A)(i \<mapsto> a\<lparr>ac_Name := name, ac_Level := level\<rparr>),
       dr_taken = insert name (dr_taken A - {ac_Name a})\<rparr>"
| change_password: "dr_accounts A i = Some a \<Longrightarrow> strong_password pw \<Longrightarrow>
    directory_step (UpdatePasswordOp now rnd i pw) A (A\<lparr>dr_accounts := (dr_accounts A)(i \<mapsto> a\<lparr>ac_Password := pw\<rparr>)\<rparr>)"
| delete: "dr_accounts A i = Some a \<Longrightarrow>
    directory_step (DeleteUserOp now i) A (A\<lparr>dr_accounts := (dr_accounts A)(i := None)\<rparr>)"

section \<open>The table represents the directory\<close>

definition stands_for :: "bcrypt \<Rightarrow> User \<Rightarrow> account \<Rightarrow> bool" where
  "stands_for B u a \<longleftrightarrow> Username u = ac_Name a \<and> AccessLevel u = ac_Level a \<and> CheckPassword B u (ac_Password a) = None"

definition represents :: "user_deps \<Rightarrow> User list \<Rightarrow> directory \<Rightarrow> bool" where
  "represents D t A \<longleftrightarrow> dr_taken A = Username ` set t \<and>
     (\<forall>u \<in> set t. DeletedAt u = None \<longrightarrow> (\<exists>a. dr_accounts A (ID u) = Some a \<and> stands_for (ud_bcrypt D) u a)) \<and>
     (\<forall>i a. dr_accounts A i = Some a \<longrightarrow> (\<exists>u \<in> set t. DeletedAt u = None \<and> ID u = i))"

lemma represents_row:
  assumes "represents D t A" "u \<in> set t" "DeletedAt u = None" "ID u = i"
  obtains a where "dr_accounts A i = Some a" "stands_for (ud_bcrypt D) u a"
  using assms unfolding represents_def by blast

lemma represents_account:
  assumes "represents D t A" "dr_accounts A i = Some a"
  obtains u where "u \<in> set t" "DeletedAt u = None" "ID u = i" "stands_for (ud_bcrypt D) u a"
proof -
  from assms obtain u where u: "u \<in> set t" "DeletedAt u = None" "ID u = i" unfolding represents_def by blast
  from represents_row [OF assms(1) this] assms(2) u that show thesis by (metis option.inject)
qed

lemma represents_live:
  "represents D t A \<Longrightarrow> dr_accounts A i = Some a \<Longrightarrow> \<exists>u \<in> set t. DeletedAt u = None \<and> ID u = i"
  unfolding represents_def by blast

text \<open>One row is replaced, and the account of its identifier with it.\<close>

lemma represents_replace:
  assumes rep: "represents D t A" and d: "distinct (map ID t)" "distinct (map Username t)"
    and u: "u \<in> set t" "DeletedAt u = None" "ID u = i"
    and u': "ID u' = i" "DeletedAt u' = None" "stands_for (ud_bcrypt D) u' a'"
  shows "represents D (upd_where (\<lambda>y. ID y = i) (\<lambda>_. u') t)
    \<lparr>dr_accounts = (dr_accounts A)(i \<mapsto> a'), dr_taken = insert (Username u') (dr_taken A - {Username u})\<rparr>"
proof -
  let ?t = "upd_where (\<lambda>y. ID y = i) (\<lambda>_. u') t"
  have set: "set ?t = insert u' (set t - {u})" using set_upd_key [OF d(1) u(1,3)] .
  have "Username ` (set t - {u}) = Username ` set t - {Username u}"
    using distinct_key_eq [OF d(2) _ u(1)] by auto
  moreover have "\<exists>a. ((dr_accounts A)(i \<mapsto> a')) (ID y) = Some a \<and> stands_for (ud_bcrypt D) y a"
    if y: "y \<in> set t - {u}" "DeletedAt y = None" for y
  proof -
    have "ID y \<noteq> i" using distinct_key_eq [OF d(1) _ u(1)] y(1) u(3) by auto
    with represents_row [OF rep _ y(2) refl] y(1) show ?thesis by auto
  qed
  moreover have "\<exists>y \<in> set ?t. DeletedAt y = None \<and> ID y = j" if j: "((dr_accounts A)(i \<mapsto> a')) j = Some a" for j a
  proof (cases "j = i")
    case False
    with j represents_live [OF rep, of j a] obtain y where "y \<in> set t" "DeletedAt y = None" "ID y = j" by auto
    with False u(3) show ?thesis unfolding set by auto
  qed (use u' in \<open>auto simp: set\<close>)
  ultimately show ?thesis using rep u' unfolding represents_def set by (auto simp: fun_upd_same)
qed

lemma represents_append:
  assumes rep: "represents D t A" and fresh: "\<And>x. x \<in> set t \<Longrightarrow> ID x \<noteq> ID u"
    and u: "DeletedAt u = None" "stands_for (ud_bcrypt D) u a"
  shows "dr_accounts A (ID u) = None" "represents D (t @ [u])
    \<lparr>dr_accounts = (dr_accounts A)(ID u \<mapsto> a), dr_taken = insert (Username u) (dr_taken A)\<rparr>"
proof -
  show none: "dr_accounts A (ID u) = None"
    using represents_live [OF rep, of "ID u"] fresh by (cases "dr_accounts A (ID u)") auto
  have "\<exists>a'. ((dr_accounts A)(ID u \<mapsto> a)) (ID y) = Some a' \<and> stands_for (ud_bcrypt D) y a'"
    if "y \<in> set t" "DeletedAt y = None" for y
    using represents_row [OF rep that refl] fresh [OF that(1)] by auto
  moreover have "\<exists>y \<in> set (t @ [u]). DeletedAt y = None \<and> ID y = j"
    if j: "((dr_accounts A)(ID u \<mapsto> a)) j = Some a'" for j a'
  proof (cases "j = ID u")
    case False
    with j represents_live [OF rep, of j a'] obtain y where "y \<in> set t" "DeletedAt y = None" "ID y = j" by auto
    then show ?thesis by auto
  qed (use u in auto)
  ultimately show "represents D (t @ [u])
    \<lparr>dr_accounts = (dr_accounts A)(ID u \<mapsto> a), dr_taken = insert (Username u) (dr_taken A)\<rparr>"
    using rep u unfolding represents_def by (auto simp: fun_upd_same)
qed

lemma represents_delete:
  assumes rep: "represents D t A" and d: "distinct (map ID t)" and u: "u \<in> set t" "ID u = i"
  shows "represents D (upd_where (\<lambda>y. DeletedAt y = None \<and> ID y = i) (\<lambda>y. y\<lparr>DeletedAt := Some now\<rparr>) t)
    (A\<lparr>dr_accounts := (dr_accounts A)(i := None)\<rparr>)"
proof -
  let ?t = "upd_where (\<lambda>y. DeletedAt y = None \<and> ID y = i) (\<lambda>y. y\<lparr>DeletedAt := Some now\<rparr>) t"
  have live: "y \<in> set ?t \<and> DeletedAt y = None \<longleftrightarrow> y \<in> set t \<and> DeletedAt y = None \<and> ID y \<noteq> i" for y
    by (auto simp: set_upd_where)
  have "map Username ?t = map Username t" by (rule map_upd_where_same) simp
  then have names: "Username ` set ?t = Username ` set t" by (metis list.set_map)
  show ?thesis unfolding represents_def
  proof (intro conjI ballI allI impI)
    show "dr_taken (A\<lparr>dr_accounts := (dr_accounts A)(i := None)\<rparr>) = Username ` set ?t"
      using names rep by (simp add: represents_def)
    show "\<exists>a. dr_accounts (A\<lparr>dr_accounts := (dr_accounts A)(i := None)\<rparr>) (ID y) = Some a \<and> stands_for (ud_bcrypt D) y a"
      if "y \<in> set ?t" "DeletedAt y = None" for y
    proof -
      from live [of y] that have y: "y \<in> set t" "ID y \<noteq> i" by blast+
      from represents_row [OF rep y(1) that(2) refl] y(2) show ?thesis by auto
    qed
    show "\<exists>y \<in> set ?t. DeletedAt y = None \<and> ID y = j"
      if j: "dr_accounts (A\<lparr>dr_accounts := (dr_accounts A)(i := None)\<rparr>) j = Some a" for j a
    proof -
      from j have "j \<noteq> i" "dr_accounts A j = Some a" by (auto split: if_splits)
      from represents_live [OF rep this(2)] obtain y where "y \<in> set t" "DeletedAt y = None" "ID y = j" by blast
      with live [of y] \<open>j \<noteq> i\<close> show ?thesis by (intro bexI [of _ y]) simp_all
    qed
  qed
qed

section \<open>Operations are steps of the directory\<close>

lemma strong_password: "validatePasswordStrength F pw = None \<Longrightarrow> strong_password pw"
  by (auto simp: validatePasswordStrength_def strong_password_def split: if_splits)

lemma hashed_password:
  "user_deps_ok D \<Longrightarrow> GenerateFromPassword (ud_bcrypt D) cost rnd pw = Inr h \<Longrightarrow> Password u = h \<Longrightarrow>
   CheckPassword (ud_bcrypt D) u pw = None"
  using password_hashing.hash_matches [OF user_deps_okD(3)] by (simp add: CheckPassword_def)

lemma user_op_refines:
  assumes D: "user_deps_ok D" and inv: "users_inv D t" and rep: "represents D t A"
    and run: "run_user_op D op t = (None, t')"
  shows "\<exists>A'. directory_step op A A' \<and> represents D t' A'"
proof -
  have d: "distinct (map ID t)" "distinct (map Username t)" using inv by (auto simp: users_inv_def)
  note valid = User_BeforeSave_None_iff [OF user_deps_okD(2) [OF D]]
  show ?thesis
  proof (cases op)
    case (CreateUserOp now rnd name pw al)
    with run have "CreateUser D now rnd name pw al t = (None, t')" by simp
    from D this show ?thesis
    proof (rule CreateUser_ok)
      fix h and u :: User
      assume pw: "validatePasswordStrength (ud_file D) pw = None"
        and h: "GenerateFromPassword (ud_bcrypt D) passwordHashCost rnd pw = Inr h"
        and u: "Username u = name" "Password u = h" "AccessLevel u = al" "DeletedAt u = None"
          "User_BeforeSave (ud_validator D) u = None"
        and t': "t' = t @ [u]" and fresh: "\<And>x. x \<in> set t \<Longrightarrow> ID x \<noteq> ID u \<and> Username x \<noteq> name"
      let ?a = "\<lparr>ac_Name = name, ac_Password = pw, ac_Level = al\<rparr>"
      have st: "stands_for (ud_bcrypt D) u ?a" using hashed_password [OF D h u(2)] u by (simp add: stands_for_def)
      have "name \<notin> dr_taken A" using fresh rep by (auto simp: represents_def)
      moreover have "valid_name_level name al" using u(1,3,5) valid by (auto simp: valid_name_level_def)
      ultimately have "directory_step op A
        \<lparr>dr_accounts = (dr_accounts A)(ID u \<mapsto> ?a), dr_taken = insert name (dr_taken A)\<rparr>"
        unfolding CreateUserOp
        using represents_append(1) [OF rep _ u(4) st] fresh strong_password [OF pw] by (intro directory_step.create) auto
      with represents_append(2) [OF rep _ u(4) st] fresh u(1) t' show ?thesis by auto
    qed
  next
    case (UpdateUserOp now i name al)
    with run have "UpdateUser D now i name al t = (None, t')" by simp
    from D this show ?thesis
    proof (rule UpdateUser_ok)
      fix u :: User
      let ?u = "u\<lparr>Username := name, AccessLevel := al, UpdatedAt := now\<rparr>"
      assume u: "u \<in> set t" "DeletedAt u = None" "ID u = i"
        and v: "User_BeforeSave (ud_validator D) (u\<lparr>Username := name, AccessLevel := al\<rparr>) = None"
        and t': "t' = upd_where (\<lambda>y. ID y = i) (\<lambda>_. ?u) t"
        and fresh: "\<And>y. y \<in> set t \<Longrightarrow> ID y \<noteq> i \<Longrightarrow> Username y \<noteq> name"
      from represents_row [OF rep u] obtain a where a: "dr_accounts A i = Some a" "stands_for (ud_bcrypt D) u a" .
      let ?a = "a\<lparr>ac_Name := name, ac_Level := al\<rparr>"
      have st: "stands_for (ud_bcrypt D) ?u ?a" using a(2) by (simp add: stands_for_def CheckPassword_def)
      have "name = ac_Name a \<or> name \<notin> dr_taken A"
      proof (rule disjCI)
        assume "\<not> name \<notin> dr_taken A"
        then obtain y where "y \<in> set t" "Username y = name" using rep by (auto simp: represents_def)
        with fresh have "ID y = ID u" using u(3) by blast
        with \<open>y \<in> set t\<close> u(1) d(1) have "y = u" by (auto intro: distinct_key_eq)
        with \<open>Username y = name\<close> a(2) show "name = ac_Name a" by (simp add: stands_for_def)
      qed
      moreover have "valid_name_level name al" using v valid by (auto simp: valid_name_level_def)
      ultimately have "directory_step op A
        \<lparr>dr_accounts = (dr_accounts A)(i \<mapsto> ?a), dr_taken = insert name (dr_taken A - {ac_Name a})\<rparr>"
        unfolding UpdateUserOp using a(1) by (intro directory_step.update)
      moreover have "ac_Name a = Username u" using a(2) by (simp add: stands_for_def)
      ultimately show ?thesis using represents_replace [OF rep d u _ _ st] u t' by auto
    qed
  next
    case (UpdatePasswordOp now rnd i pw)
    with run have "UpdatePassword D now rnd i pw t = (None, t')" by simp
    from D this show ?thesis
    proof (rule UpdatePassword_ok)
      fix u :: User and h
      let ?u = "u\<lparr>Password := h, UpdatedAt := now\<rparr>"
      assume u: "u \<in> set t" "DeletedAt u = None" "ID u = i"
        and pw: "validatePasswordStrength (ud_file D) pw = None"
        and h: "GenerateFromPassword (ud_bcrypt D) passwordHashCost rnd pw = Inr h"
        and t': "t' = upd_where (\<lambda>y. ID y = i) (\<lambda>_. ?u) t"
      from represents_row [OF rep u] obtain a where a: "dr_accounts A i = Some a" "stands_for (ud_bcrypt D) u a" .
      let ?a = "a\<lparr>ac_Password := pw\<rparr>"
      have st: "stands_for (ud_bcrypt D) ?u ?a" using a(2) hashed_password [OF D h, of ?u] by (simp add: stands_for_def)
      have "directory_step op A (A\<lparr>dr_accounts := (dr_accounts A)(i \<mapsto> ?a)\<rparr>)"
        unfolding UpdatePasswordOp by (rule directory_step.change_password [where a = a, OF a(1) strong_password [OF pw]])
      moreover have "Username u \<in> dr_taken A" using rep u(1) by (auto simp: represents_def)
      then have "insert (Username u) (dr_taken A - {Username u}) = dr_taken A" by blast
      then have "represents D t' (A\<lparr>dr_accounts := (dr_accounts A)(i \<mapsto> ?a)\<rparr>)"
        using represents_replace [OF rep d u _ _ st] u t' by (cases A) simp
      ultimately show ?thesis by blast
    qed
  next
    case (DeleteUserOp now i)
    with run have "DeleteUser D now i t = (None, t')" by simp
    from D this show ?thesis
    proof (rule DeleteUser_ok)
      fix u :: User
      assume u: "u \<in> set t" "DeletedAt u = None" "ID u = i"
        and t': "t' = upd_where (\<lambda>y. DeletedAt y = None \<and> ID y = i) (\<lambda>y. y\<lparr>DeletedAt := Some now\<rparr>) t"
      from represents_row [OF rep u] obtain a where a: "dr_accounts A i = Some a" .
      have "directory_step op A (A\<lparr>dr_accounts := (dr_accounts A)(i := None)\<rparr>)"
        unfolding DeleteUserOp by (rule directory_step.delete [OF a])
      with represents_delete [OF rep d(1) u(1,3)] show ?thesis unfolding t' by blast
    qed
  qed
qed

section \<open>A log-in reads the directory\<close>

lemma login_account:
  assumes D: "auth_deps_ok D" and rep: "represents (ad_users D) t A"
    and ok: "checkUsernameAndPassword D now name pw t = Inr u"
  shows "\<exists>a. dr_accounts A (ID u) = Some a \<and> ac_Name a = name \<and> ac_Level a = AccessLevel u"
proof -
  from ok have g: "GetUserByUsername (ad_users D) now name t = Inr u"
    by (auto simp: checkUsernameAndPassword_def split: sum.splits option.splits)
  from by_name.found [OF auth_deps_okD(1) [OF D] g] have u: "u \<in> set t" "DeletedAt u = None" "Username u = name" by simp_all
  from represents_row [OF rep u(1,2) refl] obtain a where "dr_accounts A (ID u) = Some a"
    "stands_for (ud_bcrypt (ad_users D)) u a" .
  with u(3) show ?thesis by (auto simp: stands_for_def)
qed

lemma account_login:
  assumes D: "auth_deps_up D" and inv: "users_inv (ad_users D) t" and rep: "represents (ad_users D) t A"
    and a: "dr_accounts A i = Some a"
  shows "\<exists>u. checkUsernameAndPassword D now (ac_Name a) (ac_Password a) t = Inr u \<and> ID u = i \<and> AccessLevel u = ac_Level a"
proof -
  note ok = auth_deps_okD(1) [OF auth_deps_upD(1) [OF D]]
  from represents_account [OF rep a] obtain u where u: "u \<in> set t" "DeletedAt u = None" "ID u = i"
    and st: "stands_for (ud_bcrypt (ad_users D)) u a" .
  have "live_rows user_schema (\<lambda>u. Username u = ac_Name a) t \<noteq> []"
    using u st by (auto simp: live_rows_def filter_empty_conv stands_for_def)
  then obtain v where v: "GetUserByUsername (ad_users D) now (ac_Name a) t = Inr v"
    using gorm_available.first_total [OF auth_deps_upD(3) [OF D]] unfolding GetUserByUsername_def by blast
  have "v = u"
    using inv u st by (intro by_name.found_unique [OF ok _ _ _ v]) (auto simp: users_inv_def stands_for_def)
  with v u st show ?thesis by (auto simp: checkUsernameAndPassword_def stands_for_def)
qed

section \<open>The refinement\<close>

definition demo_directory :: directory where
  "demo_directory = \<lparr>dr_accounts = [1 \<mapsto> \<lparr>ac_Name = ''alice'', ac_Password = ''alice'', ac_Level = 3\<rparr>,
     2 \<mapsto> \<lparr>ac_Name = ''bob'', ac_Password = ''bob'', ac_Level = 1\<rparr>], dr_taken = {''alice'', ''bob''}\<rparr>"

lemma demo_directory_represented: "represents demo_deps demo_table demo_directory"
  by (auto simp: represents_def demo_directory_def demo_table_def demo_user_def user_zero_def stands_for_def
      CheckPassword_def demo_bcrypt_def split: if_splits)

text \<open>C4: the accounts behave as a directory.  When the table represents a directory, an operation that
  succeeds is a step of the directory and one that fails leaves it as it is; and a log-in is accepted
  exactly as the directory says: with the name and the password of an account it gives that account
  with its level, and it gives nothing but an account of that name.  In particular a deleted account
  is gone, its name stays taken, and every password is checked for its length.\<close>

theorem users_refine_directory:
  assumes D: "auth_deps_up D" and inv: "users_inv (ad_users D) t" and rep: "represents (ad_users D) t A"
    and run: "run_user_op (ad_users D) op t = (err, t')"
  shows "\<exists>A'. (if err = None then directory_step op A A' else A' = A) \<and> represents (ad_users D) t' A' \<and>
    (\<forall>i a now. dr_accounts A' i = Some a \<longrightarrow>
       (\<exists>u. checkUsernameAndPassword D now (ac_Name a) (ac_Password a) t' = Inr u \<and> ID u = i \<and>
          AccessLevel u = ac_Level a)) \<and>
    (\<forall>now name pw u. checkUsernameAndPassword D now name pw t' = Inr u \<longrightarrow>
       (\<exists>a. dr_accounts A' (ID u) = Some a \<and> ac_Name a = name \<and> ac_Level a = AccessLevel u))"
proof -
  note ok = auth_deps_upD(1) [OF D]
  note D' = auth_deps_okD(1) [OF ok]
  have "\<exists>A'. (if err = None then directory_step op A A' else A' = A) \<and> represents (ad_users D) t' A'"
  proof (cases err)
    case None
    with user_op_refines [OF D' inv rep, of op] run show ?thesis by simp
  next
    case (Some e)
    with user_op_error [of "ad_users D" op t e t'] run rep show ?thesis by simp
  qed
  then obtain A' where "if err = None then directory_step op A A' else A' = A" "represents (ad_users D) t' A'" by blast
  moreover have "users_inv (ad_users D) t'" using user_ops.op_inv [OF D' inv, of op] run by simp
  ultimately show ?thesis using account_login [OF D] login_account [OF ok] by blast
qed

theorem users_refine_directory_witness:
  "\<exists>t' A'. run_user_op demo_deps (DeleteUserOp 9 1) demo_table = (None, t') \<and>
     directory_step (DeleteUserOp 9 1) demo_directory A' \<and> represents demo_deps t' A'"
proof -
  have users: "ad_users demo_auth = demo_deps" by (simp add: demo_auth_def)
  have "fst (run_user_op demo_deps (DeleteUserOp 9 1) demo_table) = None" by code_simp
  then obtain t' where t': "run_user_op demo_deps (DeleteUserOp 9 1) demo_table = (None, t')" by (metis prod.collapse)
  from users_refine_directory [OF demo_auth_up, unfolded users, OF demo_table_inv demo_directory_represented t'] t'
  show ?thesis by auto
qed

end
