(* ===== verification/System.thy ===== *)
theory System
  imports Serve Serving SchedulerProps
begin

text \<open>
  The running program as a transition system: requests, the scheduler, the three queue workers, the
  command line tools and crashes, in any order, on one database.  A step is one of the two parts of a
  request (the middlewares, the handler), the scheduler's check of one task, one command, or one of the
  three parts of a worker's turn (taking a task, the run of its handler, completing or giving back the
  task), so that anything may happen between the check of a request and its handler, and between taking
  a task, handling it and completing it.  A handler's own database operations are not interleaved with
  those of other steps.
\<close>

section \<open>States and steps\<close>

text \<open>
  \<open>sy_busy\<close> says of each queue's worker which task it holds, and the handler's result once the handler
  has run.  \<open>sy_requests\<close> are the requests that have passed the middlewares and whose handlers have not run
  yet: the handler, and the context with the account that was read.
\<close>

record 'o system =
  sy_store :: "'o store"
  sy_sched :: "ScheduledTaskState list"
  sy_busy :: "string \<Rightarrow> (QueueTask \<times> go_error option option) option"
  sy_requests :: "('o web_handler \<times> req_context \<times> request) list"

text \<open>
  \<open>request\<close> is a request from its beginning to its end, for requests that are refused and for those that
  nothing comes between.  The others are two steps: \<open>admit\<close> is what the middlewares do before the
  handler, \<open>answer\<close> the run of the handler, on the database as it is then.
\<close>

inductive system_step ::
  "'o web_deps \<Rightarrow> ScheduledTaskState gorm \<Rightarrow> 'o system \<Rightarrow> 'o system \<Rightarrow> bool" for W g where
  request: "(pattern, h) \<in> set (sv_mux (NewWebserver W port)) \<Longrightarrow>
    h ctx r (sy_store s, w) = (out, (d', w')) \<Longrightarrow>
    system_step W g s (s\<lparr>sy_store := d'\<rparr>)"
| admit: "(pattern, h, c) \<in> set (web_routes W) \<Longrightarrow> 1 \<le> required_level c \<Longrightarrow>
    find AuthenticationMiddleware_Match c = cfg \<Longrightarrow>
    authenticated (ap_auth (wb_app W)) cfg ctx r (sy_store s) = Some u \<Longrightarrow> required_level c \<le> AccessLevel u \<Longrightarrow>
    system_step W g s (s\<lparr>sy_store := before_handler (ap_auth (wb_app W)) cfg ctx r (sy_store s),
      sy_requests := (h, CtxWithUser ctx u, r) # sy_requests s\<rparr>)"
| admit_open: "(pattern, h, [skipAuth, requireNone]) \<in> set (web_routes W) \<Longrightarrow>
    system_step W g s (s\<lparr>sy_requests := (h, ctx, r) # sy_requests s\<rparr>)"
| answer: "(pattern, h, c) \<in> set (web_routes W) \<Longrightarrow> sy_requests s = xs @ (h, ctx, r) # ys \<Longrightarrow>
    h ctx r (sy_store s, w) = (out, (d', w')) \<Longrightarrow>
    system_step W g s (s\<lparr>sy_store := d', sy_requests := xs @ ys\<rparr>)"
| command: "de_users (cl_db E) = wb_users W \<Longrightarrow> command_on E c (users_t (sy_store s)) = (out, t') \<Longrightarrow>
    system_step W g s (s\<lparr>sy_store := (sy_store s)\<lparr>users_t := t'\<rparr>\<rparr>)"
| set_up: "setupState (serve_scheduler g W) cl serve_tasks (sy_sched s) = (err, t') \<Longrightarrow>
    system_step W g s (s\<lparr>sy_sched := t'\<rparr>)"
| tick: "td \<in> set serve_tasks \<Longrightarrow>
    processTask (serve_scheduler g W) cl td (sy_sched s, queue_t (sy_store s)) = (t', q') \<Longrightarrow>
    system_step W g s (s\<lparr>sy_sched := t', sy_store := (sy_store s)\<lparr>queue_t := q'\<rparr>\<rparr>)"
| take_task: "name \<in> set serve_queues \<Longrightarrow> sy_busy s name = None \<Longrightarrow>
    PopQueueTask (ap_queue (wb_app W)) cl name (queue_t (sy_store s)) = (Inr qt, t') \<Longrightarrow>
    system_step W g s (s\<lparr>sy_store := (sy_store s)\<lparr>queue_t := t'\<rparr>, sy_busy := (sy_busy s)(name := Some (qt, None))\<rparr>)"
| handle: "sy_busy s name = Some (qt, None) \<Longrightarrow>
    serve_handler W name cls (Data qt) (sy_store s) = (err, d') \<Longrightarrow>
    system_step W g s (s\<lparr>sy_store := d', sy_busy := (sy_busy s)(name := Some (qt, Some err))\<rparr>)"
| give_back: "sy_busy s name = Some (qt, Some (Some e)) \<Longrightarrow>
    returnQueueTask (ap_queue (wb_app W)) cl qt (queue_t (sy_store s)) = (err, t') \<Longrightarrow>
    system_step W g s (s\<lparr>sy_store := (sy_store s)\<lparr>queue_t := t'\<rparr>, sy_busy := (sy_busy s)(name := None)\<rparr>)"
| complete: "sy_busy s name = Some (qt, Some None) \<Longrightarrow>
    completeQueueTask (ap_queue (wb_app W)) now qt (queue_t (sy_store s)) = (err, t') \<Longrightarrow>
    system_step W g s (s\<lparr>sy_store := (sy_store s)\<lparr>queue_t := t'\<rparr>, sy_busy := (sy_busy s)(name := None)\<rparr>)"
| crash: "system_step W g s (s\<lparr>sy_busy := (\<lambda>_. None), sy_requests := []\<rparr>)"

text \<open>Serving a request as it comes in is such a step, or changes nothing.\<close>

lemma served_request_step:
  assumes "server_Handler (NewWebserver W port) ctx q (sy_store s, w) = (out, (d', w'))"
  shows "system_step W g s (s\<lparr>sy_store := d'\<rparr>) \<or> d' = sy_store s"
  using assms
proof (cases rule: server_Handler_state)
  case (route pattern h p ms)
  then show ?thesis by (metis prod.collapse system_step.request)
qed simp

inductive_cases system_stepE: "system_step W g s s'"

text \<open>The program as it starts: on a database as it was left, or on empty tables, with idle workers.\<close>

definition started :: "'o store \<Rightarrow> ScheduledTaskState list \<Rightarrow> 'o system" where
  "started d t = \<lparr>sy_store = d, sy_sched = t, sy_busy = (\<lambda>_. None), sy_requests = []\<rparr>"

definition empty_store :: "'o \<Rightarrow> 'o store" where
  "empty_store ob = \<lparr>users_t = [], sessions_t = [], podcasts_t = [], episodes_t = [], queue_t = [], objects_t = ob\<rparr>"

text \<open>The parts of a worker's turn are those of the worker's loop.\<close>

lemma worker_turn_parts:
  "worker_turn D name h cl (t, d) =
     (case PopQueueTask D (cl 0) name t of
        (Inl err, t1) \<Rightarrow> (Slept, (t1, d))
      | (Inr qt, t1) \<Rightarrow>
          (case h (cl 1) (Data qt) (t1, d) of
             (err, (t2, d2)) \<Rightarrow>
               ((if err = None then Completed qt else Returned qt),
                ((if err = None then snd (completeQueueTask D (cl 2 0) qt t2)
                  else snd (returnQueueTask D (cl 2) qt t2)), d2))))"
  by (auto simp: worker_turn_def split: prod.split sum.split option.split)

section \<open>What is relied on\<close>

definition system_ok :: "'o web_deps \<Rightarrow> ScheduledTaskState gorm \<Rightarrow> bool" where
  "system_ok W g \<longleftrightarrow> app_ok (wb_app W) \<and> auth_deps_ok (ap_auth (wb_app W)) \<and> gorm_table sched_schema g"

lemma system_okD:
  assumes "system_ok W g"
  shows "app_ok (wb_app W)" "auth_deps_ok (ap_auth (wb_app W))" "queue_deps_ok (ap_queue (wb_app W))"
    "pod_deps_ok (wb_pods W)" "user_deps_ok (wb_users W)" "sched_deps_ok (serve_scheduler g W)"
  using assms auth_deps_okD(1) queue_deps_okD(2)
  by (auto simp: system_ok_def app_ok_def sched_deps_ok_def serve_scheduler_def)

section \<open>The queue only grows by tasks pushed\<close>

definition push_one :: "queue_deps \<Rightarrow> QueueTask list \<Rightarrow> QueueTask list \<Rightarrow> bool" where
  "push_one D t t' \<longleftrightarrow> (\<exists>cl name payload. PushQueueTask D cl name payload t = (None, t'))"

abbreviation pushes :: "queue_deps \<Rightarrow> QueueTask list \<Rightarrow> QueueTask list \<Rightarrow> bool" where
  "pushes D \<equiv> (push_one D)\<^sup>*\<^sup>*"

lemma push_pushes: "PushQueueTask D cl name payload t = (err, t') \<Longrightarrow> pushes D t t'"
proof (cases err)
  case None
  assume "PushQueueTask D cl name payload t = (err, t')"
  with None have "push_one D t t'" unfolding push_one_def by blast
  then show ?thesis by (rule r_into_rtranclp)
qed (auto dest: PushQueueTask_error)

lemma pushes_steps:
  assumes "pushes D t t'" "qs_tasks q = t"
  shows "(queue_step D)\<^sup>*\<^sup>* q (q\<lparr>qs_tasks := t'\<rparr>)"
  using assms
proof (induction rule: rtranclp_induct)
  case base
  then have "q\<lparr>qs_tasks := t\<rparr> = q" by simp
  then show ?case by simp
next
  case (step t1 t2)
  from step.hyps(2) obtain cl name payload where "PushQueueTask D cl name payload t1 = (None, t2)"
    by (auto simp: push_one_def)
  then have "queue_step D (q\<lparr>qs_tasks := t1\<rparr>) (q\<lparr>qs_tasks := t1\<rparr>\<lparr>qs_tasks := t2\<rparr>)"
    by (intro queue_step.push) simp
  with step show ?case by (simp add: rtranclp.rtrancl_into_rtrancl)
qed

lemma new_episode_pushes:
  "new_episode_closure A cl ep s = (None, s') \<Longrightarrow> pushes (ap_queue A) (queue_t s) (queue_t s')"
  by (auto simp: new_episode_closure_def dest: push_pushes split: sum.splits prod.splits option.splits)

lemma episode_loop_pushes:
  "episode_loop A cl existing eps s = (err, s') \<Longrightarrow> pushes (ap_queue A) (queue_t s) (queue_t s')"
proof (induction eps arbitrary: cl s)
  case (Cons ep eps)
  let ?ep = "ep\<lparr>e_Status := EpisodeStatusPending\<rparr>"
  obtain e1 s1 where t: "Transaction (qd_tx (ap_queue A)) cl (new_episode_closure A cl ?ep) s = (e1, s1)" by fastforce
  show ?case
  proof (cases "list_ex (\<lambda>exEp. e_GUID exEp = e_GUID ep) existing")
    case True
    with Cons show ?thesis by (simp add: Let_def)
  next
    case False
    show ?thesis
    proof (cases e1)
      case None
      with Cons.prems False t have "episode_loop A (nth_call cl 10) existing eps s1 = (err, s')" by (simp add: Let_def)
      from new_episode_pushes [OF Transaction_ok [OF t [unfolded None]]] Cons.IH [OF this] show ?thesis by simp
    next
      case (Some e)
      with Cons.prems False t Transaction_error [OF t [unfolded Some]] show ?thesis by (simp add: Let_def)
    qed
  qed
qed simp

lemma processPodcast_pushes:
  assumes "processPodcast A cl pod s = (err, s')"
  shows "pushes (ap_queue A) (queue_t s) (queue_t s')"
  using assms
  by (auto simp: processPodcast_def Let_def dest: episode_loop_pushes split: sum.splits prod.splits option.splits)

lemma feed_loop_pushes:
  "feed_loop A cls n pods s = (errs, s') \<Longrightarrow> pushes (ap_queue A) (queue_t s) (queue_t s')"
proof (induction pods arbitrary: n s s' errs)
  case (Cons pod pods)
  show ?case
  proof (cases "recently_checked (cls n 0) pod")
    case True
    with Cons show ?thesis by simp
  next
    case False
    obtain e1 s1 where p: "processPodcast A (nth_call (cls n) 1) pod s = (e1, s1)" by fastforce
    obtain errs1 s2 where l: "feed_loop A cls (Suc n) pods s1 = (errs1, s2)" by fastforce
    from Cons.prems False p l have "s' = s2" by (auto split: option.splits)
    with processPodcast_pushes [OF p] Cons.IH [OF l] show ?thesis by simp
  qed
qed simp

lemma DownloadWorker_queue: "DownloadWorkerQueueHandler A cl payload s = (err, s') \<Longrightarrow> queue_t s' = queue_t s"
  by (auto simp: DownloadWorkerQueueHandler_def Let_def split: json.splits sum.splits prod.splits option.splits)

lemma serve_handler_pushes:
  assumes "serve_handler W name cls payload d = (err, d')"
  shows "pushes (ap_queue (wb_app W)) (queue_t d) (queue_t d')"
  using assms
  by (auto simp: serve_handler_def FeedWorkerQueueHandler_def DownloadWorker_queue dest: feed_loop_pushes
      split: if_splits prod.splits sum.splits)

lemma processTask_pushes:
  assumes "processTask D cl td (t, q) = (t', q')"
  shows "pushes (sd_queue D) q q'"
proof -
  obtain e s where Pair: "Transaction (sd_tx D) cl (process_closure D cl td) (t, q) = (e, s)" by (metis surj_pair)
  show ?thesis
  proof (cases e)
    case None
    from Transaction_ok [OF Pair [unfolded None]] have "process_closure D cl td (t, q) = (None, (t', q'))"
      using assms Pair by (simp add: processTask_def)
    then show ?thesis
      by (auto simp: process_closure_def dest: push_pushes split: sum.splits prod.splits option.splits if_splits)
  next
    case (Some err)
    with Pair Transaction_error [OF Pair [unfolded Some]] assms show ?thesis by (simp add: processTask_def)
  qed
qed

section \<open>The queue of the system is the queue of the queue's own model\<close>

definition queue_part :: "'o system \<Rightarrow> queue_system \<Rightarrow> bool" where
  "queue_part s q \<longleftrightarrow> qs_tasks q = queue_t (sy_store s) \<and> qs_busy q = (\<lambda>n. map_option fst (sy_busy s n))"

text \<open>What a handler did to the database, for whichever account the context carries.\<close>

lemma handler_effect:
  assumes route: "(pattern, h, c) \<in> set (web_routes W)" and run: "h ctx r (d, w) = (out, (d', w'))"
  obtains (sessions) "session_change (ap_auth (wb_app W)) d d'"
  | (read) "own_password_change W ctx d d'"
  | (manage) "(pattern, h, c) \<in> set (manage_routes W)"
  | (admin) "admin_change W ctx d d'"
proof -
  have d': "fst (snd (h ctx r (d, w))) = d'" using run by simp
  from route consider "(pattern, h, c) \<in> set (session_routes W)" | "(pattern, h, c) \<in> set (read_routes W)"
    | "(pattern, h, c) \<in> set (manage_routes W)" | "(pattern, h, c) \<in> set (admin_routes W)"
    by (auto simp: web_routes_def)
  then show thesis
  proof cases
    case 1
    from session_routes_frame [OF 1, of d ctx r w] show thesis unfolding d' by (rule sessions)
  next
    case 2
    from read_routes_frame [OF 2, of ctx r d w] show thesis unfolding d' by (metis sessions read session_change_refl)
  next
    case 3
    then show thesis by (rule manage)
  next
    case 4
    from admin_routes_frame [OF 4, of ctx r d w] show thesis unfolding d' by (metis sessions admin session_change_refl)
  qed
qed

text \<open>What a request does to episodes and tasks: it pushes tasks, or requeues one episode.\<close>

inductive queue_change :: "'o web_deps \<Rightarrow> 'o store \<Rightarrow> 'o store \<Rightarrow> bool" for W d d' where
  pushed: "episodes_t d' = episodes_t d \<Longrightarrow> pushes (ap_queue (wb_app W)) (queue_t d) (queue_t d') \<Longrightarrow>
    queue_change W d d'"
| requeued: "ep \<in> set (episodes_t d) \<Longrightarrow> e_DeletedAt ep = None \<Longrightarrow>
    QueueName q = DownloadWorkerQueueName \<Longrightarrow> Data q = JString (e_GUID ep) \<Longrightarrow> DeletedAt q = None \<Longrightarrow>
    PushQueueTask (ap_queue (wb_app W)) cl DownloadWorkerQueueName (JString (e_GUID ep)) (queue_t d) = (None, queue_t d') \<Longrightarrow>
    queue_t d' = queue_t d @ [q] \<Longrightarrow>
    episodes_t d' = upd_where (\<lambda>y. e_GUID y = e_GUID ep \<and> e_DeletedAt y = None)
      (set_status now EpisodeStatusPending None) (episodes_t d) \<Longrightarrow> queue_change W d d'"

lemma queue_change_idle: "episodes_t d' = episodes_t d \<Longrightarrow> queue_t d' = queue_t d \<Longrightarrow> queue_change W d d'"
  by (simp add: queue_change.pushed)

lemma queue_change_sessions: "session_change D d d' \<Longrightarrow> queue_change W d d'"
  by (auto dest: sessions_only intro: queue_change_idle)

lemma queue_change_from:
  "queue_change W d0 d' \<Longrightarrow> session_change D d d0 \<Longrightarrow> queue_change W d d'"
  by (erule queue_change.cases) (auto simp: session_change_def intro: queue_change.intros)

lemma manage_queue:
  assumes W: "app_ok (wb_app W)" and route: "(pattern, h, c) \<in> set (manage_routes W)"
    and run: "h ctx r (d, w) = (out, (d', w'))"
  shows "queue_change W d d'"
proof -
  have d': "fst (snd (h ctx r (d, w))) = d'" using run by simp
  from route consider "h = SearchPodcastsHandler" | "h = SearchResultsHandler W" | "h = AddPodcastHandler W"
    | "h = RequeueDownloadHandler W" by (auto simp: manage_routes_def)
  then show ?thesis
  proof cases
    case 3
    have "episodes_t d' = episodes_t d"
      using arg_cong [OF AddPodcastHandler_frame [where W = W and ctx = ctx and r = r and d = d and w = w], of episodes_t] d' 3
      by simp
    moreover have "pushes (ap_queue (wb_app W)) (queue_t d) (queue_t d')"
      using AddPodcastHandler_queue [where W = W and ctx = ctx and r = r and d = d and w = w] d' 3
      by (metis prod.collapse push_pushes rtranclp.rtrancl_refl)
    ultimately show ?thesis by (rule queue_change.pushed)
  next
    case 4
    from RequeueDownloadHandler_effect [OF W run [unfolded 4]] show ?thesis
    proof (elim disjE exE conjE)
      fix ep q cl
      assume "ep \<in> set (episodes_t d)" "e_DeletedAt ep = None" "QueueName q = DownloadWorkerQueueName"
        "Data q = JString (e_GUID ep)" "DeletedAt q = None"
        "PushQueueTask (ap_queue (wb_app W)) cl DownloadWorkerQueueName (JString (e_GUID ep)) (queue_t d) = (None, queue_t d')"
        "d' = d\<lparr>queue_t := queue_t d @ [q], episodes_t := upd_where (\<lambda>y. e_GUID y = e_GUID ep \<and> e_DeletedAt y = None)
          (set_status (call_clock ctx 11 1) EpisodeStatusPending None) (episodes_t d)\<rparr>"
      then show ?thesis by (intro queue_change.requeued [of ep d q W cl]) simp_all
    qed (simp add: queue_change_idle)
  qed (use d' queue_change_idle [of d' d] in simp_all)
qed

lemma handler_queue:
  assumes W: "app_ok (wb_app W)" and route: "(pattern, h, c) \<in> set (web_routes W)"
    and run: "h ctx r (d, w) = (out, (d', w'))"
  shows "queue_change W d d'"
  using route run
proof (cases rule: handler_effect)
  case sessions
  then show ?thesis by (rule queue_change_sessions)
next
  case manage
  from manage_queue [OF W this run] show ?thesis .
qed (auto simp: own_password_change_def admin_change_def intro: queue_change_idle)

lemma request_queue:
  assumes W: "app_ok (wb_app W)"
    and req: "(pattern, h) \<in> set (sv_mux (NewWebserver W port))" "h ctx r (d, w) = (out, (d', w'))"
  shows "queue_change W d d'"
  using req
proof (cases rule: server_request)
  case sessions
  then show ?thesis by (rule queue_change_sessions)
next
  case (manage u p h0 c d0 w0)
  obtain o1 d1 w1 where run: "h0 (CtxWithUser ctx u) r (d0, w0) = (o1, (d1, w1))" by (metis surj_pair)
  with manage(6) have "d' = d1" by simp
  with queue_change_from [OF manage_queue [OF W manage(5) run] manage(4)] show ?thesis by simp
next
  case (read cfg u d0)
  from read(5) have "queue_change W d0 d'" by (auto simp: own_password_change_def intro: queue_change_idle)
  from queue_change_from [OF this read(4)] show ?thesis .
next
  case (admin u d0)
  from admin(4) have "queue_change W d0 d'" by (auto simp: admin_change_def intro: queue_change_idle)
  from queue_change_from [OF this admin(3)] show ?thesis .
qed

lemma system_step_queue:
  assumes W: "system_ok W g" and step: "system_step W g s s'" and q: "queue_part s q"
  shows "\<exists>q'. (queue_step (ap_queue (wb_app W)))\<^sup>*\<^sup>* q q' \<and> queue_part s' q'"
proof -
  let ?D = "ap_queue (wb_app W)"
  have tasks: "qs_tasks q = queue_t (sy_store s)" and busy: "qs_busy q = (\<lambda>n. map_option fst (sy_busy s n))"
    using q by (simp_all add: queue_part_def)
  have grown: "\<exists>q'. (queue_step ?D)\<^sup>*\<^sup>* q q' \<and> queue_part s' q'"
    if "pushes ?D (queue_t (sy_store s)) (queue_t (sy_store s'))" "map_option fst \<circ> sy_busy s' = map_option fst \<circ> sy_busy s"
    using pushes_steps [OF that(1) tasks] that(2) busy
    by (intro exI [of _ "q\<lparr>qs_tasks := queue_t (sy_store s')\<rparr>"]) (simp add: queue_part_def comp_def)
  have changed: "\<exists>q'. (queue_step ?D)\<^sup>*\<^sup>* q q' \<and> queue_part s' q'"
    if "queue_change W (sy_store s) d'" "sy_store s' = d'" "sy_busy s' = sy_busy s" for d'
    using that(1) by (cases rule: queue_change.cases) (auto intro!: grown simp: that(2,3) intro: push_pushes)
  have one: "\<exists>q'. (queue_step ?D)\<^sup>*\<^sup>* q q' \<and> queue_part s' q'" if "queue_step ?D q q1" "queue_part s' q1" for q1
    using that by blast
  show ?thesis using step
  proof cases
    case (request pattern h port ctx r w out d' w')
    from changed [OF request_queue [OF system_okD(1) [OF W] request(2,3)]] show ?thesis by (simp add: request(1))
  next
    case (admit pattern h c cfg ctx r u)
    from changed [OF queue_change_sessions [OF before_frame]] show ?thesis by (simp add: admit(1))
  next
    case (admit_open pattern h ctx r)
    show ?thesis by (rule grown) (simp_all add: admit_open(1))
  next
    case (answer pattern h c xs ctx r ys w out d' w')
    from changed [OF handler_queue [OF system_okD(1) [OF W] answer(2,4)]] show ?thesis by (simp add: answer(1))
  next
    case (command E c out t')
    show ?thesis by (rule grown) (simp_all add: command(1))
  next
    case (set_up cl err t')
    show ?thesis by (rule grown) (simp_all add: set_up(1))
  next
    case (tick td cl t' q')
    from processTask_pushes [OF tick(3)] show ?thesis
      by (intro grown) (simp_all add: tick(1) serve_scheduler_def)
  next
    case (take_task name cl qt t')
    have "queue_step ?D q (q\<lparr>qs_tasks := t', qs_busy := (qs_busy q)(name := Some qt),
        qs_delivered := (qs_delivered q)(ID qt := qs_delivered q (ID qt) + 1)\<rparr>)"
      by (rule queue_step.take [where cl = cl]) (simp_all add: busy take_task tasks)
    then show ?thesis by (rule one) (simp add: queue_part_def take_task(1) busy fun_eq_iff)
  next
    case (handle name qt cls err d')
    from serve_handler_pushes [OF handle(3)] show ?thesis
      by (intro grown) (auto simp: handle(1,2))
  next
    case (give_back name qt e cl err t')
    have "queue_step ?D q (q\<lparr>qs_tasks := t', qs_busy := (qs_busy q)(name := None)\<rparr>)"
    proof (rule queue_step.give_back)
      show "qs_busy q name = Some qt" by (simp add: busy give_back(2))
      show "returnQueueTask ?D cl qt (qs_tasks q) = (err, t')" unfolding tasks by (rule give_back(3))
    qed
    then show ?thesis by (rule one) (simp add: queue_part_def give_back(1) busy fun_eq_iff)
  next
    case (complete name qt now err t')
    have "queue_step ?D q (q\<lparr>qs_tasks := t', qs_busy := (qs_busy q)(name := None),
        qs_done := (if err = None then insert (ID qt) (qs_done q) else qs_done q)\<rparr>)"
      by (rule queue_step.complete [where now = now and err = err]) (simp_all add: busy complete tasks)
    then show ?thesis by (rule one) (simp add: queue_part_def complete(1) busy fun_eq_iff)
  next
    case crash
    have "queue_step ?D q (q\<lparr>qs_busy := (\<lambda>_. None)\<rparr>)" by (rule queue_step.crash)
    then show ?thesis by (rule one) (simp add: queue_part_def crash tasks fun_eq_iff)
  qed
qed

text \<open>The queue's own model, started on a table: the deliveries so far are those the rows count.\<close>

definition queue_of :: "QueueTask list \<Rightarrow> queue_system" where
  "queue_of t = \<lparr>qs_tasks = t, qs_busy = (\<lambda>_. None),
     qs_delivered = (\<lambda>i. case find (\<lambda>q. ID q = i) t of None \<Rightarrow> 0 | Some q \<Rightarrow> ReceiveCount q), qs_done = {}\<rparr>"

lemma queue_of_inv:
  assumes "tasks_inv t" "\<forall>q \<in> set t. ReceiveCount q \<le> 6"
  shows "system_inv (queue_of t)"
proof -
  have "qs_delivered (queue_of t) (ID q) = ReceiveCount q" if "q \<in> set t" for q
  proof (cases "find (\<lambda>r. ID r = ID q) t")
    case None
    with that show ?thesis by (auto simp: find_None_iff)
  next
    case (Some r)
    then have "r \<in> set t" "ID r = ID q" by (auto simp: find_Some_iff)
    with that assms(1) have "r = q" unfolding tasks_inv_def by (metis distinct_key_eq)
    with Some show ?thesis by (simp add: queue_of_def)
  qed
  moreover have "qs_delivered (queue_of t) i = 0" if "i \<notin> ID ` set t" for i
  proof -
    have "find (\<lambda>q. ID q = i) t = None" using that by (auto simp: find_None_iff)
    then show ?thesis by (simp add: queue_of_def)
  qed
  ultimately show ?thesis using assms by (simp add: system_inv_def counted_def queue_of_def)
qed

lemma started_queue: "queue_part (started d t) (queue_of (queue_t d))"
  by (simp add: queue_part_def started_def queue_of_def)

lemma system_steps_queue:
  assumes W: "system_ok W g" and reach: "(system_step W g)\<^sup>*\<^sup>* s s'" and q: "queue_part s q"
  shows "\<exists>q'. (queue_step (ap_queue (wb_app W)))\<^sup>*\<^sup>* q q' \<and> queue_part s' q'"
  using reach
proof (induction rule: rtranclp_induct)
  case base
  then show ?case using q by blast
next
  case (step s1 s2)
  then show ?case using system_step_queue [OF W step.hyps(2)] by (meson rtranclp_trans)
qed

lemma system_inv_steps:
  "(queue_step D)\<^sup>*\<^sup>* q q' \<Longrightarrow> queue_deps_ok D \<Longrightarrow> system_inv q \<Longrightarrow> system_inv q'"
  by (induction rule: rtranclp_induct) (auto intro: system_inv_step)

end
