(* ===== verification/SystemFacts.thy ===== *)
theory SystemFacts
  imports System
begin

text \<open>
  The invariants of the running program and that every step keeps them: the tables are well formed,
  a worker's task is still in the table, and every pending episode has a download task.
\<close>

section \<open>The queue\<close>

definition queue_sane :: "'o system \<Rightarrow> bool" where
  "queue_sane s \<longleftrightarrow> tasks_inv (queue_t (sy_store s)) \<and>
     (\<forall>name qt ph. sy_busy s name = Some (qt, ph) \<longrightarrow> (\<exists>q \<in> set (queue_t (sy_store s)). held qt name q))"

lemma queue_part_sane:
  assumes "queue_part s q" "system_inv q"
  shows "queue_sane s"
proof -
  have "\<exists>r \<in> set (queue_t (sy_store s)). held qt name r" if "sy_busy s name = Some (qt, ph)" for name qt ph
  proof -
    have "qs_busy q name = Some qt" using assms(1) that by (simp add: queue_part_def)
    with assms show ?thesis by (auto simp: system_inv_def queue_part_def)
  qed
  with assms show ?thesis by (simp add: queue_sane_def queue_part_def system_inv_def)
qed

lemma pushes_extend:
  assumes "queue_deps_ok D" "pushes D t t'"
  shows "\<exists>ts. t' = t @ ts"
  using assms(2)
proof (induction rule: rtranclp_induct)
  case (step t1 t2)
  from step.hyps(2) obtain cl name payload where p: "PushQueueTask D cl name payload t1 = (None, t2)"
    by (auto simp: push_one_def)
  from PushQueueTask_ok [OF assms(1) p] step.IH show ?case by (metis append.assoc)
qed simp

section \<open>Pending episodes\<close>

definition is_pending :: "Episode \<Rightarrow> bool" where
  "is_pending e \<longleftrightarrow> e_DeletedAt e = None \<and> e_Status e = EpisodeStatusPending"

definition download_task :: "string \<Rightarrow> QueueTask \<Rightarrow> bool" where
  "download_task guid q \<longleftrightarrow> DeletedAt q = None \<and> QueueName q = DownloadWorkerQueueName \<and> Data q = JString guid"

text \<open>The task that the download worker is about to complete does not count.\<close>

definition done_task :: "'o system \<Rightarrow> QueueTask \<Rightarrow> bool" where
  "done_task s q \<longleftrightarrow> (\<exists>qt. sy_busy s DownloadWorkerQueueName = Some (qt, Some None) \<and> ID q = ID qt)"

definition covered :: "'o system \<Rightarrow> string \<Rightarrow> bool" where
  "covered s guid \<longleftrightarrow> (\<exists>q \<in> set (queue_t (sy_store s)). download_task guid q \<and> \<not> done_task s q)"

definition all_covered :: "'o system \<Rightarrow> bool" where
  "all_covered s \<longleftrightarrow> (\<forall>e \<in> set (episodes_t (sy_store s)). is_pending e \<longrightarrow> covered s (e_GUID e))"

lemma done_task_busy:
  "sy_busy s' DownloadWorkerQueueName = sy_busy s DownloadWorkerQueueName \<Longrightarrow> done_task s' q = done_task s q"
  by (simp add: done_task_def)

lemma covered_more:
  assumes "covered s guid" "set (queue_t (sy_store s)) \<subseteq> set (queue_t (sy_store s'))"
    "\<And>q. done_task s' q \<Longrightarrow> done_task s q"
  shows "covered s' guid"
  using assms unfolding covered_def by blast

text \<open>A row is replaced by one with the same key, queue and payload.\<close>

lemma covered_replace:
  assumes c: "covered s guid" and t: "queue_t (sy_store s') = upd_where (\<lambda>y. ID y = i) (\<lambda>_. q') (queue_t (sy_store s))"
    and old: "tasks_inv (queue_t (sy_store s))" "q \<in> set (queue_t (sy_store s))" "ID q = i"
    and same: "ID q' = i" "QueueName q' = QueueName q" "Data q' = Data q" "DeletedAt q' = None"
    and done': "\<And>q. done_task s' q \<Longrightarrow> done_task s q"
  shows "covered s' guid"
proof -
  from c obtain r where r: "r \<in> set (queue_t (sy_store s))" "download_task guid r" "\<not> done_task s r"
    by (auto simp: covered_def)
  show ?thesis
  proof (cases "ID r = i")
    case True
    with old r(1) have "r = q" unfolding tasks_inv_def by (metis distinct_key_eq)
    with r same True have "download_task guid q'" "\<not> done_task s q'" by (auto simp: download_task_def done_task_def)
    moreover have "q' \<in> set (queue_t (sy_store s'))" using old(2,3) unfolding t by (auto simp: set_upd_where)
    ultimately show ?thesis using done' unfolding covered_def by blast
  next
    case False
    with r(1) have "r \<in> set (queue_t (sy_store s'))" unfolding t by (auto simp: set_upd_where)
    with r(2,3) done' show ?thesis unfolding covered_def by blast
  qed
qed

text \<open>A task with a new key is not the one the download worker has.\<close>

lemma fresh_not_done:
  assumes "queue_sane s" "\<And>x. x \<in> set (queue_t (sy_store s)) \<Longrightarrow> ID x \<noteq> ID q"
  shows "\<not> done_task s q"
proof
  assume "done_task s q"
  then obtain qt where qt: "sy_busy s DownloadWorkerQueueName = Some (qt, Some None)" "ID q = ID qt"
    by (auto simp: done_task_def)
  with assms(1) obtain r where "r \<in> set (queue_t (sy_store s))" "held qt DownloadWorkerQueueName r"
    by (auto simp: queue_sane_def)
  with assms(2) [of r] qt(2) show False by (simp add: held_def)
qed

lemma extended_fresh:
  assumes "tasks_inv (t @ ts)" "q \<in> set ts" "x \<in> set t"
  shows "ID x \<noteq> ID q"
  using assms by (auto simp: tasks_inv_def)

text \<open>An update of an episode to another status leaves only other episodes pending.\<close>

lemma pending_after_status:
  assumes "e \<in> set (upd_where (\<lambda>y. e_GUID y = guid \<and> e_DeletedAt y = None) (set_status now st n) t)" "is_pending e"
    "st \<noteq> EpisodeStatusPending"
  shows "e \<in> set t \<and> e_GUID e \<noteq> guid"
  using assms by (auto simp: set_upd_where is_pending_def set_status_def)

text \<open>What a run of the download worker leaves pending was pending, and is not the episode of a success.\<close>

lemma download_pending:
  assumes A: "app_ok A" and inv: "episodes_inv (ap_pods A) (episodes_t d)"
    and run: "DownloadWorkerQueueHandler A cl payload d = (err, d')"
    and e: "e \<in> set (episodes_t d')" "is_pending e"
  shows "e \<in> set (episodes_t d)" "err = None \<Longrightarrow> payload \<noteq> JString (e_GUID e)"
proof -
  have "e \<in> set (episodes_t d) \<and> (err = None \<longrightarrow> payload \<noteq> JString (e_GUID e))"
    using A inv run
  proof (cases rule: DownloadWorker_run)
    case 1
    with e(1) show ?thesis by auto
  next
    case (2 guid row ext creds res)
    show ?thesis
    proof (cases res)
      case (Inl x)
      with 2(10) e(1) have "err \<noteq> None \<and> (e \<in> set (episodes_t d) \<or> e \<in> set (upd_where
        (\<lambda>y. e_GUID y = guid \<and> e_DeletedAt y = None) (set_status (cl 2) EpisodeStatusFailed None) (episodes_t d)))"
        by auto
      with pending_after_status [OF _ e(2)] show ?thesis by blast
    next
      case (Inr n)
      show ?thesis
      proof (cases err)
        case None
        with Inr 2(10) e(1) have "e \<in> set (upd_where (\<lambda>y. e_GUID y = guid \<and> e_DeletedAt y = None)
          (set_status (cl 3) EpisodeStatusSuccess (Some n)) (episodes_t d))" by simp
        from pending_after_status [OF this e(2)] 2(1) show ?thesis by auto
      next
        case (Some x)
        with Inr 2(10) e(1) show ?thesis by simp
      qed
    qed
  qed
  then show "e \<in> set (episodes_t d)" "err = None \<Longrightarrow> payload \<noteq> JString (e_GUID e)" by auto
qed

lemma feed_covered:
  assumes A: "app_ok (wb_app W)" and run: "FeedWorkerQueueHandler (wb_app W) cls payload d = (err, d')"
    and e: "e \<in> set (episodes_t d')" "e \<notin> set (episodes_t d)"
  obtains ts q where "queue_t d' = queue_t d @ ts" "q \<in> set ts" "download_task (e_GUID e) q"
proof -
  from FeedWorker_growth [OF A run] obtain new ts where g: "episodes_t d' = episodes_t d @ new"
    "queue_t d' = queue_t d @ ts" "map Data ts = map (\<lambda>e. JString (e_GUID e)) new"
    "\<forall>q \<in> set ts. QueueName q = DownloadWorkerQueueName \<and> DeletedAt q = None"
    unfolding feed_growth_def by (elim exE conjE) blast
  with e have "e \<in> set new" by auto
  then have "JString (e_GUID e) \<in> set (map Data ts)" unfolding g(3) by simp
  then obtain q where "q \<in> set ts" "Data q = JString (e_GUID e)" by auto
  with g(2,4) show thesis by (intro that [of ts q]) (auto simp: download_task_def)
qed

section \<open>Every step\<close>

lemma all_covered_step:
  assumes W: "system_ok W g" and step: "system_step W g s s'"
    and sane: "queue_sane s" "queue_sane s'"
    and eps: "episodes_inv (wb_pods W) (episodes_t (sy_store s))" and cov: "all_covered s"
  shows "all_covered s'"
proof -
  let ?D = "ap_queue (wb_app W)"
  note Q = system_okD(3) [OF W]
  have grow: "all_covered s'" if "episodes_t (sy_store s') = episodes_t (sy_store s)"
    "\<exists>ts. queue_t (sy_store s') = queue_t (sy_store s) @ ts" "\<And>q. done_task s' q \<Longrightarrow> done_task s q"
  proof -
    from that(2) have "set (queue_t (sy_store s)) \<subseteq> set (queue_t (sy_store s'))" by auto
    with cov that(1,3) show ?thesis unfolding all_covered_def by (metis covered_more)
  qed
  have changed: "all_covered s'"
    if ch: "queue_change W (sy_store s) d'" and s': "sy_store s' = d'" "sy_busy s' = sy_busy s" for d'
    using ch
  proof (cases rule: queue_change.cases)
    case pushed
    from pushes_extend [OF Q pushed(2)] pushed(1) show ?thesis
      by (intro grow) (simp_all add: s' done_task_def)
  next
    case (requeued ep q cl now)
    have busy: "done_task s' q = done_task s q" for q by (rule done_task_busy) (simp add: s'(2))
    have fresh: "ID x \<noteq> ID q" if "x \<in> set (queue_t (sy_store s))" for x
      using extended_fresh [of "queue_t (sy_store s)" "[q]"] sane(2) that requeued(7)
      by (auto simp: queue_sane_def s'(1))
    have q: "\<not> done_task s q" by (rule fresh_not_done [OF sane(1) fresh])
    show ?thesis unfolding all_covered_def
    proof (intro ballI impI)
      fix e assume e: "e \<in> set (episodes_t (sy_store s'))" "is_pending e"
      show "covered s' (e_GUID e)"
      proof (cases "e_GUID e = e_GUID ep")
        case True
        have "q \<in> set (queue_t (sy_store s'))" "download_task (e_GUID e) q"
          using requeued(3-5,7) True by (simp_all add: s'(1) download_task_def)
        with q busy show ?thesis unfolding covered_def by blast
      next
        case False
        with e have "e \<in> set (episodes_t (sy_store s))" by (auto simp: s'(1) requeued(8) set_upd_where)
        with cov e(2) have "covered s (e_GUID e)" by (simp add: all_covered_def)
        then show ?thesis by (rule covered_more) (auto simp: s'(1) requeued(7) busy)
      qed
    qed
  qed
  show ?thesis using step
  proof cases
    case (request pattern h port ctx r w out d' w')
    from changed [OF request_queue [OF system_okD(1) [OF W] request(2,3)]] show ?thesis by (simp add: request(1))
  next
    case (admit pattern h c cfg ctx r u)
    from changed [OF queue_change_sessions [OF before_frame]] show ?thesis by (simp add: admit(1))
  next
    case (admit_open pattern h ctx r)
    show ?thesis by (rule grow) (simp_all add: admit_open(1) done_task_def)
  next
    case (answer pattern h c xs ctx r ys w out d' w')
    from changed [OF handler_queue [OF system_okD(1) [OF W] answer(2,4)]] show ?thesis by (simp add: answer(1))
  next
    case (command E c out t')
    show ?thesis by (rule grow) (simp_all add: command(1) done_task_def)
  next
    case (set_up cl err t')
    show ?thesis by (rule grow) (simp_all add: set_up(1) done_task_def)
  next
    case (tick td cl t' q')
    from processTask_pushes [OF tick(3)] have "pushes ?D (queue_t (sy_store s)) q'"
      by (simp add: serve_scheduler_def)
    from pushes_extend [OF Q this] show ?thesis by (intro grow) (simp_all add: tick(1) done_task_def)
  next
    case (take_task name cl qt t')
    have busy: "done_task s q" if "done_task s' q" for q
      using that take_task(3) by (auto simp: done_task_def take_task(1) split: if_splits)
    from PopQueueTask_Inr [OF Q take_task(4)] obtain q where q: "q \<in> set (queue_t (sy_store s))" "available cl name q"
      "qt = taken cl q" "t' = upd_where (\<lambda>y. ID y = ID q) (\<lambda>_. qt\<lparr>UpdatedAt := cl 2\<rparr>) (queue_t (sy_store s))" by blast
    have "covered s' guid" if "covered s guid" for guid
    proof (rule covered_replace [OF that _ _ q(1) refl])
      show "queue_t (sy_store s') = upd_where (\<lambda>y. ID y = ID q) (\<lambda>_. qt\<lparr>UpdatedAt := cl 2\<rparr>) (queue_t (sy_store s))"
        by (simp add: take_task(1) q(4))
    qed (use sane(1) q(2,3) busy in \<open>auto simp: queue_sane_def taken_def available_def\<close>)
    with cov show ?thesis by (simp add: all_covered_def take_task(1))
  next
    case (handle name qt cls err d')
    from serve_handler_pushes [OF handle(3)] pushes_extend [OF Q] obtain ts
      where ts: "queue_t d' = queue_t (sy_store s) @ ts" by blast
    show ?thesis
    proof (cases "name = DownloadWorkerQueueName")
      case True
      with handle(3) have run: "DownloadWorkerQueueHandler (wb_app W) (cls 0) (Data qt) (sy_store s) = (err, d')"
        by (simp add: serve_handler_def)
      note same = DownloadWorker_queue [OF run]
      from sane(1) handle(2) obtain r where r: "r \<in> set (queue_t (sy_store s))" "held qt name r"
        by (auto simp: queue_sane_def)
      show ?thesis unfolding all_covered_def
      proof (intro ballI impI)
        fix e assume "e \<in> set (episodes_t (sy_store s'))" and p: "is_pending e"
        then have e: "e \<in> set (episodes_t d')" by (simp add: handle(1))
        note dp = download_pending [OF system_okD(1) [OF W] eps run e p]
        from cov dp(1) p obtain q where q: "q \<in> set (queue_t (sy_store s))" "download_task (e_GUID e) q"
          by (auto simp: all_covered_def covered_def)
        have "\<not> done_task s' q"
        proof
          assume "done_task s' q"
          then have none: "err = None" "ID q = ID qt" by (auto simp: done_task_def handle(1) True)
          with r(2) have "ID r = ID q" by (simp add: held_def)
          with sane(1) r(1) q(1) have "r = q" by (metis distinct_key_eq queue_sane_def tasks_inv_def)
          with r(2) q(2) dp(2) [OF none(1)] show False by (simp add: held_def download_task_def)
        qed
        with q show "covered s' (e_GUID e)" unfolding covered_def by (auto simp: handle(1) same)
      qed
    next
      case False
      have busy: "done_task s' q = done_task s q" for q
        by (rule done_task_busy) (simp add: handle(1) False [symmetric])
      show ?thesis
      proof (cases "name = FeedWorkerQueueName")
        case True
        with handle(3) have run: "FeedWorkerQueueHandler (wb_app W) cls (Data qt) (sy_store s) = (err, d')"
          by (simp add: serve_handler_def)
        show ?thesis unfolding all_covered_def
        proof (intro ballI impI)
          fix e assume "e \<in> set (episodes_t (sy_store s'))" and p: "is_pending e"
          then have e: "e \<in> set (episodes_t d')" by (simp add: handle(1))
          show "covered s' (e_GUID e)"
          proof (cases "e \<in> set (episodes_t (sy_store s))")
            case True
            with cov p have "covered s (e_GUID e)" by (simp add: all_covered_def)
            then show ?thesis by (rule covered_more) (simp_all add: handle(1) ts busy [unfolded handle(1)])
          next
            case False
            from feed_covered [OF system_okD(1) [OF W] run e False] obtain us q
              where q: "queue_t d' = queue_t (sy_store s) @ us" "q \<in> set us" "download_task (e_GUID e) q" .
            have "ID x \<noteq> ID q" if "x \<in> set (queue_t (sy_store s))" for x
              using extended_fresh [OF _ q(2) that] sane(2) by (simp add: queue_sane_def handle(1) q(1))
            then have "\<not> done_task s' q" unfolding busy by (rule fresh_not_done [OF sane(1)])
            with q show ?thesis unfolding covered_def by (auto simp: handle(1))
          qed
        qed
      next
        case other: False
        with False handle(3) have "episodes_t d' = episodes_t (sy_store s)"
          by (auto simp: serve_handler_def split: prod.splits)
        then show ?thesis by (intro grow) (simp_all add: handle(1) ts busy [unfolded handle(1)])
      qed
    qed
  next
    case (give_back name qt e cl err t')
    have busy: "done_task s q" if "done_task s' q" for q
      using that give_back(2) by (auto simp: done_task_def give_back(1) split: if_splits)
    from sane(1) give_back(2) obtain r where r: "r \<in> set (queue_t (sy_store s))" "held qt name r"
      by (auto simp: queue_sane_def)
    show ?thesis
    proof (cases err)
      case (Some x)
      with give_back(3) returnQueueTask_error have "t' = queue_t (sy_store s)" by blast
      then show ?thesis by (intro grow) (simp_all add: give_back(1) busy [unfolded give_back(1)])
    next
      case None
      have t': "t' = upd_where (\<lambda>y. ID y = ID qt)
          (\<lambda>_. qt\<lparr>VisibleAfter := cl 0 + backoff (ReceiveCount qt), UpdatedAt := cl 1\<rparr>) (queue_t (sy_store s))"
        using returnQueueTask_ok [OF Q give_back(3) [unfolded None] r(1)] r(2) by (simp add: held_def)
      have "covered s' guid" if "covered s guid" for guid
      proof (rule covered_replace [OF that _ _ r(1)])
        show "queue_t (sy_store s') = upd_where (\<lambda>y. ID y = ID qt)
            (\<lambda>_. qt\<lparr>VisibleAfter := cl 0 + backoff (ReceiveCount qt), UpdatedAt := cl 1\<rparr>) (queue_t (sy_store s))"
          by (simp add: give_back(1) t')
      qed (use sane(1) r(2) busy in \<open>auto simp: queue_sane_def held_def\<close>)
      with cov show ?thesis by (simp add: all_covered_def give_back(1))
    qed
  next
    case (complete name qt now err t')
    have busy: "done_task s q" if "done_task s' q" for q
      using that complete(2) by (auto simp: done_task_def complete(1) split: if_splits)
    from sane(1) complete(2) obtain r where r: "r \<in> set (queue_t (sy_store s))" "held qt name r"
      by (auto simp: queue_sane_def)
    show ?thesis
    proof (cases err)
      case (Some x)
      with complete(3) completeQueueTask_error have "t' = queue_t (sy_store s)" by blast
      then show ?thesis by (intro grow) (simp_all add: complete(1) busy [unfolded complete(1)])
    next
      case None
      note t' = completeQueueTask_ok [OF Q complete(3) [unfolded None]]
      have "covered s' guid" if "covered s guid" for guid
      proof -
        from that obtain q where q: "q \<in> set (queue_t (sy_store s))" "download_task guid q" "\<not> done_task s q"
          by (auto simp: covered_def)
        have "ID q \<noteq> ID qt"
        proof
          assume same: "ID q = ID qt"
          with r sane(1) q(1) have "r = q" by (metis distinct_key_eq held_def queue_sane_def tasks_inv_def)
          with r(2) q(2) have "name = DownloadWorkerQueueName" by (simp add: held_def download_task_def)
          with complete(2) same q(3) show False by (simp add: done_task_def)
        qed
        with q(1) have "q \<in> set (queue_t (sy_store s'))" by (auto simp: complete(1) t' set_upd_where)
        with q(2,3) busy show ?thesis unfolding covered_def by blast
      qed
      with cov show ?thesis by (simp add: all_covered_def complete(1))
    qed
  next
    case crash
    have "\<not> done_task s' q" for q by (simp add: done_task_def crash)
    then show ?thesis by (intro grow) (simp_all add: crash)
  qed
qed

end
