(* ===== verification/SystemTables.thy ===== *)
theory SystemTables
  imports SystemFacts PodcastProps
begin

text \<open>
  What a step of the running program does to the tables of accounts, sessions and podcasts: it applies
  the operations of the packages that own them.  So whatever those operations keep, the program keeps.
\<close>

section \<open>Operations on podcasts\<close>

datatype podcast_op =
    AddPodcastOp "nat \<Rightarrow> time" nat string "PodcastCredentials option"
  | UpdateTimesOp time Podcast "time option" "time option"

fun run_podcast_op :: "pod_deps \<Rightarrow> podcast_op \<Rightarrow> Podcast list \<Rightarrow> go_error option \<times> Podcast list" where
  "run_podcast_op D (AddPodcastOp cl rnd feedURL creds) t =
     (case AddPodcast D cl rnd feedURL creds t of (Inl e, t') \<Rightarrow> (Some e, t') | (Inr p, t') \<Rightarrow> (None, t'))"
| "run_podcast_op D (UpdateTimesOp now p checked episode) t = UpdatePodcastTimes D now p checked episode t"

lemma AddPodcast_inv:
  assumes D: "pod_deps_ok D" and inv: "podcasts_inv D t" and run: "AddPodcast D cl rnd feedURL creds t = (Inr p, t')"
  shows "podcasts_inv D t'"
  using AddPodcast_podcast(1-3) [OF D run] inv by (auto simp: podcasts_inv_def)

interpretation podcast_ops: table_operation pod_deps_ok podcasts_inv run_podcast_op
proof
  show "t' = t" if "run_podcast_op D op t = (Some e, t')" for D op t e t'
    using that by (cases op) (auto simp: AddPodcast_error UpdatePodcastTimes_def split: prod.splits sum.splits)
  show "podcasts_inv D t'" if "pod_deps_ok D" "podcasts_inv D t" "run_podcast_op D op t = (None, t')" for D op t t'
  proof (cases op)
    case (AddPodcastOp cl rnd url creds)
    with that(3) obtain p where "AddPodcast D cl rnd url creds t = (Inr p, t')" by (auto split: prod.splits sum.splits)
    from AddPodcast_inv [OF that(1,2) this] show ?thesis .
  next
    case (UpdateTimesOp now p a b)
    with that(3) UpdatePodcastTimes_inv [OF that(1,2)] show ?thesis by simp
  qed
qed

section \<open>What requests and workers do to the tables\<close>

lemma session_changed: "session_change D d d' \<Longrightarrow> changed_by run_session_op D (sessions_t d) (sessions_t d')"
  by (auto simp: session_change_def)

lemma episode_loop_frame:
  "episode_loop A cl existing eps s = (err, s') \<Longrightarrow> s'\<lparr>episodes_t := episodes_t s, queue_t := queue_t s\<rparr> = s"
proof (induction eps arbitrary: cl s)
  case (Cons ep eps)
  let ?ep = "ep\<lparr>e_Status := EpisodeStatusPending\<rparr>"
  obtain e1 s1 where t: "Transaction (qd_tx (ap_queue A)) cl (new_episode_closure A cl ?ep) s = (e1, s1)" by fastforce
  have f: "s1\<lparr>episodes_t := episodes_t s, queue_t := queue_t s\<rparr> = s"
  proof (cases e1)
    case None
    from Transaction_ok [OF t [unfolded None]] show ?thesis
      by (auto simp: new_episode_closure_def split: sum.splits prod.splits option.splits)
  next
    case (Some e)
    from Transaction_error [OF t [unfolded Some]] show ?thesis by simp
  qed
  have IH: "s'\<lparr>episodes_t := episodes_t s0, queue_t := queue_t s0\<rparr> = s0"
    if "episode_loop A (nth_call cl 10) existing eps s0 = (err, s')" for s0
    using Cons.IH [OF that] .
  show ?case
  proof (cases "list_ex (\<lambda>exEp. e_GUID exEp = e_GUID ep) existing \<or> e1 = None")
    case True
    with Cons.prems t f IH [of s] IH [of s1] show ?thesis by (cases s; cases s1; cases s') (auto simp: Let_def split: if_splits)
  next
    case False
    with Cons.prems t f show ?thesis by (auto simp: Let_def)
  qed
qed simp

definition worker_change :: "('o, 'p) app_deps \<Rightarrow> 'o store \<Rightarrow> 'o store \<Rightarrow> bool" where
  "worker_change A s s' \<longleftrightarrow> changed_by run_podcast_op (ap_pods A) (podcasts_t s) (podcasts_t s') \<and>
     users_t s' = users_t s \<and> sessions_t s' = sessions_t s"

lemma processPodcast_change:
  assumes "processPodcast A cl pod s = (err, s')"
  shows "worker_change A s s'"
proof (cases "s' = s")
  case False
  with assms obtain creds where c: "GetCredentials (ap_pods A) pod = Inr creds"
    by (cases "GetCredentials (ap_pods A) pod") (auto simp: processPodcast_def)
  obtain q eps perr where f: "ParseFeed (pd_service (ap_pods A)) (cl 0) (p_FeedURL pod) creds = (q, eps, perr)"
    by (metis surj_pair)
  with assms False c obtain existing where e: "ListEpisodes (ap_pods A) (cl 1) (p_GUID pod) (episodes_t s) = Inr existing"
    by (cases "ListEpisodes (ap_pods A) (cl 1) (p_GUID pod) (episodes_t s)")
      (auto simp: processPodcast_def split: option.splits if_splits)
  obtain e1 s1 where l: "episode_loop A (nth_call cl 10) existing eps s = (e1, s1)" by fastforce
  from assms False c f e l have s': "s' = s1 \<or> (\<exists>op. s' = s1\<lparr>podcasts_t := snd (run_podcast_op (ap_pods A) op (podcasts_t s1))\<rparr>)"
    unfolding processPodcast_def Let_def run_podcast_op.simps(2) [symmetric]
    by (simp del: run_podcast_op.simps split: option.splits if_splits prod.splits) (metis snd_conv)+
  note frame = arg_cong [OF episode_loop_frame [OF l]]
  have "podcasts_t s1 = podcasts_t s" "users_t s1 = users_t s" "sessions_t s1 = sessions_t s"
    using frame [of podcasts_t] frame [of users_t] frame [of sessions_t] by simp_all
  with s' show ?thesis using changed_by_op by (auto simp: worker_change_def)
qed (simp add: worker_change_def)

lemma worker_change_refl: "worker_change A s s"
  by (simp add: worker_change_def)

lemma worker_change_trans: "worker_change A s s1 \<Longrightarrow> worker_change A s1 s2 \<Longrightarrow> worker_change A s s2"
  by (auto simp: worker_change_def intro: changed_by_trans)

lemma feed_loop_change:
  "feed_loop A cls n pods s = (errs, s') \<Longrightarrow> worker_change A s s'"
proof (induction pods arbitrary: n s s' errs)
  case (Cons pod pods)
  show ?case
  proof (cases "recently_checked (cls n 0) pod")
    case True
    with Cons show ?thesis by simp
  next
    case False
    obtain e1 s1 where p: "processPodcast A (nth_call (cls n) 1) pod s = (e1, s1)" by fastforce
    obtain errs1 s2 where l: "feed_loop A cls (Suc n) pods s1 = (errs1, s2)" by fastforce
    from Cons.prems False p l have "s' = s2" by (auto split: option.splits)
    with worker_change_trans [OF processPodcast_change [OF p] Cons.IH [OF l]] show ?thesis by simp
  qed
qed (simp add: worker_change_def)

lemma DownloadWorker_change: "DownloadWorkerQueueHandler A cl payload s = (err, s') \<Longrightarrow> worker_change A s s'"
  by (auto simp: worker_change_def DownloadWorkerQueueHandler_def Let_def split: json.splits sum.splits prod.splits option.splits)

lemma serve_handler_change:
  assumes "serve_handler W name cls payload d = (err, d')"
  shows "users_t d' = users_t d" "changed_by run_session_op (ap_auth (wb_app W)) (sessions_t d) (sessions_t d')"
    "changed_by run_podcast_op (wb_pods W) (podcasts_t d) (podcasts_t d')"
proof -
  have "users_t d' = users_t d \<and> changed_by run_session_op (ap_auth (wb_app W)) (sessions_t d) (sessions_t d') \<and>
    changed_by run_podcast_op (wb_pods W) (podcasts_t d) (podcasts_t d')"
  proof (cases "name = FeedWorkerQueueName \<or> name = DownloadWorkerQueueName")
    case True
    with assms have "worker_change (wb_app W) d d'"
      by (auto simp: serve_handler_def FeedWorkerQueueHandler_def
          dest: feed_loop_change DownloadWorker_change intro: worker_change_refl split: if_splits prod.splits sum.splits)
    then show ?thesis by (simp add: worker_change_def)
  next
    case False
    with assms changed_by_op [of run_session_op "ap_auth (wb_app W)" "sessions_t d" "HouseKeepingOp (cls 0)"] show ?thesis
      by (auto simp: serve_handler_def split: prod.splits)
  qed
  then show "users_t d' = users_t d" "changed_by run_session_op (ap_auth (wb_app W)) (sessions_t d) (sessions_t d')"
    "changed_by run_podcast_op (wb_pods W) (podcasts_t d) (podcasts_t d')" by auto
qed

lemma AddPodcastHandler_podcasts:
  "changed_by run_podcast_op (wb_pods W) (podcasts_t d) (podcasts_t (fst (snd (AddPodcastHandler W ctx r (d, w)))))"
proof -
  let ?d = "fst (snd (AddPodcastHandler W ctx r (d, w)))"
  have "podcasts_t ?d = podcasts_t d \<or> (\<exists>url creds. podcasts_t ?d =
    snd (AddPodcast (wb_pods W) (call_clock ctx 10) (cx_random ctx 1) url creds (podcasts_t d)))"
    by (auto simp: AddPodcastHandler_def Let_def split: option.splits prod.splits sum.splits) (metis snd_conv)+
  moreover have "snd (AddPodcast D cl rnd url creds t) = snd (run_podcast_op D (AddPodcastOp cl rnd url creds) t)"
    for D cl rnd url creds t by (simp split: prod.splits sum.splits)
  ultimately show ?thesis using changed_by_op changed_by_refl by metis
qed

text \<open>A change of the tables of accounts, sessions and podcasts by operations on them.\<close>

definition tables_change :: "'o web_deps \<Rightarrow> 'o store \<Rightarrow> 'o store \<Rightarrow> bool" where
  "tables_change W d d' \<longleftrightarrow>
     changed_by run_user_op (wb_users W) (users_t d) (users_t d') \<and>
     changed_by run_session_op (ap_auth (wb_app W)) (sessions_t d) (sessions_t d') \<and>
     changed_by run_podcast_op (wb_pods W) (podcasts_t d) (podcasts_t d')"

lemma tables_change_refl [simp]: "tables_change W d d"
  by (simp add: tables_change_def)

lemma tables_change_trans: "tables_change W d d1 \<Longrightarrow> tables_change W d1 d2 \<Longrightarrow> tables_change W d d2"
  by (auto simp: tables_change_def intro: changed_by_trans)

lemma tables_change_sessions: "session_change (ap_auth (wb_app W)) d d' \<Longrightarrow> tables_change W d d'"
  by (auto simp: tables_change_def dest: sessions_only session_changed)

lemma tables_change_account: "own_password_change W ctx d d' \<Longrightarrow> tables_change W d d'" "admin_change W ctx d d' \<Longrightarrow> tables_change W d d'"
proof -
  have op: "tables_change W d (d\<lparr>users_t := snd (run_user_op (wb_users W) op (users_t d))\<rparr>)" for op
    by (simp add: tables_change_def changed_by_op)
  show "own_password_change W ctx d d' \<Longrightarrow> tables_change W d d'"
    using op [of "UpdatePasswordOp now rnd i pw" for now rnd i pw] by (auto simp: own_password_change_def)
  show "admin_change W ctx d d' \<Longrightarrow> tables_change W d d'" using op by (auto simp: admin_change_def)
qed

lemma manage_tables:
  assumes route: "(pattern, h, c) \<in> set (manage_routes W)"
  shows "tables_change W d (fst (snd (h ctx r (d, w))))"
proof -
  have "changed_by run_podcast_op (wb_pods W) (podcasts_t d) (podcasts_t (fst (snd (h ctx r (d, w)))))"
    using route AddPodcastHandler_podcasts [where W = W and ctx = ctx and r = r and d = d and w = w]
      arg_cong [OF RequeueDownloadHandler_frame [where W = W and ctx = ctx and r = r and d = d and w = w], of podcasts_t]
    by (auto simp: manage_routes_def)
  with manage_routes_frame [OF route, of ctx r d w] show ?thesis by (simp add: tables_change_def)
qed

lemma handler_tables:
  assumes "(pattern, h, c) \<in> set (web_routes W)" "h ctx r (d, w) = (out, (d', w'))"
  shows "tables_change W d d'"
  using assms
proof (cases rule: handler_effect)
  case manage
  from manage_tables [OF this, of d ctx r w] assms(2) show ?thesis by simp
qed (auto intro: tables_change_sessions tables_change_account)

lemma request_tables:
  assumes "(pattern, h) \<in> set (sv_mux (NewWebserver W port))" "h ctx r (d, w) = (out, (d', w'))"
  shows "tables_change W d d'"
  using assms
proof (cases rule: server_request)
  case (manage u p h0 c d0 w0)
  from tables_change_trans [OF tables_change_sessions [OF manage(4)] manage_tables [OF manage(5)]] manage(6)
  show ?thesis by simp
qed (blast intro: tables_change_trans tables_change_sessions tables_change_account)+

section \<open>What a step does to the tables\<close>

lemma system_step_tables:
  assumes "system_step W g s s'"
  shows "changed_by run_user_op (wb_users W) (users_t (sy_store s)) (users_t (sy_store s'))"
    "changed_by run_session_op (ap_auth (wb_app W)) (sessions_t (sy_store s)) (sessions_t (sy_store s'))"
    "changed_by run_podcast_op (wb_pods W) (podcasts_t (sy_store s)) (podcasts_t (sy_store s'))"
proof -
  have "tables_change W (sy_store s) (sy_store s')"
    using assms
  proof cases
    case (request pattern h port ctx r w out d' w')
    from request_tables [OF request(2,3)] show ?thesis by (simp add: request(1))
  next
    case (admit pattern h c cfg ctx r u)
    from tables_change_sessions [OF before_frame] show ?thesis by (simp add: admit(1))
  next
    case (answer pattern h c xs ctx r ys w out d' w')
    from handler_tables [OF answer(2,4)] show ?thesis by (simp add: answer(1))
  next
    case (command E c out t')
    from command_on_effect(1) [OF command(3)] show ?thesis
      by (auto simp: tables_change_def command(1,2) intro: changed_by_run)
  next
    case (handle name qt cls err d')
    from serve_handler_change [OF handle(3)] show ?thesis by (simp add: handle(1) tables_change_def)
  qed (simp_all add: tables_change_def)
  then show "changed_by run_user_op (wb_users W) (users_t (sy_store s)) (users_t (sy_store s'))"
    "changed_by run_session_op (ap_auth (wb_app W)) (sessions_t (sy_store s)) (sessions_t (sy_store s'))"
    "changed_by run_podcast_op (wb_pods W) (podcasts_t (sy_store s)) (podcasts_t (sy_store s'))" by (auto simp: tables_change_def)
qed

section \<open>Episodes\<close>

lemma set_status_inv:
  assumes D: "pod_deps_ok D" and inv: "episodes_inv D t"
    and st: "st \<in> {EpisodeStatusPending, EpisodeStatusFailed, EpisodeStatusSuccess}"
  shows "episodes_inv D (upd_where p (set_status now st n) t)"
  using inv Episode_BeforeSave_status [OF pod_deps_okD(3) [OF D] _ st]
  by (auto simp: episodes_inv_def set_upd_where map_upd_where_same)

lemma feed_growth_inv:
  assumes "feed_growth A s new s'" "episodes_inv (ap_pods A) (episodes_t s)"
  shows "episodes_inv (ap_pods A) (episodes_t s')"
proof -
  from feed_growth_fresh [OF assms(1)] have "set (map e_GUID (episodes_t s)) \<inter> set (map e_GUID new) = {}"
    unfolding set_map by blast
  with assms show ?thesis by (auto simp: feed_growth_def episodes_inv_def)
qed

lemma DownloadWorker_inv:
  assumes A: "app_ok A" and inv: "episodes_inv (ap_pods A) (episodes_t s)"
    and run: "DownloadWorkerQueueHandler A cl payload s = (err, s')"
  shows "episodes_inv (ap_pods A) (episodes_t s')"
  using A inv run
proof (cases rule: DownloadWorker_run)
  case 1
  with inv show ?thesis by simp
next
  case (2 guid row ext creds res)
  have D: "pod_deps_ok (ap_pods A)" using A by (simp add: app_ok_def)
  from 2(10) have "episodes_t s' = episodes_t s \<or> (\<exists>p now st n. st \<in> {EpisodeStatusFailed, EpisodeStatusSuccess} \<and>
    episodes_t s' = upd_where p (set_status now st n) (episodes_t s))"
    by (cases res; cases err) auto
  with set_status_inv [OF D inv] inv show ?thesis by auto
qed

lemma queue_change_episodes:
  assumes W: "system_ok W g" and inv: "episodes_inv (wb_pods W) (episodes_t d)" and ch: "queue_change W d d'"
  shows "episodes_inv (wb_pods W) (episodes_t d')"
  using ch inv set_status_inv [OF system_okD(4) [OF W] inv] by (cases rule: queue_change.cases) simp_all

lemma system_step_episodes:
  assumes W: "system_ok W g" and step: "system_step W g s s'" and inv: "episodes_inv (wb_pods W) (episodes_t (sy_store s))"
  shows "episodes_inv (wb_pods W) (episodes_t (sy_store s'))"
  using step
proof cases
  case (request pattern h port ctx r w out d' w')
  from queue_change_episodes [OF W inv request_queue [OF system_okD(1) [OF W] request(2,3)]] show ?thesis
    by (simp add: request(1))
next
  case (admit pattern h c cfg ctx r u)
  from queue_change_episodes [OF W inv queue_change_sessions [OF before_frame]] show ?thesis by (simp add: admit(1))
next
  case (answer pattern h c xs ctx r ys w out d' w')
  from queue_change_episodes [OF W inv handler_queue [OF system_okD(1) [OF W] answer(2,4)]] show ?thesis
    by (simp add: answer(1))
next
  case (handle name qt cls err d')
  consider (feed) "FeedWorkerQueueHandler (wb_app W) cls (Data qt) (sy_store s) = (err, d')"
    | (download) "DownloadWorkerQueueHandler (wb_app W) (cls 0) (Data qt) (sy_store s) = (err, d')"
    | (other) "episodes_t d' = episodes_t (sy_store s)"
    using handle(3) by (auto simp: serve_handler_def split: if_splits prod.splits)
  then show ?thesis
  proof cases
    case feed
    from FeedWorker_growth [OF system_okD(1) [OF W] feed] feed_growth_inv inv show ?thesis by (auto simp: handle(1))
  next
    case download
    from DownloadWorker_inv [OF system_okD(1) [OF W] inv download] show ?thesis by (simp add: handle(1))
  qed (use inv in \<open>simp add: handle(1)\<close>)
qed (use inv in simp_all)

section \<open>What every reachable state satisfies\<close>

text \<open>
  What the program relies on when it starts on a database, and leaves when it stops: valid tables, no
  task taken more than six times, and a download task for every pending episode.
\<close>

definition sound_store :: "'o web_deps \<Rightarrow> 'o store \<Rightarrow> bool" where
  "sound_store W d \<longleftrightarrow>
     users_inv (wb_users W) (users_t d) \<and> sessions_inv (ap_auth (wb_app W)) (sessions_t d) \<and>
     podcasts_inv (wb_pods W) (podcasts_t d) \<and> episodes_inv (wb_pods W) (episodes_t d) \<and>
     tasks_inv (queue_t d) \<and> (\<forall>q \<in> set (queue_t d). ReceiveCount q \<le> 6) \<and>
     (\<forall>e \<in> set (episodes_t d). is_pending e \<longrightarrow> (\<exists>q \<in> set (queue_t d). download_task (e_GUID e) q))"

lemma empty_store_sound: "sound_store W (empty_store ob)"
  by (simp add: sound_store_def empty_store_def users_inv_def sessions_inv_def podcasts_inv_def episodes_inv_def
      tasks_inv_def)

lemma started_queue_inv: "sound_store W d \<Longrightarrow> system_inv (queue_of (queue_t d))"
  by (simp add: sound_store_def queue_of_inv)

lemma reachable_queue:
  assumes "system_ok W g" "sound_store W d" "(system_step W g)\<^sup>*\<^sup>* (started d t) s"
  obtains q where "(queue_step (ap_queue (wb_app W)))\<^sup>*\<^sup>* (queue_of (queue_t d)) q" "queue_part s q" "system_inv q"
  using system_steps_queue [OF assms(1,3) started_queue] system_inv_steps [OF _ system_okD(3) [OF assms(1)]]
    started_queue_inv [OF assms(2)] by blast

lemma reachable_sane:
  "system_ok W g \<Longrightarrow> sound_store W d \<Longrightarrow> (system_step W g)\<^sup>*\<^sup>* (started d t) s \<Longrightarrow> queue_sane s"
  by (rule reachable_queue) (auto intro: queue_part_sane)

lemma reachable_rows:
  assumes W: "system_ok W g" and d: "sound_store W d" and reach: "(system_step W g)\<^sup>*\<^sup>* (started d t) s"
  shows "users_inv (wb_users W) (users_t (sy_store s)) \<and> sessions_inv (ap_auth (wb_app W)) (sessions_t (sy_store s)) \<and>
    podcasts_inv (wb_pods W) (podcasts_t (sy_store s)) \<and> episodes_inv (wb_pods W) (episodes_t (sy_store s)) \<and>
    all_covered s"
  using reach
proof (induction rule: rtranclp_induct)
  case base
  with d show ?case
    by (simp add: started_def sound_store_def all_covered_def covered_def done_task_def)
next
  case (step s s')
  note st = step.hyps(2)
  have sane: "queue_sane s" "queue_sane s'"
    using reachable_sane [OF W d] step.hyps rtranclp.rtrancl_into_rtrancl [OF step.hyps] by blast+
  note t = system_step_tables [OF st]
  show ?case
    using step.IH user_ops.changed_inv [OF system_okD(5) [OF W] _ t(1)]
      session_ops.changed_inv [OF system_okD(2) [OF W] _ t(2)] podcast_ops.changed_inv [OF system_okD(4) [OF W] _ t(3)]
      system_step_episodes [OF W st] all_covered_step [OF W st sane] by simp
qed

lemma reachable_sound:
  assumes W: "system_ok W g" and d: "sound_store W d" and reach: "(system_step W g)\<^sup>*\<^sup>* (started d t) s"
  shows "sound_store W (sy_store s)"
proof -
  from reachable_queue [OF assms] obtain q where q: "queue_part s q" "system_inv q" .
  have "\<exists>q \<in> set (queue_t (sy_store s)). download_task guid q" if "covered s guid" for guid
    using that by (auto simp: covered_def)
  with reachable_rows [OF assms] q show ?thesis
    by (auto simp: sound_store_def all_covered_def queue_part_def system_inv_def counted_def)
qed

text \<open>Over a run, sessions only change by operations on sessions.\<close>

lemma reachable_sessions:
  assumes "(system_step W g)\<^sup>*\<^sup>* s s'"
  shows "changed_by run_session_op (ap_auth (wb_app W)) (sessions_t (sy_store s)) (sessions_t (sy_store s'))"
  using assms
  by (induction rule: rtranclp_induct) (auto intro: changed_by_trans system_step_tables(2))

end
