(* ===== verification/QueueLiveness.thy ===== *)
theory QueueLiveness
  imports QueueProps
begin

text \<open>
  How much of its queue a worker can still have to do: each delivery uses up one of the six a task has,
  no step of the queue's model gives one back, and a poll with a task ready is a delivery.  Tasks that
  others push meanwhile add six each.
\<close>

section \<open>Deliveries\<close>

text \<open>Of the six deliveries of a task, those it has used, and those it has left; a completed task has none left.\<close>

definition deliveries_used :: "QueueTask \<Rightarrow> nat" where
  "deliveries_used q = (if DeletedAt q = None then min 6 (ReceiveCount q) else 6)"

definition tasks_of :: "string \<Rightarrow> QueueTask list \<Rightarrow> QueueTask list" where
  "tasks_of name t = filter (\<lambda>q. QueueName q = name) t"

definition work_done :: "string \<Rightarrow> QueueTask list \<Rightarrow> nat" where
  "work_done name t = sum_list (map deliveries_used (tasks_of name t))"

definition work_left :: "string \<Rightarrow> QueueTask list \<Rightarrow> nat" where
  "work_left name t = sum_list (map (\<lambda>q. 6 - deliveries_used q) (tasks_of name t))"

lemma work_total: "work_done name t + work_left name t = 6 * length (tasks_of name t)"
  by (induction t) (auto simp: work_done_def work_left_def tasks_of_def deliveries_used_def)

text \<open>A step that replaces one row of the table.\<close>

lemma work_done_replace:
  assumes "distinct (map ID t)" "q \<in> set t" "ID q = i" "QueueName q' = QueueName q"
  shows "work_done name (upd_where (\<lambda>y. ID y = i) (\<lambda>_. q') t) + (if QueueName q = name then deliveries_used q else 0) =
    work_done name t + (if QueueName q = name then deliveries_used q' else 0)"
    "length (tasks_of name (upd_where (\<lambda>y. ID y = i) (\<lambda>_. q') t)) = length (tasks_of name t)"
proof -
  have "work_done name (upd_where (\<lambda>y. ID y = i) (\<lambda>_. q') t) + (if QueueName q = name then deliveries_used q else 0) =
      work_done name t + (if QueueName q = name then deliveries_used q' else 0) \<and>
    length (tasks_of name (upd_where (\<lambda>y. ID y = i) (\<lambda>_. q') t)) = length (tasks_of name t)"
    using assms(1-3)
  proof (induction t)
    case (Cons y t)
    show ?case
    proof (cases "ID y = i")
      case True
      with Cons.prems have "y = q" by (metis distinct_key_eq list.set_intros(1))
      moreover have "upd_where (\<lambda>y. ID y = i) (\<lambda>_. q') t = t"
        using Cons.prems(1) True by (intro upd_where_idle) (auto intro: rev_image_eqI)
      ultimately show ?thesis using True assms(4) by (simp add: work_done_def tasks_of_def)
    next
      case False
      with Cons show ?thesis by (auto simp: work_done_def tasks_of_def)
    qed
  qed simp
  then show "work_done name (upd_where (\<lambda>y. ID y = i) (\<lambda>_. q') t) + (if QueueName q = name then deliveries_used q else 0) =
      work_done name t + (if QueueName q = name then deliveries_used q' else 0)"
    "length (tasks_of name (upd_where (\<lambda>y. ID y = i) (\<lambda>_. q') t)) = length (tasks_of name t)" by auto
qed

lemma work_done_mark:
  "work_done name t \<le> work_done name (upd_where p (\<lambda>y. y\<lparr>DeletedAt := Some n\<rparr>) t)"
  "length (tasks_of name (upd_where p (\<lambda>y. y\<lparr>DeletedAt := Some n\<rparr>) t)) = length (tasks_of name t)"
  by (induction t) (auto simp: work_done_def tasks_of_def deliveries_used_def)

section \<open>Polls\<close>

definition queue_deps_up :: "queue_deps \<Rightarrow> bool" where
  "queue_deps_up D \<longleftrightarrow> queue_deps_ok D \<and> gorm_available queue_schema (qd_gorm D) \<and> tx_works (qd_tx D)"

lemma demo_queue_up [simp]: "queue_deps_up demo_queue"
  using mem_queue.gorm_available_axioms by (simp add: queue_deps_up_def) (simp add: demo_queue_def)

lemma PopQueueTask_total:
  assumes D: "queue_deps_up D" and inv: "tasks_inv t" and q: "q \<in> set t" "available cl name q"
  obtains qt t' where "PopQueueTask D cl name t = (Inr qt, t')"
proof -
  have ok: "queue_deps_ok D" and g: "gorm_available queue_schema (qd_gorm D)" and tx: "tx_works (qd_tx D)"
    using D by (auto simp: queue_deps_up_def)
  let ?p = "\<lambda>q. QueueName q = name \<and> VisibleAfter q < cl 0 \<and> ReceiveCount q \<le> maxReceives"
  have "live_rows queue_schema ?p t \<noteq> []"
    using q by (auto simp: live_rows_def filter_empty_conv available_def maxReceives_def)
  from gorm_available.first_order_total [OF g this] obtain f
    where f: "g_first_order (qd_gorm D) (cl 0) (asc CreatedAt) ?p t = Inr f" by blast
  from gorm_table.first_order_row [OF queue_deps_okD(1) [OF ok] f] have row: "f \<in> set t" "DeletedAt f = None"
    "QueueName f = name" by auto
  let ?f = "f\<lparr>VisibleAfter := cl 1 + visibilityTimeout, ReceiveCount := ReceiveCount f + 1\<rparr>"
  have "name \<noteq> ''''" using inv row by (auto simp: tasks_inv_def)
  then have "QueueTask_BeforeSave (qd_validator D) ?f = None"
    using QueueTask_BeforeSave_None_iff [OF queue_deps_okD(2) [OF ok]] row(3) by simp
  from gorm_available.save_total [OF g, where hook = "QueueTask_BeforeSave (qd_validator D)", OF this row(1)] row(2)
  obtain t' where s: "g_save (qd_gorm D) (cl 2) (QueueTask_BeforeSave (qd_validator D)) ?f t = Inr t'" by auto
  from f s tx show thesis
    by (intro that [of ?f t']) (simp add: PopQueueTask_def Transaction_works pop_closure_def Let_def)
qed

lemma pop_work:
  assumes D: "queue_deps_ok D" and inv: "tasks_inv t" and run: "PopQueueTask D cl n t = (Inr qt, t')"
  shows "work_done name t' = work_done name t + (if n = name then 1 else 0)"
    "length (tasks_of name t') = length (tasks_of name t)"
proof -
  from PopQueueTask_Inr [OF D run] obtain q where q: "q \<in> set t" "available cl n q" "qt = taken cl q"
    "t' = upd_where (\<lambda>y. ID y = ID q) (\<lambda>_. qt\<lparr>UpdatedAt := cl 2\<rparr>) t" by blast
  have d: "distinct (map ID t)" using inv by (simp add: tasks_inv_def)
  have "QueueName (qt\<lparr>UpdatedAt := cl 2\<rparr>) = QueueName q" by (simp add: q(3) taken_def)
  note r = work_done_replace [OF d q(1) refl this, of name]
  from r(1) q(2) show "work_done name t' = work_done name t + (if n = name then 1 else 0)"
    by (auto simp: q(3,4) taken_def available_def deliveries_used_def split: if_splits)
  from r(2) show "length (tasks_of name t') = length (tasks_of name t)" by (simp add: q(4))
qed

section \<open>Steps\<close>

text \<open>No step of the queue's model gives a delivery back, or removes a task.\<close>

lemma queue_step_work:
  assumes D: "queue_deps_ok D" and inv: "system_inv s" and step: "queue_step D s s'"
  shows "work_done name (qs_tasks s) \<le> work_done name (qs_tasks s') \<and>
    length (tasks_of name (qs_tasks s)) \<le> length (tasks_of name (qs_tasks s'))"
  using step
proof (cases rule: queue_step.cases)
  case (push cl n payload t')
  from PushQueueTask_ok [OF D push(2)] obtain q where "t' = qs_tasks s @ [q]" by metis
  then show ?thesis by (simp add: push(1) work_done_def tasks_of_def)
next
  case (take n cl qt t')
  have "tasks_inv (qs_tasks s)" using inv by (simp add: system_inv_def)
  from pop_work [OF D this take(3), of name] show ?thesis by (simp add: take(1))
next
  case (give_back n qt cl err t')
  from inv give_back(2) obtain q where q: "q \<in> set (qs_tasks s)" "held qt n q" by (auto simp: system_inv_def)
  have d: "distinct (map ID (qs_tasks s))" using inv by (simp add: system_inv_def tasks_inv_def)
  show ?thesis
  proof (cases err)
    case (Some e)
    then have "t' = qs_tasks s" using give_back(3) returnQueueTask_error by blast
    then show ?thesis by (simp add: give_back(1))
  next
    case None
    let ?q = "qt\<lparr>VisibleAfter := cl 0 + backoff (ReceiveCount qt), UpdatedAt := cl 1\<rparr>"
    have t': "t' = upd_where (\<lambda>y. ID y = ID qt) (\<lambda>_. ?q) (qs_tasks s)"
      using returnQueueTask_ok [OF D give_back(3) [unfolded None] q(1)] q(2) by (auto simp: held_def)
    have "deliveries_used ?q = deliveries_used q" "QueueName ?q = QueueName q" "ID q = ID qt"
      using q(2) by (simp_all add: held_def deliveries_used_def)
    with work_done_replace [OF d q(1), of "ID qt" ?q name] show ?thesis by (auto simp: give_back(1) t' split: if_splits)
  qed
next
  case (complete n qt now err t')
  show ?thesis
  proof (cases err)
    case (Some e)
    then have "t' = qs_tasks s" using complete(3) completeQueueTask_error by blast
    then show ?thesis by (simp add: complete(1))
  next
    case None
    from work_done_mark [where name = name and t = "qs_tasks s"] show ?thesis
      unfolding complete(1) completeQueueTask_ok [OF D complete(3) [unfolded None]] by simp
  qed
qed simp

lemma queue_steps_work:
  assumes D: "queue_deps_ok D" and steps: "(queue_step D)\<^sup>*\<^sup>* s s'" and inv: "system_inv s"
  shows "system_inv s' \<and> work_done name (qs_tasks s) \<le> work_done name (qs_tasks s') \<and>
    length (tasks_of name (qs_tasks s)) \<le> length (tasks_of name (qs_tasks s'))"
  using steps
proof (induction rule: rtranclp_induct)
  case (step s1 s2)
  then show ?case using queue_step_work [OF D _ step.hyps(2), of name] system_inv_step [OF D _ step.hyps(2)] by fastforce
qed (simp add: inv)

end
