(* ===== verification/SystemProps.thy ===== *)
theory SystemProps
  imports SystemTables SessionProps QueueLiveness
begin

text \<open>
  The properties of the running program: whatever requests, scheduler rounds, worker turns, commands
  and crashes happen, in whatever order, on whatever sound database it was started.
\<close>

section \<open>A run to try the properties on\<close>

definition demo_run_store :: "fs store" where
  "demo_run_store = \<lparr>users_t = demo_table, sessions_t = demo_sessions,
     podcasts_t = [], episodes_t = episodes_t dl_store,
     queue_t = [(demo_task 1 DownloadWorkerQueueName 0 0)\<lparr>Data := JString ''u-one''\<rparr>], objects_t = Map.empty\<rparr>"

lemma demo_run_store_simps [simp]:
  "users_t demo_run_store = demo_table" "sessions_t demo_run_store = demo_sessions"
  "episodes_t demo_run_store = episodes_t dl_store"
  by (simp_all add: demo_run_store_def)

lemma demo_system_ok: "system_ok demo_web mem_sched"
  by (simp add: system_ok_def app_ok_def mem_sched.gorm_table_axioms)

lemma demo_run_store_sound: "sound_store demo_web demo_run_store"
proof -
  have "ad_users demo_auth = demo_deps" by (simp add: demo_auth_def)
  with demo_table_inv dl_store_inv show ?thesis
    by (simp add: sound_store_def) (simp add: demo_run_store_def podcasts_inv_def tasks_inv_def download_task_def
        demo_task_def dl_store_def demo_episode_def)
qed

abbreviation demo_dl_task :: QueueTask where
  "demo_dl_task \<equiv> (demo_task 1 DownloadWorkerQueueName 0 0)\<lparr>Data := JString ''u-one''\<rparr>"

lemma demo_dl_pop:
  "PopQueueTask (ap_queue (wb_app demo_web)) (\<lambda>_. 9) DownloadWorkerQueueName (queue_t (sy_store (started demo_run_store []))) =
     (Inr (taken (\<lambda>_. 9) demo_dl_task), [(taken (\<lambda>_. 9) demo_dl_task)\<lparr>UpdatedAt := 9\<rparr>])"
  by (simp add: started_def demo_run_store_def PopQueueTask_def Transaction_works pop_closure_def demo_queue_def mem_queue_def
      mem_gorm_def mem_pick_def live_rows_def asc_def maxReceives_def Let_def mem_save_def
      QueueTask_BeforeSave_ok [OF std_tags.tag_meaning_axioms] taken_def visibilityTimeout_def demo_task_def)

text \<open>The download worker has taken the task.\<close>

lemma demo_run:
  obtains s where "(system_step demo_web mem_sched)\<^sup>*\<^sup>* (started demo_run_store []) s"
    "episodes_t (sy_store s) = episodes_t dl_store" "map ReceiveCount (queue_t (sy_store s)) = [1]"
    "sy_busy s DownloadWorkerQueueName \<noteq> None"
proof -
  have "system_step demo_web mem_sched (started demo_run_store [])
    ((started demo_run_store [])\<lparr>sy_store := (sy_store (started demo_run_store []))\<lparr>queue_t := [(taken (\<lambda>_. 9) demo_dl_task)\<lparr>UpdatedAt := 9\<rparr>]\<rparr>,
      sy_busy := (sy_busy (started demo_run_store []))(DownloadWorkerQueueName := Some (taken (\<lambda>_. 9) demo_dl_task, None))\<rparr>)"
    (is "system_step _ _ _ ?s")
    by (rule system_step.take_task [OF _ _ demo_dl_pop]) (simp_all add: serve_queues_def started_def)
  then show thesis
    by (intro that [of ?s]) (simp_all add: r_into_rtranclp started_def taken_def)
qed

section \<open>The tables\<close>

text \<open>C2: started on a sound database, the program leaves a sound database at every moment, also when it
  stops: every row of every table is valid, keys, usernames and feed identifiers are unique, and no
  task was taken more than six times.\<close>

theorem tables_stay_sound:
  assumes "system_ok W g" and "sound_store W d" and "(system_step W g)\<^sup>*\<^sup>* (started d t) s"
  shows "users_inv (wb_users W) (users_t (sy_store s)) \<and> sessions_inv (ap_auth (wb_app W)) (sessions_t (sy_store s)) \<and>
    podcasts_inv (wb_pods W) (podcasts_t (sy_store s)) \<and> episodes_inv (wb_pods W) (episodes_t (sy_store s)) \<and>
    tasks_inv (queue_t (sy_store s)) \<and> (\<forall>q \<in> set (queue_t (sy_store s)). ReceiveCount q \<le> 6)"
  using reachable_sound [OF assms] by (simp add: sound_store_def)

theorem tables_stay_sound_witness:
  "\<exists>s. (system_step demo_web mem_sched)\<^sup>*\<^sup>* (started demo_run_store []) s \<and>
     tasks_inv (queue_t (sy_store s)) \<and> queue_t (sy_store s) \<noteq> [] \<and> (\<forall>q \<in> set (queue_t (sy_store s)). ReceiveCount q \<le> 6)"
proof -
  obtain s where s: "(system_step demo_web mem_sched)\<^sup>*\<^sup>* (started demo_run_store []) s"
    "map ReceiveCount (queue_t (sy_store s)) = [1]" by (rule demo_run)
  from tables_stay_sound [OF demo_system_ok demo_run_store_sound s(1)] s show ?thesis by auto
qed

text \<open>C3: no episode is forgotten: at every moment every episode that waits to be downloaded has a live
  task of the download worker that names it.\<close>

theorem pending_episode_has_task:
  assumes "system_ok W g" and "sound_store W d" and "(system_step W g)\<^sup>*\<^sup>* (started d t) s"
    and "e \<in> set (episodes_t (sy_store s))" "e_DeletedAt e = None" "e_Status e = EpisodeStatusPending"
  shows "\<exists>q \<in> set (queue_t (sy_store s)). QueueName q = DownloadWorkerQueueName \<and> DeletedAt q = None \<and>
    Data q = JString (e_GUID e)"
  using reachable_sound [OF assms(1-3)] assms(4-)
  by (auto simp: sound_store_def is_pending_def download_task_def)

theorem pending_episode_has_task_witness:
  "\<exists>s q. (system_step demo_web mem_sched)\<^sup>*\<^sup>* (started demo_run_store []) s \<and> q \<in> set (queue_t (sy_store s)) \<and>
     Data q = JString ''u-one''"
proof -
  obtain s where s: "(system_step demo_web mem_sched)\<^sup>*\<^sup>* (started demo_run_store []) s"
    "episodes_t (sy_store s) = episodes_t dl_store" by (rule demo_run)
  have "\<exists>q \<in> set (queue_t (sy_store s)). QueueName q = DownloadWorkerQueueName \<and> DeletedAt q = None \<and>
    Data q = JString (e_GUID (hd (episodes_t dl_store)))"
    by (rule pending_episode_has_task [OF demo_system_ok demo_run_store_sound s(1)])
      (simp_all add: s(2), simp_all add: dl_store_def demo_episode_def episode_zero_def)
  with s(1) show ?thesis by (auto simp: dl_store_def demo_episode_def)
qed

section \<open>The queue\<close>

text \<open>C5: seen through its queue, the running program does nothing but the steps of the queue's own
  model: whatever it does from a state it can be in, the queue's model can follow.  So what is proved
  of the queue holds of the program.\<close>

theorem running_program_refines_queue:
  assumes W: "system_ok W g" and d: "sound_store W d" and s: "(system_step W g)\<^sup>*\<^sup>* (started d t) s"
  shows "\<exists>q. (queue_step (ap_queue (wb_app W)))\<^sup>*\<^sup>* (queue_of (queue_t d)) q \<and> queue_part s q \<and>
    (\<forall>s'. system_step W g s s' \<longrightarrow> (\<exists>q'. (queue_step (ap_queue (wb_app W)))\<^sup>*\<^sup>* q q' \<and> queue_part s' q'))"
  using reachable_queue [OF assms] system_step_queue [OF W] by metis

theorem running_program_refines_queue_witness:
  "\<exists>s q. (system_step demo_web mem_sched)\<^sup>*\<^sup>* (started demo_run_store []) s \<and> sy_busy s DownloadWorkerQueueName \<noteq> None \<and>
     (queue_step demo_queue)\<^sup>*\<^sup>* (queue_of (queue_t demo_run_store)) q \<and> qs_busy q DownloadWorkerQueueName \<noteq> None"
proof -
  obtain s where s: "(system_step demo_web mem_sched)\<^sup>*\<^sup>* (started demo_run_store []) s"
    "sy_busy s DownloadWorkerQueueName \<noteq> None" by (rule demo_run)
  from running_program_refines_queue [OF demo_system_ok demo_run_store_sound s(1)] s(2) show ?thesis
    by (auto simp: queue_part_def intro!: exI [of _ s] s(1))
qed

section \<open>Sessions\<close>

text \<open>C15: a session that was logged out, or that began more than a day ago, is never accepted again,
  whatever the program does from then on.\<close>

theorem ended_session_stays_ended:
  assumes W: "system_ok W g" and d: "sound_store W d" and s: "(system_step W g)\<^sup>*\<^sup>* (started d t) s"
    and later: "(system_step W g)\<^sup>*\<^sup>* s s'"
    and row: "row \<in> set (sessions_t (sy_store s))" "SessionID row = strSHA256 (getSessionIDFromCookie r)"
    and ended: "SessionDeletedAt row \<noteq> None \<or> cl 1 - StartTime row > 24 * Hour"
  shows "\<exists>e. GetSession (ap_auth (wb_app W)) cl r us (sessions_t (sy_store s')) = Inl e"
proof (cases "GetSession (ap_auth (wb_app W)) cl r us (sessions_t (sy_store s'))")
  case (Inr x)
  let ?t' = "sessions_t (sy_store s')"
  note D = system_okD(2) [OF W]
  have "kept row (sessions_t (sy_store s))" using row(1) by (auto simp: kept_def)
  then have "kept row ?t'" using reachable_sessions [OF later] kept_ops [OF D] by (auto simp: changed_by_def)
  then obtain y where y: "y \<in> set ?t'" "SessionID y = SessionID row" "StartTime y = StartTime row"
    "SessionDeletedAt row \<noteq> None \<longrightarrow> SessionDeletedAt y \<noteq> None" by (auto simp: kept_def)
  from rtranclp_trans [OF s later] have "sessions_inv (ap_auth (wb_app W)) ?t'"
    using reachable_rows [OF W d] by blast
  then have "distinct (map SessionID ?t')" by (simp add: sessions_inv_def)
  moreover from D Inr obtain z where z: "z \<in> set ?t'" "SessionDeletedAt z = None"
    "SessionID z = strSHA256 (getSessionIDFromCookie r)" "fresh_session cl z" by (rule GetSession_Inr)
  ultimately have "z = y" using y row(2) by (auto intro: distinct_key_eq)
  with z y ended show ?thesis by (auto simp: fresh_session_def)
qed simp

theorem ended_session_stays_ended_witness:
  "\<exists>s e. (system_step demo_web mem_sched)\<^sup>*\<^sup>* (started demo_run_store []) s \<and> sy_busy s DownloadWorkerQueueName \<noteq> None \<and>
     GetSession demo_auth (\<lambda>_. 25 * Hour) (cookie_request ''GET'' ''/'' ''tok'') demo_table (sessions_t (sy_store s)) = Inl e"
proof -
  obtain s where s: "(system_step demo_web mem_sched)\<^sup>*\<^sup>* (started demo_run_store []) s"
    "sy_busy s DownloadWorkerQueueName \<noteq> None" by (rule demo_run)
  have row: "demo_session ''tok'' 1 0 \<in> set (sessions_t (sy_store (started demo_run_store [])))"
    by (simp add: started_def demo_sessions_def)
  have "\<exists>e. GetSession demo_auth (\<lambda>_. 25 * Hour) (cookie_request ''GET'' ''/'' ''tok'') demo_table
      (sessions_t (sy_store s)) = Inl e"
    using ended_session_stays_ended [OF demo_system_ok demo_run_store_sound rtranclp.rtrancl_refl s(1) row]
    by simp
  with s show ?thesis by blast
qed

section \<open>Workers\<close>

text \<open>
  The running program while somebody watches the worker of one queue: \<open>poll\<close> is its call of
  \<^verbatim>\<open>PopQueueTask\<close>, whichever way it ends, and between two polls anything may happen.  Of each poll the
  list says whether a task was ready for it.
\<close>

inductive watched_run ::
  "'o web_deps \<Rightarrow> ScheduledTaskState gorm \<Rightarrow> string \<Rightarrow> 'o system \<Rightarrow> bool list \<Rightarrow> 'o system \<Rightarrow> bool" for W g name s0 where
  watching: "watched_run W g name s0 [] s0"
| other: "watched_run W g name s0 polls s \<Longrightarrow> system_step W g s s' \<Longrightarrow> watched_run W g name s0 polls s'"
| poll: "watched_run W g name s0 polls s \<Longrightarrow> sy_busy s name = None \<Longrightarrow>
    PopQueueTask (ap_queue (wb_app W)) cl name (queue_t (sy_store s)) = (res, t') \<Longrightarrow>
    s' = (case res of Inl err \<Rightarrow> s
      | Inr qt \<Rightarrow> s\<lparr>sy_store := (sy_store s)\<lparr>queue_t := t'\<rparr>, sy_busy := (sy_busy s)(name := Some (qt, None))\<rparr>) \<Longrightarrow>
    watched_run W g name s0 (polls @ [\<exists>q \<in> set (queue_t (sy_store s)). available cl name q]) s'"

lemma watched_others: "(system_step W g)\<^sup>*\<^sup>* s s' \<Longrightarrow> watched_run W g name s0 polls s \<Longrightarrow> watched_run W g name s0 polls s'"
  by (induction rule: rtranclp_induct) (auto intro: watched_run.other)

text \<open>A poll finds a task exactly when one is ready.\<close>

lemma poll_result:
  assumes D: "queue_deps_up D" and inv: "tasks_inv t" and run: "PopQueueTask D cl name t = (res, t')"
  shows "(\<exists>q \<in> set t. available cl name q) \<longleftrightarrow> (\<exists>qt. res = Inr qt)"
proof
  assume "\<exists>q \<in> set t. available cl name q"
  with PopQueueTask_total [OF D inv] run show "\<exists>qt. res = Inr qt" by (metis Pair_inject)
next
  assume "\<exists>qt. res = Inr qt"
  with D run PopQueueTask_Inr show "\<exists>q \<in> set t. available cl name q" by (metis queue_deps_up_def)
qed

lemma watched_work:
  assumes W: "system_ok W g" and up: "queue_deps_up (ap_queue (wb_app W))" and d: "sound_store W d"
    and name: "name \<in> set serve_queues" and run: "watched_run W g name (started d t) polls s"
  shows "\<exists>q. (queue_step (ap_queue (wb_app W)))\<^sup>*\<^sup>* (queue_of (queue_t d)) q \<and> queue_part s q \<and>
    work_done name (queue_t d) + count_list polls True \<le> work_done name (queue_t (sy_store s)) \<and>
    length (tasks_of name (queue_t d)) \<le> length (tasks_of name (queue_t (sy_store s)))"
  using run
proof induction
  case watching
  then show ?case using started_queue [of d t] by (intro exI [of _ "queue_of (queue_t d)"]) (simp add: started_def)
next
  case (other polls s s')
  let ?D = "ap_queue (wb_app W)"
  have D: "queue_deps_ok ?D" using up by (simp add: queue_deps_up_def)
  from other.IH obtain q where q: "(queue_step ?D)\<^sup>*\<^sup>* (queue_of (queue_t d)) q" "queue_part s q"
    "work_done name (queue_t d) + count_list polls True \<le> work_done name (queue_t (sy_store s))"
    "length (tasks_of name (queue_t d)) \<le> length (tasks_of name (queue_t (sy_store s)))" by blast
  from system_step_queue [OF W other.hyps(2) q(2)] obtain q' where q': "(queue_step ?D)\<^sup>*\<^sup>* q q'" "queue_part s' q'" by blast
  have "system_inv (queue_of (queue_t d))" using d by (intro queue_of_inv) (simp_all add: sound_store_def)
  from queue_steps_work [OF D q'(1) system_inv_steps [OF q(1) D this], of name] q q'
  show ?case by (intro exI [of _ q']) (auto simp: queue_part_def intro: rtranclp_trans)
next
  case (poll polls s cl res t' s')
  let ?D = "ap_queue (wb_app W)"
  have D: "queue_deps_ok ?D" using up by (simp add: queue_deps_up_def)
  from poll.IH obtain q where q: "(queue_step ?D)\<^sup>*\<^sup>* (queue_of (queue_t d)) q" "queue_part s q"
    "work_done name (queue_t d) + count_list polls True \<le> work_done name (queue_t (sy_store s))"
    "length (tasks_of name (queue_t d)) \<le> length (tasks_of name (queue_t (sy_store s)))" by blast
  have "system_inv (queue_of (queue_t d))" using d by (intro queue_of_inv) (simp_all add: sound_store_def)
  then have "system_inv q" by (rule system_inv_steps [OF q(1) D])
  then have inv: "tasks_inv (queue_t (sy_store s))" using q(2) by (simp add: system_inv_def queue_part_def)
  note ready = poll_result [OF up inv poll.hyps(3)]
  show ?case
  proof (cases res)
    case (Inl err)
    with ready have "\<not> (\<exists>q \<in> set (queue_t (sy_store s)). available cl name q)" by simp
    with q show ?thesis unfolding poll.hyps(4) Inl by (intro exI [of _ q]) simp
  next
    case (Inr qt)
    note run = poll.hyps(3) [unfolded Inr]
    have "system_step W g s s'" unfolding poll.hyps(4) Inr sum.case by (rule system_step.take_task [OF name poll.hyps(2) run])
    from system_step_queue [OF W this q(2)] obtain q' where q': "(queue_step ?D)\<^sup>*\<^sup>* q q'" "queue_part s' q'" by blast
    have "\<exists>q \<in> set (queue_t (sy_store s)). available cl name q" using ready Inr by simp
    moreover have "queue_t (sy_store s') = t'" by (simp add: poll.hyps(4) Inr)
    ultimately show ?thesis using q q' pop_work [OF D inv run, of name]
      by (intro exI [of _ q']) (auto intro: rtranclp_trans)
  qed
qed

text \<open>
  The loop of a worker, undisturbed, is such a run, with one poll for each turn; \<open>split\<close> divides the
  handler's readings of the clock.
\<close>

definition worker_handler ::
  "'o web_deps \<Rightarrow> ((nat \<Rightarrow> time) \<Rightarrow> nat \<Rightarrow> nat \<Rightarrow> time) \<Rightarrow> string \<Rightarrow> 'o store queue_handler" where
  "worker_handler W split name = (\<lambda>cl payload (t, d).
     (case serve_handler W name (split cl) payload (d\<lparr>queue_t := t\<rparr>) of (err, d') \<Rightarrow> (err, (queue_t d', d'))))"

lemma worker_turn_watched:
  assumes name: "name \<in> set serve_queues" and run: "watched_run W g name s0 polls s" and idle: "sy_busy s name = None"
    and loop: "sy_store s = d\<lparr>queue_t := t\<rparr>"
    and turn: "worker_turn (ap_queue (wb_app W)) name (worker_handler W split name) cl (t, d) = (res, (t', d'))"
  shows "\<exists>ready s'. watched_run W g name s0 (polls @ [ready]) s' \<and> sy_busy s' name = None \<and> sy_store s' = d'\<lparr>queue_t := t'\<rparr>"
proof -
  let ?D = "ap_queue (wb_app W)"
  obtain r t1 where pop: "PopQueueTask ?D (cl 0) name t = (r, t1)" by fastforce
  then have pop': "PopQueueTask ?D (cl 0) name (queue_t (sy_store s)) = (r, t1)" by (simp add: loop)
  show ?thesis
  proof (cases r)
    case (Inl err)
    with pop turn have "t' = t1" "d' = d" "t1 = t" by (auto simp: worker_turn_parts dest: PopQueueTask_error)
    with watched_run.poll [OF run idle pop' refl] idle loop show ?thesis unfolding Inl by auto
  next
    case (Inr qt)
    let ?s1 = "s\<lparr>sy_store := (sy_store s)\<lparr>queue_t := t1\<rparr>, sy_busy := (sy_busy s)(name := Some (qt, None))\<rparr>"
    from watched_run.poll [OF run idle pop' refl]
    obtain ready where run1: "watched_run W g name s0 (polls @ [ready]) ?s1" unfolding Inr by auto
    obtain err d2 where h: "serve_handler W name (split (cl 1)) (Data qt) (d\<lparr>queue_t := t1\<rparr>) = (err, d2)" by fastforce
    let ?s2 = "?s1\<lparr>sy_store := d2, sy_busy := (sy_busy ?s1)(name := Some (qt, Some err))\<rparr>"
    have run2: "watched_run W g name s0 (polls @ [ready]) ?s2"
      using run1 by (rule watched_run.other) (rule system_step.handle [where cls = "split (cl 1)"], use h in \<open>simp_all add: loop\<close>)
    let ?t' = "if err = None then snd (completeQueueTask ?D (cl 2 0) qt (queue_t d2)) else snd (returnQueueTask ?D (cl 2) qt (queue_t d2))"
    let ?s3 = "?s2\<lparr>sy_store := (sy_store ?s2)\<lparr>queue_t := ?t'\<rparr>, sy_busy := (sy_busy ?s2)(name := None)\<rparr>"
    have "system_step W g ?s2 ?s3"
    proof (cases err)
      case None
      show ?thesis
        by (rule system_step.complete [where now = "cl 2 0" and qt = qt and err = "fst (completeQueueTask ?D (cl 2 0) qt (queue_t d2))"])
          (simp_all add: None)
    next
      case (Some e)
      show ?thesis
        by (rule system_step.give_back [where cl = "cl 2" and qt = qt and e = e and err = "fst (returnQueueTask ?D (cl 2) qt (queue_t d2))"])
          (simp_all add: Some)
    qed
    with run2 have "watched_run W g name s0 (polls @ [ready]) ?s3" by (rule watched_run.other)
    moreover from pop turn Inr h have "t' = ?t'" "d' = d2" by (auto simp: worker_turn_parts worker_handler_def)
    ultimately show ?thesis by (intro exI [of _ ready] exI [of _ ?s3]) simp
  qed
qed

lemma worker_loop_watched:
  assumes "name \<in> set serve_queues" and "watched_run W g name s0 polls s" and "sy_busy s name = None"
    and "sy_store s = d\<lparr>queue_t := t\<rparr>"
    and "QueueWorker_Start (ap_queue (wb_app W)) name (worker_handler W split name) cls (t, d) = (t', d')"
  shows "\<exists>more s'. length more = length cls \<and> watched_run W g name s0 (polls @ more) s' \<and> sy_store s' = d'\<lparr>queue_t := t'\<rparr>"
  using assms(2-)
proof (induction cls arbitrary: polls s t d)
  case (Cons cl cls)
  obtain res t1 d1 where turn: "worker_turn (ap_queue (wb_app W)) name (worker_handler W split name) cl (t, d) = (res, (t1, d1))"
    by (metis surj_pair)
  from worker_turn_watched [OF assms(1) Cons.prems(1-3) this] obtain ready s1
    where "watched_run W g name s0 (polls @ [ready]) s1" "sy_busy s1 name = None" "sy_store s1 = d1\<lparr>queue_t := t1\<rparr>" by blast
  from Cons.IH [OF this] Cons.prems(4) turn obtain more s' where "length more = length cls"
    "watched_run W g name s0 (polls @ ready # more) s'" "sy_store s' = d'\<lparr>queue_t := t'\<rparr>" by auto
  then show ?case by (intro exI [of _ "ready # more"] exI [of _ s']) simp
qed auto

text \<open>C7: the workers get through their queues, whatever else the program does meanwhile: whatever
  requests, scheduler rounds, other workers, commands and crashes come between its polls, and whatever
  its handler answers, a worker that polls finds a task ready at most as often as the tasks of its queue
  had deliveries left when the program started, and six times more for each task that was pushed to its
  queue since; the deliveries still left at the end are not used by then.  So among one poll more than
  that there is one for which every task of the queue is completed, has been tried six times, or waits
  for its next try.  This is for a database that is available.\<close>

theorem workers_get_through_queues:
  assumes "system_ok W g" and "queue_deps_up (ap_queue (wb_app W))" and "sound_store W d"
    and "name \<in> set serve_queues" and "watched_run W g name (started d t) polls s"
  shows "let new = length (tasks_of name (queue_t (sy_store s))) - length (tasks_of name (queue_t d));
             bound = work_left name (queue_t d) + 6 * new
    in length (tasks_of name (queue_t d)) \<le> length (tasks_of name (queue_t (sy_store s))) \<and>
       count_list polls True + work_left name (queue_t (sy_store s)) \<le> bound \<and>
       (False \<in> set polls \<or> length polls \<le> bound)"
proof -
  let ?q = "queue_t d" and ?r = "queue_t (sy_store s)"
  from watched_work [OF assms] have w: "work_done name ?q + count_list polls True \<le> work_done name ?r"
    and len: "length (tasks_of name ?q) \<le> length (tasks_of name ?r)" by blast+
  have "count_list polls True + work_left name ?r \<le> work_left name ?q + 6 * (length (tasks_of name ?r) - length (tasks_of name ?q))"
    using w len work_total [of name ?q] work_total [of name ?r] by linarith
  moreover have "False \<in> set polls \<or> count_list polls True = length polls" by (induction polls) auto
  ultimately show ?thesis using len by (auto simp: Let_def)
qed

text \<open>The download worker takes the task, the program is stopped, and after the restart the worker finds nothing ready.\<close>

theorem workers_get_through_queues_witness:
  "\<exists>s. watched_run demo_web mem_sched DownloadWorkerQueueName (started demo_run_store []) [True, False] s \<and>
     count_list [True, False] True + work_left DownloadWorkerQueueName (queue_t (sy_store s)) \<le>
       6 + 6 * (length (tasks_of DownloadWorkerQueueName (queue_t (sy_store s))) - 1)"
proof -
  let ?n = DownloadWorkerQueueName and ?s0 = "started demo_run_store []" and ?D = "ap_queue (wb_app demo_web)"
  let ?sa = "?s0\<lparr>sy_store := (sy_store ?s0)\<lparr>queue_t := [(taken (\<lambda>_. 9) demo_dl_task)\<lparr>UpdatedAt := 9\<rparr>]\<rparr>,
      sy_busy := (sy_busy ?s0)(?n := Some (taken (\<lambda>_. 9) demo_dl_task, None))\<rparr>"
  let ?sb = "?sa\<lparr>sy_busy := (\<lambda>_. None), sy_requests := []\<rparr>"
  have up: "queue_deps_up ?D" "?n \<in> set serve_queues" by (simp_all add: serve_queues_def)
  have "watched_run demo_web mem_sched ?n ?s0 ([] @ [\<exists>q \<in> set (queue_t (sy_store ?s0)). available (\<lambda>_. 9) ?n q]) ?sa"
    by (rule watched_run.poll [OF watched_run.watching _ demo_dl_pop]) (simp_all add: started_def)
  moreover have "\<exists>q \<in> set (queue_t (sy_store ?s0)). available (\<lambda>_. 9) ?n q"
    by (simp add: started_def demo_run_store_def available_def demo_task_def)
  ultimately have "watched_run demo_web mem_sched ?n ?s0 [True] ?sa" by simp
  then have b: "watched_run demo_web mem_sched ?n ?s0 [True] ?sb" by (rule watched_run.other) (rule system_step.crash)
  obtain res t' where pop: "PopQueueTask ?D (\<lambda>_. 9) ?n (queue_t (sy_store ?sb)) = (res, t')" by fastforce
  have none: "\<not> (\<exists>q \<in> set (queue_t (sy_store ?sb)). available (\<lambda>_. 9) ?n q)"
    by (simp add: available_def taken_def)
  have inv: "tasks_inv (queue_t (sy_store ?sb))" by (simp add: tasks_inv_def taken_def demo_task_def)
  from poll_result [OF up(1) inv pop] none obtain err where "res = Inl err" by (cases res) auto
  then have "watched_run demo_web mem_sched ?n ?s0
      ([True] @ [\<exists>q \<in> set (queue_t (sy_store ?sb)). available (\<lambda>_. 9) ?n q]) ?sb"
    by (intro watched_run.poll [OF b _ pop]) simp_all
  with none have run: "watched_run demo_web mem_sched ?n ?s0 [True, False] ?sb" by simp
  have "work_left ?n (queue_t demo_run_store) = 6" "length (tasks_of ?n (queue_t demo_run_store)) = 1"
    by (simp_all add: work_left_def tasks_of_def deliveries_used_def demo_run_store_def demo_task_def)
  with workers_get_through_queues [OF demo_system_ok up(1) demo_run_store_sound up(2) run] run show ?thesis
    by (intro exI [of _ ?sb]) (simp add: Let_def)
qed

end
