(* ===== verification/ErrorTexts.thy ===== *)
theory ErrorTexts
  imports Prelude
begin

text \<open>
  The texts of error values: the \<^verbatim>\<open>Error\<close> methods of the error types the program declares, and the text
  of an error as \<^verbatim>\<open>%v\<close> and \<^verbatim>\<open>%s\<close> print it.  The texts of errors of libraries are parameters.
\<close>

record library_texts =
  lt_sentinel :: "sentinel \<Rightarrow> string"
  lt_validation :: "string list \<Rightarrow> string"

definition PasswordStrengthError_Error :: "string \<Rightarrow> string" where
  "PasswordStrengthError_Error Message = Message"

definition HttpError_Error :: "int \<Rightarrow> string \<Rightarrow> string" where
  "HttpError_Error StatusCode Message = ''HTTP Error ('' @ show_int StatusCode @ ''): '' @ Message"

definition ParseErrors_Error :: "string list \<Rightarrow> string" where
  "ParseErrors_Error errStrs =
     show_nat (length errStrs) @ '' errors whilst parsing episodes: '' @ strings_Join errStrs '', ''"

fun error_text :: "library_texts \<Rightarrow> go_error \<Rightarrow> string" where
  "error_text L (Sentinel s) = lt_sentinel L s"
| "error_text L (PasswordStrengthError m) = PasswordStrengthError_Error m"
| "error_text L (HttpError code m) = HttpError_Error code m"
| "error_text L (ValidationErrors es) = lt_validation L es"
| "error_text L (ParseErrors es) = ParseErrors_Error (map (error_text L) es)"
| "error_text L (ErrorText m) = m"
| "error_text L (Wrapped m e) = m @ error_text L e"
| "error_text L (Joined es) = strings_Join (map (error_text L) es) [CHR 0x0A]"

end
