(* ===== verification/Program.thy ===== *)
theory Program
  imports SystemProps ErrorTexts
begin

text \<open>
  The goroutines of \<^verbatim>\<open>cmd/serve/serve.go\<close>: the web server (\<^verbatim>\<open>Server.Start\<close>), the scheduler
  (\<^verbatim>\<open>TaskScheduler.Start\<close>) and the three workers (\<^verbatim>\<open>QueueWorker.Start\<close>), each at a point of its loop, under
  one cancellable context.  Every move of a goroutine is a step of the system or leaves the system as
  it is; what ends the program, and that it then does end, is proved here.
\<close>

section \<open>The group of goroutines\<close>

text \<open>
  The library's \<^verbatim>\<open>errgroup\<close>: what it records when a function of the group returns, whether its context
  is cancelled, and what \<^verbatim>\<open>Wait\<close> returns when all have.
\<close>

record 'g group_lib =
  eg_new :: "'g"
  eg_returned :: "go_error option \<Rightarrow> 'g \<Rightarrow> 'g"
  eg_cancelled :: "'g \<Rightarrow> bool"
  eg_Wait :: "'g \<Rightarrow> go_error option"

locale error_group =
  fixes G :: "'g group_lib"
  assumes new_group: "\<not> eg_cancelled G (eg_new G)" "eg_Wait G (eg_new G) = None"
    and returned_nil: "eg_cancelled G (eg_returned G None g) = eg_cancelled G g"
      "eg_Wait G (eg_returned G None g) = eg_Wait G g"
    and returned_error: "eg_cancelled G (eg_returned G (Some e) g)"
      "eg_Wait G (eg_returned G (Some e) g) = Some (case eg_Wait G g of None \<Rightarrow> e | Some e0 \<Rightarrow> e0)"
begin

lemma stays_cancelled: "eg_cancelled G g \<Longrightarrow> eg_cancelled G (eg_returned G r g)"
  by (cases r) (simp_all add: returned_nil returned_error)

lemma first_error_stays: "eg_Wait G g = Some e \<Longrightarrow> eg_Wait G (eg_returned G r g) = Some e"
  by (cases r) (simp_all add: returned_nil returned_error)

end

definition first_error :: "(go_error option) group_lib" where
  "first_error = \<lparr>eg_new = None, eg_returned = (\<lambda>r g. case g of None \<Rightarrow> r | Some e \<Rightarrow> Some e),
     eg_cancelled = (\<lambda>g. g \<noteq> None), eg_Wait = id\<rparr>"

interpretation first_error: error_group first_error
  by unfold_locales (auto simp: first_error_def split: option.splits)

section \<open>Where each goroutine is\<close>

datatype server_phase = Listening | Serving | ShuttingDown
datatype scheduler_phase = SettingUp | InRound "ScheduledTaskDefinition list" | Waiting
datatype worker_phase = Polling | Sleeping

datatype 'p goroutine = Running 'p | Returned "go_error option"

text \<open>
  What a worker that is not asleep holds is in \<open>sy_busy\<close>; \<open>pr_ticked\<close> says that the scheduler's ticker
  has fired and the scheduler has not seen it yet.
\<close>

record ('o, 'g) program =
  pr_system :: "'o system"
  pr_group :: "'g"
  pr_server :: "server_phase goroutine"
  pr_scheduler :: "scheduler_phase goroutine"
  pr_worker :: "string \<Rightarrow> worker_phase goroutine"
  pr_ticked :: bool

definition serve_begin :: "'g group_lib \<Rightarrow> 'o system \<Rightarrow> ('o, 'g) program" where
  "serve_begin G s =
     \<lparr>pr_system = s, pr_group = eg_new G, pr_server = Running Listening, pr_scheduler = Running SettingUp,
      pr_worker = (\<lambda>_. Running Polling), pr_ticked = False\<rparr>"

text \<open>\<^verbatim>\<open>ctx.Err()\<close> of a cancelled context.\<close>

definition ctx_Err :: go_error where "ctx_Err = ErrorText ''context canceled''"

text \<open>What \<^verbatim>\<open>Server.Start\<close> returns when the server has failed, and when it was shut down.\<close>

definition server_failed :: "go_error \<Rightarrow> go_error option" where
  "server_failed err = Some (Wrapped ''failed to start web server: '' err)"

definition server_stopped :: "go_error option \<Rightarrow> go_error option" where
  "server_stopped shutdown = map_option (Wrapped ''error when shutting down web server: '') shutdown"

text \<open>What \<^verbatim>\<open>run\<close> does when \<^verbatim>\<open>g.Wait\<close> returns.\<close>

definition serve_end :: "(go_error \<Rightarrow> string) \<Rightarrow> 'g group_lib \<Rightarrow> 'g \<Rightarrow> cli_outcome" where
  "serve_end text_of G g =
     (case eg_Wait G g of
        None \<Rightarrow> Printed []
      | Some err \<Rightarrow> Fatal (''fatal error: '' @ text_of err))"

definition all_returned :: "('o, 'g) program \<Rightarrow> bool" where
  "all_returned p \<longleftrightarrow>
     (\<exists>r. pr_server p = Returned r) \<and> (\<exists>r. pr_scheduler p = Returned r) \<and>
     (\<forall>name \<in> set serve_queues. \<exists>r. pr_worker p name = Returned r)"

section \<open>Moves\<close>

text \<open>\<open>Own\<close> is a move of a goroutine of the program; the others come from outside.\<close>

datatype move = Own | Ticker | Outside

definition server_returns :: "'g group_lib \<Rightarrow> go_error option \<Rightarrow> ('o, 'g) program \<Rightarrow> ('o, 'g) program" where
  "server_returns G r p = p\<lparr>pr_server := Returned r, pr_group := eg_returned G r (pr_group p)\<rparr>"

definition scheduler_returns :: "'g group_lib \<Rightarrow> go_error option \<Rightarrow> ('o, 'g) program \<Rightarrow> ('o, 'g) program" where
  "scheduler_returns G r p = p\<lparr>pr_scheduler := Returned r, pr_group := eg_returned G r (pr_group p)\<rparr>"

definition worker_returns :: "'g group_lib \<Rightarrow> string \<Rightarrow> go_error option \<Rightarrow> ('o, 'g) program \<Rightarrow> ('o, 'g) program" where
  "worker_returns G name r p =
     p\<lparr>pr_worker := (pr_worker p)(name := Returned r), pr_group := eg_returned G r (pr_group p)\<rparr>"

abbreviation pr_store :: "('o, 'g) program \<Rightarrow> 'o store" where "pr_store p \<equiv> sy_store (pr_system p)"
abbreviation pr_busy :: "('o, 'g) program \<Rightarrow> string \<Rightarrow> (QueueTask \<times> go_error option option) option" where
  "pr_busy p \<equiv> sy_busy (pr_system p)"

text \<open>
  The goroutine that listens sends its error to the \<^verbatim>\<open>select\<close> of \<^verbatim>\<open>Server.Start\<close>; a cancelled context
  makes it shut down, which ends when no request is being served any more.
\<close>

inductive server_move ::
  "'o web_deps \<Rightarrow> 'g group_lib \<Rightarrow> ('o, 'g) program \<Rightarrow> ('o, 'g) program \<Rightarrow> bool" for W G p where
  listen: "pr_server p = Running Listening \<Longrightarrow> server_move W G p (p\<lparr>pr_server := Running Serving\<rparr>)"
| failed: "pr_server p \<in> {Running Listening, Running Serving} \<Longrightarrow>
    server_move W G p (server_returns G (server_failed err) p)"
| cancelled: "pr_server p \<in> {Running Listening, Running Serving} \<Longrightarrow> eg_cancelled G (pr_group p) \<Longrightarrow>
    server_move W G p (p\<lparr>pr_server := Running ShuttingDown\<rparr>)"
| shut_down: "pr_server p = Running ShuttingDown \<Longrightarrow> sy_requests (pr_system p) = [] \<Longrightarrow>
    server_move W G p (server_returns G (server_stopped err) p)"
| answer: "sy_requests (pr_system p) = xs @ (h, ctx, r) # ys \<Longrightarrow>
    h ctx r (pr_store p, w) = (out, (d', w')) \<Longrightarrow>
    server_move W G p (p\<lparr>pr_system := (pr_system p)\<lparr>sy_store := d', sy_requests := xs @ ys\<rparr>\<rparr>)"

text \<open>Both cases of the scheduler's \<^verbatim>\<open>select\<close> may be ready; then either is taken.\<close>

inductive scheduler_move ::
  "'o web_deps \<Rightarrow> ScheduledTaskState gorm \<Rightarrow> 'g group_lib \<Rightarrow> ('o, 'g) program \<Rightarrow> ('o, 'g) program \<Rightarrow> bool" for W g G p where
  set_up: "pr_scheduler p = Running SettingUp \<Longrightarrow>
    setupState (serve_scheduler g W) cl serve_tasks (sy_sched (pr_system p)) = (None, t') \<Longrightarrow>
    scheduler_move W g G p (p\<lparr>pr_system := (pr_system p)\<lparr>sy_sched := t'\<rparr>, pr_scheduler := Running (InRound serve_tasks)\<rparr>)"
| set_up_failed: "pr_scheduler p = Running SettingUp \<Longrightarrow>
    setupState (serve_scheduler g W) cl serve_tasks (sy_sched (pr_system p)) = (Some err, t') \<Longrightarrow>
    scheduler_move W g G p (scheduler_returns G (Some err) (p\<lparr>pr_system := (pr_system p)\<lparr>sy_sched := t'\<rparr>\<rparr>))"
| process: "pr_scheduler p = Running (InRound (td # tds)) \<Longrightarrow>
    processTask (serve_scheduler g W) cl td (sy_sched (pr_system p), queue_t (pr_store p)) = (t', q') \<Longrightarrow>
    scheduler_move W g G p (p\<lparr>pr_system := (pr_system p)\<lparr>sy_sched := t', sy_store := (pr_store p)\<lparr>queue_t := q'\<rparr>\<rparr>,
      pr_scheduler := Running (InRound tds)\<rparr>)"
| round_done: "pr_scheduler p = Running (InRound []) \<Longrightarrow> scheduler_move W g G p (p\<lparr>pr_scheduler := Running Waiting\<rparr>)"
| next_round: "pr_scheduler p = Running Waiting \<Longrightarrow> pr_ticked p \<Longrightarrow>
    scheduler_move W g G p (p\<lparr>pr_scheduler := Running (InRound serve_tasks), pr_ticked := False\<rparr>)"
| stopped: "pr_scheduler p = Running Waiting \<Longrightarrow> eg_cancelled G (pr_group p) \<Longrightarrow>
    scheduler_move W g G p (scheduler_returns G (Some ctx_Err) p)"

text \<open>A worker looks at its context only between two tasks.\<close>

inductive worker_move ::
  "'o web_deps \<Rightarrow> 'g group_lib \<Rightarrow> string \<Rightarrow> ('o, 'g) program \<Rightarrow> ('o, 'g) program \<Rightarrow> bool" for W G name p where
  stopped: "pr_worker p name = Running Polling \<Longrightarrow> pr_busy p name = None \<Longrightarrow> eg_cancelled G (pr_group p) \<Longrightarrow>
    worker_move W G name p (worker_returns G name (Some ctx_Err) p)"
| no_task: "pr_worker p name = Running Polling \<Longrightarrow> pr_busy p name = None \<Longrightarrow> \<not> eg_cancelled G (pr_group p) \<Longrightarrow>
    PopQueueTask (ap_queue (wb_app W)) cl name (queue_t (pr_store p)) = (Inl err, t') \<Longrightarrow>
    worker_move W G name p (p\<lparr>pr_worker := (pr_worker p)(name := Running Sleeping)\<rparr>)"
| wake: "pr_worker p name = Running Sleeping \<Longrightarrow>
    worker_move W G name p (p\<lparr>pr_worker := (pr_worker p)(name := Running Polling)\<rparr>)"
| take_task: "pr_worker p name = Running Polling \<Longrightarrow> pr_busy p name = None \<Longrightarrow> \<not> eg_cancelled G (pr_group p) \<Longrightarrow>
    PopQueueTask (ap_queue (wb_app W)) cl name (queue_t (pr_store p)) = (Inr qt, t') \<Longrightarrow>
    worker_move W G name p (p\<lparr>pr_system := (pr_system p)\<lparr>sy_store := (pr_store p)\<lparr>queue_t := t'\<rparr>,
      sy_busy := (pr_busy p)(name := Some (qt, None))\<rparr>\<rparr>)"
| handle: "pr_worker p name = Running Polling \<Longrightarrow> pr_busy p name = Some (qt, None) \<Longrightarrow>
    serve_handler W name cls (Data qt) (pr_store p) = (err, d') \<Longrightarrow>
    worker_move W G name p (p\<lparr>pr_system := (pr_system p)\<lparr>sy_store := d',
      sy_busy := (pr_busy p)(name := Some (qt, Some err))\<rparr>\<rparr>)"
| give_back: "pr_worker p name = Running Polling \<Longrightarrow> pr_busy p name = Some (qt, Some (Some e)) \<Longrightarrow>
    returnQueueTask (ap_queue (wb_app W)) cl qt (queue_t (pr_store p)) = (err, t') \<Longrightarrow>
    worker_move W G name p (p\<lparr>pr_system := (pr_system p)\<lparr>sy_store := (pr_store p)\<lparr>queue_t := t'\<rparr>,
      sy_busy := (pr_busy p)(name := None)\<rparr>\<rparr>)"
| complete: "pr_worker p name = Running Polling \<Longrightarrow> pr_busy p name = Some (qt, Some None) \<Longrightarrow>
    completeQueueTask (ap_queue (wb_app W)) now qt (queue_t (pr_store p)) = (err, t') \<Longrightarrow>
    worker_move W G name p (p\<lparr>pr_system := (pr_system p)\<lparr>sy_store := (pr_store p)\<lparr>queue_t := t'\<rparr>,
      sy_busy := (pr_busy p)(name := None)\<rparr>\<rparr>)"

text \<open>
  From outside come the ticks of the scheduler's ticker (one that nobody has seen yet is enough), requests
  while the server listens, and the command line tools on the same database.
\<close>

inductive program_step ::
  "'o web_deps \<Rightarrow> ScheduledTaskState gorm \<Rightarrow> 'g group_lib \<Rightarrow> move \<Rightarrow> ('o, 'g) program \<Rightarrow> ('o, 'g) program \<Rightarrow> bool"
  for W g G where
  server: "server_move W G p p' \<Longrightarrow> program_step W g G Own p p'"
| scheduler: "scheduler_move W g G p p' \<Longrightarrow> program_step W g G Own p p'"
| worker: "name \<in> set serve_queues \<Longrightarrow> worker_move W G name p p' \<Longrightarrow> program_step W g G Own p p'"
| ticker: "program_step W g G Ticker p (p\<lparr>pr_ticked := True\<rparr>)"
| refused: "pr_server p = Running Serving \<Longrightarrow> (pattern, h) \<in> set (sv_mux (NewWebserver W port)) \<Longrightarrow>
    h ctx r (pr_store p, w) = (out, (d', w')) \<Longrightarrow>
    program_step W g G Outside p (p\<lparr>pr_system := (pr_system p)\<lparr>sy_store := d'\<rparr>\<rparr>)"
| admit: "pr_server p = Running Serving \<Longrightarrow> (pattern, h, c) \<in> set (web_routes W) \<Longrightarrow> 1 \<le> required_level c \<Longrightarrow>
    find AuthenticationMiddleware_Match c = cfg \<Longrightarrow>
    authenticated (ap_auth (wb_app W)) cfg ctx r (pr_store p) = Some u \<Longrightarrow> required_level c \<le> AccessLevel u \<Longrightarrow>
    program_step W g G Outside p (p\<lparr>pr_system := (pr_system p)
      \<lparr>sy_store := before_handler (ap_auth (wb_app W)) cfg ctx r (pr_store p),
       sy_requests := (h, CtxWithUser ctx u, r) # sy_requests (pr_system p)\<rparr>\<rparr>)"
| admit_open: "pr_server p = Running Serving \<Longrightarrow> (pattern, h, [skipAuth, requireNone]) \<in> set (web_routes W) \<Longrightarrow>
    program_step W g G Outside p (p\<lparr>pr_system := (pr_system p)
      \<lparr>sy_requests := (h, ctx, r) # sy_requests (pr_system p)\<rparr>\<rparr>)"
| command: "de_users (cl_db E) = wb_users W \<Longrightarrow> command_on E c (users_t (pr_store p)) = (out, t') \<Longrightarrow>
    program_step W g G Outside p (p\<lparr>pr_system := (pr_system p)\<lparr>sy_store := (pr_store p)\<lparr>users_t := t'\<rparr>\<rparr>\<rparr>)"

text \<open>A run: the moves made, in their order.\<close>

inductive program_run ::
  "'o web_deps \<Rightarrow> ScheduledTaskState gorm \<Rightarrow> 'g group_lib \<Rightarrow> ('o, 'g) program \<Rightarrow> move list \<Rightarrow> ('o, 'g) program \<Rightarrow> bool"
  for W g G p where
  start: "program_run W g G p [] p"
| step: "program_run W g G p ms p' \<Longrightarrow> program_step W g G m p' p'' \<Longrightarrow> program_run W g G p (ms @ [m]) p''"

section \<open>A program is a system\<close>

text \<open>A round goes through the program's tasks, and what is being served are its handlers.\<close>

definition program_inv :: "'o web_deps \<Rightarrow> ('o, 'g) program \<Rightarrow> bool" where
  "program_inv W p \<longleftrightarrow>
     (\<forall>tds. pr_scheduler p = Running (InRound tds) \<longrightarrow> suffix tds serve_tasks) \<and>
     (\<forall>(h, ctx, r) \<in> set (sy_requests (pr_system p)). \<exists>pattern c. (pattern, h, c) \<in> set (web_routes W))"

lemma program_inv_step:
  assumes inv: "program_inv W p" and step: "program_step W g G m p p'"
  shows "program_inv W p'"
  using step
proof cases
  case server
  from this(2) inv show ?thesis by cases (auto simp: program_inv_def server_returns_def)
next
  case scheduler
  from this(2) inv show ?thesis by cases (auto simp: program_inv_def scheduler_returns_def dest: suffix_ConsD)
next
  case (worker name)
  from this(3) inv show ?thesis by cases (auto simp: program_inv_def worker_returns_def)
qed (use inv in \<open>auto simp: program_inv_def\<close>)

lemma program_step_system:
  assumes inv: "program_inv W p" and step: "program_step W g G m p p'"
  shows "system_step W g (pr_system p) (pr_system p') \<or> pr_system p' = pr_system p"
  using step
proof cases
  case server
  from this(2) show ?thesis
  proof cases
    case (answer xs h ctx r ys w out d' w')
    from inv answer(2) obtain pattern c where "(pattern, h, c) \<in> set (web_routes W)" by (auto simp: program_inv_def)
    from system_step.answer [OF this answer(2,3)] show ?thesis by (simp add: answer(1))
  qed (simp_all add: server_returns_def)
next
  case scheduler
  from this(2) show ?thesis
  proof cases
    case (process td tds cl t' q')
    from inv process(2) have "td \<in> set serve_tasks" by (auto simp: program_inv_def dest: set_mono_suffix)
    from system_step.tick [OF this process(3)] show ?thesis by (simp add: process(1))
  qed (auto simp: scheduler_returns_def intro: system_step.set_up)
next
  case (worker name)
  from this(3,2) show ?thesis
    by cases (auto simp: worker_returns_def intro: system_step.take_task system_step.handle
        system_step.give_back system_step.complete)
qed (auto intro: system_step.request system_step.admit system_step.admit_open system_step.command)

lemma program_inv_begin: "sy_requests s = [] \<Longrightarrow> program_inv W (serve_begin G s)"
  by (simp add: program_inv_def serve_begin_def)

lemma program_run_inv: "program_run W g G p ms p' \<Longrightarrow> program_inv W p \<Longrightarrow> program_inv W p'"
  by (induction rule: program_run.induct) (auto intro: program_inv_step)

lemma begun_inv: "program_run W g G (serve_begin G (started d t)) ms p \<Longrightarrow> program_inv W p"
  by (erule program_run_inv) (simp add: program_inv_begin started_def)

lemma program_run_system:
  "program_run W g G p ms p' \<Longrightarrow> program_inv W p \<Longrightarrow> (system_step W g)\<^sup>*\<^sup>* (pr_system p) (pr_system p')"
proof (induction rule: program_run.induct)
  case (step ms p1 m p2)
  from program_step_system [OF program_run_inv [OF step.hyps(1) step.prems] step.hyps(2)] step.IH [OF step.prems]
  show ?case by (auto intro: rtranclp.rtrancl_into_rtrancl)
qed simp

section \<open>Runs to try the properties on\<close>

abbreviation demo_program :: "(fs, go_error option) program" where
  "demo_program \<equiv> serve_begin first_error (started demo_run_store [])"

abbreviation demo_programs :: "move list \<Rightarrow> (fs, go_error option) program \<Rightarrow> bool" where
  "demo_programs \<equiv> program_run demo_web mem_sched first_error demo_program"

lemma run_one: "program_step W g G m p p' \<Longrightarrow> program_run W g G p [m] p'"
  using program_run.step [OF program_run.start] by fastforce

text \<open>The download worker takes its task.\<close>

lemma demo_taken:
  obtains p where "demo_programs [Own] p" "pr_busy p DownloadWorkerQueueName \<noteq> None"
proof -
  have "DownloadWorkerQueueName \<in> set serve_queues" by (simp add: serve_queues_def)
  moreover have "worker_move demo_web first_error DownloadWorkerQueueName demo_program
    (demo_program\<lparr>pr_system := (pr_system demo_program)\<lparr>sy_store := (pr_store demo_program)\<lparr>queue_t :=
        [(taken (\<lambda>_. 9) demo_dl_task)\<lparr>UpdatedAt := 9\<rparr>]\<rparr>,
      sy_busy := (pr_busy demo_program)(DownloadWorkerQueueName := Some (taken (\<lambda>_. 9) demo_dl_task, None))\<rparr>\<rparr>)"
    by (rule worker_move.take_task [where cl = "\<lambda>_. 9"])
      (use demo_dl_pop in \<open>simp_all add: serve_begin_def first_error.new_group started_def\<close>)
  ultimately have "demo_programs [Own] (demo_program\<lparr>pr_system := (pr_system demo_program)\<lparr>sy_store := (pr_store demo_program)\<lparr>queue_t :=
        [(taken (\<lambda>_. 9) demo_dl_task)\<lparr>UpdatedAt := 9\<rparr>]\<rparr>,
      sy_busy := (pr_busy demo_program)(DownloadWorkerQueueName := Some (taken (\<lambda>_. 9) demo_dl_task, None))\<rparr>\<rparr>)"
    by (intro run_one program_step.worker)
  then show thesis by (rule that) simp
qed

text \<open>The address of the web server is in use already; then the download worker stops.\<close>

abbreviation demo_failed :: "(fs, go_error option) program" where
  "demo_failed \<equiv> server_returns first_error (server_failed (ErrorText ''address already in use'')) demo_program"

lemma demo_failed:
  "demo_programs [Own] demo_failed" "eg_cancelled first_error (pr_group demo_failed)"
proof -
  have "pr_server demo_program \<in> {Running Listening, Running Serving}" by (simp add: serve_begin_def)
  from server_move.failed [OF this] show "demo_programs [Own] demo_failed" by (intro run_one program_step.server)
  show "eg_cancelled first_error (pr_group demo_failed)"
    by (simp add: server_returns_def server_failed_def first_error.returned_error)
qed

lemma demo_stopping:
  "program_run demo_web mem_sched first_error demo_failed [Own]
     (worker_returns first_error DownloadWorkerQueueName (Some ctx_Err) demo_failed)"
proof -
  have "worker_move demo_web first_error DownloadWorkerQueueName demo_failed
      (worker_returns first_error DownloadWorkerQueueName (Some ctx_Err) demo_failed)"
    by (rule worker_move.stopped [OF _ _ demo_failed(2)]) (simp_all add: serve_begin_def server_returns_def started_def)
  then show ?thesis by (intro run_one program_step.worker) (simp_all add: serve_queues_def)
qed

text \<open>C6: the goroutines of the program, wherever each is in its loop, do nothing to the database but steps
  of the system: every run of the program, with requests, ticks and commands coming at any moment, is a
  run of the system, so what holds of all runs of the system holds of the program.\<close>

theorem program_refines_system:
  assumes "program_run W g G (serve_begin G (started d t)) ms p"
  shows "(system_step W g)\<^sup>*\<^sup>* (started d t) (pr_system p)"
  using program_run_system [OF assms] by (simp add: program_inv_begin started_def) (simp add: serve_begin_def)

theorem program_refines_system_witness:
  "\<exists>p. demo_programs [Own] p \<and> pr_busy p DownloadWorkerQueueName \<noteq> None \<and>
     (system_step demo_web mem_sched)\<^sup>*\<^sup>* (started demo_run_store []) (pr_system p)"
proof -
  obtain p where p: "demo_programs [Own] p" "pr_busy p DownloadWorkerQueueName \<noteq> None" by (rule demo_taken)
  from program_refines_system [OF p(1)] p show ?thesis by blast
qed

section \<open>What ends the program\<close>

definition cause_of_end :: "'o web_deps \<Rightarrow> ScheduledTaskState gorm \<Rightarrow> go_error \<Rightarrow> bool" where
  "cause_of_end W g e \<longleftrightarrow>
     (\<exists>err. e = Wrapped ''failed to start web server: '' err) \<or>
     (\<exists>cl t t'. setupState (serve_scheduler g W) cl serve_tasks t = (Some e, t'))"

definition end_inv :: "'o web_deps \<Rightarrow> ScheduledTaskState gorm \<Rightarrow> 'g group_lib \<Rightarrow> ('o, 'g) program \<Rightarrow> bool" where
  "end_inv W g G p \<longleftrightarrow>
     (if eg_cancelled G (pr_group p) then \<exists>e. eg_Wait G (pr_group p) = Some e \<and> cause_of_end W g e
      else eg_Wait G (pr_group p) = None \<and> pr_server p \<noteq> Running ShuttingDown)"

context error_group
begin

lemma end_inv_returned:
  assumes "end_inv W g G p" "eg_cancelled G (pr_group p) \<or> (\<exists>e. r = Some e \<and> cause_of_end W g e)"
    "pr_group p' = eg_returned G r (pr_group p)"
  shows "end_inv W g G p'"
  using assms returned_nil [of "pr_group p"] returned_error [of _ "pr_group p"] first_error_stays [of "pr_group p"]
    stays_cancelled [of "pr_group p"]
  by (cases r) (auto simp: end_inv_def split: if_splits)

lemma end_inv_step:
  assumes inv: "end_inv W g G p" and step: "program_step W g G m p p'"
  shows "end_inv W g G p'"
proof -
  note returned = end_inv_returned [OF inv]
  show ?thesis using step
  proof cases
    case server
    from this(2) show ?thesis
    proof cases
      case (failed err)
      show ?thesis
        by (rule returned [of "server_failed err"]) (simp_all add: failed(1) server_returns_def server_failed_def cause_of_end_def)
    next
      case (shut_down err)
      with inv have "eg_cancelled G (pr_group p)" by (auto simp: end_inv_def split: if_splits)
      then show ?thesis by (intro returned [of "server_stopped err"]) (simp_all add: shut_down(1) server_returns_def)
    qed (use inv in \<open>auto simp: end_inv_def split: if_splits\<close>)
  next
    case scheduler
    from this(2) show ?thesis
    proof cases
      case (set_up_failed cl err t')
      then have "cause_of_end W g err" by (auto simp: cause_of_end_def)
      then show ?thesis by (intro returned [of "Some err"]) (simp_all add: set_up_failed(1) scheduler_returns_def)
    next
      case stopped
      then show ?thesis by (intro returned [of "Some ctx_Err"]) (simp_all add: scheduler_returns_def)
    qed (use inv in \<open>auto simp: end_inv_def split: if_splits\<close>)
  next
    case (worker name)
    from this(3) show ?thesis
    proof cases
      case stopped
      then show ?thesis by (intro returned [of "Some ctx_Err"]) (simp_all add: worker_returns_def)
    qed (use inv in \<open>auto simp: end_inv_def split: if_splits\<close>)
  qed (use inv in \<open>auto simp: end_inv_def split: if_splits\<close>)
qed

lemma end_inv_run: "program_run W g G p ms p' \<Longrightarrow> end_inv W g G p \<Longrightarrow> end_inv W g G p'"
  by (induction rule: program_run.induct) (auto intro: end_inv_step)

lemma begun_end_inv: "program_run W g G (serve_begin G s) ms p \<Longrightarrow> end_inv W g G p"
  by (erule end_inv_run) (simp add: end_inv_def serve_begin_def new_group)

end

text \<open>C9: nothing that goes wrong with a feed, a download, a task or the database while the program runs
  ends it: its context is cancelled only when the web server cannot listen or serve, or when the
  scheduler could not set up its state; and that error is what the program ends with.\<close>

theorem only_start_failures_end_the_program:
  assumes "error_group G" and "program_run W g G (serve_begin G (started d t)) ms p" and "eg_cancelled G (pr_group p)"
  shows "\<exists>e. serve_end text_of G (pr_group p) = Fatal (''fatal error: '' @ text_of e) \<and>
    ((\<exists>err. e = Wrapped ''failed to start web server: '' err) \<or>
     (\<exists>cl t t'. setupState (serve_scheduler g W) cl serve_tasks t = (Some e, t')))"
  using error_group.begun_end_inv [OF assms(1,2)] assms(3)
  by (auto simp: end_inv_def cause_of_end_def serve_end_def)

definition demo_texts :: library_texts where
  "demo_texts = \<lparr>lt_sentinel = (\<lambda>_. ''not found''), lt_validation = (\<lambda>_. ''not valid'')\<rparr>"

theorem only_start_failures_end_the_program_witness:
  "\<exists>e. serve_end (error_text demo_texts) first_error (pr_group demo_failed) = Fatal (''fatal error: '' @ error_text demo_texts e) \<and>
    ((\<exists>err. e = Wrapped ''failed to start web server: '' err) \<or>
     (\<exists>cl t t'. setupState (serve_scheduler mem_sched demo_web) cl serve_tasks t = (Some e, t')))"
  using only_start_failures_end_the_program [OF first_error.error_group_axioms demo_failed, of "error_text demo_texts"] .

section \<open>The end of the program\<close>

text \<open>The moves a goroutine has left once the context is cancelled.\<close>

fun server_work :: "server_phase goroutine \<Rightarrow> nat" where
  "server_work (Running Listening) = 3"
| "server_work (Running Serving) = 2"
| "server_work (Running ShuttingDown) = 1"
| "server_work (Returned r) = 0"

fun scheduler_work :: "scheduler_phase goroutine \<Rightarrow> nat" where
  "scheduler_work (Running SettingUp) = 5"
| "scheduler_work (Running (InRound tds)) = length tds + 2"
| "scheduler_work (Running Waiting) = 1"
| "scheduler_work (Returned r) = 0"

fun worker_work :: "(QueueTask \<times> go_error option option) option \<Rightarrow> worker_phase goroutine \<Rightarrow> nat" where
  "worker_work busy (Running Sleeping) = 4"
| "worker_work busy (Running Polling) = (case busy of None \<Rightarrow> 1 | Some (_, Some _) \<Rightarrow> 2 | Some (_, None) \<Rightarrow> 3)"
| "worker_work busy (Returned r) = 0"

definition workers_work :: "('o, 'g) program \<Rightarrow> nat" where
  "workers_work p = (\<Sum>name\<leftarrow>serve_queues. worker_work (pr_busy p name) (pr_worker p name))"

definition program_work :: "('o, 'g) program \<Rightarrow> nat" where
  "program_work p = server_work (pr_server p) + scheduler_work (pr_scheduler p) + (if pr_ticked p then 4 else 0) +
     workers_work p + length (sy_requests (pr_system p))"

lemma workers_work_less:
  assumes "name \<in> set serve_queues" "\<And>n. n \<noteq> name \<Longrightarrow> pr_busy p' n = pr_busy p n \<and> pr_worker p' n = pr_worker p n"
    "worker_work (pr_busy p' name) (pr_worker p' name) < worker_work (pr_busy p name) (pr_worker p name)"
  shows "workers_work p' < workers_work p"
  using assms(1,3) assms(2) [of FeedWorkerQueueName] assms(2) [of DownloadWorkerQueueName] assms(2) [of HouseKeepingQueueName]
  by (auto simp: workers_work_def serve_queues_def)

lemma worker_work_le: "worker_work busy ph \<le> 4"
  by (cases "(busy, ph)" rule: worker_work.cases) (auto split: option.splits)

lemma own_move_works:
  assumes c: "eg_cancelled G (pr_group p)" and step: "program_step W g G Own p p'"
  shows "program_work p' < program_work p"
  using step
proof cases
  case server
  from this(1) show ?thesis
    by cases (auto simp: program_work_def workers_work_def server_returns_def)
next
  case scheduler
  from this(1) show ?thesis
    by cases (auto simp: program_work_def workers_work_def scheduler_returns_def serve_tasks_def)
next
  case (worker name)
  from worker(2) c have "(\<forall>n. n \<noteq> name \<longrightarrow> pr_busy p' n = pr_busy p n \<and> pr_worker p' n = pr_worker p n) \<and>
      worker_work (pr_busy p' name) (pr_worker p' name) < worker_work (pr_busy p name) (pr_worker p name) \<and>
      pr_server p' = pr_server p \<and> pr_scheduler p' = pr_scheduler p \<and> pr_ticked p' = pr_ticked p \<and>
      sy_requests (pr_system p') = sy_requests (pr_system p)"
    by cases (auto simp: worker_returns_def split: option.splits)
  with workers_work_less [OF worker(1), of p' p] show ?thesis by (simp add: program_work_def)
qed

lemma other_move_works:
  "program_step W g G Ticker p p' \<Longrightarrow> program_work p' \<le> program_work p + 4"
  "program_step W g G Outside p p' \<Longrightarrow> program_work p' \<le> program_work p + 1"
  by (auto elim!: program_step.cases simp: program_work_def workers_work_def)

lemma own_move_enabled:
  assumes c: "eg_cancelled G (pr_group p)" and running: "\<not> all_returned p"
  shows "\<exists>p'. program_step W g G Own p p'"
proof -
  have worker: "\<exists>p'. worker_move W G name p p'" if "pr_worker p name = Running ph" for name ph
  proof (cases "ph = Sleeping")
    case True
    with that worker_move.wake show ?thesis by metis
  next
    case False
    with that have poll: "pr_worker p name = Running Polling" by (cases ph) auto
    show ?thesis
    proof (cases "pr_busy p name")
      case None
      from worker_move.stopped [OF poll this c] show ?thesis by blast
    next
      case (Some b)
      obtain qt res where b: "b = (qt, res)" by fastforce
      show ?thesis
      proof (cases res)
        case None
        obtain err d' where "serve_handler W name (\<lambda>_ _. 0) (Data qt) (pr_store p) = (err, d')" by fastforce
        from worker_move.handle [OF poll Some [unfolded b None] this] show ?thesis by blast
      next
        case res: (Some r)
        show ?thesis
        proof (cases r)
          case None
          obtain err t' where "completeQueueTask (ap_queue (wb_app W)) 0 qt (queue_t (pr_store p)) = (err, t')" by fastforce
          from worker_move.complete [OF poll Some [unfolded b res None] this] show ?thesis by blast
        next
          case (Some e)
          obtain err t' where "returnQueueTask (ap_queue (wb_app W)) (\<lambda>_. 0) qt (queue_t (pr_store p)) = (err, t')" by fastforce
          from worker_move.give_back [OF poll \<open>pr_busy p name = Some b\<close> [unfolded b res Some] this] show ?thesis by blast
        qed
      qed
    qed
  qed
  have scheduler: "\<exists>p'. scheduler_move W g G p p'" if ph: "pr_scheduler p = Running ph" for ph
  proof (cases ph)
    case SettingUp
    obtain err t' where s: "setupState (serve_scheduler g W) (\<lambda>_. 0) serve_tasks (sy_sched (pr_system p)) = (err, t')" by fastforce
    show ?thesis
    proof (cases err)
      case None
      from scheduler_move.set_up [OF ph [unfolded SettingUp] s [unfolded None]] show ?thesis by blast
    next
      case (Some e)
      from scheduler_move.set_up_failed [OF ph [unfolded SettingUp] s [unfolded Some]] show ?thesis by blast
    qed
  next
    case (InRound tds)
    show ?thesis
    proof (cases tds)
      case Nil
      from scheduler_move.round_done [OF ph [unfolded InRound Nil]] show ?thesis by blast
    next
      case (Cons td tds')
      obtain t' q' where "processTask (serve_scheduler g W) (\<lambda>_. 0) td (sy_sched (pr_system p), queue_t (pr_store p)) = (t', q')"
        by fastforce
      from scheduler_move.process [OF ph [unfolded InRound Cons] this] show ?thesis by blast
    qed
  next
    case Waiting
    from scheduler_move.stopped [OF ph [unfolded Waiting] c] show ?thesis by blast
  qed
  have server: "\<exists>p'. server_move W G p p'" if ph: "pr_server p = Running ph" for ph
  proof (cases ph)
    case ShuttingDown
    show ?thesis
    proof (cases "sy_requests (pr_system p)")
      case Nil
      from server_move.shut_down [OF ph [unfolded ShuttingDown] Nil] show ?thesis by blast
    next
      case (Cons x ys)
      obtain h ctx r where x: "x = (h, ctx, r)" by (metis surj_pair)
      obtain out d' w' where "h ctx r (pr_store p, new_response) = (out, (d', w'))" by (metis surj_pair)
      with server_move.answer [of p "[]" h ctx r ys] Cons x show ?thesis by fastforce
    qed
  qed (use server_move.cancelled [OF _ c] ph in auto)
  from running consider ph where "pr_server p = Running ph" | ph where "pr_scheduler p = Running ph"
    | name ph where "name \<in> set serve_queues" "pr_worker p name = Running ph"
    unfolding all_returned_def by (metis goroutine.exhaust)
  then show ?thesis
  proof cases
    case 1
    from server [OF this] show ?thesis by (blast intro: program_step.server)
  next
    case 2
    from scheduler [OF this] show ?thesis by (blast intro: program_step.scheduler)
  next
    case 3
    from worker [OF 3(2)] 3(1) show ?thesis by (blast intro: program_step.worker)
  qed
qed

lemma program_work_bound:
  assumes "program_inv W p"
  shows "program_work p \<le> 24 + length (sy_requests (pr_system p))"
proof -
  have "server_work (pr_server p) \<le> 3" by (cases "pr_server p" rule: server_work.cases) auto
  moreover have "scheduler_work (pr_scheduler p) \<le> 5"
    using assms by (cases "pr_scheduler p" rule: scheduler_work.cases)
      (auto simp: program_inv_def serve_tasks_def dest!: suffix_length_le)
  moreover have "workers_work p \<le> 12"
    using worker_work_le [of "pr_busy p FeedWorkerQueueName" "pr_worker p FeedWorkerQueueName"]
      worker_work_le [of "pr_busy p DownloadWorkerQueueName" "pr_worker p DownloadWorkerQueueName"]
      worker_work_le [of "pr_busy p HouseKeepingQueueName" "pr_worker p HouseKeepingQueueName"]
    by (simp add: workers_work_def serve_queues_def)
  ultimately show ?thesis by (simp add: program_work_def)
qed

context error_group
begin

lemma cancelled_step: "program_step W g G m p p' \<Longrightarrow> eg_cancelled G (pr_group p) \<Longrightarrow> eg_cancelled G (pr_group p')"
  by (erule program_step.cases)
    (auto elim!: server_move.cases scheduler_move.cases worker_move.cases
      simp: server_returns_def scheduler_returns_def worker_returns_def stays_cancelled)

lemma wait_step: "program_step W g G m p p' \<Longrightarrow> eg_Wait G (pr_group p) = Some e \<Longrightarrow> eg_Wait G (pr_group p') = Some e"
  by (erule program_step.cases)
    (auto elim!: server_move.cases scheduler_move.cases worker_move.cases
      simp: server_returns_def scheduler_returns_def worker_returns_def first_error_stays)

lemma cancelled_run:
  assumes "program_run W g G p ms p'" "eg_cancelled G (pr_group p)"
  shows "eg_cancelled G (pr_group p')"
    "count_list ms Own + program_work p' \<le> program_work p + 4 * count_list ms Ticker + count_list ms Outside"
    "eg_Wait G (pr_group p) = Some e \<Longrightarrow> eg_Wait G (pr_group p') = Some e"
proof -
  have "eg_cancelled G (pr_group p') \<and>
    count_list ms Own + program_work p' \<le> program_work p + 4 * count_list ms Ticker + count_list ms Outside \<and>
    (eg_Wait G (pr_group p) = Some e \<longrightarrow> eg_Wait G (pr_group p') = Some e)"
    using assms
  proof (induction rule: program_run.induct)
    case (step ms p1 m p2)
    then show ?case
      using cancelled_step [OF step.hyps(2)] wait_step [OF step.hyps(2)] own_move_works [of G p1 W g p2]
        other_move_works [of W g G p1 p2] by (cases m) (fastforce simp: count_list_append)+
  qed simp
  then show "eg_cancelled G (pr_group p')"
    "count_list ms Own + program_work p' \<le> program_work p + 4 * count_list ms Ticker + count_list ms Outside"
    "eg_Wait G (pr_group p) = Some e \<Longrightarrow> eg_Wait G (pr_group p') = Some e" by auto
qed

end

text \<open>C8: once the context is cancelled the program comes to its end: from then on its goroutines make at
  most 24 moves, one more for each request being served or still accepted, and four for each tick of the
  scheduler's clock; as long as one of them has not returned, one can move; and the error the program
  ends with stays the first one.\<close>

theorem program_winds_down:
  assumes "error_group G" and "program_run W g G (serve_begin G (started d t)) ms p" and "eg_cancelled G (pr_group p)"
    and "program_run W g G p ms' p'"
  shows "count_list ms' Own \<le> 24 + length (sy_requests (pr_system p)) + 4 * count_list ms' Ticker + count_list ms' Outside \<and>
    (all_returned p' \<or> (\<exists>p''. program_step W g G Own p' p'')) \<and>
    serve_end text_of G (pr_group p') = serve_end text_of G (pr_group p)"
proof -
  obtain e where e: "eg_Wait G (pr_group p) = Some e"
    using error_group.begun_end_inv [OF assms(1,2)] assms(3) by (auto simp: end_inv_def)
  note run = error_group.cancelled_run [OF assms(1,4,3)]
  from run(2) program_work_bound [OF begun_inv [OF assms(2)]] have
    "count_list ms' Own \<le> 24 + length (sy_requests (pr_system p)) + 4 * count_list ms' Ticker + count_list ms' Outside"
    by linarith
  with own_move_enabled [OF run(1)] run(3) [OF e] e show ?thesis by (auto simp: serve_end_def)
qed

theorem program_winds_down_witness:
  "\<exists>p'. program_run demo_web mem_sched first_error demo_failed [Own] p' \<and> (\<exists>r. pr_worker p' DownloadWorkerQueueName = Returned r) \<and>
     (all_returned p' \<or> (\<exists>p''. program_step demo_web mem_sched first_error Own p' p'')) \<and>
     serve_end (error_text demo_texts) first_error (pr_group p') = serve_end (error_text demo_texts) first_error (pr_group demo_failed)"
  using program_winds_down [OF first_error.error_group_axioms demo_failed demo_stopping, of "error_text demo_texts"] demo_stopping
  by (auto simp: worker_returns_def)

end
