(* ===== verification/CommandLine.thy ===== *)
theory CommandLine
  imports Program ErrorTexts
begin

text \<open>
  The command line (\<^verbatim>\<open>cmd/main.go\<close>): the tree of commands with their flags, as the \<^verbatim>\<open>init\<close> functions
  of \<^verbatim>\<open>cmd/\<close> set them up, and \<^verbatim>\<open>main\<close>.  What the arguments select is decided by cobra, which is a
  parameter.
\<close>

section \<open>Flags\<close>

datatype flag_value = StringValue string | IntValue int | BoolValue bool

record flag =
  fg_name :: string
  fg_shorthand :: string
  fg_default :: flag_value
  fg_usage :: string
  fg_persistent :: bool
  fg_required :: bool

definition StringVar :: "string \<Rightarrow> string \<Rightarrow> string \<Rightarrow> flag" where
  "StringVar name def_value usage = \<lparr>fg_name = name, fg_shorthand = '''', fg_default = StringValue def_value,
     fg_usage = usage, fg_persistent = False, fg_required = False\<rparr>"

definition IntVar :: "string \<Rightarrow> int \<Rightarrow> string \<Rightarrow> flag" where
  "IntVar name def_value usage = \<lparr>fg_name = name, fg_shorthand = '''', fg_default = IntValue def_value,
     fg_usage = usage, fg_persistent = False, fg_required = False\<rparr>"

text \<open>\<^verbatim>\<open>MarkFlagRequired\<close> fails for a flag that has not been declared; the program then panics.\<close>

definition MarkFlagRequired :: "string \<Rightarrow> flag list \<Rightarrow> flag list option" where
  "MarkFlagRequired name flags =
     (if list_ex (\<lambda>f. fg_name f = name) flags
      then Some (map (\<lambda>f. if fg_name f = name then f\<lparr>fg_required := True\<rparr> else f) flags) else None)"

definition InitGlobalFlags :: "flag list" where
  "InitGlobalFlags =
     [(StringVar ''config'' '''' ''config file (otherwise uses default locations)'')
        \<lparr>fg_shorthand := ''c'', fg_persistent := True\<rparr>,
      \<lparr>fg_name = ''verbose'', fg_shorthand = ''v'', fg_default = BoolValue False,
       fg_usage = ''enable verbose output'', fg_persistent = True, fg_required = False\<rparr>]"

definition access_level_hints :: string where
  "access_level_hints =
     strings_Join (map (\<lambda>al. show_int al @ '' = '' @ AccessLevel_Format al) AccessLevels) '', ''"

definition createuser_init :: "flag list option" where
  "createuser_init =
     Option.bind (MarkFlagRequired ''username'' (InitGlobalFlags @
       [StringVar ''username'' '''' ''username for the user to create'',
        StringVar ''password'' '''' ''password for the user to create (otherwise entered interactively)'',
        IntVar ''access-level'' 0 (''access level for the user to create ('' @ access_level_hints @ '')'')]))
       (MarkFlagRequired ''access-level'')"

definition edituser_init :: "flag list option" where
  "edituser_init =
     Option.bind (Option.bind (MarkFlagRequired ''username'' (InitGlobalFlags @
       [StringVar ''username'' '''' ''username to identify the user to edit'',
        StringVar ''new-username'' '''' ''the new username to set for the user'',
        IntVar ''new-access-level'' 0 (''the new access level to set for the user ('' @ access_level_hints @ '')'')]))
       (MarkFlagRequired ''new-username'')) (MarkFlagRequired ''new-access-level'')"

definition changepassword_init :: "flag list option" where
  "changepassword_init =
     MarkFlagRequired ''username'' (InitGlobalFlags @
       [StringVar ''username'' '''' ''username to change the password for'',
        StringVar ''new-password'' '''' ''the new password to set for the user (otherwise entered interactively)''])"

definition deleteuser_init :: "flag list option" where
  "deleteuser_init =
     MarkFlagRequired ''username'' (InitGlobalFlags @
       [StringVar ''username'' '''' ''username for the user to delete''])"

definition listusers_init :: "flag list option" where
  "listusers_init = Some InitGlobalFlags"

definition serve_init :: "flag list option" where
  "serve_init = Some [(StringVar ''config'' '''' ''config file (otherwise uses default locations)'')\<lparr>fg_persistent := True\<rparr>]"

section \<open>The tree of commands\<close>

datatype action =
  ServeRun | ListUsersRun | CreateUserRun | ChangePasswordRun | EditUserRun | DeleteUserRun | VersionRun

text \<open>A command's flags are \<open>None\<close> when setting them up has panicked.\<close>

datatype cobra_command =
  CobraCommand (cc_Use: string) (cc_Short: string) (cc_Long: string) (cc_Run: "action option")
    (cc_flags: "flag list option") (cc_commands: "cobra_command list")

definition ServeCmd :: cobra_command where
  "ServeCmd = CobraCommand ''serve'' ''Start the CastKeeper server'' ''TODO'' (Some ServeRun) serve_init []"

definition ListUsersCmd :: cobra_command where
  "ListUsersCmd = CobraCommand ''list'' ''List CastKeeper users''
     ''Utility script for listing users from the database for the given CastKeeper configuration.''
     (Some ListUsersRun) listusers_init []"

definition CreateUserCmd :: cobra_command where
  "CreateUserCmd = CobraCommand ''create'' ''Create a new CastKeeper user''
     ''Utility script for creating new users in the database for the given CastKeeper configuration.''
     (Some CreateUserRun) createuser_init []"

definition ChangePasswordCobraCmd :: cobra_command where
  "ChangePasswordCobraCmd = CobraCommand ''change-password'' ''Change the password of a user''
     ''Utility script for changing user passwords in the database for the given CastKeeper configuration.''
     (Some ChangePasswordRun) changepassword_init []"

definition EditUserCmd :: cobra_command where
  "EditUserCmd = CobraCommand ''edit'' ''Edit a user''
     ''Utility script for editing users in the database for the given CastKeeper configuration.''
     (Some EditUserRun) edituser_init []"

definition DeleteUserCmd :: cobra_command where
  "DeleteUserCmd = CobraCommand ''delete'' ''Delete a CastKeeper user''
     ''Utility script for deleting users from the database for the given CastKeeper configuration.''
     (Some DeleteUserRun) deleteuser_init []"

definition VersionCmd :: cobra_command where
  "VersionCmd = CobraCommand ''version'' ''Show the CastKeeper version'' ''Show the CastKeeper version.''
     (Some VersionRun) (Some []) []"

definition rootCmd :: cobra_command where
  "rootCmd = CobraCommand ''castkeeper'' '''' '''' None (Some InitGlobalFlags)
     [ServeCmd,
      CobraCommand ''users'' '''' '''' None (Some []) [ListUsersCmd, CreateUserCmd, ChangePasswordCobraCmd, EditUserCmd, DeleteUserCmd],
      VersionCmd]"

section \<open>main\<close>

definition string_flag :: "(string \<Rightarrow> flag_value) \<Rightarrow> string \<Rightarrow> string" where
  "string_flag v name = (case v name of StringValue s \<Rightarrow> s | _ \<Rightarrow> '''')"

definition int_flag :: "(string \<Rightarrow> flag_value) \<Rightarrow> string \<Rightarrow> int" where
  "int_flag v name = (case v name of IntValue i \<Rightarrow> i | _ \<Rightarrow> 0)"

definition bool_flag :: "(string \<Rightarrow> flag_value) \<Rightarrow> string \<Rightarrow> bool" where
  "bool_flag v name \<longleftrightarrow> v name = BoolValue True"

text \<open>The command a run of one of the tools is, with the values of its flags.\<close>

fun user_command ::
  "(nat \<Rightarrow> time) \<Rightarrow> nat \<Rightarrow> action \<Rightarrow> (string \<Rightarrow> flag_value) \<Rightarrow> command option" where
  "user_command cl rnd ListUsersRun v = Some (ListCmd (cl 0))"
| "user_command cl rnd CreateUserRun v =
     Some (CreateCmd (cl 0) rnd (string_flag v ''username'') (string_flag v ''password'') (int_flag v ''access-level''))"
| "user_command cl rnd ChangePasswordRun v =
     Some (ChangePasswordCmd cl rnd (string_flag v ''username'') (string_flag v ''new-password''))"
| "user_command cl rnd EditUserRun v =
     Some (EditCmd cl (string_flag v ''username'') (string_flag v ''new-username'') (int_flag v ''new-access-level''))"
| "user_command cl rnd DeleteUserRun v = Some (DeleteCmd cl (string_flag v ''username''))"
| "user_command cl rnd _ v = None"

datatype 's main_outcome =
    Exit1 string
  | Usage
  | Tool cli_outcome "migration_db option"
  | Server "'s startup" fs

definition main_program ::
  "(cobra_command \<Rightarrow> string list \<Rightarrow> ((action \<times> (string \<Rightarrow> flag_value)) option) result) \<Rightarrow>
   string \<Rightarrow> cli_env \<Rightarrow> ('h, 's) serve_env \<Rightarrow> (nat \<Rightarrow> nat \<Rightarrow> time) \<Rightarrow> (nat \<Rightarrow> time) \<Rightarrow> nat \<Rightarrow> fs \<Rightarrow> string list \<Rightarrow>
   's main_outcome" where
  "main_program Execute Version E S cls cl rnd d args =
     (case Execute rootCmd args of
        Inl err \<Rightarrow> Exit1 (cl_error_text E err)
      | Inr None \<Rightarrow> Usage
      | Inr (Some (a, v)) \<Rightarrow>
          (case user_command cl rnd a v of
             Some c \<Rightarrow>
               (case run_command E cls (string_flag v ''config'') (bool_flag v ''verbose'') d (command_on E c) of
                  (out, db) \<Rightarrow> Tool out db)
           | None \<Rightarrow>
               if a = ServeRun
               then (case serve_setup S cls (string_flag v ''config'') d of (r, d') \<Rightarrow> Server r d')
               else Tool (version_run Version) None))"

section \<open>Facts\<close>

text \<open>Setting up the flags does not panic, and each command declares a flag once.\<close>

fun commands_under :: "cobra_command \<Rightarrow> cobra_command list" where
  "commands_under (CobraCommand u s l r flags cs) = CobraCommand u s l r flags cs # concat (map commands_under cs)"

lemma flags_set_up:
  "list_all (\<lambda>c. case cc_flags c of None \<Rightarrow> False | Some flags \<Rightarrow> distinct (map fg_name flags)) (commands_under rootCmd)"
  by (simp add: rootCmd_def ServeCmd_def ListUsersCmd_def CreateUserCmd_def ChangePasswordCobraCmd_def EditUserCmd_def
      DeleteUserCmd_def VersionCmd_def serve_init_def listusers_init_def createuser_init_def changepassword_init_def
      edituser_init_def deleteuser_init_def MarkFlagRequired_def InitGlobalFlags_def StringVar_def IntVar_def)

text \<open>Whatever the arguments, a tool leaves the accounts it found, or those after one operation on them.\<close>

lemma main_accounts:
  assumes "main_program Execute Version E S cls cl rnd d args = Tool out (Some db')"
  obtains cfgFile verbose cfg db where "ConfigureCLI E cls cfgFile verbose d = Inr (cfg, db)"
    "db' = db\<lparr>md_users := md_users db'\<rparr>"
    "md_users db' = md_users db \<or> (\<exists>op. run_user_op (de_users (cl_db E)) op (md_users db) = (None, md_users db'))"
proof -
  from assms obtain a v c where "user_command cl rnd a v = Some c"
    and run: "run_command E cls (string_flag v ''config'') (bool_flag v ''verbose'') d (command_on E c) = (out, Some db')"
    by (auto simp: main_program_def split: sum.splits option.splits prod.splits if_splits)
  then obtain cfg db t' where cli: "ConfigureCLI E cls (string_flag v ''config'') (bool_flag v ''verbose'') d = Inr (cfg, db)"
    and c: "command_on E c (md_users db) = (out, t')" and db': "db' = db\<lparr>md_users := t'\<rparr>"
    by (auto simp: run_command_def split: sum.splits prod.splits)
  show thesis
    by (rule that [OF cli]) (use command_on_effect(1) [OF c] db' in auto)
qed

end
