(* ===== verification/Spec2Isabelle.thy ===== *)
theory Spec2Isabelle
  imports Util UserProps SessionProps PodcastProps QueueProps SchedulerProps FrameworkProps
    AuthProps ObjectStorageProps WorkerProps WebserverProps Serving ConfigProps KeysProps MigrationProps
    Storage Commands Serve UserDirectory SystemProps Program CommandLine
begin

text \<open>
  \<^bold>\<open>CastKeeper\<close>

  CastKeeper is a server that subscribes to podcasts, keeps every episode it has seen in storage of
  its own and serves them again as feeds.  This development models its Go code (\<^verbatim>\<open>pkg/\<close> and \<^verbatim>\<open>cmd/\<close>) and
  proves what makes it correct.

  \<^bold>\<open>The parts and how they interact.\<close>  \<^verbatim>\<open>cmd/serve\<close> reads the configuration, opens the database and brings
  it up to date, chooses the storage, loads or makes the encryption key, and then runs five things at
  once on one database: the web server, the scheduler and three queue workers.  The web server runs each
  request through middlewares (log, security headers, errors, authentication, access level) to a
  handler; handlers add podcasts, requeue downloads, manage accounts and serve pages, feeds and files.
  The scheduler pushes a task for the feed worker every minute and for housekeeping every hour.  The feed
  worker reads the feeds and stores each new episode together with a task for the download worker, in one
  transaction; the download worker saves the file and records the outcome; housekeeping deletes
  expired sessions.  The command line tools change accounts on the same database.

  \<^bold>\<open>Theories and sources.\<close>

  \<^item> \<^emph>\<open>Vocabulary\<close>.  \<open>Prelude\<close>: instants, durations, 64-bit arithmetic, errors and \<^verbatim>\<open>errors.Is\<close>, lists.
    \<open>GoPath\<close>, \<open>GoUrl\<close>, \<open>GoText\<close>, \<open>GoHttp\<close>, \<open>GoServe\<close>, \<open>GoMux\<close>, \<open>GoRoot\<close>, \<open>Sha256\<close>: what the sources use of Go's
    standard library, written out (paths, addresses, numbers and times as text, requests and responses,
    \<^verbatim>\<open>http.ServeContent\<close> with its preconditions and ranges, routing, \<^verbatim>\<open>os.Root\<close>, hashing).  \<open>ErrorTexts\<close>: the \<^verbatim>\<open>Error\<close> methods.  \<open>Validator\<close>: struct validation; the meaning of the tags is the locale
    \<open>tag_meaning\<close>.

  \<^item> \<^emph>\<open>Database\<close>.  \<open>Orm\<close>: gorm as a record of functions on the rows of a table, with its laws in the
    locales \<open>gorm_table\<close> (what a call that succeeds did, and that one that fails changed nothing) and
    \<open>gorm_available\<close> (when calls succeed); \<open>table_operation\<close> is the contract of an operation that is atomic
    and keeps an invariant.  \<open>OrmMem\<close> interprets both on a table in memory, at every schema.
    \<open>GormModel\<close>: the embedded \<^verbatim>\<open>gorm.Model\<close> and transactions.

  \<^item> \<^emph>\<open>Accounts and sessions\<close>.  \<open>Users\<close> (\<^verbatim>\<open>pkg/auth/users\<close>), \<open>UserFacts\<close>, \<open>UserProps\<close>, \<open>UserDirectory\<close>;
    \<open>Sessions\<close> (\<^verbatim>\<open>pkg/auth/sessions\<close>), \<open>SessionFacts\<close>, \<open>SessionProps\<close>; \<open>Auth\<close> (\<^verbatim>\<open>pkg/auth\<close>), \<open>AuthProps\<close>.

  \<^item> \<^emph>\<open>Podcasts\<close>.  \<open>PodcastRows\<close>, \<open>Podcasts\<close> (\<^verbatim>\<open>podcast.go\<close>), \<open>Feed\<close> (\<^verbatim>\<open>feed.go\<close>), \<open>Mime\<close> (\<^verbatim>\<open>mime.go\<close>),
    \<open>PodcastProps\<close>; \<open>Encryption\<close> (\<^verbatim>\<open>encrypted_value.go\<close>); \<open>Itunes\<close> (\<^verbatim>\<open>pkg/itunes\<close>); \<open>Util\<close> (\<^verbatim>\<open>pkg/util\<close>).

  \<^item> \<^emph>\<open>Framework\<close>.  \<open>Framework\<close> (\<^verbatim>\<open>server.go\<close>, \<^verbatim>\<open>middleware/\<close>), \<open>FrameworkProps\<close>; \<open>HttpClient\<close>
    (\<^verbatim>\<open>logging.go\<close>); \<open>Queue\<close> (\<^verbatim>\<open>queue.go\<close>), \<open>QueueProps\<close>, \<open>QueueLiveness\<close>; \<open>Scheduler\<close>
    (\<^verbatim>\<open>scheduler.go\<close>), \<open>SchedulerProps\<close>.

  \<^item> \<^emph>\<open>Storage and workers\<close>.  \<open>ObjectStorage\<close> (\<^verbatim>\<open>local.go\<close>, \<^verbatim>\<open>s3.go\<close>) with the locales of a storage,
    \<open>ObjectStorageProps\<close>; \<open>Storage\<close> (\<^verbatim>\<open>objectstorage/config.go\<close>); \<open>Workers\<close> (\<^verbatim>\<open>feedworker.go\<close>,
    \<^verbatim>\<open>downloadworker.go\<close>), \<open>WorkerProps\<close>.

  \<^item> \<^emph>\<open>Web server\<close>.  \<open>Pages\<close> and \<open>Forms\<close> (what pages are given, forms and their rules), \<open>Handlers\<close>
    (\<^verbatim>\<open>handlers.go\<close>, one definition per handler), \<open>Webserver\<close> (\<^verbatim>\<open>webserver.go\<close>, the routes),
    \<open>HandlerFacts\<close> (what each handler may change), \<open>WebserverProps\<close>; \<open>Serving\<close> (a request as it comes in:
    the check for other sites, the choice of the route, the handler).

  \<^item> \<^emph>\<open>Starting\<close>.  \<open>Config\<close> (\<^verbatim>\<open>pkg/config\<close>), \<open>ConfigProps\<close>; \<open>Keys\<close> (\<^verbatim>\<open>encryption/config.go\<close>,
    \<^verbatim>\<open>key_derivation.go\<close>), \<open>KeysProps\<close>; \<open>Migrations\<close> (\<^verbatim>\<open>pkg/database\<close>), \<open>MigrationProps\<close>; \<open>Commands\<close>
    (the command line tools); \<open>Serve\<close> (\<^verbatim>\<open>cmd/serve\<close>); \<open>CommandLine\<close> (\<^verbatim>\<open>cmd/main.go\<close> and the \<^verbatim>\<open>init\<close>
    functions: the tree of commands with their flags, and what a run of the program does).

  \<^item> \<^emph>\<open>The running program\<close>.  \<open>System\<close>: states and steps; \<open>SystemFacts\<close>: pending episodes;
    \<open>SystemTables\<close>: each step applies operations of the packages to their tables; \<open>SystemProps\<close>.
    \<open>Program\<close>: the goroutines of \<^verbatim>\<open>serve\<close>, each at a point of its loop (\<^verbatim>\<open>Server.Start\<close>,
    \<^verbatim>\<open>TaskScheduler.Start\<close>, \<^verbatim>\<open>QueueWorker.Start\<close>), under the context they share.

  \<^bold>\<open>How the code is modelled.\<close>  A table is the list of its rows, deleted rows included; a row is the
  record of its struct.  An operation takes the tables it works on and returns them with its
  result: \<open>Inl\<close> an error or \<open>Inr\<close> a value, or an optional error.  Errors keep their wrapping, so that
  \<^verbatim>\<open>errors.Is\<close> is a function of the value.  A panic is an outcome of a handler.  Strings are byte
  strings, as in Go; instants and durations are integers in nanoseconds, and arithmetic that
  saturates or wraps in Go does so here.  Every call of \<^verbatim>\<open>time.Now\<close> is a reading of its own: operations
  are given a clock \<open>cl\<close> and read \<open>cl 0\<close>, \<open>cl 1\<close> and so on, so properties hold for any passing of time.
  Randomness is a seed that is an argument.  Endless loops (\<^verbatim>\<open>QueueWorker.Start\<close>,
  \<^verbatim>\<open>TaskScheduler.Start\<close>) run as many turns as they are given clocks; each turn is total, so nothing is
  lost by the bound.  \<open>SystemProps\<close> shows that the loop of a worker is a run of the system, and how often
  at most a worker can find a task ready in any run: six times for each task.

  \<^bold>\<open>What is relied on.\<close>  Libraries are parameters: gorm, its migrator and transactions, bcrypt, Tink and
  argon2, the validator, viper, cobra's parsing of arguments, \<^verbatim>\<open>errgroup\<close>, the form decoder, the XML and
  JSON encodings, the network and the S3 client.  Their documented behaviour is stated in locales (\<open>gorm_table\<close>, \<open>tag_meaning\<close>,
  \<open>password_hashing\<close>, \<open>keyset_laws\<close>, \<open>migrator_laws\<close>, \<open>error_group\<close>, and for a storage \<open>object_storage\<close>), each
  interpreted on concrete functions, and bundled per component as \<open>user_deps_ok\<close>, \<open>auth_deps_ok\<close>,
  \<open>pod_deps_ok\<close>, \<open>queue_deps_ok\<close>, \<open>app_ok\<close> and \<open>system_ok\<close>.  Witnesses use the table in memory and small
  concrete libraries.

  \<^bold>\<open>What is proved.\<close>  Of single operations: what they do on every branch, errors included.  Of tables:
  every sequence of operations keeps them valid.  Of accounts: they refine a directory of names,
  passwords and levels.  Of sessions: when they are accepted, and that an ended one stays ended.  Of requests:
  who may change what, that a request that is not entitled has no influence, that pages of other
  sites change nothing, and that the addresses in a feed are served.  Of the queue: no
  task is lost or delivered more than six times.  Of workers and storage: new episodes and their
  tasks come together, a success means the file is saved, what is saved is what is served.  Of the running
  program, for all interleavings of requests, rounds, worker turns, commands and crashes: the tables
  stay sound, every pending episode has a download task, the queue does nothing but steps of its own
  model; and while the database is available, no worker finds a task ready more often than the tasks in
  its queue, those pushed meanwhile included, have deliveries left.  Of its goroutines: all they do are steps of that
  system; nothing but a failed server or a failed set-up of the scheduler ends the program; and then it
  does end, within 24 moves and one for each request being served, one for each request admitted
  meanwhile and four for each tick of the clock, with the first error as its outcome.

  \<^bold>\<open>Granularity.\<close>  A step of \<open>System\<close> is a command, the check of one scheduled task, the middlewares of
  a request, its handler, or one of the parts of a worker's turn: taking a task, running its handler,
  completing it.  So an account may be deleted or a session end between the check of a request and its
  handler.  The database operations inside one step are not interleaved with those of another; one
  case of such an interleaving, two administrators who delete each other at once, is in
  \<open>WebserverProps\<close>.

  \<^bold>\<open>Not modelled.\<close>  The sockets and timeouts of \<^verbatim>\<open>http.Server\<close> (that it listens, fails or has shut down are
  moves of \<open>Program\<close>), the parsing of arguments by cobra, the markup of the templates (pages are the
  values they are given), the embedded assets, the hash of the commit that is linked in as the version (a
  parameter), a panic in a goroutine other than a request's, and the fixtures of the tests: they
  are glue or belong to libraries.  In a run of \<open>Program\<close>, panics of requests are caught by \<^verbatim>\<open>net/http\<close> as in
  \<open>System\<close>, and the process is not killed; a crash is a step of \<open>System\<close> only.
\<close>

end
